(* ===== verification/Control_Prelude.thy ===== *)
theory Control_Prelude
  imports Main "HOL-Library.Char_ord" "HOL-Library.List_Lexorder" "HOL-Library.Product_Lexorder"
    "HOL-Library.Sublist"
begin

text \<open>
  Shared vocabulary of the development: Go's byte strings and the three functions of the
  \<open>strings\<close> package the program relies on, the time line, and the generic facts about tables
  (lists of rows) that every component uses: updating the rows that satisfy a condition, and
  the columns such an update leaves alone.
\<close>

named_theorems table_simps \<open>facts about rows, conditional updates and columns\<close>

section \<open>Time\<close>

text \<open>
  A \<open>time.Time\<close> is the number of nanoseconds since the Unix epoch, a \<open>time.Duration\<close> a number
  of nanoseconds. \<open>zeroTime\<close> is Go's zero value (1 January of year 1), for which \<open>IsZero\<close> holds.
\<close>

type_synonym time = int

definition zeroTime :: time where
  "zeroTime = -62135596800000000000"

definition IsZero :: "time \<Rightarrow> bool" where
  "IsZero t \<longleftrightarrow> t = zeroTime"

definition After :: "time \<Rightarrow> time \<Rightarrow> bool" where
  "After t u \<longleftrightarrow> u < t"

definition UnixMicro :: "time \<Rightarrow> int" where
  "UnixMicro t = t div 1000"

definition Unix :: "time \<Rightarrow> int" where
  "Unix t = t div 1000000000"

definition second :: int where "second = 1000000000"
definition minute :: int where "minute = 60 * second"
definition hour :: int where "hour = 60 * minute"

section \<open>Go strings\<close>

text \<open>
  A Go string is a sequence of bytes, which is what HOL's \<open>string\<close> is. \<open>strings.TrimSpace\<close> removes
  the UTF-8 encodings of Unicode white space at both ends: one byte (tab to carriage return,
  space), two bytes (U+0085, U+00A0) or three bytes (U+1680, U+2000 to U+200A, U+2028, U+2029,
  U+202F, U+205F, U+3000).
\<close>

abbreviation byte :: "char \<Rightarrow> nat" where
  "byte c \<equiv> of_char c"

definition space1 :: "char \<Rightarrow> bool" where
  "space1 a \<longleftrightarrow> (9 \<le> byte a \<and> byte a \<le> 13) \<or> byte a = 32"

definition space2 :: "char \<Rightarrow> char \<Rightarrow> bool" where
  "space2 a b \<longleftrightarrow> byte a = 194 \<and> (byte b = 133 \<or> byte b = 160)"

definition space3 :: "char \<Rightarrow> char \<Rightarrow> char \<Rightarrow> bool" where
  "space3 a b c \<longleftrightarrow>
     (byte a = 225 \<and> byte b = 154 \<and> byte c = 128) \<or>
     (byte a = 226 \<and> byte b = 128 \<and>
        ((128 \<le> byte c \<and> byte c \<le> 138) \<or> byte c = 168 \<or> byte c = 169 \<or> byte c = 175)) \<or>
     (byte a = 226 \<and> byte b = 129 \<and> byte c = 159) \<or>
     (byte a = 227 \<and> byte b = 128 \<and> byte c = 128)"

text \<open>How many bytes of white space a string starts with (0 if it does not).\<close>

fun space_len ::
  "(char \<Rightarrow> bool) \<Rightarrow> (char \<Rightarrow> char \<Rightarrow> bool) \<Rightarrow> (char \<Rightarrow> char \<Rightarrow> char \<Rightarrow> bool) \<Rightarrow> string \<Rightarrow> nat" where
  "space_len p q r (a # b # c # s) =
     (if p a then 1 else if q a b then 2 else if r a b c then 3 else 0)"
| "space_len p q r [a, b] = (if p a then 1 else if q a b then 2 else 0)"
| "space_len p q r [a] = (if p a then 1 else 0)"
| "space_len p q r [] = 0"

function trim_start ::
  "(char \<Rightarrow> bool) \<Rightarrow> (char \<Rightarrow> char \<Rightarrow> bool) \<Rightarrow> (char \<Rightarrow> char \<Rightarrow> char \<Rightarrow> bool) \<Rightarrow> string \<Rightarrow> string" where
  "trim_start p q r s =
     (if s = [] \<or> space_len p q r s = 0 then s else trim_start p q r (drop (space_len p q r s) s))"
  by pat_completeness auto
termination
  by (relation "measure (\<lambda>(p, q, r, s). length s)") auto

declare trim_start.simps [simp del]

definition trimLeft :: "string \<Rightarrow> string" where
  "trimLeft s = trim_start space1 space2 space3 s"

definition trimRight :: "string \<Rightarrow> string" where
  "trimRight s = rev (trim_start space1 (\<lambda>a b. space2 b a) (\<lambda>a b c. space3 c b a) (rev s))"

definition TrimSpace :: "string \<Rightarrow> string" where
  "TrimSpace s = trimRight (trimLeft s)"

lemma trim_start_suffix: "suffix (trim_start p q r s) s"
proof (induction p q r s rule: trim_start.induct)
  case (1 p q r s)
  show ?case
  proof (cases "s = [] \<or> space_len p q r s = 0")
    case True
    then show ?thesis by (subst trim_start.simps) simp
  next
    case False
    have "suffix (drop (space_len p q r s) s) s"
      by (rule suffix_drop)
    with "1.IH" [OF False] have "suffix (trim_start p q r (drop (space_len p q r s) s)) s"
      by (rule suffix_order.trans)
    with False show ?thesis by (subst trim_start.simps) simp
  qed
qed

lemma trim_start_clean: "space_len p q r (trim_start p q r s) = 0"
proof (induction p q r s rule: trim_start.induct)
  case (1 p q r s)
  show ?case
  proof (cases "s = [] \<or> space_len p q r s = 0")
    case True
    then show ?thesis by (subst trim_start.simps) auto
  next
    case False
    with "1.IH" show ?thesis by (subst trim_start.simps) simp
  qed
qed

lemma trim_start_id: "space_len p q r s = 0 \<Longrightarrow> trim_start p q r s = s"
  by (subst trim_start.simps) simp

lemma space_len_one: "space_len p q r (a # t) = 0 \<Longrightarrow> \<not> p a"
  by (cases "(p, q, r, a # t)" rule: space_len.cases) (auto split: if_splits)

lemma space_len_two: "space_len p q r (a # b # t) = 0 \<Longrightarrow> \<not> q a b"
  by (cases "(p, q, r, a # b # t)" rule: space_len.cases) (auto split: if_splits)

lemma space_len_prefix:
  assumes "space_len p q r (t @ u) = 0"
  shows "space_len p q r t = 0"
proof (cases "(p, q, r, t)" rule: space_len.cases)
  case (1 p' q' r' a b c s)
  with assms show ?thesis by simp
next
  case (2 p' q' r' a b)
  with assms show ?thesis by (auto dest: space_len_one space_len_two)
next
  case (3 p' q' r' a)
  with assms show ?thesis by (auto dest: space_len_one)
qed simp

lemma trimLeft_clean: "space_len space1 space2 space3 (trimLeft s) = 0"
  by (simp add: trimLeft_def trim_start_clean)

lemma trimRight_prefix: "prefix (trimRight s) s"
  using trim_start_suffix [of space1 "\<lambda>a b. space2 b a" "\<lambda>a b c. space3 c b a" "rev s"]
  by (simp add: trimRight_def suffix_to_prefix)

lemma trimRight_idem: "trimRight (trimRight s) = trimRight s"
  by (simp add: trimRight_def trim_start_clean trim_start_id)

text \<open>Trimming twice is trimming once: the handlers and the service both trim.\<close>

lemma TrimSpace_idem [simp]: "TrimSpace (TrimSpace s) = TrimSpace s"
proof -
  obtain u where "trimLeft s = trimRight (trimLeft s) @ u"
    using trimRight_prefix [of "trimLeft s"] by (auto simp: prefix_def)
  then have "space_len space1 space2 space3 (trimRight (trimLeft s)) = 0"
    by (metis space_len_prefix trimLeft_clean)
  then have "trimLeft (trimRight (trimLeft s)) = trimRight (trimLeft s)"
    by (simp add: trimLeft_def trim_start_id)
  then show ?thesis
    by (simp add: TrimSpace_def trimRight_idem)
qed

lemma TrimSpace_Nil [simp]: "TrimSpace [] = []"
  by (simp add: TrimSpace_def trimLeft_def trimRight_def trim_start.simps)

lemma length_TrimSpace: "length (TrimSpace s) \<le> length s"
proof -
  have "length (trimRight t) \<le> length t" for t
    using trimRight_prefix by (rule prefix_length_le)
  moreover have "length (trimLeft t) \<le> length t" for t
    unfolding trimLeft_def by (rule suffix_length_le [OF trim_start_suffix])
  ultimately show ?thesis
    unfolding TrimSpace_def by (meson le_trans)
qed

text \<open>
  \<open>strings.ToLower\<close>. Two code points outside ASCII have an ASCII lower case: U+0130 (bytes C4 B0)
  becomes the letter i and U+212A (bytes E2 84 AA) the letter k. Every other non-ASCII code point
  stays outside ASCII; its bytes are left as they are here, since each use in the program
  accepts ASCII results only.
\<close>

definition lower_char :: "char \<Rightarrow> char" where
  "lower_char c = (if 65 \<le> byte c \<and> byte c \<le> 90 then char_of (byte c + 32) else c)"

fun ToLower :: "string \<Rightarrow> string" where
  "ToLower (a # b # c # s) =
     (if byte a = 196 \<and> byte b = 176 then CHR ''i'' # ToLower (c # s)
      else if byte a = 226 \<and> byte b = 132 \<and> byte c = 170 then CHR ''k'' # ToLower s
      else lower_char a # ToLower (b # c # s))"
| "ToLower [a, b] =
     (if byte a = 196 \<and> byte b = 176 then ''i'' else lower_char a # ToLower [b])"
| "ToLower [a] = [lower_char a]"
| "ToLower [] = []"

section \<open>Tables\<close>

text \<open>\<open>UPDATE t SET f WHERE P\<close> on the rows of a table.\<close>

definition update_where :: "('r \<Rightarrow> bool) \<Rightarrow> ('r \<Rightarrow> 'r) \<Rightarrow> 'r list \<Rightarrow> 'r list" where
  "update_where P f rows = map (\<lambda>r. if P r then f r else r) rows"

definition count_where :: "('r \<Rightarrow> bool) \<Rightarrow> 'r list \<Rightarrow> nat" where
  "count_where P rows = length (filter P rows)"

lemma update_where_simps [simp]:
  "update_where P f [] = []"
  "update_where P f (r # rows) = (if P r then f r else r) # update_where P f rows"
  "length (update_where P f rows) = length rows"
  by (simp_all add: update_where_def)

lemma set_update_where [table_simps]:
  "set (update_where P f rows) = (\<lambda>r. if P r then f r else r) ` set rows"
  by (simp add: update_where_def)

lemma bex_update_where:
  "(\<exists>r \<in> set (update_where P f rows). Q r) \<longleftrightarrow> (\<exists>r \<in> set rows. if P r then Q (f r) else Q r)"
  by (induction rows) auto

lemma ball_update_where:
  "(\<forall>r \<in> set (update_where P f rows). Q r) \<longleftrightarrow> (\<forall>r \<in> set rows. if P r then Q (f r) else Q r)"
  by (induction rows) auto

lemma map_update_where [table_simps]:
  "(\<And>r. k (f r) = k r) \<Longrightarrow> map k (update_where P f rows) = map k rows"
  by (auto simp: update_where_def)

lemma update_where_append [simp]:
  "update_where P f (xs @ ys) = update_where P f xs @ update_where P f ys"
  by (simp add: update_where_def)

lemma update_where_none: "\<forall>r \<in> set rows. \<not> P r \<Longrightarrow> update_where P f rows = rows"
  by (induction rows) auto

lemma count_where_0 [table_simps]: "count_where P rows = 0 \<longleftrightarrow> (\<forall>r \<in> set rows. \<not> P r)"
  by (auto simp: count_where_def filter_empty_conv)

lemma find_Some_set: "find P rows = Some r \<Longrightarrow> r \<in> set rows \<and> P r"
  by (auto simp: find_Some_iff in_set_conv_nth)

lemma find_None_all: "find P rows = None \<longleftrightarrow> (\<forall>r \<in> set rows. \<not> P r)"
  by (auto simp: find_None_iff)

text \<open>A key column determines the row, so the first match is the only one.\<close>

lemma key_unique: "distinct (map k rows) \<Longrightarrow> r \<in> set rows \<Longrightarrow> r' \<in> set rows \<Longrightarrow> k r = k r' \<Longrightarrow> r = r'"
  by (auto simp: distinct_map inj_on_def)

lemma find_key: "distinct (map k rows) \<Longrightarrow> r \<in> set rows \<Longrightarrow> find (\<lambda>x. k x = k r) rows = Some r"
  by (induction rows) (auto simp: image_iff)

lemma distinct_filter_map: "distinct (map k rows) \<Longrightarrow> distinct (map k (filter P rows))"
  by (induction rows) auto

lemma count_key_le1: "distinct (map k rows) \<Longrightarrow> count_where (\<lambda>r. k r = v) rows \<le> 1"
  by (induction rows) (auto simp: count_where_def filter_empty_conv image_iff le_Suc_eq)

end
