(* ===== verification/Control_Schema.thy ===== *)
theory Control_Schema
  imports Control_Prelude
begin

text \<open>
  The database of \<open>db/migrations\<close>: one record per table row, the database as the record of its
  tables, and the constraints the migrations declare (primary keys, unique indexes, foreign
  keys, checks). A row list is in insertion order. \<open>exec_stm\<close> runs one SQL statement: it fails
  with the driver's error when the state it leads to violates a constraint.
\<close>

section \<open>Rows\<close>

record deployment_row =
  d_deployment_id :: string
  d_name :: string
  d_status :: string
  d_created_at :: time
  d_updated_at :: time

record user_row =
  u_user_id :: string
  u_username :: string
  u_display_name :: string
  u_status :: string
  u_avatar :: "string option"
  u_last_login_at :: "time option"
  u_created_at :: time
  u_updated_at :: time

record identity_row =
  idn_identity_id :: string
  idn_user_id :: string
  idn_provider :: string
  idn_subject :: string
  idn_created_at :: time
  idn_updated_at :: time

record credential_row =
  c_credential_id :: string
  c_user_id :: string
  c_password_hash :: string
  c_password_algo :: string
  c_password_updated_at :: time
  c_created_at :: time
  c_updated_at :: time

record membership_row =
  m_deployment_id :: string
  m_user_id :: string
  m_role :: string
  m_status :: string
  m_created_at :: time
  m_updated_at :: time
  m_web_access_disabled :: bool

record session_row =
  s_session_id :: string
  s_deployment_id :: string
  s_user_id :: string
  s_session_token_hash :: string
  s_auth_method :: string
  s_expires_at :: time
  s_last_seen_at :: time
  s_client_ip :: "string option"
  s_user_agent :: "string option"
  s_revoked_at :: "time option"
  s_created_at :: time
  s_updated_at :: time

record receipt_row =
  r_user_id :: string
  r_request_id :: string
  r_effect :: string
  r_resolved_at :: time
  r_created_at :: time

record invalidation_row =
  ev_event_id :: int
  ev_deployment_id :: string
  ev_user_id :: string
  ev_session_id :: "string option"
  ev_reason :: string
  ev_created_at :: time
  ev_organization_id :: string
  ev_membership_revoked :: bool

record plan_row =
  p_deployment_id :: string
  p_plan_key :: string
  p_display_name :: string
  p_status :: string
  p_monthly_token_limit :: "int option"
  p_notes :: string
  p_sort_order :: int
  p_created_at :: time
  p_updated_at :: time

record entitlement_row =
  e_deployment_id :: string
  e_user_id :: string
  e_plan_key :: string
  e_created_at :: time
  e_updated_at :: time

record organization_row =
  o_organization_id :: string
  o_deployment_id :: string
  o_name :: string
  o_status :: string
  o_created_at :: time
  o_updated_at :: time

record org_membership_row =
  om_organization_id :: string
  om_user_id :: string
  om_role :: string
  om_status :: string
  om_created_at :: time
  om_updated_at :: time

record invitation_row =
  i_invitation_id :: string
  i_organization_id :: string
  i_token_hash :: string
  i_role :: string
  i_created_by_user_id :: string
  i_accepted_by_user_id :: "string option"
  i_expires_at :: time
  i_accepted_at :: "time option"
  i_revoked_at :: "time option"
  i_created_at :: time
  i_updated_at :: time

record agent_row =
  ag_agent_id :: string
  ag_deployment_id :: string
  ag_organization_id :: string
  ag_owner_user_id :: string
  ag_source_agent_id :: string
  ag_name :: string
  ag_avatar :: "string option"
  ag_status :: string
  ag_created_at :: time
  ag_updated_at :: time

text \<open>
  \<open>agent_ids_json\<close> is the JSON text of a list of strings; the column is kept as that list
  (\<open>json.Marshal\<close> and \<open>json.Unmarshal\<close> are inverse on lists of UTF-8 strings).
\<close>

record node_row =
  n_node_id :: string
  n_deployment_id :: string
  n_organization_id :: string
  n_owner_user_id :: string
  n_parent_session_id :: string
  n_credential_hash :: string
  n_name :: string
  n_agent_ids_json :: "string list"
  n_created_at :: time
  n_revoked_at :: "time option"

section \<open>The database\<close>

text \<open>
  The tables are wrapped in a one-constructor datatype, with an accessor for each table.
  \<open>next_event_id\<close> is the sequence behind the AUTOINCREMENT key of \<open>identity_invalidations\<close>:
  the next id, larger than every id ever used.
\<close>

record tables =
  t_control_state :: "int list"
  t_deployments :: "deployment_row list"
  t_users :: "user_row list"
  t_identities :: "identity_row list"
  t_password_credentials :: "credential_row list"
  t_deployment_memberships :: "membership_row list"
  t_sessions :: "session_row list"
  t_password_change_receipts :: "receipt_row list"
  t_identity_invalidations :: "invalidation_row list"
  t_next_event_id :: int
  t_subscription_plans :: "plan_row list"
  t_member_entitlements :: "entitlement_row list"
  t_organizations :: "organization_row list"
  t_organization_memberships :: "org_membership_row list"
  t_organization_invitations :: "invitation_row list"
  t_agents :: "agent_row list"
  t_execution_nodes :: "node_row list"

datatype db = DB (tables: tables)

abbreviation control_state :: "db \<Rightarrow> int list" where
  "control_state s \<equiv> t_control_state (tables s)"

abbreviation deployments :: "db \<Rightarrow> deployment_row list" where
  "deployments s \<equiv> t_deployments (tables s)"

abbreviation users :: "db \<Rightarrow> user_row list" where
  "users s \<equiv> t_users (tables s)"

abbreviation identities :: "db \<Rightarrow> identity_row list" where
  "identities s \<equiv> t_identities (tables s)"

abbreviation password_credentials :: "db \<Rightarrow> credential_row list" where
  "password_credentials s \<equiv> t_password_credentials (tables s)"

abbreviation deployment_memberships :: "db \<Rightarrow> membership_row list" where
  "deployment_memberships s \<equiv> t_deployment_memberships (tables s)"

abbreviation sessions :: "db \<Rightarrow> session_row list" where
  "sessions s \<equiv> t_sessions (tables s)"

abbreviation password_change_receipts :: "db \<Rightarrow> receipt_row list" where
  "password_change_receipts s \<equiv> t_password_change_receipts (tables s)"

abbreviation identity_invalidations :: "db \<Rightarrow> invalidation_row list" where
  "identity_invalidations s \<equiv> t_identity_invalidations (tables s)"

abbreviation next_event_id :: "db \<Rightarrow> int" where
  "next_event_id s \<equiv> t_next_event_id (tables s)"

abbreviation subscription_plans :: "db \<Rightarrow> plan_row list" where
  "subscription_plans s \<equiv> t_subscription_plans (tables s)"

abbreviation member_entitlements :: "db \<Rightarrow> entitlement_row list" where
  "member_entitlements s \<equiv> t_member_entitlements (tables s)"

abbreviation organizations :: "db \<Rightarrow> organization_row list" where
  "organizations s \<equiv> t_organizations (tables s)"

abbreviation organization_memberships :: "db \<Rightarrow> org_membership_row list" where
  "organization_memberships s \<equiv> t_organization_memberships (tables s)"

abbreviation organization_invitations :: "db \<Rightarrow> invitation_row list" where
  "organization_invitations s \<equiv> t_organization_invitations (tables s)"

abbreviation agents :: "db \<Rightarrow> agent_row list" where
  "agents s \<equiv> t_agents (tables s)"

abbreviation execution_nodes :: "db \<Rightarrow> node_row list" where
  "execution_nodes s \<equiv> t_execution_nodes (tables s)"

text \<open>The database the migrations leave behind on a new file.\<close>

definition migrated_db :: db where
    "migrated_db = DB \<lparr>t_control_state = [1], t_deployments = [], t_users = [],
     t_identities = [], t_password_credentials = [], t_deployment_memberships = [], t_sessions =
     [], t_password_change_receipts = [], t_identity_invalidations = [], t_next_event_id = 1,
     t_subscription_plans = [], t_member_entitlements = [], t_organizations = [],
     t_organization_memberships = [], t_organization_invitations = [], t_agents = [],
     t_execution_nodes = []\<rparr>"

section \<open>Constraints\<close>

definition valid_role :: "string \<Rightarrow> bool" where
  "valid_role r \<longleftrightarrow> r = ''owner'' \<or> r = ''admin'' \<or> r = ''member''"

definition schema_deployments :: "db \<Rightarrow> bool" where
  "schema_deployments s \<longleftrightarrow> distinct (map d_deployment_id (deployments s)) \<and>
     (\<forall>d \<in> set (deployments s). d_status d = ''active'' \<or> d_status d = ''disabled'')"

definition schema_users :: "db \<Rightarrow> bool" where
  "schema_users s \<longleftrightarrow> distinct (map u_user_id (users s)) \<and> distinct (map u_username (users s)) \<and>
     (\<forall>u \<in> set (users s). u_status u = ''active'' \<or> u_status u = ''disabled'')"

definition schema_identities :: "db \<Rightarrow> bool" where
  "schema_identities s \<longleftrightarrow> distinct (map idn_identity_id (identities s)) \<and>
     distinct (map (\<lambda>i. (idn_provider i, idn_subject i)) (identities s)) \<and>
     (\<forall>i \<in> set (identities s). idn_user_id i \<in> set (map u_user_id (users s)))"

definition schema_credentials :: "db \<Rightarrow> bool" where
  "schema_credentials s \<longleftrightarrow> distinct (map c_credential_id (password_credentials s)) \<and>
     distinct (map c_user_id (password_credentials s)) \<and>
     (\<forall>c \<in> set (password_credentials s).
        c_password_algo c = ''argon2id'' \<and> c_user_id c \<in> set (map u_user_id (users s)))"

definition schema_memberships :: "db \<Rightarrow> bool" where
  "schema_memberships s \<longleftrightarrow>
     distinct (map (\<lambda>m. (m_deployment_id m, m_user_id m)) (deployment_memberships s)) \<and>
     (\<forall>m \<in> set (deployment_memberships s).
        valid_role (m_role m) \<and> (m_status m = ''active'' \<or> m_status m = ''revoked'') \<and>
        m_deployment_id m \<in> set (map d_deployment_id (deployments s)) \<and>
        m_user_id m \<in> set (map u_user_id (users s)))"

definition schema_sessions :: "db \<Rightarrow> bool" where
  "schema_sessions s \<longleftrightarrow> distinct (map s_session_id (sessions s)) \<and>
     distinct (map s_session_token_hash (sessions s)) \<and>
     (\<forall>x \<in> set (sessions s). s_auth_method x = ''password'' \<and>
        (s_deployment_id x, s_user_id x) \<in>
          set (map (\<lambda>m. (m_deployment_id m, m_user_id m)) (deployment_memberships s)))"

definition schema_receipts :: "db \<Rightarrow> bool" where
  "schema_receipts s \<longleftrightarrow>
     distinct (map (\<lambda>r. (r_user_id r, r_request_id r)) (password_change_receipts s)) \<and>
     (\<forall>r \<in> set (password_change_receipts s).
        (r_effect r = ''committed'' \<or> r_effect r = ''not_applied'') \<and>
        r_user_id r \<in> set (map u_user_id (users s)))"

definition schema_invalidations :: "db \<Rightarrow> bool" where
  "schema_invalidations s \<longleftrightarrow> distinct (map ev_event_id (identity_invalidations s))"

definition schema_plans :: "db \<Rightarrow> bool" where
  "schema_plans s \<longleftrightarrow>
     distinct (map (\<lambda>p. (p_deployment_id p, p_plan_key p)) (subscription_plans s)) \<and>
     (\<forall>p \<in> set (subscription_plans s).
        p_deployment_id p \<in> set (map d_deployment_id (deployments s)) \<and>
        (p_status p = ''active'' \<or> p_status p = ''archived'') \<and>
        (case p_monthly_token_limit p of None \<Rightarrow> True | Some n \<Rightarrow> 0 \<le> n))"

definition schema_entitlements :: "db \<Rightarrow> bool" where
  "schema_entitlements s \<longleftrightarrow>
     distinct (map (\<lambda>e. (e_deployment_id e, e_user_id e)) (member_entitlements s)) \<and>
     (\<forall>e \<in> set (member_entitlements s).
        (e_deployment_id e, e_user_id e) \<in>
          set (map (\<lambda>m. (m_deployment_id m, m_user_id m)) (deployment_memberships s)) \<and>
        (e_deployment_id e, e_plan_key e) \<in>
          set (map (\<lambda>p. (p_deployment_id p, p_plan_key p)) (subscription_plans s)))"

definition schema_organizations :: "db \<Rightarrow> bool" where
  "schema_organizations s \<longleftrightarrow> distinct (map o_organization_id (organizations s)) \<and>
     (\<forall>x \<in> set (organizations s). (o_status x = ''active'' \<or> o_status x = ''disabled'') \<and>
        o_deployment_id x \<in> set (map d_deployment_id (deployments s)))"

text \<open>
  Besides the primary key: one active membership per user
  (\<open>uq_control_active_organization_membership\<close>) and one active owner per organization
  (\<open>uq_control_organization_owner\<close>).
\<close>

definition schema_org_memberships :: "db \<Rightarrow> bool" where
  "schema_org_memberships s \<longleftrightarrow>
     distinct (map (\<lambda>x. (om_organization_id x, om_user_id x)) (organization_memberships s)) \<and>
     (\<forall>x \<in> set (organization_memberships s).
        valid_role (om_role x) \<and> (om_status x = ''active'' \<or> om_status x = ''revoked'') \<and>
        om_organization_id x \<in> set (map o_organization_id (organizations s)) \<and>
        om_user_id x \<in> set (map u_user_id (users s))) \<and>
     distinct (map om_user_id
       (filter (\<lambda>x. om_status x = ''active'') (organization_memberships s))) \<and>
     distinct (map om_organization_id
       (filter (\<lambda>x. om_status x = ''active'' \<and> om_role x = ''owner'') (organization_memberships s)))"

definition schema_invitations :: "db \<Rightarrow> bool" where
  "schema_invitations s \<longleftrightarrow> distinct (map i_invitation_id (organization_invitations s)) \<and>
     distinct (map i_token_hash (organization_invitations s)) \<and>
     (\<forall>i \<in> set (organization_invitations s).
        (i_role i = ''admin'' \<or> i_role i = ''member'') \<and>
        (i_accepted_at i = None \<or> i_revoked_at i = None) \<and>
        ((i_accepted_by_user_id i = None) = (i_accepted_at i = None)) \<and>
        i_organization_id i \<in> set (map o_organization_id (organizations s)) \<and>
        i_created_by_user_id i \<in> set (map u_user_id (users s)) \<and>
        (case i_accepted_by_user_id i of None \<Rightarrow> True | Some u \<Rightarrow> u \<in> set (map u_user_id (users s))))"

definition schema_agents :: "db \<Rightarrow> bool" where
  "schema_agents s \<longleftrightarrow> distinct (map ag_agent_id (agents s)) \<and>
     distinct (map (\<lambda>a. (ag_deployment_id a, ag_organization_id a, ag_owner_user_id a,
       ag_source_agent_id a)) (agents s)) \<and>
     (\<forall>a \<in> set (agents s). (ag_status a = ''active'' \<or> ag_status a = ''revoked'') \<and>
        ag_deployment_id a \<in> set (map d_deployment_id (deployments s)) \<and>
        ag_organization_id a \<in> set (map o_organization_id (organizations s)) \<and>
        ag_owner_user_id a \<in> set (map u_user_id (users s)))"

definition schema_nodes :: "db \<Rightarrow> bool" where
  "schema_nodes s \<longleftrightarrow> distinct (map n_node_id (execution_nodes s)) \<and>
     distinct (map n_credential_hash (execution_nodes s)) \<and>
     (\<forall>n \<in> set (execution_nodes s).
        n_deployment_id n \<in> set (map d_deployment_id (deployments s)) \<and>
        n_organization_id n \<in> set (map o_organization_id (organizations s)) \<and>
        n_owner_user_id n \<in> set (map u_user_id (users s)) \<and>
        n_parent_session_id n \<in> set (map s_session_id (sessions s)))"

definition schema_ok :: "db \<Rightarrow> bool" where
  "schema_ok s \<longleftrightarrow> schema_deployments s \<and> schema_users s \<and> schema_identities s \<and>
     schema_credentials s \<and> schema_memberships s \<and> schema_sessions s \<and> schema_receipts s \<and>
     schema_invalidations s \<and> schema_plans s \<and> schema_entitlements s \<and> schema_organizations s \<and>
     schema_org_memberships s \<and> schema_invitations s \<and> schema_agents s \<and> schema_nodes s"

lemmas schema_defs = schema_deployments_def schema_users_def schema_identities_def
  schema_credentials_def schema_memberships_def schema_sessions_def schema_receipts_def
  schema_invalidations_def schema_plans_def schema_entitlements_def schema_organizations_def
  schema_org_memberships_def schema_invitations_def schema_agents_def schema_nodes_def

lemma migrated_db_ok: "schema_ok migrated_db"
  by (simp add: schema_ok_def schema_defs migrated_db_def)

end
