(* ===== verification/Control_Sql.thy ===== *)
theory Control_Sql
  imports Control_Schema
begin

text \<open>
  Transactions over the database. A statement maps a database to an error or to a value and the
  next database; \<open>bindS\<close> runs one statement after another and stops at the first error;
  \<open>run_tx\<close> is \<open>BeginTx\<close> with a deferred \<open>Rollback\<close>: only a body that ends in \<open>Commit\<close> changes the
  database. Below them, one definition for each write statement of \<open>internal/storage/auth\<close>.
\<close>

section \<open>Errors and transactions\<close>

text \<open>
  The sentinel errors of the repository, \<open>sql.ErrNoRows\<close> where the code lets it through, and
  \<open>ErrSQL\<close> for the driver's error of a violated constraint.
\<close>

datatype store_error =
    StoreErrAlreadySetup
  | StoreErrUsernameConflict
  | StoreErrNotFound
  | StoreErrPlanNotFound
  | StoreErrLastOwner
  | StoreErrStateConflict
  | StoreErrInvitationInvalid
  | ErrNoRows
  | ErrSQL

type_synonym 'a stm = "db \<Rightarrow> store_error + 'a \<times> db"

definition returnS :: "'a \<Rightarrow> 'a stm" where
  "returnS a = (\<lambda>s. Inr (a, s))"

definition failS :: "store_error \<Rightarrow> 'a stm" where
  "failS e = (\<lambda>s. Inl e)"

definition bindS :: "'a stm \<Rightarrow> ('a \<Rightarrow> 'b stm) \<Rightarrow> 'b stm" where
  "bindS m f = (\<lambda>s. case m s of Inl e \<Rightarrow> Inl e | Inr (a, t) \<Rightarrow> f a t)"

definition thenS :: "'a stm \<Rightarrow> 'b stm \<Rightarrow> 'b stm" where
  "thenS m n = bindS m (\<lambda>_. n)"

text \<open>A query reads the database.\<close>

definition queryS :: "(db \<Rightarrow> 'a) \<Rightarrow> 'a stm" where
  "queryS q = (\<lambda>s. Inr (q s, s))"

text \<open>A write statement: constraints are checked when it ends.\<close>

definition exec_stm :: "(db \<Rightarrow> db) \<Rightarrow> unit stm" where
  "exec_stm f = (\<lambda>s. if schema_ok (f s) then Inr ((), f s) else Inl ErrSQL)"

fun forS :: "('x \<Rightarrow> unit stm) \<Rightarrow> 'x list \<Rightarrow> unit stm" where
  "forS f [] = returnS ()"
| "forS f (x # xs) = thenS (f x) (forS f xs)"

datatype 'a outcome = Commit 'a | Rollback 'a

definition run_tx :: "'a outcome stm \<Rightarrow> db \<Rightarrow> (store_error + 'a) \<times> db" where
  "run_tx body s = (case body s of
      Inl e \<Rightarrow> (Inl e, s)
    | Inr (Commit a, t) \<Rightarrow> (Inr a, t)
    | Inr (Rollback a, t) \<Rightarrow> (Inr a, s))"

lemmas stm_defs = returnS_def failS_def bindS_def thenS_def queryS_def exec_stm_def

lemma bindS_Inr [simp]:
  "bindS m f s = Inr r \<longleftrightarrow> (\<exists>a t. m s = Inr (a, t) \<and> f a t = Inr r)"
  by (auto simp: bindS_def split: sum.splits)

lemma bindS_Inl [simp]:
  "bindS m f s = Inl e \<longleftrightarrow> m s = Inl e \<or> (\<exists>a t. m s = Inr (a, t) \<and> f a t = Inl e)"
  by (auto simp: bindS_def split: sum.splits)

lemma thenS_Inr [simp]:
  "thenS m n s = Inr r \<longleftrightarrow> (\<exists>a t. m s = Inr (a, t) \<and> n t = Inr r)"
  by (simp add: thenS_def)

lemma thenS_Inl [simp]:
  "thenS m n s = Inl e \<longleftrightarrow> m s = Inl e \<or> (\<exists>a t. m s = Inr (a, t) \<and> n t = Inl e)"
  by (simp add: thenS_def)

lemma returnS_simp [simp]: "returnS a s = Inr (a, s)"
  by (simp add: returnS_def)

lemma failS_simp [simp]: "failS e s = Inl e"
  by (simp add: failS_def)

lemma queryS_simp [simp]: "queryS q s = Inr (q s, s)"
  by (simp add: queryS_def)

lemma exec_Inr [simp]: "exec_stm f s = Inr (u, t) \<longleftrightarrow> t = f s \<and> schema_ok (f s)"
  by (auto simp: exec_stm_def)

lemma exec_Inl [simp]: "exec_stm f s = Inl e \<longleftrightarrow> e = ErrSQL \<and> \<not> schema_ok (f s)"
  by (auto simp: exec_stm_def)

lemma run_tx_cases [case_names fail commit rollback]:
  obtains (fail) e where "body s = Inl e" and "run_tx body s = (Inl e, s)"
  | (commit) a t where "body s = Inr (Commit a, t)" and "run_tx body s = (Inr a, t)"
  | (rollback) a t where "body s = Inr (Rollback a, t)" and "run_tx body s = (Inr a, s)"
proof (cases "body s")
  case (Inl e)
  then show ?thesis by (simp add: run_tx_def fail)
next
  case (Inr r)
  then show ?thesis
    by (cases r; cases "fst r") (auto simp: run_tx_def intro: commit rollback)
qed

lemma run_tx_Inr:
  "run_tx body s = (Inr a, t) \<longleftrightarrow>
     body s = Inr (Commit a, t) \<or> (t = s \<and> (\<exists>t'. body s = Inr (Rollback a, t')))"
  by (cases rule: run_tx_cases [of body s]) auto

lemma run_tx_Inl: "run_tx body s = (Inl e, t) \<longleftrightarrow> t = s \<and> body s = Inl e"
  by (cases rule: run_tx_cases [of body s]) auto

lemma run_tx_fail: "run_tx body s = (Inl e, t) \<Longrightarrow> t = s"
  by (simp add: run_tx_Inl)

lemma run_tx_state: "snd (run_tx body s) = s \<or> (\<exists>a. body s = Inr (Commit a, snd (run_tx body s)))"
  by (cases rule: run_tx_cases [of body s]) auto

section \<open>Statements that keep a property\<close>

text \<open>
  \<open>keeps P m\<close>: every successful run of \<open>m\<close> from a state with \<open>P\<close> ends in a state with \<open>P\<close>.
  The rules follow the structure of a transaction body.
\<close>

definition keeps :: "(db \<Rightarrow> bool) \<Rightarrow> 'a stm \<Rightarrow> bool" where
  "keeps P m \<longleftrightarrow> (\<forall>s a t. P s \<longrightarrow> m s = Inr (a, t) \<longrightarrow> P t)"

named_theorems keeps_rules \<open>structural rules for keeps\<close>

lemma keepsI: "(\<And>s a t. P s \<Longrightarrow> m s = Inr (a, t) \<Longrightarrow> P t) \<Longrightarrow> keeps P m"
  unfolding keeps_def by blast

lemma keepsD: "keeps P m \<Longrightarrow> P s \<Longrightarrow> m s = Inr (a, t) \<Longrightarrow> P t"
  unfolding keeps_def by blast

lemma keeps_bind [keeps_rules]:
  assumes "keeps P m" and "\<And>a. keeps P (f a)"
  shows "keeps P (bindS m f)"
proof (rule keepsI)
  fix s r t
  assume "P s" and "bindS m f s = Inr (r, t)"
  then obtain a u where "m s = Inr (a, u)" and f: "f a u = Inr (r, t)" by auto
  with \<open>P s\<close> have "P u" by (blast intro: keepsD [OF assms(1)])
  then show "P t" using f by (rule keepsD [OF assms(2)])
qed

lemma keeps_then [keeps_rules]: "keeps P m \<Longrightarrow> keeps P n \<Longrightarrow> keeps P (thenS m n)"
  unfolding thenS_def by (rule keeps_bind)

lemma keeps_return [keeps_rules]: "keeps P (returnS a)"
  by (simp add: keeps_def)

lemma keeps_fail [keeps_rules]: "keeps P (failS e)"
  by (simp add: keeps_def)

lemma keeps_query [keeps_rules]: "keeps P (queryS q)"
  by (simp add: keeps_def)

lemma keeps_exec [keeps_rules]:
  "(\<And>s. P s \<Longrightarrow> schema_ok (f s) \<Longrightarrow> P (f s)) \<Longrightarrow> keeps P (exec_stm f)"
  by (simp add: keeps_def)

lemma keeps_if [keeps_rules]: "keeps P m \<Longrightarrow> keeps P n \<Longrightarrow> keeps P (if b then m else n)"
  by simp

lemma keeps_option [keeps_rules]:
  "keeps P m \<Longrightarrow> (\<And>x. keeps P (f x)) \<Longrightarrow> keeps P (case v of None \<Rightarrow> m | Some x \<Rightarrow> f x)"
  by (simp split: option.split)

lemma keeps_for [keeps_rules]: "(\<And>x. keeps P (f x)) \<Longrightarrow> keeps P (forS f xs)"
  by (induction xs) (auto intro: keeps_rules)

lemma keeps_prod [keeps_rules]: "(\<And>x y. keeps P (f x y)) \<Longrightarrow> keeps P (case v of (x, y) \<Rightarrow> f x y)"
  by (simp split: prod.split)

lemma keeps_let [keeps_rules]: "(\<And>x. keeps P (f x)) \<Longrightarrow> keeps P (Let v f)"
  by simp

lemma keeps_tx: "P s \<Longrightarrow> keeps P body \<Longrightarrow> P (snd (run_tx body s))"
  using run_tx_state [of body s] by (auto dest: keepsD)

end
