(* ===== verification/Control_Statements.thy ===== *)
theory Control_Statements
  imports Control_Sql
begin

text \<open>
  The write statements of \<open>internal/storage/auth\<close>, one definition each, shared by the operations
  that issue the same SQL, and the locales that say what it takes for a property of the database
  to survive them. Each locale lists the statements as its laws; the operations' lemmas are
  proved once inside it and hold for every property that is interpreted.
\<close>

section \<open>Accounts\<close>

definition sql_insert_deployment :: "deployment_row \<Rightarrow> db \<Rightarrow> db" where
  "sql_insert_deployment r s = DB (tables s\<lparr>t_deployments := deployments s @ [r]\<rparr>)"

definition sql_insert_user :: "user_row \<Rightarrow> db \<Rightarrow> db" where
  "sql_insert_user r s = DB (tables s\<lparr>t_users := users s @ [r]\<rparr>)"

definition sql_update_avatar :: "string option \<Rightarrow> time \<Rightarrow> string \<Rightarrow> db \<Rightarrow> db" where
  "sql_update_avatar avatar now uid s = DB (tables s\<lparr>t_users :=
     update_where (\<lambda>u. u_user_id u = uid \<and> u_status u = ''active'')
       (\<lambda>u. u\<lparr>u_avatar := avatar, u_updated_at := now\<rparr>) (users s)\<rparr>)"

definition sql_update_display_name :: "string \<Rightarrow> time \<Rightarrow> string \<Rightarrow> string \<Rightarrow> db \<Rightarrow> db" where
  "sql_update_display_name name now uid old s = DB (tables s\<lparr>t_users :=
     update_where (\<lambda>u. u_user_id u = uid \<and> u_display_name u = old)
       (\<lambda>u. u\<lparr>u_display_name := name, u_updated_at := now\<rparr>) (users s)\<rparr>)"

definition sql_update_last_login :: "time \<Rightarrow> string \<Rightarrow> db \<Rightarrow> db" where
  "sql_update_last_login now uid s = DB (tables s\<lparr>t_users :=
     update_where (\<lambda>u. u_user_id u = uid)
       (\<lambda>u. u\<lparr>u_last_login_at := Some now, u_updated_at := now\<rparr>) (users s)\<rparr>)"

definition sql_insert_identity :: "identity_row \<Rightarrow> db \<Rightarrow> db" where
  "sql_insert_identity r s = DB (tables s\<lparr>t_identities := identities s @ [r]\<rparr>)"

definition sql_insert_credential :: "credential_row \<Rightarrow> db \<Rightarrow> db" where
  "sql_insert_credential r s = DB (tables s\<lparr>t_password_credentials := password_credentials s @ [r]\<rparr>)"

definition sql_update_credential :: "string \<Rightarrow> time \<Rightarrow> string \<Rightarrow> string \<Rightarrow> db \<Rightarrow> db" where
  "sql_update_credential next now uid current s = DB (tables s\<lparr>t_password_credentials :=
     update_where (\<lambda>c. c_user_id c = uid \<and> c_password_hash c = current)
       (\<lambda>c. c\<lparr>c_password_hash := next, c_password_updated_at := now, c_updated_at := now\<rparr>)
       (password_credentials s)\<rparr>)"

definition sql_insert_receipt :: "receipt_row \<Rightarrow> db \<Rightarrow> db" where
  "sql_insert_receipt r s =
     DB (tables s\<lparr>t_password_change_receipts := password_change_receipts s @ [r]\<rparr>)"

definition sql_insert_membership :: "membership_row \<Rightarrow> db \<Rightarrow> db" where
  "sql_insert_membership r s =
     DB (tables s\<lparr>t_deployment_memberships := deployment_memberships s @ [r]\<rparr>)"

definition sql_update_membership ::
  "string \<Rightarrow> string \<Rightarrow> time \<Rightarrow> string \<Rightarrow> string \<Rightarrow> db \<Rightarrow> db" where
  "sql_update_membership role status now dep uid s = DB (tables s\<lparr>t_deployment_memberships :=
     update_where (\<lambda>m. m_deployment_id m = dep \<and> m_user_id m = uid)
       (\<lambda>m. m\<lparr>m_role := role, m_status := status, m_updated_at := now\<rparr>)
       (deployment_memberships s)\<rparr>)"

section \<open>Sessions and nodes\<close>

text \<open>
  The login purge. Deleting a session deletes the nodes registered under it
  (\<open>ON DELETE CASCADE\<close>); a session with an unrevoked node is kept.
\<close>

definition purgeable :: "time \<Rightarrow> db \<Rightarrow> session_row \<Rightarrow> bool" where
  "purgeable now s x \<longleftrightarrow> (s_expires_at x \<le> now \<or> s_revoked_at x \<noteq> None) \<and>
     \<not> (\<exists>n \<in> set (execution_nodes s). n_parent_session_id n = s_session_id x \<and> n_revoked_at n = None)"

definition sql_purge_sessions :: "time \<Rightarrow> db \<Rightarrow> db" where
  "sql_purge_sessions now s = DB (tables s\<lparr>
     t_sessions := filter (\<lambda>x. \<not> purgeable now s x) (sessions s),
     t_execution_nodes := filter (\<lambda>n. n_parent_session_id n \<notin>
       set (map s_session_id (filter (purgeable now s) (sessions s)))) (execution_nodes s)\<rparr>)"

definition sql_insert_session :: "session_row \<Rightarrow> db \<Rightarrow> db" where
  "sql_insert_session r s = DB (tables s\<lparr>t_sessions := sessions s @ [r]\<rparr>)"

definition sql_revoke_session :: "time \<Rightarrow> string \<Rightarrow> db \<Rightarrow> db" where
  "sql_revoke_session now h s = DB (tables s\<lparr>t_sessions :=
     update_where (\<lambda>x. s_session_token_hash x = h \<and> s_revoked_at x = None)
       (\<lambda>x. x\<lparr>s_revoked_at := Some now, s_updated_at := now\<rparr>) (sessions s)\<rparr>)"

definition sql_revoke_user_sessions :: "time \<Rightarrow> string \<Rightarrow> string \<Rightarrow> db \<Rightarrow> db" where
  "sql_revoke_user_sessions now dep uid s = DB (tables s\<lparr>t_sessions :=
     update_where (\<lambda>x. s_deployment_id x = dep \<and> s_user_id x = uid \<and> s_revoked_at x = None)
       (\<lambda>x. x\<lparr>s_revoked_at := Some now, s_updated_at := now\<rparr>) (sessions s)\<rparr>)"

definition sql_touch_session :: "time \<Rightarrow> string \<Rightarrow> db \<Rightarrow> db" where
  "sql_touch_session now sid s = DB (tables s\<lparr>t_sessions :=
     update_where (\<lambda>x. s_session_id x = sid)
       (\<lambda>x. x\<lparr>s_last_seen_at := now, s_updated_at := now\<rparr>) (sessions s)\<rparr>)"

definition sql_insert_node :: "node_row \<Rightarrow> db \<Rightarrow> db" where
  "sql_insert_node r s = DB (tables s\<lparr>t_execution_nodes := execution_nodes s @ [r]\<rparr>)"

definition sql_revoke_node :: "time \<Rightarrow> string \<Rightarrow> db \<Rightarrow> db" where
  "sql_revoke_node now nid s = DB (tables s\<lparr>t_execution_nodes :=
     update_where (\<lambda>n. n_node_id n = nid) (\<lambda>n. n\<lparr>n_revoked_at := Some now\<rparr>) (execution_nodes s)\<rparr>)"

definition sql_revoke_user_nodes :: "time \<Rightarrow> string \<Rightarrow> db \<Rightarrow> db" where
  "sql_revoke_user_nodes now uid s = DB (tables s\<lparr>t_execution_nodes :=
     update_where (\<lambda>n. n_owner_user_id n = uid \<and> n_revoked_at n = None)
       (\<lambda>n. n\<lparr>n_revoked_at := Some now\<rparr>) (execution_nodes s)\<rparr>)"

definition sql_revoke_org_nodes :: "time \<Rightarrow> string \<Rightarrow> string \<Rightarrow> db \<Rightarrow> db" where
  "sql_revoke_org_nodes now org uid s = DB (tables s\<lparr>t_execution_nodes :=
     update_where (\<lambda>n. n_organization_id n = org \<and> n_owner_user_id n = uid \<and> n_revoked_at n = None)
       (\<lambda>n. n\<lparr>n_revoked_at := Some now\<rparr>) (execution_nodes s)\<rparr>)"

section \<open>Agents, plans and entitlements\<close>

definition sql_insert_agent :: "agent_row \<Rightarrow> db \<Rightarrow> db" where
  "sql_insert_agent r s = DB (tables s\<lparr>t_agents := agents s @ [r]\<rparr>)"

definition same_source :: "agent_row \<Rightarrow> agent_row \<Rightarrow> bool" where
  "same_source r a \<longleftrightarrow> ag_deployment_id a = ag_deployment_id r \<and>
     ag_organization_id a = ag_organization_id r \<and> ag_owner_user_id a = ag_owner_user_id r \<and>
     ag_source_agent_id a = ag_source_agent_id r"

text \<open>\<open>INSERT ... ON CONFLICT (...) DO UPDATE\<close>: the row with the same source is refreshed.\<close>

definition sql_upsert_agent :: "agent_row \<Rightarrow> db \<Rightarrow> db" where
  "sql_upsert_agent r s = DB (tables s\<lparr>t_agents :=
     (if \<exists>a \<in> set (agents s). same_source r a
      then update_where (same_source r)
             (\<lambda>a. a\<lparr>ag_name := ag_name r, ag_avatar := ag_avatar r, ag_status := ''active'',
                ag_updated_at := ag_updated_at r\<rparr>) (agents s)
      else agents s @ [r])\<rparr>)"

definition sql_revoke_agents :: "time \<Rightarrow> string \<Rightarrow> string \<Rightarrow> db \<Rightarrow> db" where
  "sql_revoke_agents now org uid s = DB (tables s\<lparr>t_agents :=
     update_where (\<lambda>a. ag_organization_id a = org \<and> ag_owner_user_id a = uid)
       (\<lambda>a. a\<lparr>ag_status := ''revoked'', ag_updated_at := now\<rparr>) (agents s)\<rparr>)"

definition same_plan :: "plan_row \<Rightarrow> plan_row \<Rightarrow> bool" where
  "same_plan r p \<longleftrightarrow> p_deployment_id p = p_deployment_id r \<and> p_plan_key p = p_plan_key r"

definition sql_upsert_plan :: "plan_row \<Rightarrow> db \<Rightarrow> db" where
  "sql_upsert_plan r s = DB (tables s\<lparr>t_subscription_plans :=
     (if \<exists>p \<in> set (subscription_plans s). same_plan r p
      then update_where (same_plan r)
             (\<lambda>p. p\<lparr>p_display_name := p_display_name r, p_status := p_status r,
                p_monthly_token_limit := p_monthly_token_limit r, p_notes := p_notes r,
                p_sort_order := p_sort_order r, p_updated_at := p_updated_at r\<rparr>)
             (subscription_plans s)
      else subscription_plans s @ [r])\<rparr>)"

definition same_member :: "entitlement_row \<Rightarrow> entitlement_row \<Rightarrow> bool" where
  "same_member r e \<longleftrightarrow> e_deployment_id e = e_deployment_id r \<and> e_user_id e = e_user_id r"

definition sql_insert_entitlement :: "entitlement_row \<Rightarrow> db \<Rightarrow> db" where
  "sql_insert_entitlement r s =
     DB (tables s\<lparr>t_member_entitlements := member_entitlements s @ [r]\<rparr>)"

definition sql_upsert_entitlement :: "entitlement_row \<Rightarrow> db \<Rightarrow> db" where
  "sql_upsert_entitlement r s = DB (tables s\<lparr>t_member_entitlements :=
     (if \<exists>e \<in> set (member_entitlements s). same_member r e
      then update_where (same_member r)
             (\<lambda>e. e\<lparr>e_plan_key := e_plan_key r, e_updated_at := e_updated_at r\<rparr>) (member_entitlements s)
      else member_entitlements s @ [r])\<rparr>)"

section \<open>Invitations and events\<close>

definition sql_insert_invitation :: "invitation_row \<Rightarrow> db \<Rightarrow> db" where
  "sql_insert_invitation r s =
     DB (tables s\<lparr>t_organization_invitations := organization_invitations s @ [r]\<rparr>)"

text \<open>An invitation is pending when it is neither accepted nor revoked and has not expired.\<close>

definition invitation_pending :: "time \<Rightarrow> invitation_row \<Rightarrow> bool" where
  "invitation_pending now i \<longleftrightarrow> i_accepted_at i = None \<and> i_revoked_at i = None \<and> now < i_expires_at i"

definition sql_accept_invitation :: "string \<Rightarrow> time \<Rightarrow> string \<Rightarrow> db \<Rightarrow> db" where
  "sql_accept_invitation uid now iid s = DB (tables s\<lparr>t_organization_invitations :=
     update_where (\<lambda>i. i_invitation_id i = iid \<and> invitation_pending now i)
       (\<lambda>i. i\<lparr>i_accepted_by_user_id := Some uid, i_accepted_at := Some now, i_updated_at := now\<rparr>)
       (organization_invitations s)\<rparr>)"

text \<open>The statement of the join action carries no guard of its own besides the id.\<close>

definition sql_join_invitation :: "string \<Rightarrow> time \<Rightarrow> string \<Rightarrow> db \<Rightarrow> db" where
  "sql_join_invitation uid now iid s = DB (tables s\<lparr>t_organization_invitations :=
     update_where (\<lambda>i. i_invitation_id i = iid)
       (\<lambda>i. i\<lparr>i_accepted_by_user_id := Some uid, i_accepted_at := Some now, i_updated_at := now\<rparr>)
       (organization_invitations s)\<rparr>)"

definition sql_revoke_invitation :: "time \<Rightarrow> string \<Rightarrow> string \<Rightarrow> db \<Rightarrow> db" where
  "sql_revoke_invitation now org iid s = DB (tables s\<lparr>t_organization_invitations :=
     update_where (\<lambda>i. i_organization_id i = org \<and> i_invitation_id i = iid \<and> invitation_pending now i)
       (\<lambda>i. i\<lparr>i_revoked_at := Some now, i_updated_at := now\<rparr>) (organization_invitations s)\<rparr>)"

definition sql_delete_invitation :: "time \<Rightarrow> string \<Rightarrow> string \<Rightarrow> db \<Rightarrow> db" where
  "sql_delete_invitation now org iid s = DB (tables s\<lparr>t_organization_invitations :=
     filter (\<lambda>i. \<not> (i_organization_id i = org \<and> i_invitation_id i = iid \<and>
        (i_accepted_at i \<noteq> None \<or> i_revoked_at i \<noteq> None \<or> i_expires_at i \<le> now)))
       (organization_invitations s)\<rparr>)"

text \<open>
  Appending an identity invalidation event. The database assigns the next id of the sequence;
  columns the statement does not name have their defaults.
\<close>

definition sql_append_event ::
  "string \<Rightarrow> string \<Rightarrow> string option \<Rightarrow> string \<Rightarrow> time \<Rightarrow> string \<Rightarrow> bool \<Rightarrow> db \<Rightarrow> db" where
  "sql_append_event dep uid sid reason now org revoked s = DB (tables s\<lparr>
     t_identity_invalidations := identity_invalidations s @
       [\<lparr>ev_event_id = next_event_id s, ev_deployment_id = dep, ev_user_id = uid,
         ev_session_id = sid, ev_reason = reason, ev_created_at = now,
         ev_organization_id = org, ev_membership_revoked = revoked\<rparr>],
     t_next_event_id := next_event_id s + 1\<rparr>)"

section \<open>Organizations\<close>

definition sql_insert_organization :: "organization_row \<Rightarrow> db \<Rightarrow> db" where
  "sql_insert_organization r s = DB (tables s\<lparr>t_organizations := organizations s @ [r]\<rparr>)"

definition sql_rename_organization :: "string \<Rightarrow> time \<Rightarrow> string \<Rightarrow> db \<Rightarrow> db" where
  "sql_rename_organization name now org s = DB (tables s\<lparr>t_organizations :=
     update_where (\<lambda>x. o_organization_id x = org)
       (\<lambda>x. x\<lparr>o_name := name, o_updated_at := now\<rparr>) (organizations s)\<rparr>)"

definition sql_disable_organization :: "time \<Rightarrow> string \<Rightarrow> db \<Rightarrow> db" where
  "sql_disable_organization now org s = DB (tables s\<lparr>t_organizations :=
     update_where (\<lambda>x. o_organization_id x = org)
       (\<lambda>x. x\<lparr>o_status := ''disabled'', o_updated_at := now\<rparr>) (organizations s)\<rparr>)"

definition sql_insert_org_membership :: "org_membership_row \<Rightarrow> db \<Rightarrow> db" where
  "sql_insert_org_membership r s =
     DB (tables s\<lparr>t_organization_memberships := organization_memberships s @ [r]\<rparr>)"

definition is_org_member :: "string \<Rightarrow> string \<Rightarrow> org_membership_row \<Rightarrow> bool" where
  "is_org_member org uid x \<longleftrightarrow> om_organization_id x = org \<and> om_user_id x = uid"

definition sql_join_organization :: "string \<Rightarrow> string \<Rightarrow> string \<Rightarrow> time \<Rightarrow> db \<Rightarrow> db" where
  "sql_join_organization org uid role now s = DB (tables s\<lparr>t_organization_memberships :=
     (if \<exists>x \<in> set (organization_memberships s). is_org_member org uid x
      then update_where (is_org_member org uid)
             (\<lambda>x. x\<lparr>om_role := role, om_status := ''active'', om_updated_at := now\<rparr>)
             (organization_memberships s)
      else organization_memberships s @
             [\<lparr>om_organization_id = org, om_user_id = uid, om_role = role, om_status = ''active'',
               om_created_at = now, om_updated_at = now\<rparr>])\<rparr>)"

definition sql_revoke_org_membership :: "time \<Rightarrow> string \<Rightarrow> string \<Rightarrow> db \<Rightarrow> db" where
  "sql_revoke_org_membership now org uid s = DB (tables s\<lparr>t_organization_memberships :=
     update_where (is_org_member org uid)
       (\<lambda>x. x\<lparr>om_status := ''revoked'', om_updated_at := now\<rparr>) (organization_memberships s)\<rparr>)"

definition sql_set_org_role :: "string \<Rightarrow> time \<Rightarrow> string \<Rightarrow> string \<Rightarrow> db \<Rightarrow> db" where
  "sql_set_org_role role now org uid s = DB (tables s\<lparr>t_organization_memberships :=
     update_where (is_org_member org uid)
       (\<lambda>x. x\<lparr>om_role := role, om_updated_at := now\<rparr>) (organization_memberships s)\<rparr>)"

definition sql_update_org_membership ::
  "string \<Rightarrow> string \<Rightarrow> time \<Rightarrow> string \<Rightarrow> string \<Rightarrow> db \<Rightarrow> db" where
  "sql_update_org_membership role status now uid org s = DB (tables s\<lparr>t_organization_memberships :=
     update_where (is_org_member org uid)
       (\<lambda>x. x\<lparr>om_role := role, om_status := status, om_updated_at := now\<rparr>)
       (organization_memberships s)\<rparr>)"

text \<open>What each statement touches: unfolding a bundle gives the next tables.\<close>

lemmas account_statements = sql_insert_deployment_def sql_insert_user_def sql_update_avatar_def
  sql_update_display_name_def sql_update_last_login_def sql_insert_identity_def
  sql_insert_credential_def sql_update_credential_def sql_insert_receipt_def
  sql_insert_membership_def

lemmas session_statements = sql_purge_sessions_def sql_insert_session_def sql_revoke_session_def
  sql_revoke_user_sessions_def sql_touch_session_def sql_insert_node_def sql_revoke_node_def
  sql_revoke_user_nodes_def sql_revoke_org_nodes_def

lemmas catalog_statements = sql_insert_agent_def sql_upsert_agent_def sql_revoke_agents_def
  sql_upsert_plan_def sql_insert_entitlement_def sql_upsert_entitlement_def
  sql_insert_invitation_def sql_accept_invitation_def sql_join_invitation_def
  sql_revoke_invitation_def sql_delete_invitation_def sql_append_event_def

lemmas org_statements = sql_insert_organization_def sql_rename_organization_def
  sql_disable_organization_def sql_insert_org_membership_def sql_join_organization_def
  sql_revoke_org_membership_def sql_set_org_role_def sql_update_org_membership_def

lemmas core_statements = account_statements session_statements catalog_statements
lemmas all_statements = core_statements org_statements sql_update_membership_def

section \<open>Properties that survive the statements\<close>

text \<open>
  A property that no accepted statement on accounts, sessions, nodes, agents, plans, invitations or events
  destroys, the three that create sessions, nodes and invitations left aside.
\<close>

locale quiet_stable = fixes P :: "db \<Rightarrow> bool"
  assumes insert_user: 
      "\<And>r s. P s \<Longrightarrow> schema_ok (sql_insert_user r s) \<Longrightarrow> P (sql_insert_user r s)"
    and update_avatar: 
      "\<And>a b c s. P s \<Longrightarrow> schema_ok (sql_update_avatar a b c s) \<Longrightarrow> P (sql_update_avatar a b c s)"
    and update_display_name: 
      "\<And>a b c d s. P s \<Longrightarrow> schema_ok (sql_update_display_name a b c d s) \<Longrightarrow> P (sql_update_display_name a b c d s)"
    and update_last_login: 
      "\<And>a b s. P s \<Longrightarrow> schema_ok (sql_update_last_login a b s) \<Longrightarrow> P (sql_update_last_login a b s)"
    and insert_identity: 
      "\<And>r s. P s \<Longrightarrow> schema_ok (sql_insert_identity r s) \<Longrightarrow> P (sql_insert_identity r s)"
    and insert_credential: 
      "\<And>r s. P s \<Longrightarrow> schema_ok (sql_insert_credential r s) \<Longrightarrow> P (sql_insert_credential r s)"
    and update_credential: 
      "\<And>a b c d s. P s \<Longrightarrow> schema_ok (sql_update_credential a b c d s) \<Longrightarrow> P (sql_update_credential a b c d s)"
    and insert_receipt: 
      "\<And>r s. P s \<Longrightarrow> schema_ok (sql_insert_receipt r s) \<Longrightarrow> P (sql_insert_receipt r s)"
    and insert_membership: 
      "\<And>r s. P s \<Longrightarrow> schema_ok (sql_insert_membership r s) \<Longrightarrow> P (sql_insert_membership r s)"
    and purge_sessions: 
      "\<And>a s. P s \<Longrightarrow> schema_ok (sql_purge_sessions a s) \<Longrightarrow> P (sql_purge_sessions a s)"
    and revoke_session: 
      "\<And>a b s. P s \<Longrightarrow> schema_ok (sql_revoke_session a b s) \<Longrightarrow> P (sql_revoke_session a b s)"
    and touch_session: 
      "\<And>a b s. P s \<Longrightarrow> schema_ok (sql_touch_session a b s) \<Longrightarrow> P (sql_touch_session a b s)"
    and revoke_node: 
      "\<And>a b s. P s \<Longrightarrow> schema_ok (sql_revoke_node a b s) \<Longrightarrow> P (sql_revoke_node a b s)"
    and revoke_user_nodes: 
      "\<And>a b s. P s \<Longrightarrow> schema_ok (sql_revoke_user_nodes a b s) \<Longrightarrow> P (sql_revoke_user_nodes a b s)"
    and revoke_org_nodes: 
      "\<And>a b c s. P s \<Longrightarrow> schema_ok (sql_revoke_org_nodes a b c s) \<Longrightarrow> P (sql_revoke_org_nodes a b c s)"
    and upsert_agent: 
      "\<And>r s. P s \<Longrightarrow> schema_ok (sql_upsert_agent r s) \<Longrightarrow> P (sql_upsert_agent r s)"
    and revoke_agents: 
      "\<And>a b c s. P s \<Longrightarrow> schema_ok (sql_revoke_agents a b c s) \<Longrightarrow> P (sql_revoke_agents a b c s)"
    and upsert_plan: 
      "\<And>r s. P s \<Longrightarrow> schema_ok (sql_upsert_plan r s) \<Longrightarrow> P (sql_upsert_plan r s)"
    and upsert_entitlement: 
      "\<And>r s. P s \<Longrightarrow> schema_ok (sql_upsert_entitlement r s) \<Longrightarrow> P (sql_upsert_entitlement r s)"
    and accept_invitation: 
      "\<And>a b c s. P s \<Longrightarrow> schema_ok (sql_accept_invitation a b c s) \<Longrightarrow> P (sql_accept_invitation a b c s)"
    and join_invitation: 
      "\<And>a b c s. P s \<Longrightarrow> schema_ok (sql_join_invitation a b c s) \<Longrightarrow> P (sql_join_invitation a b c s)"
    and revoke_invitation: 
      "\<And>a b c s. P s \<Longrightarrow> schema_ok (sql_revoke_invitation a b c s) \<Longrightarrow> P (sql_revoke_invitation a b c s)"
    and delete_invitation: 
      "\<And>a b c s. P s \<Longrightarrow> schema_ok (sql_delete_invitation a b c s) \<Longrightarrow> P (sql_delete_invitation a b c s)"
    and append_event: 
      "\<And>a b c d e f g s. P s \<Longrightarrow> schema_ok (sql_append_event a b c d e f g s) \<Longrightarrow> P (sql_append_event a b c d e f g s)"
begin

lemmas quiet_laws = insert_user update_avatar update_display_name update_last_login
  insert_identity insert_credential update_credential insert_receipt insert_membership
  purge_sessions revoke_session touch_session revoke_node revoke_user_nodes revoke_org_nodes
  upsert_agent revoke_agents upsert_plan upsert_entitlement accept_invitation join_invitation
  revoke_invitation delete_invitation append_event

end

text \<open>
  One that those three keep too.
\<close>

locale core_stable = quiet_stable +
  assumes insert_session: 
      "\<And>r s. P s \<Longrightarrow> schema_ok (sql_insert_session r s) \<Longrightarrow> P (sql_insert_session r s)"
    and insert_node: 
      "\<And>r s. P s \<Longrightarrow> schema_ok (sql_insert_node r s) \<Longrightarrow> P (sql_insert_node r s)"
    and insert_invitation: 
      "\<And>r s. P s \<Longrightarrow> schema_ok (sql_insert_invitation r s) \<Longrightarrow> P (sql_insert_invitation r s)"
begin

lemmas creating_laws = insert_session insert_node insert_invitation

end

text \<open>
  One that the statements on organizations and their memberships do not destroy.
\<close>

locale org_stable = quiet_stable +
  assumes insert_deployment: 
      "\<And>r s. P s \<Longrightarrow> schema_ok (sql_insert_deployment r s) \<Longrightarrow> P (sql_insert_deployment r s)"
    and insert_organization: 
      "\<And>r s. P s \<Longrightarrow> schema_ok (sql_insert_organization r s) \<Longrightarrow> P (sql_insert_organization r s)"
    and rename_organization: 
      "\<And>a b c s. P s \<Longrightarrow> schema_ok (sql_rename_organization a b c s) \<Longrightarrow> P (sql_rename_organization a b c s)"
    and disable_organization: 
      "\<And>a b s. P s \<Longrightarrow> schema_ok (sql_disable_organization a b s) \<Longrightarrow> P (sql_disable_organization a b s)"
    and insert_org_membership: 
      "\<And>r s. P s \<Longrightarrow> schema_ok (sql_insert_org_membership r s) \<Longrightarrow> P (sql_insert_org_membership r s)"
    and join_organization: 
      "\<And>a b c d s. P s \<Longrightarrow> schema_ok (sql_join_organization a b c d s) \<Longrightarrow> P (sql_join_organization a b c d s)"
    and revoke_org_membership: 
      "\<And>a b c s. P s \<Longrightarrow> schema_ok (sql_revoke_org_membership a b c s) \<Longrightarrow> P (sql_revoke_org_membership a b c s)"
    and set_org_role: 
      "\<And>a b c d s. P s \<Longrightarrow> schema_ok (sql_set_org_role a b c d s) \<Longrightarrow> P (sql_set_org_role a b c d s)"
    and update_org_membership: 
      "\<And>a b c d e s. P s \<Longrightarrow> schema_ok (sql_update_org_membership a b c d e s) \<Longrightarrow> P (sql_update_org_membership a b c d e s)"
begin

lemmas org_laws = insert_deployment insert_organization rename_organization disable_organization
  insert_org_membership join_organization revoke_org_membership set_org_role
  update_org_membership

end

text \<open>
  One that survives a change of platform role or status.
\<close>

locale platform_stable = quiet_stable +
  assumes update_membership: 
      "\<And>a b c d e s. P s \<Longrightarrow> schema_ok (sql_update_membership a b c d e s) \<Longrightarrow> P (sql_update_membership a b c d e s)"
    and revoke_user_sessions: 
      "\<And>a b c s. P s \<Longrightarrow> schema_ok (sql_revoke_user_sessions a b c s) \<Longrightarrow> P (sql_revoke_user_sessions a b c s)"
begin

lemmas platform_laws = update_membership revoke_user_sessions

end

text \<open>The combinations: everything but the creations, everything but organizations, and everything.\<close>

locale life_stable = org_stable + platform_stable

locale account_stable = core_stable + platform_stable

locale member_stable = core_stable + org_stable

locale all_stable = life_stable + core_stable

end
