(* ===== verification/Repo_Core.thy ===== *)
theory Repo_Core
  imports Control_Statements
begin

text \<open>
  \<open>repository.go\<close> and \<open>identity_invalidation.go\<close> of \<open>internal/storage/auth\<close>: the two row locks,
  the nullable column helpers, and the sequence of identity invalidation events that the
  downstream services poll with a cursor.
\<close>

section \<open>Locks and nullable columns\<close>

definition lockControlState :: "unit stm" where
  "lockControlState = bindS (queryS control_state)
     (\<lambda>ids. if 1 \<in> set ids then returnS () else failS ErrNoRows)"

definition lockDeployment :: "string \<Rightarrow> unit stm" where
  "lockDeployment deploymentID = bindS (queryS deployments)
     (\<lambda>rows. case find (\<lambda>d. d_deployment_id d = deploymentID) rows of
        None \<Rightarrow> failS StoreErrNotFound
      | Some d \<Rightarrow> returnS ())"

definition nullableString :: "string \<Rightarrow> string option" where
  "nullableString v = (let v = TrimSpace v in if v = '''' then None else Some v)"

text \<open>\<open>sql.NullString.String\<close>: the empty string for NULL.\<close>

definition nullString :: "string option \<Rightarrow> string" where
  "nullString v = (case v of None \<Rightarrow> '''' | Some x \<Rightarrow> x)"

definition beginIdentityWrite :: "unit stm" where
  "beginIdentityWrite = lockControlState"

lemma keeps_lockControlState [keeps_rules]: "keeps P lockControlState"
  unfolding lockControlState_def by (intro keeps_rules)

lemma keeps_begin [keeps_rules]: "keeps P beginIdentityWrite"
  unfolding beginIdentityWrite_def by (rule keeps_lockControlState)

lemma keeps_lockDeployment [keeps_rules]: "keeps P (lockDeployment d)"
  unfolding lockDeployment_def by (intro keeps_rules)

lemma lockControlState_Inr [simp]:
  "lockControlState s = Inr (u, t) \<longleftrightarrow> t = s \<and> 1 \<in> set (control_state s)"
  by (auto simp: lockControlState_def split: if_splits)

lemma lockControlState_Inl [simp]:
  "lockControlState s = Inl e \<longleftrightarrow> e = ErrNoRows \<and> 1 \<notin> set (control_state s)"
  by (auto simp: lockControlState_def split: if_splits)

lemma beginIdentityWrite_Inr [simp]:
  "beginIdentityWrite s = Inr (u, t) \<longleftrightarrow> t = s \<and> 1 \<in> set (control_state s)"
  by (simp add: beginIdentityWrite_def)

lemma beginIdentityWrite_Inl [simp]:
  "beginIdentityWrite s = Inl e \<longleftrightarrow> e = ErrNoRows \<and> 1 \<notin> set (control_state s)"
  by (simp add: beginIdentityWrite_def)

lemma lockDeployment_Inr [simp]:
  "lockDeployment d s = Inr (u, t) \<longleftrightarrow> t = s \<and> d \<in> set (map d_deployment_id (deployments s))"
  by (auto simp: lockDeployment_def find_None_all split: option.splits dest!: find_Some_set)

lemma lockDeployment_Inl [simp]:
  "lockDeployment d s = Inl e \<longleftrightarrow>
     e = StoreErrNotFound \<and> d \<notin> set (map d_deployment_id (deployments s))"
  by (auto simp: lockDeployment_def find_None_all split: option.splits dest!: find_Some_set)

section \<open>The event sequence\<close>

definition appendIdentityInvalidation ::
  "string \<Rightarrow> string \<Rightarrow> string \<Rightarrow> string \<Rightarrow> time \<Rightarrow> unit stm" where
  "appendIdentityInvalidation deploymentID userID sessionID reason createdAt =
     exec_stm (sql_append_event deploymentID userID (nullableString sessionID) reason createdAt '''' False)"

record IdentityInvalidationRecord =
  evr_OrganizationID :: string
  evr_MembershipRevoked :: bool
  evr_EventID :: int
  evr_DeploymentID :: string
  evr_UserID :: string
  evr_SessionID :: string
  evr_Reason :: string
  evr_CreatedAt :: time

definition scanInvalidation :: "invalidation_row \<Rightarrow> IdentityInvalidationRecord" where
  "scanInvalidation e = \<lparr>evr_OrganizationID = ev_organization_id e,
     evr_MembershipRevoked = ev_membership_revoked e, evr_EventID = ev_event_id e,
     evr_DeploymentID = ev_deployment_id e, evr_UserID = ev_user_id e,
     evr_SessionID = nullString (ev_session_id e), evr_Reason = ev_reason e,
     evr_CreatedAt = ev_created_at e\<rparr>"

text \<open>\<open>COALESCE(MAX(event_id), 0)\<close>\<close>

definition repo_LatestIdentityInvalidationID :: "db \<Rightarrow> int" where
  "repo_LatestIdentityInvalidationID s =
     (case map ev_event_id (identity_invalidations s) of [] \<Rightarrow> 0 | i # is \<Rightarrow> fold max is i)"

text \<open>\<open>LIMIT n\<close>; a negative limit is no limit.\<close>

definition sql_limit :: "int \<Rightarrow> 'a list \<Rightarrow> 'a list" where
  "sql_limit n rows = (if n < 0 then rows else take (nat n) rows)"

definition repo_ListIdentityInvalidations ::
  "int \<Rightarrow> int \<Rightarrow> db \<Rightarrow> IdentityInvalidationRecord list" where
  "repo_ListIdentityInvalidations after limit s =
     map scanInvalidation (sql_limit limit (sort_key ev_event_id
       (filter (\<lambda>e. after < ev_event_id e) (identity_invalidations s))))"

text \<open>
  The sequence is sound when its ids increase strictly from 1 on and the database's counter is
  past them; a later state extends an earlier one.
\<close>

definition log_inv :: "db \<Rightarrow> bool" where
  "log_inv s \<longleftrightarrow> sorted_wrt (<) (map ev_event_id (identity_invalidations s)) \<and>
     (\<forall>e \<in> set (identity_invalidations s). 0 < ev_event_id e \<and> ev_event_id e < next_event_id s) \<and>
     0 < next_event_id s"

definition log_extends :: "db \<Rightarrow> db \<Rightarrow> bool" where
  "log_extends s t \<longleftrightarrow> prefix (identity_invalidations s) (identity_invalidations t)"

lemma log_inv_append: "log_inv s \<Longrightarrow> log_inv (sql_append_event a b c d e f g s)"
  by (simp add: log_inv_def sql_append_event_def sorted_wrt_append) force

lemma log_sorted: "log_inv s \<Longrightarrow> sorted (map ev_event_id (identity_invalidations s))"
  unfolding log_inv_def by (metis strict_sorted_imp_sorted)

interpretation log: all_stable log_inv
  by (unfold_locales, simp_all add: log_inv_append)
     (simp_all add: log_inv_def all_statements)

interpretation grow: all_stable "log_extends s0" for s0
  by unfold_locales (auto simp: log_extends_def all_statements intro: prefix_order.trans)

section \<open>Lookups by key\<close>

text \<open>The joins of the queries go through primary keys: at most one row matches.\<close>

definition findUser :: "db \<Rightarrow> string \<Rightarrow> user_row option" where
  "findUser s uid = find (\<lambda>u. u_user_id u = uid) (users s)"

definition findDeployment :: "db \<Rightarrow> string \<Rightarrow> deployment_row option" where
  "findDeployment s dep = find (\<lambda>d. d_deployment_id d = dep) (deployments s)"

definition findMembership :: "db \<Rightarrow> string \<Rightarrow> string \<Rightarrow> membership_row option" where
  "findMembership s dep uid =
     find (\<lambda>m. m_deployment_id m = dep \<and> m_user_id m = uid) (deployment_memberships s)"

definition findOrganization :: "db \<Rightarrow> string \<Rightarrow> organization_row option" where
  "findOrganization s org = find (\<lambda>x. o_organization_id x = org) (organizations s)"

definition findOrgMembership :: "db \<Rightarrow> string \<Rightarrow> string \<Rightarrow> org_membership_row option" where
  "findOrgMembership s org uid = find (is_org_member org uid) (organization_memberships s)"

text \<open>The status conditions of the joins.\<close>

definition userActive :: "db \<Rightarrow> string \<Rightarrow> bool" where
  "userActive s uid \<longleftrightarrow> (case findUser s uid of None \<Rightarrow> False | Some u \<Rightarrow> u_status u = ''active'')"

definition deploymentActive :: "db \<Rightarrow> string \<Rightarrow> bool" where
  "deploymentActive s dep \<longleftrightarrow>
     (case findDeployment s dep of None \<Rightarrow> False | Some d \<Rightarrow> d_status d = ''active'')"

definition membershipActive :: "db \<Rightarrow> string \<Rightarrow> string \<Rightarrow> bool" where
  "membershipActive s dep uid \<longleftrightarrow>
     (case findMembership s dep uid of None \<Rightarrow> False | Some m \<Rightarrow> m_status m = ''active'')"

text \<open>\<open>ORDER BY ... LIMIT 1\<close>: the first row of the sorted list.\<close>

definition sql_first :: "'a list \<Rightarrow> 'a option" where
  "sql_first rows = (case rows of [] \<Rightarrow> None | r # _ \<Rightarrow> Some r)"

lemma sql_first_Some: "sql_first rows = Some r \<Longrightarrow> r \<in> set rows"
  by (auto simp: sql_first_def split: list.splits)

lemma sql_first_None [simp]: "sql_first rows = None \<longleftrightarrow> rows = []"
  by (auto simp: sql_first_def split: list.splits)

section \<open>Principals\<close>

record PrincipalRecord =
  pr_WebAccessDisabled :: bool
  pr_OrganizationRole :: string
  pr_DeploymentID :: string
  pr_OrganizationID :: string
  pr_OrganizationName :: string
  pr_UserID :: string
  pr_Username :: string
  pr_DisplayName :: string
  pr_Role :: string
  pr_Avatar :: string
  pr_AuthMethod :: string
  pr_SessionID :: string

record NewMemberRecord =
  nm_DeploymentID :: string
  nm_UserID :: string
  nm_IdentityID :: string
  nm_CredentialID :: string
  nm_Username :: string
  nm_DisplayName :: string
  nm_PasswordHash :: string
  nm_Role :: string
  nm_CreatedAt :: time

section \<open>A new password account\<close>

text \<open>
  The rows every way of creating an account writes, and the user insert with
  \<open>ON CONFLICT(username) DO NOTHING\<close>, whose value is the number of rows it added.
\<close>

definition newUserRow :: "string \<Rightarrow> string \<Rightarrow> string \<Rightarrow> time \<Rightarrow> user_row" where
  "newUserRow uid username displayName now = \<lparr>u_user_id = uid, u_username = username,
     u_display_name = displayName, u_status = ''active'', u_avatar = None, u_last_login_at = None,
     u_created_at = now, u_updated_at = now\<rparr>"

definition newIdentityRow :: "string \<Rightarrow> string \<Rightarrow> string \<Rightarrow> time \<Rightarrow> identity_row" where
  "newIdentityRow iid uid username now = \<lparr>idn_identity_id = iid, idn_user_id = uid,
     idn_provider = ''password'', idn_subject = username, idn_created_at = now, idn_updated_at = now\<rparr>"

definition newCredentialRow :: "string \<Rightarrow> string \<Rightarrow> string \<Rightarrow> time \<Rightarrow> credential_row" where
  "newCredentialRow cid uid hash now = \<lparr>c_credential_id = cid, c_user_id = uid,
     c_password_hash = hash, c_password_algo = ''argon2id'', c_password_updated_at = now,
     c_created_at = now, c_updated_at = now\<rparr>"

definition newMembershipRow ::
  "string \<Rightarrow> string \<Rightarrow> string \<Rightarrow> bool \<Rightarrow> time \<Rightarrow> membership_row" where
  "newMembershipRow dep uid role webDisabled now = \<lparr>m_deployment_id = dep, m_user_id = uid,
     m_role = role, m_status = ''active'', m_created_at = now, m_updated_at = now,
     m_web_access_disabled = webDisabled\<rparr>"

definition newOrgMembershipRow ::
  "string \<Rightarrow> string \<Rightarrow> string \<Rightarrow> time \<Rightarrow> org_membership_row" where
  "newOrgMembershipRow org uid role now = \<lparr>om_organization_id = org, om_user_id = uid,
     om_role = role, om_status = ''active'', om_created_at = now, om_updated_at = now\<rparr>"

lemmas new_rows = newUserRow_def newIdentityRow_def newCredentialRow_def newMembershipRow_def
  newOrgMembershipRow_def

definition insertUserIfAbsent :: "user_row \<Rightarrow> nat stm" where
  "insertUserIfAbsent r = bindS (queryS users)
     (\<lambda>rows. if u_username r \<in> set (map u_username rows) then returnS 0
              else thenS (exec_stm (sql_insert_user r)) (returnS 1))"

context quiet_stable begin

lemma keeps_append_event: "keeps P (appendIdentityInvalidation a b c d e)"
  unfolding appendIdentityInvalidation_def by (intro keeps_rules quiet_laws)

lemma keeps_insertUser: "keeps P (insertUserIfAbsent r)"
  unfolding insertUserIfAbsent_def by (intro keeps_rules quiet_laws)

end

end
