(* ===== verification/Repo_Entitlement.thy ===== *)
theory Repo_Entitlement
  imports Repo_Core
begin

text \<open>
  \<open>entitlement.go\<close> of \<open>internal/storage/auth\<close>: the plan catalogue of a deployment and the plan
  each member is bound to. A member without a row of its own is on the plan \<open>free\<close>.
\<close>

section \<open>Queries\<close>

record EntitlementRecord =
  er_DeploymentID :: string
  er_UserID :: string
  er_PlanKey :: string
  er_PlanName :: string
  er_MonthlyTokenLimit :: "int option"
  er_UpdatedAt :: time

definition findEntitlement :: "db \<Rightarrow> string \<Rightarrow> string \<Rightarrow> entitlement_row option" where
  "findEntitlement s dep uid =
     find (\<lambda>e. e_deployment_id e = dep \<and> e_user_id e = uid) (member_entitlements s)"

definition findPlan :: "db \<Rightarrow> string \<Rightarrow> string \<Rightarrow> plan_row option" where
  "findPlan s dep key =
     find (\<lambda>p. p_deployment_id p = dep \<and> p_plan_key p = key) (subscription_plans s)"

text \<open>\<open>COALESCE(e.plan_key, 'free')\<close> over the left join.\<close>

definition boundPlanKey :: "db \<Rightarrow> string \<Rightarrow> string \<Rightarrow> string" where
  "boundPlanKey s dep uid =
     (case findEntitlement s dep uid of None \<Rightarrow> ''free'' | Some e \<Rightarrow> e_plan_key e)"

text \<open>\<open>scanEntitlement\<close>: the later of the plan's and the binding's update time.\<close>

definition laterUpdate :: "plan_row \<Rightarrow> entitlement_row option \<Rightarrow> time" where
  "laterUpdate p e = (case e of None \<Rightarrow> p_updated_at p
     | Some x \<Rightarrow> if After (e_updated_at x) (p_updated_at p) then e_updated_at x else p_updated_at p)"

definition repo_EffectiveEntitlement ::
  "string \<Rightarrow> string \<Rightarrow> db \<Rightarrow> store_error + EntitlementRecord" where
  "repo_EffectiveEntitlement deploymentID userID s =
     (case findMembership s deploymentID userID of
        None \<Rightarrow> Inl StoreErrNotFound
      | Some m \<Rightarrow>
          (case findPlan s deploymentID (boundPlanKey s deploymentID userID) of
             None \<Rightarrow> Inl StoreErrNotFound
           | Some p \<Rightarrow> Inr \<lparr>er_DeploymentID = deploymentID, er_UserID = userID,
               er_PlanKey = p_plan_key p, er_PlanName = p_display_name p,
               er_MonthlyTokenLimit = p_monthly_token_limit p,
               er_UpdatedAt = laterUpdate p (findEntitlement s deploymentID userID)\<rparr>))"

definition repo_ListSubscriptionPlans :: "string \<Rightarrow> db \<Rightarrow> plan_row list" where
  "repo_ListSubscriptionPlans deploymentID s =
     sort_key (\<lambda>p. (p_sort_order p, p_plan_key p))
       (filter (\<lambda>p. p_deployment_id p = deploymentID) (subscription_plans s))"

record SubscriptionAccountRecord =
  sa_DeploymentID :: string
  sa_UserID :: string
  sa_Username :: string
  sa_DisplayName :: string
  sa_Role :: string
  sa_MembershipStatus :: string
  sa_Avatar :: string
  sa_LastLoginAt :: "time option"
  sa_CreatedAt :: time
  sa_UpdatedAt :: time
  sa_PlanKey :: string
  sa_PlanName :: string
  sa_MonthlyTokenLimit :: "int option"
  sa_EntitlementUpdatedAt :: time

definition subscriptionAccount :: "db \<Rightarrow> membership_row \<Rightarrow> SubscriptionAccountRecord option" where
  "subscriptionAccount s m =
     (case findUser s (m_user_id m) of None \<Rightarrow> None
      | Some u \<Rightarrow>
        (case findPlan s (m_deployment_id m) (boundPlanKey s (m_deployment_id m) (m_user_id m)) of
           None \<Rightarrow> None
         | Some p \<Rightarrow> Some \<lparr>sa_DeploymentID = m_deployment_id m, sa_UserID = u_user_id u,
             sa_Username = u_username u, sa_DisplayName = u_display_name u, sa_Role = m_role m,
             sa_MembershipStatus = m_status m, sa_Avatar = nullString (u_avatar u),
             sa_LastLoginAt = u_last_login_at u, sa_CreatedAt = u_created_at u,
             sa_UpdatedAt = u_updated_at u, sa_PlanKey = p_plan_key p, sa_PlanName = p_display_name p,
             sa_MonthlyTokenLimit = p_monthly_token_limit p,
             sa_EntitlementUpdatedAt =
               laterUpdate p (findEntitlement s (m_deployment_id m) (m_user_id m))\<rparr>))"

definition repo_ListSubscriptionAccounts :: "string \<Rightarrow> db \<Rightarrow> SubscriptionAccountRecord list" where
  "repo_ListSubscriptionAccounts deploymentID s =
     sort_key (\<lambda>a. (sa_CreatedAt a, sa_UserID a))
       (List.map_filter (subscriptionAccount s)
          (filter (\<lambda>m. m_deployment_id m = deploymentID) (deployment_memberships s)))"

definition entitlementUsers :: "string \<Rightarrow> string \<Rightarrow> db \<Rightarrow> string list" where
  "entitlementUsers deploymentID planKey s = sort (map m_user_id
     (filter (\<lambda>m. m_deployment_id m = deploymentID \<and> m_status m = ''active'' \<and>
        boundPlanKey s deploymentID (m_user_id m) = planKey) (deployment_memberships s)))"

section \<open>Writes\<close>

definition upsertSubscriptionPlan :: "plan_row \<Rightarrow> unit stm" where
  "upsertSubscriptionPlan record = exec_stm (sql_upsert_plan record)"

definition repo_UpsertSubscriptionPlan ::
  "plan_row \<Rightarrow> time \<Rightarrow> db \<Rightarrow> (store_error + unit) \<times> db" where
  "repo_UpsertSubscriptionPlan record now = run_tx (
     thenS beginIdentityWrite (
     thenS (lockDeployment (p_deployment_id record)) (
     let r = record\<lparr>p_created_at := (if IsZero (p_created_at record) then now else p_created_at record),
                p_updated_at := now\<rparr> in
     thenS (upsertSubscriptionPlan r) (
     bindS (queryS (entitlementUsers (p_deployment_id r) (p_plan_key r))) (\<lambda>us.
     thenS (forS (\<lambda>u. appendIdentityInvalidation (p_deployment_id r) u '''' ''entitlement_changed'' now) us)
     (returnS (Commit ())))))))"

definition repo_SetMemberEntitlement ::
  "string \<Rightarrow> string \<Rightarrow> string \<Rightarrow> time \<Rightarrow> db \<Rightarrow> (store_error + unit) \<times> db" where
  "repo_SetMemberEntitlement deploymentID userID planKey now = run_tx (
     thenS beginIdentityWrite (
     thenS (lockDeployment deploymentID) (
     bindS (queryS (\<lambda>s. findPlan s deploymentID planKey)) (\<lambda>plan.
     case plan of None \<Rightarrow> failS StoreErrPlanNotFound
     | Some p \<Rightarrow>
       if p_status p \<noteq> ''active'' then failS StoreErrPlanNotFound else
       bindS (queryS (\<lambda>s. (findMembership s deploymentID userID, boundPlanKey s deploymentID userID)))
       (\<lambda>(m, current).
       case m of None \<Rightarrow> failS StoreErrNotFound
       | Some _ \<Rightarrow>
         if current = planKey then returnS (Rollback ()) else
         thenS (exec_stm (sql_upsert_entitlement \<lparr>e_deployment_id = deploymentID, e_user_id = userID,
            e_plan_key = planKey, e_created_at = now, e_updated_at = now\<rparr>)) (
         thenS (appendIdentityInvalidation deploymentID userID '''' ''entitlement_changed'' now) (
         returnS (Commit ()))))))))"

definition defaultPlans :: "string \<Rightarrow> time \<Rightarrow> plan_row list" where
  "defaultPlans deploymentID now =
     [\<lparr>p_deployment_id = deploymentID, p_plan_key = ''free'', p_display_name = ''Free'',
       p_status = ''active'', p_monthly_token_limit = Some 200000,
       p_notes = [CHR 0xE9, CHR 0xBB, CHR 0x98, CHR 0xE8, CHR 0xAE, CHR 0xA4, CHR 0xE5, CHR 0x85,
         CHR 0x8D, CHR 0xE8, CHR 0xB4, CHR 0xB9, CHR 0xE9, CHR 0xA2, CHR 0x9D, CHR 0xE5, CHR 0xBA,
         CHR 0xA6],
       p_sort_order = 10, p_created_at = now, p_updated_at = now\<rparr>,
      \<lparr>p_deployment_id = deploymentID, p_plan_key = ''admin'', p_display_name = ''Admin'',
       p_status = ''active'', p_monthly_token_limit = None,
       p_notes = [CHR 0xE6, CHR 0x97, CHR 0xA0, CHR 0xE9, CHR 0x99, CHR 0x90, CHR 0xE9, CHR 0xA2,
         CHR 0x9D, CHR 0xE5, CHR 0xBA, CHR 0xA6, CHR 0xE7, CHR 0xAE, CHR 0xA1, CHR 0xE7, CHR 0x90,
         CHR 0x86, CHR 0xE5, CHR 0xA5, CHR 0x97, CHR 0xE9, CHR 0xA4, CHR 0x90],
       p_sort_order = 90, p_created_at = now, p_updated_at = now\<rparr>]"

definition insertDefaultSubscriptionPlans :: "string \<Rightarrow> time \<Rightarrow> unit stm" where
  "insertDefaultSubscriptionPlans deploymentID now =
     forS upsertSubscriptionPlan (defaultPlans deploymentID now)"

context quiet_stable begin

lemma keeps_upsertPlan: "keeps P (upsertSubscriptionPlan r)"
  unfolding upsertSubscriptionPlan_def by (intro keeps_rules quiet_laws)

lemma keeps_defaultPlans: "keeps P (insertDefaultSubscriptionPlans d now)"
  unfolding insertDefaultSubscriptionPlans_def by (intro keeps_rules keeps_upsertPlan)

lemma UpsertSubscriptionPlan_stable: "P s \<Longrightarrow> P (snd (repo_UpsertSubscriptionPlan r now s))"
  unfolding repo_UpsertSubscriptionPlan_def Let_def
  by (rule keeps_tx, assumption, intro keeps_rules keeps_upsertPlan keeps_append_event)

lemma SetMemberEntitlement_stable: "P s \<Longrightarrow> P (snd (repo_SetMemberEntitlement d u k now s))"
  unfolding repo_SetMemberEntitlement_def
  by (rule keeps_tx, assumption, intro keeps_rules quiet_laws keeps_append_event)

end

end
