(* ===== verification/Repo_Account.thy ===== *)
theory Repo_Account
  imports Repo_Entitlement
begin

text \<open>
  \<open>account.go\<close> of \<open>internal/storage/auth\<close>: the first owner, roles and profiles, and the import
  transactions that fill an empty database from an old Nexus or an old Control.
\<close>

section \<open>Setup\<close>

record OwnerRecord =
  ow_DeploymentID :: string
  ow_DeploymentName :: string
  ow_OrganizationID :: string
  ow_OrganizationName :: string
  ow_UserID :: string
  ow_IdentityID :: string
  ow_CredentialID :: string
  ow_Username :: string
  ow_DisplayName :: string
  ow_PasswordHash :: string
  ow_CreatedAt :: time

definition activeMemberships :: "db \<Rightarrow> nat" where
  "activeMemberships s = count_where (\<lambda>m. m_status m = ''active'') (deployment_memberships s)"

definition repo_SetupRequired :: "db \<Rightarrow> bool" where
  "repo_SetupRequired s \<longleftrightarrow> activeMemberships s = 0"

definition newDeploymentRow :: "string \<Rightarrow> string \<Rightarrow> time \<Rightarrow> deployment_row" where
  "newDeploymentRow dep name now = \<lparr>d_deployment_id = dep, d_name = name, d_status = ''active'',
     d_created_at = now, d_updated_at = now\<rparr>"

definition newOrganizationRow :: "string \<Rightarrow> string \<Rightarrow> string \<Rightarrow> time \<Rightarrow> organization_row" where
  "newOrganizationRow org dep name now = \<lparr>o_organization_id = org, o_deployment_id = dep,
     o_name = name, o_status = ''active'', o_created_at = now, o_updated_at = now\<rparr>"

definition createOwnerStatements :: "OwnerRecord \<Rightarrow> (db \<Rightarrow> db) list" where
  "createOwnerStatements r = (let now = ow_CreatedAt r in
     [sql_insert_deployment (newDeploymentRow (ow_DeploymentID r) (ow_DeploymentName r) now),
      sql_insert_organization
        (newOrganizationRow (ow_OrganizationID r) (ow_DeploymentID r) (ow_OrganizationName r) now),
      sql_insert_user (newUserRow (ow_UserID r) (ow_Username r) (ow_DisplayName r) now),
      sql_insert_identity (newIdentityRow (ow_IdentityID r) (ow_UserID r) (ow_Username r) now),
      sql_insert_credential (newCredentialRow (ow_CredentialID r) (ow_UserID r) (ow_PasswordHash r) now),
      sql_insert_membership (newMembershipRow (ow_DeploymentID r) (ow_UserID r) ''owner'' False now),
      sql_insert_org_membership (newOrgMembershipRow (ow_OrganizationID r) (ow_UserID r) ''owner'' now)])"

definition repo_CreateOwner :: "OwnerRecord \<Rightarrow> db \<Rightarrow> (store_error + unit) \<times> db" where
  "repo_CreateOwner record = run_tx (
     thenS lockControlState (
     bindS (queryS activeMemberships) (\<lambda>count.
     if count \<noteq> 0 then failS StoreErrAlreadySetup else
     thenS (forS exec_stm (createOwnerStatements record)) (
     thenS (insertDefaultSubscriptionPlans (ow_DeploymentID record) (ow_CreatedAt record)) (
     returnS (Commit ()))))))"

lemma CreateOwner_keeps:
  assumes "keeps P (forS exec_stm (createOwnerStatements r))"
    and "keeps P (insertDefaultSubscriptionPlans (ow_DeploymentID r) (ow_CreatedAt r))" and "P s"
  shows "P (snd (repo_CreateOwner r s))"
  unfolding repo_CreateOwner_def
  by (rule keeps_tx, rule assms(3))
     (intro keeps_lockControlState keeps_bind keeps_query keeps_if keeps_fail keeps_then keeps_return
       assms(1,2))

section \<open>Roles and profiles\<close>

definition repo_ActiveRole :: "string \<Rightarrow> db \<Rightarrow> store_error + string" where
  "repo_ActiveRole userID s = (let uid = TrimSpace userID in
     case sql_first (sort_key m_created_at (filter (\<lambda>m. m_user_id m = uid \<and> m_status m = ''active'' \<and>
            userActive s uid) (deployment_memberships s))) of
       None \<Rightarrow> Inl StoreErrNotFound
     | Some m \<Rightarrow> Inr (m_role m))"

record UserRecord =
  ur_UserID :: string
  ur_Username :: string
  ur_DisplayName :: string
  ur_Status :: string
  ur_Avatar :: string
  ur_LastLoginAt :: "time option"
  ur_CreatedAt :: time
  ur_UpdatedAt :: time

definition repo_UserByID :: "string \<Rightarrow> db \<Rightarrow> store_error + UserRecord" where
  "repo_UserByID userID s =
     (case findUser s (TrimSpace userID) of
        None \<Rightarrow> Inl StoreErrNotFound
      | Some u \<Rightarrow> Inr \<lparr>ur_UserID = u_user_id u, ur_Username = u_username u,
          ur_DisplayName = u_display_name u, ur_Status = u_status u,
          ur_Avatar = nullString (u_avatar u), ur_LastLoginAt = u_last_login_at u,
          ur_CreatedAt = u_created_at u, ur_UpdatedAt = u_updated_at u\<rparr>)"

definition profileDeployments :: "string \<Rightarrow> db \<Rightarrow> string list" where
  "profileDeployments userID s = map m_deployment_id
     (filter (\<lambda>m. m_user_id m = TrimSpace userID \<and> m_status m = ''active'') (deployment_memberships s))"

definition appendProfileInvalidations :: "string \<Rightarrow> time \<Rightarrow> unit stm" where
  "appendProfileInvalidations userID now =
     bindS (queryS (profileDeployments userID))
       (forS (\<lambda>dep. appendIdentityInvalidation dep (TrimSpace userID) '''' ''profile_changed'' now))"

definition repo_UpdateAvatar :: "string \<Rightarrow> string \<Rightarrow> time \<Rightarrow> db \<Rightarrow> (store_error + unit) \<times> db" where
  "repo_UpdateAvatar userID avatar now = run_tx (
     thenS beginIdentityWrite (
     bindS (queryS (\<lambda>s. count_where
       (\<lambda>u. u_user_id u = TrimSpace userID \<and> u_status u = ''active'') (users s))) (\<lambda>count.
     thenS (exec_stm (sql_update_avatar (nullableString avatar) now (TrimSpace userID))) (
     if count \<noteq> 1 then failS StoreErrNotFound else
     thenS (appendProfileInvalidations userID now) (
     returnS (Commit ()))))))"

context quiet_stable begin

lemma keeps_profile: "keeps P (appendProfileInvalidations u now)"
  unfolding appendProfileInvalidations_def by (intro keeps_rules keeps_append_event)

lemma UpdateAvatar_stable: "P s \<Longrightarrow> P (snd (repo_UpdateAvatar u a now s))"
  unfolding repo_UpdateAvatar_def
  by (rule keeps_tx, assumption, intro keeps_rules quiet_laws keeps_profile)

end

lemma keeps_statements:
  "(\<And>f s. f \<in> set fs \<Longrightarrow> P s \<Longrightarrow> schema_ok (f s) \<Longrightarrow> P (f s)) \<Longrightarrow> keeps P (forS exec_stm fs)"
  by (induction fs) (auto intro!: keeps_rules)

context org_stable begin

lemma keeps_createOwnerStatements: "keeps P (forS exec_stm (createOwnerStatements r))"
  by (rule keeps_statements)
     (auto simp: createOwnerStatements_def Let_def intro: quiet_laws org_laws)

lemma CreateOwner_stable: "P s \<Longrightarrow> P (snd (repo_CreateOwner r s))"
  unfolding repo_CreateOwner_def
  by (rule keeps_tx, assumption, intro keeps_then keeps_bind keeps_if keeps_fail keeps_query
      keeps_return keeps_lockControlState keeps_defaultPlans keeps_createOwnerStatements)

end

section \<open>Import\<close>

record ImportedUserRecord =
  iu_WebAccessDisabled :: bool
  iu_User :: UserRecord
  iu_Role :: string
  iu_MembershipStatus :: string
  iu_MembershipCreated :: time
  iu_MembershipUpdated :: time
  iu_IdentityID :: string
  iu_IdentityCreated :: time
  iu_IdentityUpdated :: time
  iu_CredentialID :: string
  iu_PasswordHash :: string
  iu_PasswordAlgorithm :: string
  iu_PasswordUpdatedAt :: time
  iu_CredentialCreated :: time
  iu_CredentialUpdated :: time

record ImportedOrganizationRecord =
  io_ID :: string
  io_Name :: string
  io_Status :: string
  io_CreatedAt :: time
  io_UpdatedAt :: time

record ImportedEntitlementRecord =
  ie_UserID :: string
  ie_PlanKey :: string
  ie_CreatedAt :: time
  ie_UpdatedAt :: time

text \<open>
  \<open>OrganizationMemberships\<close>, \<open>Invitations\<close> and \<open>Invalidations\<close> carry exactly the columns of
  their tables, so the rows themselves are used.
\<close>

record ImportedDeploymentRecord =
  idp_Organizations :: "ImportedOrganizationRecord list"
  idp_OrganizationMemberships :: "org_membership_row list"
  idp_Invitations :: "invitation_row list"
  idp_Invalidations :: "invalidation_row list"
  idp_DeploymentID :: string
  idp_Name :: string
  idp_Status :: string
  idp_OrganizationID :: string
  idp_OrganizationName :: string
  idp_OrganizationStatus :: string
  idp_CreatedAt :: time
  idp_UpdatedAt :: time

text \<open>An insert with an explicit event id moves the sequence past that id.\<close>

definition sql_import_event :: "invalidation_row \<Rightarrow> db \<Rightarrow> db" where
  "sql_import_event e s = DB (tables s\<lparr>t_identity_invalidations := identity_invalidations s @ [e],
     t_next_event_id := max (next_event_id s) (ev_event_id e + 1)\<rparr>)"

definition orElse :: "time \<Rightarrow> time \<Rightarrow> time" where
  "orElse t d = (if IsZero t then d else t)"

definition importMembershipStatus :: "ImportedUserRecord \<Rightarrow> string" where
  "importMembershipStatus item =
     (if iu_MembershipStatus item \<noteq> '''' then iu_MembershipStatus item
      else if ur_Status (iu_User item) \<noteq> ''active'' then ''revoked'' else ''active'')"

text \<open>The old monolith may have several platform owners; only the first owns the organization.\<close>

definition importOrgRole :: "string \<Rightarrow> ImportedUserRecord \<Rightarrow> db \<Rightarrow> string" where
  "importOrgRole organizationID item s =
     (if iu_Role item = ''owner'' \<and> importMembershipStatus item = ''active'' \<and>
         0 < count_where (\<lambda>x. om_organization_id x = organizationID \<and> om_role x = ''owner'' \<and>
               om_status x = ''active'') (organization_memberships s)
      then ''admin'' else iu_Role item)"

definition importUser :: "string \<Rightarrow> string \<Rightarrow> ImportedUserRecord \<Rightarrow> unit stm" where
  "importUser deploymentID organizationID item = (let user = iu_User item; uid = ur_UserID user;
       created = orElse (iu_MembershipCreated item) (ur_CreatedAt user);
       updated = orElse (iu_MembershipUpdated item) (ur_UpdatedAt user) in
     thenS (exec_stm (sql_insert_user \<lparr>u_user_id = uid, u_username = ur_Username user,
        u_display_name = ur_DisplayName user, u_status = ur_Status user,
        u_avatar = nullableString (ur_Avatar user), u_last_login_at = ur_LastLoginAt user,
        u_created_at = ur_CreatedAt user, u_updated_at = ur_UpdatedAt user\<rparr>)) (
     thenS (exec_stm (sql_insert_identity \<lparr>idn_identity_id = iu_IdentityID item, idn_user_id = uid,
        idn_provider = ''password'', idn_subject = ur_Username user,
        idn_created_at = orElse (iu_IdentityCreated item) (ur_CreatedAt user),
        idn_updated_at = orElse (iu_IdentityUpdated item) (ur_UpdatedAt user)\<rparr>)) (
     thenS (exec_stm (sql_insert_credential \<lparr>c_credential_id = iu_CredentialID item, c_user_id = uid,
        c_password_hash = iu_PasswordHash item, c_password_algo = iu_PasswordAlgorithm item,
        c_password_updated_at = iu_PasswordUpdatedAt item,
        c_created_at = iu_CredentialCreated item, c_updated_at = iu_CredentialUpdated item\<rparr>)) (
     thenS (exec_stm (sql_insert_membership \<lparr>m_deployment_id = deploymentID, m_user_id = uid,
        m_role = iu_Role item, m_status = importMembershipStatus item, m_created_at = created,
        m_updated_at = updated, m_web_access_disabled = iu_WebAccessDisabled item\<rparr>)) (
     if organizationID = '''' then returnS () else
     bindS (queryS (importOrgRole organizationID item)) (\<lambda>role.
     exec_stm (sql_insert_org_membership \<lparr>om_organization_id = organizationID, om_user_id = uid,
        om_role = role, om_status = importMembershipStatus item,
        om_created_at = created, om_updated_at = updated\<rparr>)))))))"

definition businessRows :: "db \<Rightarrow> nat" where
  "businessRows s = length (deployments s) + length (users s) + length (identities s) +
     length (password_credentials s) + length (deployment_memberships s) + length (sessions s) +
     length (password_change_receipts s) + length (identity_invalidations s) + length (agents s) +
     length (subscription_plans s) + length (member_entitlements s)"

definition importOrganizations :: "ImportedDeploymentRecord \<Rightarrow> bool \<Rightarrow> ImportedOrganizationRecord list" where
  "importOrganizations deployment insertDefaults =
     (if insertDefaults
      then [\<lparr>io_ID = idp_OrganizationID deployment, io_Name = idp_OrganizationName deployment,
             io_Status = idp_OrganizationStatus deployment, io_CreatedAt = idp_CreatedAt deployment,
             io_UpdatedAt = idp_UpdatedAt deployment\<rparr>]
      else idp_Organizations deployment)"

definition importDeployment ::
  "ImportedDeploymentRecord \<Rightarrow> ImportedUserRecord list \<Rightarrow> agent_row list \<Rightarrow> plan_row list \<Rightarrow>
     ImportedEntitlementRecord list \<Rightarrow> bool \<Rightarrow> db \<Rightarrow> (store_error + unit) \<times> db" where
  "importDeployment deployment items ags plans entitlements insertDefaults =
    (let dep = idp_DeploymentID deployment in run_tx (
     thenS lockControlState (
     bindS (queryS businessRows) (\<lambda>count.
     if count \<noteq> 0 then failS StoreErrAlreadySetup else
     thenS (exec_stm (sql_insert_deployment \<lparr>d_deployment_id = dep, d_name = idp_Name deployment,
        d_status = idp_Status deployment, d_created_at = idp_CreatedAt deployment,
        d_updated_at = idp_UpdatedAt deployment\<rparr>)) (
     thenS (forS (\<lambda>x. exec_stm (sql_insert_organization \<lparr>o_organization_id = io_ID x,
        o_deployment_id = dep, o_name = io_Name x, o_status = io_Status x,
        o_created_at = io_CreatedAt x, o_updated_at = io_UpdatedAt x\<rparr>))
        (importOrganizations deployment insertDefaults)) (
     thenS (if insertDefaults then insertDefaultSubscriptionPlans dep (idp_CreatedAt deployment)
            else returnS ()) (
     thenS (forS (\<lambda>p. upsertSubscriptionPlan (p\<lparr>p_deployment_id := dep\<rparr>)) plans) (
     thenS (forS (importUser dep (idp_OrganizationID deployment)) items) (
     thenS (forS (\<lambda>m. exec_stm (sql_insert_org_membership m)) (idp_OrganizationMemberships deployment)) (
     thenS (forS (\<lambda>i. exec_stm (sql_insert_invitation
        (i\<lparr>i_accepted_by_user_id := nullableString (nullString (i_accepted_by_user_id i))\<rparr>)))
        (idp_Invitations deployment)) (
     thenS (forS (\<lambda>a. exec_stm (sql_insert_agent (a\<lparr>ag_deployment_id := dep,
        ag_avatar := nullableString (nullString (ag_avatar a))\<rparr>))) ags) (
     thenS (forS (\<lambda>e. exec_stm (sql_import_event
        (e\<lparr>ev_session_id := nullableString (nullString (ev_session_id e))\<rparr>)))
        (idp_Invalidations deployment)) (
     thenS (forS (\<lambda>x. exec_stm (sql_insert_entitlement \<lparr>e_deployment_id = dep, e_user_id = ie_UserID x,
        e_plan_key = ie_PlanKey x, e_created_at = ie_CreatedAt x, e_updated_at = ie_UpdatedAt x\<rparr>))
        entitlements) (
     returnS (Commit ())))))))))))))))"

definition repo_ImportDeployment ::
  "string \<Rightarrow> string \<Rightarrow> ImportedUserRecord list \<Rightarrow> plan_row list \<Rightarrow> ImportedEntitlementRecord list \<Rightarrow>
     time \<Rightarrow> db \<Rightarrow> (store_error + unit) \<times> db" where
  "repo_ImportDeployment deploymentID deploymentName items plans entitlements now =
     importDeployment \<lparr>idp_Organizations = [], idp_OrganizationMemberships = [], idp_Invitations = [],
       idp_Invalidations = [], idp_DeploymentID = deploymentID, idp_Name = deploymentName,
       idp_Status = ''active'', idp_OrganizationID = deploymentID, idp_OrganizationName = deploymentName,
       idp_OrganizationStatus = ''active'', idp_CreatedAt = now, idp_UpdatedAt = now\<rparr>
       items [] plans entitlements True"

definition repo_ImportControlDeployment ::
  "ImportedDeploymentRecord \<Rightarrow> ImportedUserRecord list \<Rightarrow> agent_row list \<Rightarrow> plan_row list \<Rightarrow>
     ImportedEntitlementRecord list \<Rightarrow> db \<Rightarrow> (store_error + unit) \<times> db" where
  "repo_ImportControlDeployment deployment items ags plans entitlements =
     importDeployment deployment items ags plans entitlements False"

definition activeDeploymentUsers :: "string \<Rightarrow> db \<Rightarrow> string list" where
  "activeDeploymentUsers deploymentID s = sort (map m_user_id
     (filter (\<lambda>m. m_deployment_id m = deploymentID \<and> m_status m = ''active'') (deployment_memberships s)))"

definition importEntitlement :: "string \<Rightarrow> ImportedEntitlementRecord \<Rightarrow> unit stm" where
  "importEntitlement deploymentID x = bindS (queryS (\<lambda>s. findMembership s deploymentID (ie_UserID x)))
     (\<lambda>m. case m of None \<Rightarrow> failS StoreErrNotFound
      | Some _ \<Rightarrow> exec_stm (sql_upsert_entitlement \<lparr>e_deployment_id = deploymentID,
          e_user_id = ie_UserID x, e_plan_key = ie_PlanKey x, e_created_at = ie_CreatedAt x,
          e_updated_at = ie_UpdatedAt x\<rparr>))"

definition repo_ImportSubscriptions ::
  "plan_row list \<Rightarrow> ImportedEntitlementRecord list \<Rightarrow> time \<Rightarrow> db \<Rightarrow> (store_error + unit) \<times> db" where
  "repo_ImportSubscriptions plans entitlements now = run_tx (
     thenS lockControlState (
     bindS (queryS (\<lambda>s. sql_first (sort_key d_created_at
        (filter (\<lambda>d. d_status d = ''active'') (deployments s))))) (\<lambda>first.
     case first of None \<Rightarrow> failS StoreErrNotFound
     | Some d \<Rightarrow> let dep = d_deployment_id d in
       thenS (forS (\<lambda>p. upsertSubscriptionPlan (p\<lparr>p_deployment_id := dep\<rparr>)) plans) (
       thenS (forS (importEntitlement dep) entitlements) (
       bindS (queryS (activeDeploymentUsers dep)) (\<lambda>us.
       thenS (forS (\<lambda>u. appendIdentityInvalidation dep u '''' ''entitlement_changed'' now) us) (
       returnS (Commit ()))))))))"

context quiet_stable begin

lemma ImportSubscriptions_stable: "P s \<Longrightarrow> P (snd (repo_ImportSubscriptions ps es now s))"
  unfolding repo_ImportSubscriptions_def importEntitlement_def Let_def
  by (rule keeps_tx, assumption, intro keeps_rules keeps_upsertPlan quiet_laws keeps_append_event)

end

end
