(* ===== verification/Repo_Organization.thy ===== *)
theory Repo_Organization
  imports Repo_Account
begin

text \<open>
  \<open>organization.go\<close> and \<open>registration.go\<close> of \<open>internal/storage/auth\<close>: the organization life cycle
  (create, join, leave, transfer, rename, dissolve), the live permission check of organization
  managers, and the registration of accounts without an organization.
\<close>

section \<open>Queries\<close>

record OrganizationCommand =
  oc_Actor :: PrincipalRecord
  oc_Action :: string
  oc_OrganizationID :: string
  oc_Name :: string
  oc_TargetUserID :: string
  oc_TokenHash :: string
  oc_Now :: time

text \<open>The organization the user belongs to now, in this deployment, with the user's role.\<close>

definition orgActiveIn :: "db \<Rightarrow> string \<Rightarrow> string \<Rightarrow> bool" where
  "orgActiveIn s dep org \<longleftrightarrow> (case findOrganization s org of None \<Rightarrow> False
     | Some x \<Rightarrow> o_deployment_id x = dep \<and> o_status x = ''active'')"

definition currentOrganization :: "db \<Rightarrow> string \<Rightarrow> string \<Rightarrow> org_membership_row option" where
  "currentOrganization s dep uid = sql_first (filter (\<lambda>x. om_user_id x = uid \<and>
     om_status x = ''active'' \<and> orgActiveIn s dep (om_organization_id x)) (organization_memberships s))"

text \<open>The role of an active member whose organization, deployment, account and access are active.\<close>

definition liveOrgRole :: "db \<Rightarrow> string \<Rightarrow> string \<Rightarrow> string option" where
  "liveOrgRole s org uid =
     (case findOrgMembership s org uid of None \<Rightarrow> None
      | Some x \<Rightarrow>
        (case findOrganization s org of None \<Rightarrow> None
         | Some o' \<Rightarrow>
           if om_status x = ''active'' \<and> o_status o' = ''active'' \<and>
              membershipActive s (o_deployment_id o') uid \<and> userActive s uid \<and>
              deploymentActive s (o_deployment_id o')
           then Some (om_role x) else None))"

text \<open>The rule both permission checks share: who may act on a member of the target role.\<close>

definition mayManage :: "string \<Rightarrow> string \<Rightarrow> bool" where
  "mayManage role targetRole \<longleftrightarrow>
     \<not> (targetRole = ''owner'' \<or> (role \<noteq> ''owner'' \<and> (role \<noteq> ''admin'' \<or> targetRole \<noteq> ''member'')))"

definition requireOrganizationManager :: "string \<Rightarrow> string \<Rightarrow> string \<Rightarrow> unit stm" where
  "requireOrganizationManager org user targetRole =
     bindS (queryS (\<lambda>s. liveOrgRole s org user))
       (\<lambda>found. case found of None \<Rightarrow> failS StoreErrStateConflict
        | Some role \<Rightarrow> if mayManage role targetRole then returnS () else failS StoreErrStateConflict)"

section \<open>Steps\<close>

definition appendOrganizationInvalidation ::
  "string \<Rightarrow> string \<Rightarrow> string \<Rightarrow> bool \<Rightarrow> time \<Rightarrow> unit stm" where
  "appendOrganizationInvalidation deployment org user revoked now =
     exec_stm (sql_append_event deployment user None ''organization_changed'' now org revoked)"

definition joinOrganization :: "string \<Rightarrow> string \<Rightarrow> string \<Rightarrow> time \<Rightarrow> unit stm" where
  "joinOrganization org user role now = exec_stm (sql_join_organization org user role now)"

definition revokeOrganizationMember :: "string \<Rightarrow> string \<Rightarrow> string \<Rightarrow> time \<Rightarrow> unit stm" where
  "revokeOrganizationMember deployment org user now =
     thenS (exec_stm (sql_revoke_org_membership now org user)) (
     thenS (exec_stm (sql_revoke_agents now org user)) (
     thenS (exec_stm (sql_revoke_org_nodes now org user)) (
     appendOrganizationInvalidation deployment org user True now)))"

section \<open>The actions\<close>

text \<open>Each action returns the organization it ends up concerning.\<close>

definition createOrganization :: "OrganizationCommand \<Rightarrow> string stm" where
  "createOrganization c =
     thenS (exec_stm (sql_insert_organization (newOrganizationRow (oc_OrganizationID c)
        (pr_DeploymentID (oc_Actor c)) (oc_Name c) (oc_Now c)))) (
     thenS (joinOrganization (oc_OrganizationID c) (pr_UserID (oc_Actor c)) ''owner'' (oc_Now c)) (
     returnS (oc_OrganizationID c)))"

definition openInvitation :: "OrganizationCommand \<Rightarrow> db \<Rightarrow> invitation_row option" where
  "openInvitation c s = sql_first (filter (\<lambda>i. i_token_hash i = oc_TokenHash c \<and>
     orgActiveIn s (pr_DeploymentID (oc_Actor c)) (i_organization_id i) \<and>
     invitation_pending (oc_Now c) i) (organization_invitations s))"

definition joinByInvitation :: "OrganizationCommand \<Rightarrow> string stm" where
  "joinByInvitation c =
     bindS (queryS (openInvitation c)) (\<lambda>found.
     case found of None \<Rightarrow> failS StoreErrInvitationInvalid
     | Some i \<Rightarrow>
       thenS (joinOrganization (i_organization_id i) (pr_UserID (oc_Actor c)) (i_role i) (oc_Now c)) (
       thenS (exec_stm (sql_join_invitation (pr_UserID (oc_Actor c)) (oc_Now c) (i_invitation_id i))) (
       returnS (i_organization_id i))))"

definition leaveOrganization :: "OrganizationCommand \<Rightarrow> string \<Rightarrow> string \<Rightarrow> string stm" where
  "leaveOrganization c org role =
     (if role = ''owner'' then failS StoreErrLastOwner else
      thenS (revokeOrganizationMember (pr_DeploymentID (oc_Actor c)) org (pr_UserID (oc_Actor c)) (oc_Now c))
        (returnS org))"

definition transferTarget :: "OrganizationCommand \<Rightarrow> string \<Rightarrow> db \<Rightarrow> string option" where
  "transferTarget c org s =
     (case findOrgMembership s org (oc_TargetUserID c) of None \<Rightarrow> None
      | Some x \<Rightarrow> if om_status x = ''active'' \<and> userActive s (oc_TargetUserID c) \<and>
            membershipActive s (pr_DeploymentID (oc_Actor c)) (oc_TargetUserID c)
          then Some (om_role x) else None)"

definition transferOrganization :: "OrganizationCommand \<Rightarrow> string \<Rightarrow> string \<Rightarrow> string stm" where
  "transferOrganization c org role =
     (if role \<noteq> ''owner'' \<or> oc_TargetUserID c = pr_UserID (oc_Actor c) then failS StoreErrStateConflict else
      bindS (queryS (transferTarget c org)) (\<lambda>target.
      case target of None \<Rightarrow> failS StoreErrStateConflict
      | Some _ \<Rightarrow>
        thenS (exec_stm (sql_set_org_role ''admin'' (oc_Now c) org (pr_UserID (oc_Actor c)))) (
        thenS (exec_stm (sql_set_org_role ''owner'' (oc_Now c) org (oc_TargetUserID c))) (
        thenS (appendOrganizationInvalidation (pr_DeploymentID (oc_Actor c)) org (oc_TargetUserID c)
                 False (oc_Now c)) (
        returnS org)))))"

definition activeOrgUsers :: "string \<Rightarrow> db \<Rightarrow> string list" where
  "activeOrgUsers org s = map om_user_id
     (filter (\<lambda>x. om_organization_id x = org \<and> om_status x = ''active'') (organization_memberships s))"

definition renameOrganization :: "OrganizationCommand \<Rightarrow> string \<Rightarrow> string \<Rightarrow> string stm" where
  "renameOrganization c org role =
     (if role \<noteq> ''owner'' \<and> role \<noteq> ''admin'' then failS StoreErrStateConflict else
      thenS (exec_stm (sql_rename_organization (oc_Name c) (oc_Now c) org)) (
      bindS (queryS (activeOrgUsers org)) (\<lambda>us.
      thenS (forS (\<lambda>u. appendOrganizationInvalidation (pr_DeploymentID (oc_Actor c)) org u False
               (oc_Now c)) us) (
      returnS org))))"

definition dissolveOrganization :: "OrganizationCommand \<Rightarrow> string \<Rightarrow> string \<Rightarrow> string stm" where
  "dissolveOrganization c org role =
     (if role \<noteq> ''owner'' then failS StoreErrStateConflict else
      bindS (queryS (activeOrgUsers org)) (\<lambda>us.
      thenS (forS (\<lambda>u. revokeOrganizationMember (pr_DeploymentID (oc_Actor c)) org u (oc_Now c)) us) (
      thenS (exec_stm (sql_disable_organization (oc_Now c) org)) (
      returnS org))))"

definition organizationAction :: "OrganizationCommand \<Rightarrow> string \<Rightarrow> string \<Rightarrow> string stm" where
  "organizationAction c org role =
     (if oc_Action c = ''create'' then createOrganization c
      else if oc_Action c = ''join'' then joinByInvitation c
      else if oc_Action c = ''leave'' then leaveOrganization c org role
      else if oc_Action c = ''transfer'' then transferOrganization c org role
      else if oc_Action c = ''rename'' then renameOrganization c org role
      else if oc_Action c = ''dissolve'' then dissolveOrganization c org role
      else failS StoreErrStateConflict)"

definition organizationGuard :: "OrganizationCommand \<Rightarrow> string \<Rightarrow> bool" where
  "organizationGuard c org \<longleftrightarrow>
     (if oc_Action c = ''create'' \<or> oc_Action c = ''join'' then org = ''''
      else org \<noteq> '''' \<and> org = pr_OrganizationID (oc_Actor c))"

definition actorEnabled :: "OrganizationCommand \<Rightarrow> db \<Rightarrow> bool" where
  "actorEnabled c s \<longleftrightarrow> membershipActive s (pr_DeploymentID (oc_Actor c)) (pr_UserID (oc_Actor c)) \<and>
     userActive s (pr_UserID (oc_Actor c)) \<and> deploymentActive s (pr_DeploymentID (oc_Actor c))"

text \<open>What the code knows of the actor when it runs an action, and the event that closes one.\<close>

definition actorOrg :: "OrganizationCommand \<Rightarrow> db \<Rightarrow> org_membership_row option" where
  "actorOrg c s = currentOrganization s (pr_DeploymentID (oc_Actor c)) (pr_UserID (oc_Actor c))"

definition currentID :: "org_membership_row option \<Rightarrow> string" where
  "currentID found = (case found of None \<Rightarrow> '''' | Some x \<Rightarrow> om_organization_id x)"

definition currentRole :: "org_membership_row option \<Rightarrow> string" where
  "currentRole found = (case found of None \<Rightarrow> '''' | Some x \<Rightarrow> om_role x)"

definition closingEvent :: "OrganizationCommand \<Rightarrow> string \<Rightarrow> unit stm" where
  "closingEvent c org =
     (if oc_Action c = ''create'' \<or> oc_Action c = ''join'' \<or> oc_Action c = ''transfer''
      then appendOrganizationInvalidation (pr_DeploymentID (oc_Actor c)) org
             (pr_UserID (oc_Actor c)) False (oc_Now c)
      else returnS ())"

definition mutateOrganizationBody :: "OrganizationCommand \<Rightarrow> unit outcome stm" where
  "mutateOrganizationBody c =
     thenS beginIdentityWrite (
     bindS (queryS (actorEnabled c)) (\<lambda>active.
     if \<not> active then failS StoreErrStateConflict else
     bindS (queryS (actorOrg c)) (\<lambda>found.
     if \<not> organizationGuard c (currentID found) then failS StoreErrStateConflict else
     bindS (organizationAction c (currentID found) (currentRole found)) (\<lambda>org.
     thenS (closingEvent c org) (
     returnS (Commit ()))))))"

definition repo_MutateOrganization :: "OrganizationCommand \<Rightarrow> db \<Rightarrow> (store_error + unit) \<times> db" where
  "repo_MutateOrganization c = run_tx (mutateOrganizationBody c)"

text \<open>A call that succeeds has passed the guards, run its action and appended its event.\<close>

lemma MutateOrganization_Inr:
  "repo_MutateOrganization c s = (Inr r, t) \<longleftrightarrow> 1 \<in> set (control_state s) \<and> actorEnabled c s \<and>
     organizationGuard c (currentID (actorOrg c s)) \<and>
     (\<exists>org u. organizationAction c (currentID (actorOrg c s)) (currentRole (actorOrg c s)) s = Inr (org, u) \<and>
        closingEvent c org u = Inr ((), t))"
  unfolding repo_MutateOrganization_def run_tx_Inr mutateOrganizationBody_def by (auto split: if_splits)

lemma MutateOrganization_Inl: "repo_MutateOrganization c s = (Inl e, t) \<Longrightarrow> t = s"
  by (simp add: repo_MutateOrganization_def run_tx_Inl)

section \<open>Registration\<close>

definition repo_RegisterAccount :: "NewMemberRecord \<Rightarrow> db \<Rightarrow> (store_error + unit) \<times> db" where
  "repo_RegisterAccount r = run_tx (
     thenS beginIdentityWrite (
     bindS (queryS (\<lambda>s. sql_first (sort_key d_created_at
        (filter (\<lambda>d. d_status d = ''active'') (deployments s))))) (\<lambda>first.
     case first of None \<Rightarrow> failS StoreErrNotFound
     | Some d \<Rightarrow>
       bindS (insertUserIfAbsent (newUserRow (nm_UserID r) (nm_Username r) (nm_DisplayName r)
          (nm_CreatedAt r))) (\<lambda>count.
       if count \<noteq> 1 then failS StoreErrUsernameConflict else
       thenS (exec_stm (sql_insert_identity (newIdentityRow (nm_IdentityID r) (nm_UserID r)
          (nm_Username r) (nm_CreatedAt r)))) (
       thenS (exec_stm (sql_insert_credential (newCredentialRow (nm_CredentialID r) (nm_UserID r)
          (nm_PasswordHash r) (nm_CreatedAt r)))) (
       thenS (exec_stm (sql_insert_membership (newMembershipRow (d_deployment_id d) (nm_UserID r)
          ''member'' False (nm_CreatedAt r)))) (
       returnS (Commit ()))))))))"

section \<open>Stability\<close>

lemma keeps_requireOrganizationManager [keeps_rules]: "keeps P (requireOrganizationManager a b c)"
  unfolding requireOrganizationManager_def by (intro keeps_rules)

context quiet_stable begin

lemma keeps_org_event: "keeps P (appendOrganizationInvalidation a b c d e)"
  unfolding appendOrganizationInvalidation_def by (intro keeps_rules quiet_laws)

lemma RegisterAccount_stable: "P s \<Longrightarrow> P (snd (repo_RegisterAccount r s))"
  unfolding repo_RegisterAccount_def
  by (rule keeps_tx, assumption, intro keeps_rules quiet_laws keeps_insertUser)

end

context org_stable begin

lemma keeps_revokeOrganizationMember: "keeps P (revokeOrganizationMember a b c d)"
  unfolding revokeOrganizationMember_def
  by (intro keeps_rules quiet_laws org_laws keeps_org_event)

lemma keeps_organizationAction: "keeps P (organizationAction c org role)"
  unfolding organizationAction_def createOrganization_def joinByInvitation_def leaveOrganization_def
    transferOrganization_def renameOrganization_def dissolveOrganization_def joinOrganization_def
  by (intro keeps_rules quiet_laws org_laws keeps_org_event keeps_revokeOrganizationMember)

lemma MutateOrganization_stable: "P s \<Longrightarrow> P (snd (repo_MutateOrganization c s))"
  unfolding repo_MutateOrganization_def mutateOrganizationBody_def closingEvent_def Let_def
  by (rule keeps_tx, assumption, intro keeps_rules keeps_organizationAction keeps_org_event)

end

end
