(* ===== verification/Repo_Member.thy ===== *)
theory Repo_Member
  imports Repo_Organization
begin

text \<open>
  \<open>member.go\<close> and \<open>deployment_member.go\<close> of \<open>internal/storage/auth\<close>: the members of an
  organization and of a deployment, their listings, and the two updates that change roles and
  status under a live permission check and an optimistic version check.
\<close>

section \<open>Reading members\<close>

record DeploymentMemberRecord =
  dm_DeploymentID :: string
  dm_UserID :: string
  dm_Username :: string
  dm_DisplayName :: string
  dm_Role :: string
  dm_MembershipStatus :: string
  dm_WebAccessDisabled :: bool
  dm_Avatar :: string
  dm_LastLoginAt :: "time option"
  dm_CreatedAt :: time
  dm_UpdatedAt :: time

text \<open>\<open>scanDeploymentMember\<close>: the version of a member is the later of both update times.\<close>

definition scanDeploymentMember ::
  "string \<Rightarrow> user_row \<Rightarrow> string \<Rightarrow> string \<Rightarrow> time \<Rightarrow> bool \<Rightarrow> DeploymentMemberRecord" where
  "scanDeploymentMember dep u role status membershipUpdatedAt webDisabled =
     \<lparr>dm_DeploymentID = dep, dm_UserID = u_user_id u, dm_Username = u_username u,
      dm_DisplayName = u_display_name u, dm_Role = role, dm_MembershipStatus = status,
      dm_WebAccessDisabled = webDisabled, dm_Avatar = nullString (u_avatar u),
      dm_LastLoginAt = u_last_login_at u, dm_CreatedAt = u_created_at u,
      dm_UpdatedAt = (if After membershipUpdatedAt (u_updated_at u) then membershipUpdatedAt
                      else u_updated_at u)\<rparr>"

definition organizationMemberOf :: "db \<Rightarrow> string \<Rightarrow> membership_row \<Rightarrow> DeploymentMemberRecord option" where
  "organizationMemberOf s org m =
     (case findUser s (m_user_id m) of None \<Rightarrow> None
      | Some u \<Rightarrow>
        (case findOrgMembership s org (m_user_id m) of None \<Rightarrow> None
         | Some x \<Rightarrow> Some (scanDeploymentMember (m_deployment_id m) u (om_role x) (om_status x)
             (om_updated_at x) (m_web_access_disabled m))))"

definition deploymentMemberOf :: "db \<Rightarrow> membership_row \<Rightarrow> DeploymentMemberRecord option" where
  "deploymentMemberOf s m =
     (case findUser s (m_user_id m) of None \<Rightarrow> None
      | Some u \<Rightarrow> Some (scanDeploymentMember (m_deployment_id m) u (m_role m) (m_status m)
          (m_updated_at m) (m_web_access_disabled m)))"

definition roleRank :: "string \<Rightarrow> nat" where
  "roleRank role = (if role = ''owner'' then 0 else if role = ''admin'' then 1 else 2)"

definition repo_ListMembers :: "string \<Rightarrow> string \<Rightarrow> db \<Rightarrow> DeploymentMemberRecord list" where
  "repo_ListMembers deploymentID organizationID s =
     sort_key (\<lambda>r. (roleRank (dm_Role r), dm_Username r))
       (List.map_filter (organizationMemberOf s organizationID)
          (filter (\<lambda>m. m_deployment_id m = deploymentID) (deployment_memberships s)))"

definition activeOrgMember :: "db \<Rightarrow> string \<Rightarrow> string \<Rightarrow> membership_row \<Rightarrow> bool" where
  "activeOrgMember s dep org m \<longleftrightarrow> m_deployment_id m = dep \<and> m_status m = ''active'' \<and>
     userActive s (m_user_id m) \<and> orgActiveIn s dep org \<and>
     (case findOrgMembership s org (m_user_id m) of None \<Rightarrow> False | Some x \<Rightarrow> om_status x = ''active'')"

definition repo_ListActiveMembers :: "string \<Rightarrow> string \<Rightarrow> db \<Rightarrow> DeploymentMemberRecord list" where
  "repo_ListActiveMembers deploymentID organizationID s =
     sort_key (\<lambda>r. (dm_DisplayName r, dm_Username r))
       (List.map_filter (deploymentMemberOf s)
          (filter (activeOrgMember s deploymentID organizationID) (deployment_memberships s)))"

definition queryOrganizationMember ::
  "string \<Rightarrow> string \<Rightarrow> string \<Rightarrow> db \<Rightarrow> store_error + DeploymentMemberRecord" where
  "queryOrganizationMember deploymentID organizationID userID s =
     (case findMembership s deploymentID userID of None \<Rightarrow> Inl StoreErrNotFound
      | Some m \<Rightarrow> (case organizationMemberOf s organizationID m of
          None \<Rightarrow> Inl StoreErrNotFound | Some r \<Rightarrow> Inr r))"

definition queryDeploymentMember ::
  "string \<Rightarrow> string \<Rightarrow> db \<Rightarrow> store_error + DeploymentMemberRecord" where
  "queryDeploymentMember deploymentID userID s =
     (case findMembership s deploymentID userID of None \<Rightarrow> Inl StoreErrNotFound
      | Some m \<Rightarrow> (case deploymentMemberOf s m of
          None \<Rightarrow> Inl StoreErrNotFound | Some r \<Rightarrow> Inr r))"

definition repo_MemberByID ::
  "string \<Rightarrow> string \<Rightarrow> string \<Rightarrow> db \<Rightarrow> store_error + DeploymentMemberRecord" where
  "repo_MemberByID deploymentID organizationID userID s =
     queryOrganizationMember deploymentID organizationID userID s"

definition repo_DeploymentMemberByID :: "string \<Rightarrow> string \<Rightarrow> db \<Rightarrow> store_error + DeploymentMemberRecord" where
  "repo_DeploymentMemberByID deploymentID userID s = queryDeploymentMember deploymentID userID s"

definition repo_ListDeploymentMembers :: "string \<Rightarrow> db \<Rightarrow> DeploymentMemberRecord list" where
  "repo_ListDeploymentMembers deploymentID s =
     sort_key (\<lambda>r. (roleRank (dm_Role r), dm_Username r))
       (List.map_filter (deploymentMemberOf s)
          (filter (\<lambda>m. m_deployment_id m = deploymentID) (deployment_memberships s)))"

text \<open>A query that fails with its own error inside a transaction.\<close>

definition liftS :: "(db \<Rightarrow> store_error + 'a) \<Rightarrow> 'a stm" where
  "liftS q = (\<lambda>s. case q s of Inl e \<Rightarrow> Inl e | Inr a \<Rightarrow> Inr (a, s))"

lemma liftS_Inr [simp]: "liftS q s = Inr (a, t) \<longleftrightarrow> t = s \<and> q s = Inr a"
  by (auto simp: liftS_def split: sum.splits)

lemma liftS_Inl [simp]: "liftS q s = Inl e \<longleftrightarrow> q s = Inl e"
  by (auto simp: liftS_def split: sum.splits)

lemma keeps_lift [keeps_rules]: "keeps P (liftS q)"
  by (rule keepsI) simp

section \<open>Updating a member\<close>

text \<open>The change of display name, shared by both updates: it writes and notifies only on change.\<close>

definition changeDisplayName :: "string \<Rightarrow> string \<Rightarrow> string \<Rightarrow> time \<Rightarrow> unit stm" where
  "changeDisplayName userID oldName nextName now =
     (if nextName = oldName then returnS () else
      bindS (queryS (\<lambda>s. count_where (\<lambda>u. u_user_id u = userID \<and> u_display_name u = oldName) (users s)))
      (\<lambda>count. thenS (exec_stm (sql_update_display_name nextName now userID oldName)) (
        if count \<noteq> 1 then failS StoreErrStateConflict
        else appendProfileInvalidations userID now)))"

definition updatedMember ::
  "DeploymentMemberRecord \<Rightarrow> string \<Rightarrow> string \<Rightarrow> string \<Rightarrow> time \<Rightarrow> DeploymentMemberRecord" where
  "updatedMember target role status name now =
     target\<lparr>dm_Role := role, dm_MembershipStatus := status, dm_DisplayName := name, dm_UpdatedAt := now\<rparr>"

definition memberEffects ::
  "string \<Rightarrow> string \<Rightarrow> string \<Rightarrow> DeploymentMemberRecord \<Rightarrow> string \<Rightarrow> string \<Rightarrow> string \<Rightarrow> time \<Rightarrow> unit stm" where
  "memberEffects deploymentID organizationID userID target nextRole nextStatus nextName now =
     thenS (changeDisplayName userID (dm_DisplayName target) nextName now) (
     thenS (if nextStatus = ''revoked''
            then revokeOrganizationMember deploymentID organizationID userID now else returnS ()) (
     if nextStatus \<noteq> ''revoked'' \<and>
        (dm_Role target \<noteq> nextRole \<or> dm_MembershipStatus target \<noteq> nextStatus)
     then appendOrganizationInvalidation deploymentID organizationID userID
            (nextStatus \<noteq> ''active'') now
     else returnS ()))"

definition repo_UpdateMember ::
  "string \<Rightarrow> string \<Rightarrow> string \<Rightarrow> string \<Rightarrow> string \<Rightarrow> string \<Rightarrow> int \<Rightarrow> string \<Rightarrow> string \<Rightarrow> string \<Rightarrow> time \<Rightarrow>
     db \<Rightarrow> (store_error + DeploymentMemberRecord) \<times> db" where
  "repo_UpdateMember deploymentID organizationID userID actorUserID expectedRole expectedStatus
       expectedVersion nextRole nextStatus nextName now = run_tx (
     thenS beginIdentityWrite (
     thenS (lockDeployment deploymentID) (
     bindS (liftS (queryOrganizationMember deploymentID organizationID userID)) (\<lambda>target.
     if dm_Role target \<noteq> expectedRole \<or> dm_MembershipStatus target \<noteq> expectedStatus \<or>
        UnixMicro (dm_UpdatedAt target) \<noteq> expectedVersion then failS StoreErrStateConflict else
     if dm_MembershipStatus target \<noteq> ''active'' then failS StoreErrStateConflict else
     thenS (requireOrganizationManager organizationID actorUserID (dm_Role target)) (
     thenS (requireOrganizationManager organizationID actorUserID nextRole) (
     if actorUserID = userID \<and> nextStatus = ''revoked'' then failS StoreErrStateConflict else
     bindS (queryS (\<lambda>s. count_where (is_org_member organizationID userID) (organization_memberships s)))
     (\<lambda>count.
     thenS (exec_stm (sql_update_org_membership nextRole nextStatus now userID organizationID)) (
     if count \<noteq> 1 then failS StoreErrStateConflict else
     thenS (memberEffects deploymentID organizationID userID target nextRole nextStatus nextName now) (
     returnS (Commit (updatedMember target nextRole nextStatus nextName now)))))))))))"

section \<open>Deployment members\<close>

definition liveRole :: "db \<Rightarrow> string \<Rightarrow> string \<Rightarrow> string option" where
  "liveRole s dep uid =
     (case findMembership s dep uid of None \<Rightarrow> None
      | Some m \<Rightarrow> if m_status m = ''active'' \<and> userActive s uid \<and> deploymentActive s dep
          then Some (m_role m) else None)"

definition requireDeploymentManager :: "string \<Rightarrow> string \<Rightarrow> string \<Rightarrow> unit stm" where
  "requireDeploymentManager deploymentID userID targetRole =
     bindS (queryS (\<lambda>s. liveRole s deploymentID userID))
       (\<lambda>found. case found of None \<Rightarrow> failS StoreErrStateConflict
        | Some role \<Rightarrow> if mayManage role targetRole then returnS () else failS StoreErrStateConflict)"

definition newMember :: "string \<Rightarrow> string \<Rightarrow> string \<Rightarrow> string \<Rightarrow> string \<Rightarrow> time \<Rightarrow> DeploymentMemberRecord" where
  "newMember dep uid username displayName role now =
     \<lparr>dm_DeploymentID = dep, dm_UserID = uid, dm_Username = username, dm_DisplayName = displayName,
      dm_Role = role, dm_MembershipStatus = ''active'', dm_WebAccessDisabled = False, dm_Avatar = '''',
      dm_LastLoginAt = None, dm_CreatedAt = now, dm_UpdatedAt = now\<rparr>"

definition repo_CreateDeploymentMember ::
  "string \<Rightarrow> NewMemberRecord \<Rightarrow> db \<Rightarrow> (store_error + DeploymentMemberRecord) \<times> db" where
  "repo_CreateDeploymentMember actorUserID r = run_tx (
     thenS beginIdentityWrite (
     thenS (requireDeploymentManager (nm_DeploymentID r) actorUserID (nm_Role r)) (
     thenS (lockDeployment (nm_DeploymentID r)) (
     bindS (insertUserIfAbsent (newUserRow (nm_UserID r) (nm_Username r) (nm_DisplayName r)
        (nm_CreatedAt r))) (\<lambda>count.
     if count \<noteq> 1 then failS StoreErrUsernameConflict else
     thenS (exec_stm (sql_insert_identity (newIdentityRow (nm_IdentityID r) (nm_UserID r)
        (nm_Username r) (nm_CreatedAt r)))) (
     thenS (exec_stm (sql_insert_credential (newCredentialRow (nm_CredentialID r) (nm_UserID r)
        (nm_PasswordHash r) (nm_CreatedAt r)))) (
     thenS (exec_stm (sql_insert_membership (newMembershipRow (nm_DeploymentID r) (nm_UserID r)
        (nm_Role r) False (nm_CreatedAt r)))) (
     returnS (Commit (newMember (nm_DeploymentID r) (nm_UserID r) (nm_Username r) (nm_DisplayName r)
        (nm_Role r) (nm_CreatedAt r)))))))))))"

definition deploymentEffects ::
  "string \<Rightarrow> string \<Rightarrow> DeploymentMemberRecord \<Rightarrow> string \<Rightarrow> string \<Rightarrow> string \<Rightarrow> time \<Rightarrow> unit stm" where
  "deploymentEffects deploymentID userID target nextRole nextStatus nextName now =
     thenS (changeDisplayName userID (dm_DisplayName target) nextName now) (
     thenS (if nextStatus = ''revoked''
            then exec_stm (sql_revoke_user_sessions now deploymentID userID) else returnS ()) (
     if dm_Role target \<noteq> nextRole \<or> dm_MembershipStatus target \<noteq> nextStatus
     then appendIdentityInvalidation deploymentID userID '''' ''principal_changed'' now
     else returnS ()))"

definition repo_UpdateDeploymentMember ::
  "string \<Rightarrow> string \<Rightarrow> string \<Rightarrow> string \<Rightarrow> string \<Rightarrow> int \<Rightarrow> string \<Rightarrow> string \<Rightarrow> string \<Rightarrow> time \<Rightarrow>
     db \<Rightarrow> (store_error + DeploymentMemberRecord) \<times> db" where
  "repo_UpdateDeploymentMember deploymentID userID actorUserID expectedRole expectedStatus
       expectedVersion nextRole nextStatus nextName now = run_tx (
     thenS beginIdentityWrite (
     thenS (lockDeployment deploymentID) (
     bindS (liftS (queryDeploymentMember deploymentID userID)) (\<lambda>target.
     if dm_Role target \<noteq> expectedRole \<or> dm_MembershipStatus target \<noteq> expectedStatus \<or>
        UnixMicro (dm_UpdatedAt target) \<noteq> expectedVersion then failS StoreErrStateConflict else
     thenS (requireDeploymentManager deploymentID actorUserID (dm_Role target)) (
     thenS (requireDeploymentManager deploymentID actorUserID nextRole) (
     if actorUserID = userID \<and> nextStatus = ''revoked'' then failS StoreErrStateConflict else
     thenS (exec_stm (sql_update_membership nextRole nextStatus now deploymentID userID)) (
     thenS (deploymentEffects deploymentID userID target nextRole nextStatus nextName now) (
     returnS (Commit (updatedMember target nextRole nextStatus nextName now))))))))))"

section \<open>What a successful update has checked\<close>

lemma requireOrganizationManager_Inr [simp]:
  "requireOrganizationManager org u r s = Inr (x, t) \<longleftrightarrow>
     t = s \<and> (\<exists>role. liveOrgRole s org u = Some role \<and> mayManage role r)"
  by (auto simp: requireOrganizationManager_def split: option.splits if_splits)

lemma requireDeploymentManager_Inr [simp]:
  "requireDeploymentManager dep u r s = Inr (x, t) \<longleftrightarrow>
     t = s \<and> (\<exists>role. liveRole s dep u = Some role \<and> mayManage role r)"
  by (auto simp: requireDeploymentManager_def split: option.splits if_splits)

definition expectedMember :: "DeploymentMemberRecord \<Rightarrow> string \<Rightarrow> string \<Rightarrow> int \<Rightarrow> bool" where
  "expectedMember target role status version \<longleftrightarrow> dm_Role target = role \<and>
     dm_MembershipStatus target = status \<and> UnixMicro (dm_UpdatedAt target) = version"

lemma UpdateMember_Inr:
  "repo_UpdateMember dep org u actor er es ev nr ns nn now s = (Inr r, t) \<longleftrightarrow>
     (\<exists>target role. 1 \<in> set (control_state s) \<and> dep \<in> set (map d_deployment_id (deployments s)) \<and>
        queryOrganizationMember dep org u s = Inr target \<and> expectedMember target er es ev \<and>
        dm_MembershipStatus target = ''active'' \<and> liveOrgRole s org actor = Some role \<and>
        mayManage role (dm_Role target) \<and> mayManage role nr \<and> \<not> (actor = u \<and> ns = ''revoked'') \<and>
        count_where (is_org_member org u) (organization_memberships s) = 1 \<and>
        schema_ok (sql_update_org_membership nr ns now u org s) \<and>
        memberEffects dep org u target nr ns nn now (sql_update_org_membership nr ns now u org s)
          = Inr ((), t) \<and> r = updatedMember target nr ns nn now)"
  unfolding repo_UpdateMember_def run_tx_Inr expectedMember_def by (auto split: if_splits)

lemma UpdateMember_Inl: "repo_UpdateMember dep org u actor er es ev nr ns nn now s = (Inl e, t) \<Longrightarrow> t = s"
  unfolding repo_UpdateMember_def by (rule run_tx_fail)

lemma UpdateDeploymentMember_Inl:
  "repo_UpdateDeploymentMember dep u actor er es ev nr ns nn now s = (Inl e, t) \<Longrightarrow> t = s"
  unfolding repo_UpdateDeploymentMember_def by (rule run_tx_fail)

lemma UpdateDeploymentMember_Inr:
  "repo_UpdateDeploymentMember dep u actor er es ev nr ns nn now s = (Inr r, t) \<longleftrightarrow>
     (\<exists>target role. 1 \<in> set (control_state s) \<and> dep \<in> set (map d_deployment_id (deployments s)) \<and>
        queryDeploymentMember dep u s = Inr target \<and> expectedMember target er es ev \<and>
        liveRole s dep actor = Some role \<and> mayManage role (dm_Role target) \<and> mayManage role nr \<and>
        \<not> (actor = u \<and> ns = ''revoked'') \<and> schema_ok (sql_update_membership nr ns now dep u s) \<and>
        deploymentEffects dep u target nr ns nn now (sql_update_membership nr ns now dep u s)
          = Inr ((), t) \<and> r = updatedMember target nr ns nn now)"
  unfolding repo_UpdateDeploymentMember_def run_tx_Inr expectedMember_def by (auto split: if_splits)

section \<open>Stability\<close>

lemma keeps_requireDeploymentManager [keeps_rules]: "keeps P (requireDeploymentManager a b c)"
  unfolding requireDeploymentManager_def by (intro keeps_rules)

context quiet_stable begin

lemma keeps_changeDisplayName: "keeps P (changeDisplayName a b c d)"
  unfolding changeDisplayName_def by (intro keeps_rules quiet_laws keeps_profile)

lemma CreateDeploymentMember_stable: "P s \<Longrightarrow> P (snd (repo_CreateDeploymentMember a r s))"
  unfolding repo_CreateDeploymentMember_def
  by (rule keeps_tx, assumption, intro keeps_rules quiet_laws keeps_insertUser)

end

context org_stable begin

lemma UpdateMember_stable: "P s \<Longrightarrow> P (snd (repo_UpdateMember a b c d e f g h i j k s))"
  unfolding repo_UpdateMember_def memberEffects_def
  by (rule keeps_tx, assumption, intro keeps_rules quiet_laws org_laws keeps_changeDisplayName
      keeps_revokeOrganizationMember keeps_org_event)

end

context platform_stable begin

lemma UpdateDeploymentMember_stable: "P s \<Longrightarrow> P (snd (repo_UpdateDeploymentMember a b c d e f g h i j s))"
  unfolding repo_UpdateDeploymentMember_def deploymentEffects_def
  by (rule keeps_tx, assumption, intro keeps_rules quiet_laws platform_laws keeps_changeDisplayName
      keeps_append_event)

end

end
