(* ===== verification/Repo_Invitation.thy ===== *)
theory Repo_Invitation
  imports Repo_Member
begin

text \<open>
  \<open>invitation.go\<close> of \<open>internal/storage/auth\<close>: organization invitations, from their creation to one
  of the three ends (accepted, revoked, deleted), with the account that accepting one creates.
\<close>

section \<open>Reading invitations\<close>

record OrganizationInvitationRecord =
  ir_InvitationID :: string
  ir_DeploymentID :: string
  ir_OrganizationID :: string
  ir_OrganizationName :: string
  ir_TokenHash :: string
  ir_Role :: string
  ir_CreatedByUserID :: string
  ir_AcceptedByUserID :: string
  ir_ExpiresAt :: time
  ir_AcceptedAt :: "time option"
  ir_RevokedAt :: "time option"
  ir_CreatedAt :: time
  ir_UpdatedAt :: time

text \<open>\<open>invitationSelect\<close>: only invitations of active organizations of active deployments are seen.\<close>

definition scanOrganizationInvitation :: "db \<Rightarrow> invitation_row \<Rightarrow> OrganizationInvitationRecord option" where
  "scanOrganizationInvitation s i =
     (case findOrganization s (i_organization_id i) of None \<Rightarrow> None
      | Some x \<Rightarrow>
        if o_status x = ''active'' \<and> deploymentActive s (o_deployment_id x)
        then Some \<lparr>ir_InvitationID = i_invitation_id i, ir_DeploymentID = o_deployment_id x,
            ir_OrganizationID = i_organization_id i, ir_OrganizationName = o_name x,
            ir_TokenHash = i_token_hash i, ir_Role = i_role i,
            ir_CreatedByUserID = i_created_by_user_id i,
            ir_AcceptedByUserID = nullString (i_accepted_by_user_id i), ir_ExpiresAt = i_expires_at i,
            ir_AcceptedAt = i_accepted_at i, ir_RevokedAt = i_revoked_at i,
            ir_CreatedAt = i_created_at i, ir_UpdatedAt = i_updated_at i\<rparr>
        else None)"

definition selectInvitation ::
  "(invitation_row \<Rightarrow> bool) \<Rightarrow> db \<Rightarrow> store_error + OrganizationInvitationRecord" where
  "selectInvitation P s =
     (case sql_first (List.map_filter (scanOrganizationInvitation s) (filter P (organization_invitations s))) of
        None \<Rightarrow> Inl StoreErrInvitationInvalid | Some r \<Rightarrow> Inr r)"

definition repo_ListOrganizationInvitations :: "string \<Rightarrow> db \<Rightarrow> OrganizationInvitationRecord list" where
  "repo_ListOrganizationInvitations organizationID s =
     take 100 (sort_key (\<lambda>r. - ir_CreatedAt r)
       (List.map_filter (scanOrganizationInvitation s)
          (filter (\<lambda>i. i_organization_id i = organizationID) (organization_invitations s))))"

definition repo_OrganizationInvitationByToken ::
  "string \<Rightarrow> db \<Rightarrow> store_error + OrganizationInvitationRecord" where
  "repo_OrganizationInvitationByToken tokenHash s = selectInvitation (\<lambda>i. i_token_hash i = tokenHash) s"

definition repo_OrganizationInvitationByID ::
  "string \<Rightarrow> string \<Rightarrow> db \<Rightarrow> store_error + OrganizationInvitationRecord" where
  "repo_OrganizationInvitationByID organizationID invitationID s =
     selectInvitation (\<lambda>i. i_organization_id i = organizationID \<and> i_invitation_id i = invitationID) s"

section \<open>Creating and ending invitations\<close>

definition newInvitationRow :: "OrganizationInvitationRecord \<Rightarrow> invitation_row" where
  "newInvitationRow r = \<lparr>i_invitation_id = ir_InvitationID r, i_organization_id = ir_OrganizationID r,
     i_token_hash = ir_TokenHash r, i_role = ir_Role r, i_created_by_user_id = ir_CreatedByUserID r,
     i_accepted_by_user_id = None, i_expires_at = ir_ExpiresAt r, i_accepted_at = None,
     i_revoked_at = None, i_created_at = ir_CreatedAt r, i_updated_at = ir_UpdatedAt r\<rparr>"

definition repo_CreateOrganizationInvitation ::
  "OrganizationInvitationRecord \<Rightarrow> db \<Rightarrow> (store_error + OrganizationInvitationRecord) \<times> db" where
  "repo_CreateOrganizationInvitation r = run_tx (
     thenS beginIdentityWrite (
     thenS (requireOrganizationManager (ir_OrganizationID r) (ir_CreatedByUserID r) (ir_Role r)) (
     thenS (exec_stm (sql_insert_invitation (newInvitationRow r))) (
     returnS (Commit r)))))"

definition requireInvitationManager :: "string \<Rightarrow> string \<Rightarrow> string \<Rightarrow> unit stm" where
  "requireInvitationManager organizationID invitationID actorUserID =
     bindS (queryS (\<lambda>s. find (\<lambda>i. i_organization_id i = organizationID \<and> i_invitation_id i = invitationID)
       (organization_invitations s)))
     (\<lambda>found. case found of None \<Rightarrow> failS StoreErrInvitationInvalid
      | Some i \<Rightarrow> requireOrganizationManager organizationID actorUserID (i_role i))"

definition repo_RevokeOrganizationInvitation ::
  "string \<Rightarrow> string \<Rightarrow> string \<Rightarrow> time \<Rightarrow> db \<Rightarrow> (store_error + unit) \<times> db" where
  "repo_RevokeOrganizationInvitation organizationID invitationID actorUserID now = run_tx (
     thenS beginIdentityWrite (
     thenS (requireInvitationManager organizationID invitationID actorUserID) (
     bindS (queryS (\<lambda>s. count_where (\<lambda>i. i_organization_id i = organizationID \<and>
        i_invitation_id i = invitationID \<and> invitation_pending now i) (organization_invitations s))) (\<lambda>count.
     thenS (exec_stm (sql_revoke_invitation now organizationID invitationID)) (
     if count \<noteq> 1 then failS StoreErrInvitationInvalid else returnS (Commit ()))))))"

definition repo_DeleteOrganizationInvitation ::
  "string \<Rightarrow> string \<Rightarrow> string \<Rightarrow> time \<Rightarrow> db \<Rightarrow> (store_error + unit) \<times> db" where
  "repo_DeleteOrganizationInvitation organizationID invitationID actorUserID now = run_tx (
     thenS beginIdentityWrite (
     thenS (requireInvitationManager organizationID invitationID actorUserID) (
     bindS (queryS (\<lambda>s. count_where (\<lambda>i. i_organization_id i = organizationID \<and>
        i_invitation_id i = invitationID \<and> (i_accepted_at i \<noteq> None \<or> i_revoked_at i \<noteq> None \<or>
        i_expires_at i \<le> now)) (organization_invitations s))) (\<lambda>count.
     thenS (exec_stm (sql_delete_invitation now organizationID invitationID)) (
     if count \<noteq> 1 then failS StoreErrInvitationInvalid else returnS (Commit ()))))))"

section \<open>Accepting with a new account\<close>

record AcceptOrganizationInvitationRecord =
  ai_TokenHash :: string
  ai_UserID :: string
  ai_IdentityID :: string
  ai_CredentialID :: string
  ai_Username :: string
  ai_DisplayName :: string
  ai_PasswordHash :: string
  ai_AcceptedAt :: time

text \<open>The account of the invited user: \<open>count\<close> rows were added for the username.\<close>

definition acceptedAccount ::
  "AcceptOrganizationInvitationRecord \<Rightarrow> OrganizationInvitationRecord \<Rightarrow> unit stm" where
  "acceptedAccount r iv = (let now = ai_AcceptedAt r; uid = ai_UserID r in
     bindS (insertUserIfAbsent (newUserRow uid (ai_Username r) (ai_DisplayName r) now)) (\<lambda>count.
     if count \<noteq> 1 then failS StoreErrUsernameConflict else
     thenS (exec_stm (sql_insert_identity (newIdentityRow (ai_IdentityID r) uid (ai_Username r) now))) (
     thenS (exec_stm (sql_insert_credential (newCredentialRow (ai_CredentialID r) uid
        (ai_PasswordHash r) now))) (
     thenS (exec_stm (sql_insert_membership (newMembershipRow (ir_DeploymentID iv) uid ''member'' True now))) (
     exec_stm (sql_insert_org_membership
        (newOrgMembershipRow (ir_OrganizationID iv) uid (ir_Role iv) now)))))))"

text \<open>The claim: the update must have found the invitation still pending.\<close>

definition claimInvitation ::
  "AcceptOrganizationInvitationRecord \<Rightarrow> OrganizationInvitationRecord \<Rightarrow> unit stm" where
  "claimInvitation r iv =
     bindS (queryS (\<lambda>s. count_where (\<lambda>i. i_invitation_id i = ir_InvitationID iv \<and>
        invitation_pending (ai_AcceptedAt r) i) (organization_invitations s))) (\<lambda>claimed.
     thenS (exec_stm (sql_accept_invitation (ai_UserID r) (ai_AcceptedAt r) (ir_InvitationID iv))) (
     if claimed \<noteq> 1 then failS StoreErrInvitationInvalid else returnS ()))"

definition repo_AcceptOrganizationInvitation ::
  "AcceptOrganizationInvitationRecord \<Rightarrow> db \<Rightarrow> (store_error + DeploymentMemberRecord) \<times> db" where
  "repo_AcceptOrganizationInvitation r = run_tx (
     thenS beginIdentityWrite (
     bindS (liftS (selectInvitation (\<lambda>i. i_token_hash i = ai_TokenHash r))) (\<lambda>iv.
     if ir_AcceptedAt iv \<noteq> None \<or> ir_RevokedAt iv \<noteq> None \<or> \<not> After (ir_ExpiresAt iv) (ai_AcceptedAt r)
     then failS StoreErrInvitationInvalid else
     thenS (lockDeployment (ir_DeploymentID iv)) (
     thenS (acceptedAccount r iv) (
     thenS (claimInvitation r iv) (
     returnS (Commit (newMember (ir_DeploymentID iv) (ai_UserID r) (ai_Username r) (ai_DisplayName r)
        (ir_Role iv) (ai_AcceptedAt r)))))))))"

lemma AcceptOrganizationInvitation_Inr:
  "repo_AcceptOrganizationInvitation r s = (Inr m, t) \<longleftrightarrow>
     (\<exists>iv u. 1 \<in> set (control_state s) \<and>
        selectInvitation (\<lambda>i. i_token_hash i = ai_TokenHash r) s = Inr iv \<and>
        ir_AcceptedAt iv = None \<and> ir_RevokedAt iv = None \<and> ai_AcceptedAt r < ir_ExpiresAt iv \<and>
        ir_DeploymentID iv \<in> set (map d_deployment_id (deployments s)) \<and>
        acceptedAccount r iv s = Inr ((), u) \<and> claimInvitation r iv u = Inr ((), t) \<and>
        m = newMember (ir_DeploymentID iv) (ai_UserID r) (ai_Username r) (ai_DisplayName r)
          (ir_Role iv) (ai_AcceptedAt r))"
  unfolding repo_AcceptOrganizationInvitation_def run_tx_Inr
  by (auto simp: After_def split: if_splits)

lemma AcceptOrganizationInvitation_Inl:
  "repo_AcceptOrganizationInvitation r s = (Inl e, t) \<Longrightarrow> t = s"
  unfolding repo_AcceptOrganizationInvitation_def by (rule run_tx_fail)

lemma claimInvitation_Inr:
  "claimInvitation r iv s = Inr ((), t) \<longleftrightarrow>
     count_where (\<lambda>i. i_invitation_id i = ir_InvitationID iv \<and> invitation_pending (ai_AcceptedAt r) i)
       (organization_invitations s) = 1 \<and>
     t = sql_accept_invitation (ai_UserID r) (ai_AcceptedAt r) (ir_InvitationID iv) s \<and> schema_ok t"
  unfolding claimInvitation_def by auto

lemma acceptedAccount_Inr:
  "acceptedAccount r iv s = Inr ((), t) \<longleftrightarrow> (let now = ai_AcceptedAt r; uid = ai_UserID r;
       s1 = sql_insert_user (newUserRow uid (ai_Username r) (ai_DisplayName r) now) s;
       s2 = sql_insert_identity (newIdentityRow (ai_IdentityID r) uid (ai_Username r) now) s1;
       s3 = sql_insert_credential (newCredentialRow (ai_CredentialID r) uid (ai_PasswordHash r) now) s2;
       s4 = sql_insert_membership (newMembershipRow (ir_DeploymentID iv) uid ''member'' True now) s3 in
     ai_Username r \<notin> set (map u_username (users s)) \<and> schema_ok s1 \<and> schema_ok s2 \<and> schema_ok s3 \<and>
     schema_ok s4 \<and> schema_ok t \<and>
     t = sql_insert_org_membership (newOrgMembershipRow (ir_OrganizationID iv) uid (ir_Role iv) now) s4)"
  unfolding acceptedAccount_def insertUserIfAbsent_def Let_def
  by (auto split: if_splits simp: newUserRow_def)

lemma acceptedAccount_frame:
  assumes "acceptedAccount r iv s = Inr ((), t)"
  shows "organization_invitations t = organization_invitations s" and "schema_ok t"
proof -
  note unfolded = assms [unfolded acceptedAccount_Inr Let_def]
  from unfolded show "schema_ok t" by blast
  from unfolded have "t = sql_insert_org_membership
      (newOrgMembershipRow (ir_OrganizationID iv) (ai_UserID r) (ir_Role iv) (ai_AcceptedAt r))
      (sql_insert_membership (newMembershipRow (ir_DeploymentID iv) (ai_UserID r) ''member'' True (ai_AcceptedAt r))
      (sql_insert_credential (newCredentialRow (ai_CredentialID r) (ai_UserID r) (ai_PasswordHash r) (ai_AcceptedAt r))
      (sql_insert_identity (newIdentityRow (ai_IdentityID r) (ai_UserID r) (ai_Username r) (ai_AcceptedAt r))
      (sql_insert_user (newUserRow (ai_UserID r) (ai_Username r) (ai_DisplayName r) (ai_AcceptedAt r)) s))))"
    by blast
  then show "organization_invitations t = organization_invitations s"
    by (simp add: sql_insert_org_membership_def sql_insert_membership_def sql_insert_credential_def
        sql_insert_identity_def sql_insert_user_def)
qed

section \<open>Stability\<close>

lemma keeps_requireInvitationManager [keeps_rules]: "keeps P (requireInvitationManager a b c)"
  unfolding requireInvitationManager_def by (intro keeps_rules)

context quiet_stable begin

lemma CreateOrganizationInvitation_stable:
  assumes "\<And>s. P s \<Longrightarrow> schema_ok (sql_insert_invitation (newInvitationRow r) s) \<Longrightarrow>
      P (sql_insert_invitation (newInvitationRow r) s)" and "P s"
  shows "P (snd (repo_CreateOrganizationInvitation r s))"
  unfolding repo_CreateOrganizationInvitation_def
  by (rule keeps_tx, rule assms(2), intro keeps_rules assms(1))

lemma RevokeOrganizationInvitation_stable:
  "P s \<Longrightarrow> P (snd (repo_RevokeOrganizationInvitation a b c d s))"
  unfolding repo_RevokeOrganizationInvitation_def
  by (rule keeps_tx, assumption, intro keeps_rules quiet_laws)

lemma DeleteOrganizationInvitation_stable:
  "P s \<Longrightarrow> P (snd (repo_DeleteOrganizationInvitation a b c d s))"
  unfolding repo_DeleteOrganizationInvitation_def
  by (rule keeps_tx, assumption, intro keeps_rules quiet_laws)

end

context org_stable begin

lemma AcceptOrganizationInvitation_stable:
  "P s \<Longrightarrow> P (snd (repo_AcceptOrganizationInvitation r s))"
  unfolding repo_AcceptOrganizationInvitation_def acceptedAccount_def claimInvitation_def Let_def
  by (rule keeps_tx, assumption, intro keeps_rules quiet_laws org_laws keeps_insertUser)

end

end
