(* ===== verification/Repo_Session.thy ===== *)
theory Repo_Session
  imports Repo_Invitation
begin

text \<open>
  \<open>session.go\<close> of \<open>internal/storage/auth\<close>: the credentials a login reads, and the life of a
  browser session (creation with the purge of dead ones, revocation, resolution to a principal).
\<close>

section \<open>Organization columns of a principal\<close>

text \<open>
  Two left joins: the user's active membership, and its organization if that is active and in
  the same deployment. The role column comes from the first join alone.
\<close>

definition activeOrgMembership :: "db \<Rightarrow> string \<Rightarrow> org_membership_row option" where
  "activeOrgMembership s uid = sql_first
     (filter (\<lambda>x. om_user_id x = uid \<and> om_status x = ''active'') (organization_memberships s))"

definition joinedOrganization :: "db \<Rightarrow> string \<Rightarrow> string \<Rightarrow> organization_row option" where
  "joinedOrganization s dep uid =
     (case activeOrgMembership s uid of None \<Rightarrow> None
      | Some x \<Rightarrow> find (\<lambda>y. o_organization_id y = om_organization_id x \<and> o_deployment_id y = dep \<and>
          o_status y = ''active'') (organizations s))"

definition principalOf ::
  "db \<Rightarrow> user_row \<Rightarrow> membership_row \<Rightarrow> string \<Rightarrow> string \<Rightarrow> PrincipalRecord" where
  "principalOf s u m authMethod sessionID =
     \<lparr>pr_WebAccessDisabled = m_web_access_disabled m,
      pr_OrganizationRole = (case activeOrgMembership s (u_user_id u) of None \<Rightarrow> '''' | Some x \<Rightarrow> om_role x),
      pr_DeploymentID = m_deployment_id m,
      pr_OrganizationID = (case joinedOrganization s (m_deployment_id m) (u_user_id u) of
          None \<Rightarrow> '''' | Some y \<Rightarrow> o_organization_id y),
      pr_OrganizationName = (case joinedOrganization s (m_deployment_id m) (u_user_id u) of
          None \<Rightarrow> '''' | Some y \<Rightarrow> o_name y),
      pr_UserID = u_user_id u, pr_Username = u_username u, pr_DisplayName = u_display_name u,
      pr_Role = m_role m, pr_Avatar = nullString (u_avatar u), pr_AuthMethod = authMethod,
      pr_SessionID = sessionID\<rparr>"

section \<open>Login\<close>

record LoginRecord =
  lr_Principal :: PrincipalRecord
  lr_PasswordHash :: string
  lr_UserStatus :: string
  lr_MembershipState :: string

definition findCredential :: "db \<Rightarrow> string \<Rightarrow> credential_row option" where
  "findCredential s uid = find (\<lambda>c. c_user_id c = uid) (password_credentials s)"

definition repo_LoginRecord :: "string \<Rightarrow> db \<Rightarrow> LoginRecord option" where
  "repo_LoginRecord username s =
     (case find (\<lambda>u. u_username u = username) (users s) of None \<Rightarrow> None
      | Some u \<Rightarrow>
        (case findCredential s (u_user_id u) of None \<Rightarrow> None
         | Some c \<Rightarrow>
           (case sql_first (sort_key m_created_at (filter (\<lambda>m. m_user_id m = u_user_id u \<and>
                   deploymentActive s (m_deployment_id m)) (deployment_memberships s))) of
              None \<Rightarrow> None
            | Some m \<Rightarrow> Some \<lparr>lr_Principal = principalOf s u m '''' '''',
                lr_PasswordHash = c_password_hash c, lr_UserStatus = u_status u,
                lr_MembershipState = m_status m\<rparr>)))"

section \<open>Sessions\<close>

record SessionRecord =
  sr_SessionID :: string
  sr_TokenHash :: string
  sr_Principal :: PrincipalRecord
  sr_ExpiresAt :: time
  sr_ClientIP :: string
  sr_UserAgent :: string
  sr_CreatedAt :: time

definition newSessionRow :: "SessionRecord \<Rightarrow> session_row" where
  "newSessionRow r = \<lparr>s_session_id = sr_SessionID r, s_deployment_id = pr_DeploymentID (sr_Principal r),
     s_user_id = pr_UserID (sr_Principal r), s_session_token_hash = sr_TokenHash r,
     s_auth_method = pr_AuthMethod (sr_Principal r), s_expires_at = sr_ExpiresAt r,
     s_last_seen_at = sr_CreatedAt r, s_client_ip = nullableString (sr_ClientIP r),
     s_user_agent = nullableString (sr_UserAgent r), s_revoked_at = None,
     s_created_at = sr_CreatedAt r, s_updated_at = sr_CreatedAt r\<rparr>"

definition repo_CreateSession :: "SessionRecord \<Rightarrow> db \<Rightarrow> (store_error + unit) \<times> db" where
  "repo_CreateSession r = run_tx (
     thenS (exec_stm (sql_purge_sessions (sr_CreatedAt r))) (
     thenS (exec_stm (sql_insert_session (newSessionRow r))) (
     thenS (exec_stm (sql_update_last_login (sr_CreatedAt r) (pr_UserID (sr_Principal r)))) (
     returnS (Commit ())))))"

record RevokedSessionRecord =
  rs_DeploymentID :: string
  rs_UserID :: string
  rs_SessionID :: string

text \<open>\<open>UPDATE ... RETURNING\<close>: the matching row is read before the update.\<close>

definition repo_RevokeSession ::
  "string \<Rightarrow> time \<Rightarrow> db \<Rightarrow> (store_error + RevokedSessionRecord option) \<times> db" where
  "repo_RevokeSession tokenHash now = run_tx (
     thenS beginIdentityWrite (
     bindS (queryS (\<lambda>s. find (\<lambda>x. s_session_token_hash x = tokenHash \<and> s_revoked_at x = None) (sessions s)))
     (\<lambda>found. case found of None \<Rightarrow> returnS (Rollback None)
      | Some x \<Rightarrow>
        thenS (exec_stm (sql_revoke_session now tokenHash)) (
        thenS (appendIdentityInvalidation (s_deployment_id x) (s_user_id x) (s_session_id x)
                 ''session_revoked'' now) (
        returnS (Commit (Some \<lparr>rs_DeploymentID = s_deployment_id x, rs_UserID = s_user_id x,
           rs_SessionID = s_session_id x\<rparr>)))))))"

definition sessionPrincipal :: "db \<Rightarrow> session_row \<Rightarrow> PrincipalRecord option" where
  "sessionPrincipal s x =
     (if s_revoked_at x \<noteq> None \<or> \<not> deploymentActive s (s_deployment_id x) then None else
      case findUser s (s_user_id x) of None \<Rightarrow> None
      | Some u \<Rightarrow>
        (case findMembership s (s_deployment_id x) (s_user_id x) of None \<Rightarrow> None
         | Some m \<Rightarrow> if u_status u = ''active'' \<and> m_status m = ''active''
             then Some (principalOf s u m (s_auth_method x) (s_session_id x)) else None))"

definition resolveSession :: "(session_row \<Rightarrow> bool) \<Rightarrow> db \<Rightarrow> PrincipalRecord option" where
  "resolveSession predicate s =
     sql_first (List.map_filter (sessionPrincipal s) (filter predicate (sessions s)))"

definition repo_ResolveSessionByTokenHash :: "string \<Rightarrow> time \<Rightarrow> db \<Rightarrow> PrincipalRecord option" where
  "repo_ResolveSessionByTokenHash tokenHash now s =
     resolveSession (\<lambda>x. s_session_token_hash x = tokenHash \<and> now < s_expires_at x) s"

definition repo_ResolveSessionByID :: "string \<Rightarrow> time \<Rightarrow> db \<Rightarrow> PrincipalRecord option" where
  "repo_ResolveSessionByID sessionID now s =
     resolveSession (\<lambda>x. s_session_id x = sessionID \<and> now < s_expires_at x) s"

text \<open>
  The owner of a node: the session that registered it, whether or not it has expired, as long
  as neither is revoked.
\<close>

definition repo_ResolveNodeOwner :: "node_row \<Rightarrow> db \<Rightarrow> PrincipalRecord option" where
  "repo_ResolveNodeOwner node s =
     resolveSession (\<lambda>x. s_session_id x = n_parent_session_id node \<and>
       (\<exists>n \<in> set (execution_nodes s). n_node_id n = n_node_id node \<and>
          n_parent_session_id n = s_session_id x \<and> n_owner_user_id n = s_user_id x \<and>
          n_deployment_id n = s_deployment_id x \<and> n_revoked_at n = None)) s"

definition repo_TouchSession :: "string \<Rightarrow> time \<Rightarrow> db \<Rightarrow> (store_error + unit) \<times> db" where
  "repo_TouchSession sessionID now = run_tx (
     thenS (exec_stm (sql_touch_session now sessionID)) (returnS (Commit ())))"

context quiet_stable begin

lemma CreateSession_stable:
  assumes "\<And>s. P s \<Longrightarrow> schema_ok (sql_insert_session (newSessionRow r) s) \<Longrightarrow>
      P (sql_insert_session (newSessionRow r) s)" and "P s"
  shows "P (snd (repo_CreateSession r s))"
  unfolding repo_CreateSession_def
  by (rule keeps_tx, rule assms(2), intro keeps_rules quiet_laws assms(1))

lemma RevokeSession_stable: "P s \<Longrightarrow> P (snd (repo_RevokeSession h now s))"
  unfolding repo_RevokeSession_def
  by (rule keeps_tx, assumption, intro keeps_rules quiet_laws keeps_append_event)

lemma TouchSession_stable: "P s \<Longrightarrow> P (snd (repo_TouchSession i now s))"
  unfolding repo_TouchSession_def
  by (rule keeps_tx, assumption, intro keeps_rules quiet_laws)

end

end
