(* ===== verification/Repo_Agent.thy ===== *)
theory Repo_Agent
  imports Repo_Session
begin

text \<open>
  \<open>agent.go\<close> of \<open>internal/storage/auth\<close>: the public identities of agents, visible only while their
  owner keeps access to the organization and the deployment.
\<close>

record AgentRecord =
  ar_AgentID :: string
  ar_DeploymentID :: string
  ar_OrganizationID :: string
  ar_OwnerUserID :: string
  ar_SourceAgentID :: string
  ar_Name :: string
  ar_Avatar :: string
  ar_Status :: string
  ar_CreatedAt :: time
  ar_UpdatedAt :: time

definition scanAgent :: "agent_row \<Rightarrow> AgentRecord" where
  "scanAgent a = \<lparr>ar_AgentID = ag_agent_id a, ar_DeploymentID = ag_deployment_id a,
     ar_OrganizationID = ag_organization_id a, ar_OwnerUserID = ag_owner_user_id a,
     ar_SourceAgentID = ag_source_agent_id a, ar_Name = ag_name a, ar_Avatar = nullString (ag_avatar a),
     ar_Status = ag_status a, ar_CreatedAt = ag_created_at a, ar_UpdatedAt = ag_updated_at a\<rparr>"

text \<open>\<open>activeAgentOwner\<close>: the owner's membership, organization, access and account are all active.\<close>

definition ownerActive :: "db \<Rightarrow> string \<Rightarrow> string \<Rightarrow> string \<Rightarrow> bool" where
  "ownerActive s dep org uid \<longleftrightarrow>
     (case findOrgMembership s org uid of None \<Rightarrow> False | Some x \<Rightarrow> om_status x = ''active'') \<and>
     orgActiveIn s dep org \<and> membershipActive s dep uid \<and> userActive s uid"

definition activeAgentOwner :: "db \<Rightarrow> agent_row \<Rightarrow> bool" where
  "activeAgentOwner s a \<longleftrightarrow> ownerActive s (ag_deployment_id a) (ag_organization_id a) (ag_owner_user_id a)"

definition repo_ListOwnedAgents :: "string \<Rightarrow> string \<Rightarrow> string \<Rightarrow> db \<Rightarrow> AgentRecord list" where
  "repo_ListOwnedAgents deploymentID organizationID ownerUserID s =
     map scanAgent (sort_key (\<lambda>a. (ag_name a, ag_agent_id a))
       (filter (\<lambda>a. ag_deployment_id a = deploymentID \<and> ag_organization_id a = organizationID \<and>
          ag_owner_user_id a = ownerUserID \<and> ag_status a = ''active'' \<and> activeAgentOwner s a) (agents s)))"

definition repo_ListOrganizationAgents :: "string \<Rightarrow> string \<Rightarrow> db \<Rightarrow> AgentRecord list" where
  "repo_ListOrganizationAgents deploymentID organizationID s =
     map scanAgent (sort_key (\<lambda>a. (ag_name a, ag_agent_id a))
       (filter (\<lambda>a. ag_deployment_id a = deploymentID \<and> ag_organization_id a = organizationID \<and>
          ag_status a = ''active'' \<and> activeAgentOwner s a) (agents s)))"

definition agentRow :: "AgentRecord \<Rightarrow> time \<Rightarrow> agent_row" where
  "agentRow r now = \<lparr>ag_agent_id = ar_AgentID r, ag_deployment_id = ar_DeploymentID r,
     ag_organization_id = ar_OrganizationID r, ag_owner_user_id = ar_OwnerUserID r,
     ag_source_agent_id = ar_SourceAgentID r, ag_name = ar_Name r,
     ag_avatar = nullableString (ar_Avatar r), ag_status = ''active'', ag_created_at = now,
     ag_updated_at = now\<rparr>"

definition repo_UpsertOwnedAgent :: "AgentRecord \<Rightarrow> time \<Rightarrow> db \<Rightarrow> (store_error + AgentRecord) \<times> db" where
  "repo_UpsertOwnedAgent r now = run_tx (
     thenS (lockDeployment (ar_DeploymentID r)) (
     bindS (queryS (\<lambda>s. ownerActive s (ar_DeploymentID r) (ar_OrganizationID r) (ar_OwnerUserID r)))
     (\<lambda>active. if \<not> active then failS StoreErrNotFound else
     thenS (exec_stm (sql_upsert_agent (agentRow r now))) (
     bindS (queryS (\<lambda>s. find (same_source (agentRow r now)) (agents s))) (\<lambda>found.
     case found of None \<Rightarrow> failS ErrNoRows
     | Some a \<Rightarrow> returnS (Commit (scanAgent a)))))))"

fun repo_ListVerifiedAgents ::
  "string \<Rightarrow> string \<Rightarrow> string \<Rightarrow> string list \<Rightarrow> db \<Rightarrow> store_error + AgentRecord list" where
  "repo_ListVerifiedAgents dep org owner [] s = Inr []"
| "repo_ListVerifiedAgents dep org owner (agentID # ids) s =
     (case find (\<lambda>a. ag_deployment_id a = dep \<and> ag_organization_id a = org \<and> ag_owner_user_id a = owner \<and>
              ag_agent_id a = agentID \<and> ag_status a = ''active'' \<and> activeAgentOwner s a) (agents s) of
        None \<Rightarrow> Inl StoreErrNotFound
      | Some a \<Rightarrow> (case repo_ListVerifiedAgents dep org owner ids s of
          Inl e \<Rightarrow> Inl e | Inr rs \<Rightarrow> Inr (scanAgent a # rs)))"

context quiet_stable begin

lemma UpsertOwnedAgent_stable: "P s \<Longrightarrow> P (snd (repo_UpsertOwnedAgent r now s))"
  unfolding repo_UpsertOwnedAgent_def
  by (rule keeps_tx, assumption, intro keeps_rules quiet_laws)

end

end
