(* ===== verification/Repo_Node.thy ===== *)
theory Repo_Node
  imports Repo_Agent
begin

text \<open>
  \<open>node.go\<close> and \<open>password.go\<close> of \<open>internal/storage/auth\<close>: the authorisation of execution nodes and
  the password change with its exactly-once receipt, which revokes the user's nodes.
\<close>

section \<open>Registering nodes\<close>

text \<open>The \<open>NodeRecord\<close> of the code has the columns of \<open>execution_nodes\<close>; the row itself is used.\<close>

definition liveSession :: "db \<Rightarrow> string \<Rightarrow> string \<Rightarrow> string \<Rightarrow> time \<Rightarrow> bool" where
  "liveSession s sid uid dep now \<longleftrightarrow> (\<exists>x \<in> set (sessions s). s_session_id x = sid \<and> s_user_id x = uid \<and>
     s_deployment_id x = dep \<and> s_revoked_at x = None \<and> now < s_expires_at x)"

definition agentUsable :: "db \<Rightarrow> node_row \<Rightarrow> string \<Rightarrow> bool" where
  "agentUsable s node agentID \<longleftrightarrow> (\<exists>a \<in> set (agents s). ag_agent_id a = agentID \<and>
     ag_deployment_id a = n_deployment_id node \<and> ag_organization_id a = n_organization_id node \<and>
     ag_owner_user_id a = n_owner_user_id node \<and> ag_status a = ''active'' \<and> activeAgentOwner s a)"

text \<open>\<open>INSERT ... ON CONFLICT DO NOTHING\<close>: skipped when the id or the credential is taken.\<close>

definition insertNodeIfAbsent :: "node_row \<Rightarrow> unit stm" where
  "insertNodeIfAbsent node = bindS (queryS execution_nodes)
     (\<lambda>rows. if n_node_id node \<in> set (map n_node_id rows) \<or>
                n_credential_hash node \<in> set (map n_credential_hash rows)
             then returnS () else exec_stm (sql_insert_node node))"

definition sameAuthorization :: "node_row \<Rightarrow> node_row \<Rightarrow> bool" where
  "sameAuthorization stored node \<longleftrightarrow> n_deployment_id stored = n_deployment_id node \<and>
     n_organization_id stored = n_organization_id node \<and> n_owner_user_id stored = n_owner_user_id node \<and>
     n_parent_session_id stored = n_parent_session_id node \<and> n_name stored = n_name node \<and>
     n_agent_ids_json stored = n_agent_ids_json node \<and>
     n_credential_hash stored = n_credential_hash node \<and> n_revoked_at stored = None"

definition repo_RegisterNode :: "node_row \<Rightarrow> db \<Rightarrow> (store_error + node_row) \<times> db" where
  "repo_RegisterNode node = run_tx (
     thenS beginIdentityWrite (
     bindS (queryS (\<lambda>s. liveSession s (n_parent_session_id node) (n_owner_user_id node)
        (n_deployment_id node) (n_created_at node))) (\<lambda>active.
     if \<not> active then failS StoreErrNotFound else
     bindS (queryS (\<lambda>s. list_all (agentUsable s node) (n_agent_ids_json node))) (\<lambda>usable.
     if \<not> usable then failS StoreErrNotFound else
     thenS (insertNodeIfAbsent (node\<lparr>n_revoked_at := None\<rparr>)) (
     bindS (queryS (\<lambda>s. find (\<lambda>n. n_node_id n = n_node_id node) (execution_nodes s))) (\<lambda>found.
     case found of None \<Rightarrow> failS StoreErrStateConflict
     | Some stored \<Rightarrow>
       if \<not> sameAuthorization stored node then failS StoreErrStateConflict
       else returnS (Commit stored)))))))"

definition repo_NodeByCredential :: "string \<Rightarrow> db \<Rightarrow> store_error + node_row" where
  "repo_NodeByCredential hash s =
     (case find (\<lambda>n. n_credential_hash n = hash \<and> n_revoked_at n = None) (execution_nodes s) of
        None \<Rightarrow> Inl StoreErrNotFound | Some n \<Rightarrow> Inr n)"

definition repo_ListNodes :: "string \<Rightarrow> string \<Rightarrow> string \<Rightarrow> db \<Rightarrow> node_row list" where
  "repo_ListNodes deploymentID organizationID ownerID s =
     take 100 (sort_key (\<lambda>n. - n_created_at n)
       (filter (\<lambda>n. n_deployment_id n = deploymentID \<and> n_organization_id n = organizationID \<and>
          n_owner_user_id n = ownerID) (execution_nodes s)))"

definition ownedNode :: "string \<Rightarrow> string \<Rightarrow> string \<Rightarrow> string \<Rightarrow> db \<Rightarrow> node_row option" where
  "ownedNode deploymentID organizationID ownerID nodeID s =
     find (\<lambda>n. n_node_id n = nodeID \<and> n_deployment_id n = deploymentID \<and>
       n_organization_id n = organizationID \<and> n_owner_user_id n = ownerID) (execution_nodes s)"

definition repo_Node :: "string \<Rightarrow> string \<Rightarrow> string \<Rightarrow> string \<Rightarrow> db \<Rightarrow> store_error + node_row" where
  "repo_Node deploymentID organizationID ownerID nodeID s =
     (case ownedNode deploymentID organizationID ownerID nodeID s of
        None \<Rightarrow> Inl StoreErrNotFound | Some n \<Rightarrow> Inr n)"

section \<open>Revoking nodes\<close>

text \<open>
  Revoking an unknown node first writes a tombstone under the live session, so that a late
  registration of the same id finds it.
\<close>

definition tombstone :: "string \<Rightarrow> string \<Rightarrow> string \<Rightarrow> string \<Rightarrow> string \<Rightarrow> time \<Rightarrow> node_row" where
  "tombstone dep org owner sid nodeID now = \<lparr>n_node_id = nodeID, n_deployment_id = dep,
     n_organization_id = org, n_owner_user_id = owner, n_parent_session_id = sid,
     n_credential_hash = ''revoked:'' @ nodeID, n_name = ''Revoked'', n_agent_ids_json = [],
     n_created_at = now, n_revoked_at = Some now\<rparr>"

definition buryNode ::
  "string \<Rightarrow> string \<Rightarrow> string \<Rightarrow> string \<Rightarrow> string \<Rightarrow> time \<Rightarrow> unit stm" where
  "buryNode dep org owner sid nodeID now =
     bindS (queryS (\<lambda>s. liveSession s sid owner dep now)) (\<lambda>live.
     if live then insertNodeIfAbsent (tombstone dep org owner sid nodeID now) else returnS ())"

definition endNode :: "string \<Rightarrow> string \<Rightarrow> string \<Rightarrow> time \<Rightarrow> node_row \<Rightarrow> unit stm" where
  "endNode dep owner nodeID now n =
     (if n_revoked_at n \<noteq> None then returnS () else
      thenS (exec_stm (sql_revoke_node now nodeID))
        (appendIdentityInvalidation dep owner (''node:'' @ nodeID) ''session_revoked'' now))"

definition repo_RevokeNode ::
  "string \<Rightarrow> string \<Rightarrow> string \<Rightarrow> string \<Rightarrow> string \<Rightarrow> time \<Rightarrow> db \<Rightarrow> (store_error + unit) \<times> db" where
  "repo_RevokeNode dep org owner sid nodeID now = run_tx (
     thenS beginIdentityWrite (
     thenS (buryNode dep org owner sid nodeID now) (
     bindS (queryS (ownedNode dep org owner nodeID)) (\<lambda>found.
     case found of None \<Rightarrow> failS StoreErrNotFound
     | Some n \<Rightarrow> thenS (endNode dep owner nodeID now n) (returnS (Commit ()))))))"

definition liveNodesOf :: "string \<Rightarrow> db \<Rightarrow> (string \<times> string) list" where
  "liveNodesOf userID s = map (\<lambda>n. (n_deployment_id n, n_node_id n))
     (filter (\<lambda>n. n_owner_user_id n = userID \<and> n_revoked_at n = None) (execution_nodes s))"

definition revokeUserNodes :: "string \<Rightarrow> time \<Rightarrow> unit stm" where
  "revokeUserNodes userID now =
     bindS (queryS (liveNodesOf userID)) (\<lambda>nodes.
     thenS (exec_stm (sql_revoke_user_nodes now userID)) (
     forS (\<lambda>(dep, nid). appendIdentityInvalidation dep userID (''node:'' @ nid) ''session_revoked'' now)
       nodes))"

section \<open>Password changes\<close>

datatype PasswordAttempt =
    PasswordAttemptCommitted
  | PasswordAttemptExisting
  | PasswordAttemptCredentialChanged

definition repo_PasswordCredential :: "string \<Rightarrow> db \<Rightarrow> store_error + string \<times> string" where
  "repo_PasswordCredential userID s =
     (case findCredential s userID of None \<Rightarrow> Inl StoreErrNotFound
      | Some c \<Rightarrow> (case findUser s userID of None \<Rightarrow> Inl StoreErrNotFound
          | Some u \<Rightarrow> Inr (c_password_hash c, u_status u)))"

definition repo_PasswordChangeOutcome :: "string \<Rightarrow> string \<Rightarrow> db \<Rightarrow> string" where
  "repo_PasswordChangeOutcome userID requestID s =
     (case find (\<lambda>r. r_user_id r = userID \<and> r_request_id r = requestID) (password_change_receipts s) of
        None \<Rightarrow> '''' | Some r \<Rightarrow> r_effect r)"

text \<open>\<open>ON CONFLICT(user_id, request_id) DO NOTHING\<close>: the first receipt of a request stays.\<close>

definition insertReceiptIfAbsent :: "string \<Rightarrow> string \<Rightarrow> string \<Rightarrow> time \<Rightarrow> nat stm" where
  "insertReceiptIfAbsent userID requestID effect now = bindS (queryS password_change_receipts)
     (\<lambda>rows. if (userID, requestID) \<in> set (map (\<lambda>r. (r_user_id r, r_request_id r)) rows)
             then returnS 0
             else thenS (exec_stm (sql_insert_receipt \<lparr>r_user_id = userID, r_request_id = requestID,
                    r_effect = effect, r_resolved_at = now, r_created_at = now\<rparr>)) (returnS 1))"

definition repo_TryCommitPasswordChange ::
  "string \<Rightarrow> string \<Rightarrow> string \<Rightarrow> string \<Rightarrow> time \<Rightarrow> db \<Rightarrow> (store_error + PasswordAttempt) \<times> db" where
  "repo_TryCommitPasswordChange userID requestID currentHash nextHash now = run_tx (
     thenS beginIdentityWrite (
     bindS (insertReceiptIfAbsent userID requestID ''committed'' now) (\<lambda>claimed.
     if claimed = 0 then returnS (Rollback PasswordAttemptExisting) else
     bindS (queryS (\<lambda>s. count_where (\<lambda>c. c_user_id c = userID \<and> c_password_hash c = currentHash)
        (password_credentials s))) (\<lambda>changed.
     thenS (exec_stm (sql_update_credential nextHash now userID currentHash)) (
     if changed \<noteq> 1 then returnS (Rollback PasswordAttemptCredentialChanged) else
     thenS (revokeUserNodes userID now) (
     returnS (Commit PasswordAttemptCommitted)))))))"

definition repo_SettlePasswordChange ::
  "string \<Rightarrow> string \<Rightarrow> string \<Rightarrow> time \<Rightarrow> db \<Rightarrow> (store_error + unit) \<times> db" where
  "repo_SettlePasswordChange userID requestID outcome now = run_tx (
     bindS (insertReceiptIfAbsent userID requestID outcome now) (\<lambda>_. returnS (Commit ())))"

section \<open>Stability\<close>

context quiet_stable begin

lemma keeps_insertNode:
  "(\<And>s. P s \<Longrightarrow> schema_ok (sql_insert_node n s) \<Longrightarrow> P (sql_insert_node n s)) \<Longrightarrow>
     keeps P (insertNodeIfAbsent n)"
  unfolding insertNodeIfAbsent_def by (intro keeps_rules)

lemma RegisterNode_stable:
  assumes "\<And>s. P s \<Longrightarrow> schema_ok (sql_insert_node (n\<lparr>n_revoked_at := None\<rparr>) s) \<Longrightarrow>
      P (sql_insert_node (n\<lparr>n_revoked_at := None\<rparr>) s)" and "P s"
  shows "P (snd (repo_RegisterNode n s))"
  unfolding repo_RegisterNode_def
  by (rule keeps_tx, rule assms(2), intro keeps_rules keeps_insertNode assms(1))

lemma RevokeNode_stable:
  assumes "\<And>s. P s \<Longrightarrow> schema_ok (sql_insert_node (tombstone a b c d e now) s) \<Longrightarrow>
      P (sql_insert_node (tombstone a b c d e now) s)" and "P s"
  shows "P (snd (repo_RevokeNode a b c d e now s))"
  unfolding repo_RevokeNode_def buryNode_def endNode_def
  by (rule keeps_tx, rule assms(2),
      intro keeps_rules quiet_laws keeps_insertNode keeps_append_event assms(1))

lemma keeps_insertReceipt: "keeps P (insertReceiptIfAbsent a b c d)"
  unfolding insertReceiptIfAbsent_def by (intro keeps_rules quiet_laws)

lemma keeps_revokeUserNodes: "keeps P (revokeUserNodes u now)"
  unfolding revokeUserNodes_def by (intro keeps_rules quiet_laws keeps_append_event)

lemma TryCommitPasswordChange_stable: "P s \<Longrightarrow> P (snd (repo_TryCommitPasswordChange a b c d e s))"
  unfolding repo_TryCommitPasswordChange_def
  by (rule keeps_tx, assumption, intro keeps_rules quiet_laws keeps_insertReceipt keeps_revokeUserNodes)

lemma SettlePasswordChange_stable: "P s \<Longrightarrow> P (snd (repo_SettlePasswordChange a b c d s))"
  unfolding repo_SettlePasswordChange_def
  by (rule keeps_tx, assumption, intro keeps_rules keeps_insertReceipt)

end

end
