(* ===== verification/Control_System.thy ===== *)
theory Control_System
  imports Repo_Node
begin

text \<open>
  The repository as a state machine: one operation per writing method of \<open>Repository\<close>, its run,
  and the states that sequences of operations reach. A transaction is one step, which the
  control-state row lock of the code and SQLite's immediate transactions provide. The two
  import transactions, which need an empty database, are start states and not steps.
\<close>

section \<open>Operations and runs\<close>

datatype operation =
    OpCreateOwner OwnerRecord
  | OpUpdateAvatar string string time
  | OpUpsertSubscriptionPlan plan_row time
  | OpSetMemberEntitlement string string string time
  | OpImportSubscriptions "plan_row list" "ImportedEntitlementRecord list" time
  | OpMutateOrganization OrganizationCommand
  | OpRegisterAccount NewMemberRecord
  | OpUpdateMember string string string string string string int string string string time
  | OpCreateDeploymentMember string NewMemberRecord
  | OpUpdateDeploymentMember string string string string string int string string string time
  | OpCreateOrganizationInvitation OrganizationInvitationRecord
  | OpRevokeOrganizationInvitation string string string time
  | OpDeleteOrganizationInvitation string string string time
  | OpAcceptOrganizationInvitation AcceptOrganizationInvitationRecord
  | OpCreateSession SessionRecord
  | OpRevokeSession string time
  | OpTouchSession string time
  | OpUpsertOwnedAgent AgentRecord time
  | OpRegisterNode node_row
  | OpRevokeNode string string string string string time
  | OpTryCommitPasswordChange string string string string time
  | OpSettlePasswordChange string string string time

fun run_op :: "operation \<Rightarrow> db \<Rightarrow> db" where
  "run_op (OpCreateOwner r) s = snd (repo_CreateOwner r s)"
| "run_op (OpUpdateAvatar u a now) s = snd (repo_UpdateAvatar u a now s)"
| "run_op (OpUpsertSubscriptionPlan p now) s = snd (repo_UpsertSubscriptionPlan p now s)"
| "run_op (OpSetMemberEntitlement d u k now) s = snd (repo_SetMemberEntitlement d u k now s)"
| "run_op (OpImportSubscriptions ps es now) s = snd (repo_ImportSubscriptions ps es now s)"
| "run_op (OpMutateOrganization c) s = snd (repo_MutateOrganization c s)"
| "run_op (OpRegisterAccount r) s = snd (repo_RegisterAccount r s)"
| "run_op (OpUpdateMember d g u a er es v nr ns nn now) s =
     snd (repo_UpdateMember d g u a er es v nr ns nn now s)"
| "run_op (OpCreateDeploymentMember a r) s = snd (repo_CreateDeploymentMember a r s)"
| "run_op (OpUpdateDeploymentMember d u a er es v nr ns nn now) s =
     snd (repo_UpdateDeploymentMember d u a er es v nr ns nn now s)"
| "run_op (OpCreateOrganizationInvitation r) s = snd (repo_CreateOrganizationInvitation r s)"
| "run_op (OpRevokeOrganizationInvitation g i a now) s =
     snd (repo_RevokeOrganizationInvitation g i a now s)"
| "run_op (OpDeleteOrganizationInvitation g i a now) s =
     snd (repo_DeleteOrganizationInvitation g i a now s)"
| "run_op (OpAcceptOrganizationInvitation r) s = snd (repo_AcceptOrganizationInvitation r s)"
| "run_op (OpCreateSession r) s = snd (repo_CreateSession r s)"
| "run_op (OpRevokeSession h now) s = snd (repo_RevokeSession h now s)"
| "run_op (OpTouchSession i now) s = snd (repo_TouchSession i now s)"
| "run_op (OpUpsertOwnedAgent r now) s = snd (repo_UpsertOwnedAgent r now s)"
| "run_op (OpRegisterNode n) s = snd (repo_RegisterNode n s)"
| "run_op (OpRevokeNode d g u i n now) s = snd (repo_RevokeNode d g u i n now s)"
| "run_op (OpTryCommitPasswordChange u r c n now) s = snd (repo_TryCommitPasswordChange u r c n now s)"
| "run_op (OpSettlePasswordChange u r e now) s = snd (repo_SettlePasswordChange u r e now s)"

text \<open>The error an operation returns, if any.\<close>

definition failure :: "(store_error + 'a) \<times> db \<Rightarrow> store_error option" where
  "failure r = (case fst r of Inl e \<Rightarrow> Some e | Inr _ \<Rightarrow> None)"

fun op_error :: "operation \<Rightarrow> db \<Rightarrow> store_error option" where
  "op_error (OpCreateOwner r) s = failure (repo_CreateOwner r s)"
| "op_error (OpUpdateAvatar u a now) s = failure (repo_UpdateAvatar u a now s)"
| "op_error (OpUpsertSubscriptionPlan p now) s = failure (repo_UpsertSubscriptionPlan p now s)"
| "op_error (OpSetMemberEntitlement d u k now) s = failure (repo_SetMemberEntitlement d u k now s)"
| "op_error (OpImportSubscriptions ps es now) s = failure (repo_ImportSubscriptions ps es now s)"
| "op_error (OpMutateOrganization c) s = failure (repo_MutateOrganization c s)"
| "op_error (OpRegisterAccount r) s = failure (repo_RegisterAccount r s)"
| "op_error (OpUpdateMember d g u a er es v nr ns nn now) s =
     failure (repo_UpdateMember d g u a er es v nr ns nn now s)"
| "op_error (OpCreateDeploymentMember a r) s = failure (repo_CreateDeploymentMember a r s)"
| "op_error (OpUpdateDeploymentMember d u a er es v nr ns nn now) s =
     failure (repo_UpdateDeploymentMember d u a er es v nr ns nn now s)"
| "op_error (OpCreateOrganizationInvitation r) s = failure (repo_CreateOrganizationInvitation r s)"
| "op_error (OpRevokeOrganizationInvitation g i a now) s =
     failure (repo_RevokeOrganizationInvitation g i a now s)"
| "op_error (OpDeleteOrganizationInvitation g i a now) s =
     failure (repo_DeleteOrganizationInvitation g i a now s)"
| "op_error (OpAcceptOrganizationInvitation r) s = failure (repo_AcceptOrganizationInvitation r s)"
| "op_error (OpCreateSession r) s = failure (repo_CreateSession r s)"
| "op_error (OpRevokeSession h now) s = failure (repo_RevokeSession h now s)"
| "op_error (OpTouchSession i now) s = failure (repo_TouchSession i now s)"
| "op_error (OpUpsertOwnedAgent r now) s = failure (repo_UpsertOwnedAgent r now s)"
| "op_error (OpRegisterNode n) s = failure (repo_RegisterNode n s)"
| "op_error (OpRevokeNode d g u i n now) s = failure (repo_RevokeNode d g u i n now s)"
| "op_error (OpTryCommitPasswordChange u r c n now) s =
     failure (repo_TryCommitPasswordChange u r c n now s)"
| "op_error (OpSettlePasswordChange u r e now) s = failure (repo_SettlePasswordChange u r e now s)"

lemma failed_tx: "failure (run_tx body s) = Some e \<Longrightarrow> snd (run_tx body s) = s"
  by (cases rule: run_tx_cases [of body s]) (auto simp: failure_def)

lemmas operation_defs =
  repo_AcceptOrganizationInvitation_def repo_CreateDeploymentMember_def
  repo_CreateOrganizationInvitation_def repo_CreateOwner_def repo_CreateSession_def
  repo_DeleteOrganizationInvitation_def repo_ImportSubscriptions_def
  repo_MutateOrganization_def repo_RegisterAccount_def repo_RegisterNode_def
  repo_RevokeNode_def repo_RevokeOrganizationInvitation_def repo_RevokeSession_def
  repo_SetMemberEntitlement_def repo_SettlePasswordChange_def repo_TouchSession_def
  repo_TryCommitPasswordChange_def repo_UpdateAvatar_def repo_UpdateDeploymentMember_def
  repo_UpdateMember_def repo_UpsertOwnedAgent_def repo_UpsertSubscriptionPlan_def

lemma failed_op: "op_error x s = Some e \<Longrightarrow> run_op x s = s"
  by (cases x; simp only: run_op.simps op_error.simps operation_defs; erule failed_tx)

inductive runs :: "db \<Rightarrow> operation list \<Rightarrow> db \<Rightarrow> bool" where
  runs_nil: "runs s [] s"
| runs_cons: "runs (run_op x s) xs t \<Longrightarrow> runs s (x # xs) t"

inductive_simps runs_nil_iff [simp]: "runs s [] t"
inductive_simps runs_cons_iff [simp]: "runs s (x # xs) t"

code_pred (modes: i \<Rightarrow> i \<Rightarrow> o \<Rightarrow> bool) runs .

definition run_all :: "operation list \<Rightarrow> db \<Rightarrow> db" where
  "run_all xs s = fold run_op xs s"

lemma runs_run_all: "runs s xs t \<longleftrightarrow> t = run_all xs s"
  by (induction xs arbitrary: s) (auto simp: run_all_def)

lemma run_all_simps [simp]:
  "run_all [] s = s"
  "run_all (x # xs) s = run_all xs (run_op x s)"
  "run_all (xs @ ys) s = run_all ys (run_all xs s)"
  by (simp_all add: run_all_def)

section \<open>Properties along a run\<close>

lemma keeps_exec_iff: "keeps P (exec_stm f) \<longleftrightarrow> (\<forall>s. P s \<longrightarrow> schema_ok (f s) \<longrightarrow> P (f s))"
  by (auto simp: keeps_def)

text \<open>
  Which rows an operation may create: a property that the creating statements keep for these
  rows, and every other statement for all, survives the operation.
\<close>

definition creates_ok :: "(db \<Rightarrow> bool) \<Rightarrow> operation \<Rightarrow> bool" where
  "creates_ok P x \<longleftrightarrow> (case x of
     OpCreateSession r \<Rightarrow> keeps P (exec_stm (sql_insert_session (newSessionRow r)))
   | OpCreateOrganizationInvitation r \<Rightarrow> 
       keeps P (exec_stm (sql_insert_invitation (newInvitationRow r)))
   | OpRegisterNode n \<Rightarrow> keeps P (exec_stm (sql_insert_node (n\<lparr>n_revoked_at := None\<rparr>)))
   | OpRevokeNode d g u i n now \<Rightarrow> keeps P (exec_stm (sql_insert_node (tombstone d g u i n now)))
   | _ \<Rightarrow> True)"

context life_stable begin

lemmas op_stable = UpdateAvatar_stable UpsertSubscriptionPlan_stable SetMemberEntitlement_stable
  ImportSubscriptions_stable RegisterAccount_stable CreateDeploymentMember_stable
  RevokeOrganizationInvitation_stable DeleteOrganizationInvitation_stable RevokeSession_stable
  TouchSession_stable UpsertOwnedAgent_stable TryCommitPasswordChange_stable
  SettlePasswordChange_stable CreateOwner_stable MutateOrganization_stable UpdateMember_stable
  AcceptOrganizationInvitation_stable UpdateDeploymentMember_stable

lemma run_op_stable: "creates_ok P x \<Longrightarrow> P s \<Longrightarrow> P (run_op x s)"
  by (cases x)
     (simp_all add: op_stable creates_ok_def keeps_exec_iff CreateSession_stable RegisterNode_stable
       RevokeNode_stable CreateOrganizationInvitation_stable)

lemma runs_stable: "runs s xs t \<Longrightarrow> \<forall>x \<in> set xs. creates_ok P x \<Longrightarrow> P s \<Longrightarrow> P t"
  by (induction rule: runs.induct) (simp_all add: run_op_stable)

end

context all_stable begin

lemma creates: "creates_ok P x"
  by (simp add: creates_ok_def keeps_exec_iff creating_laws split: operation.split)

lemma run_stable: "runs s xs t \<Longrightarrow> P s \<Longrightarrow> P t"
  by (rule runs_stable) (simp_all add: creates)

end

text \<open>The four operations that write organizations and their memberships.\<close>

fun touchesOrgs :: "operation \<Rightarrow> bool" where
  "touchesOrgs (OpCreateOwner r) = True"
| "touchesOrgs (OpMutateOrganization c) = True"
| "touchesOrgs (OpUpdateMember d g u a er es v nr ns nn now) = True"
| "touchesOrgs (OpAcceptOrganizationInvitation r) = True"
| "touchesOrgs x = False"

context account_stable begin

lemma other_op_stable: "\<not> touchesOrgs x \<Longrightarrow> P s \<Longrightarrow> P (run_op x s)"
  by (cases x)
     (simp_all add: UpdateAvatar_stable UpsertSubscriptionPlan_stable SetMemberEntitlement_stable
       ImportSubscriptions_stable RegisterAccount_stable CreateDeploymentMember_stable
       RevokeOrganizationInvitation_stable DeleteOrganizationInvitation_stable RevokeSession_stable
       TouchSession_stable UpsertOwnedAgent_stable TryCommitPasswordChange_stable
       SettlePasswordChange_stable UpdateDeploymentMember_stable CreateSession_stable
       RegisterNode_stable RevokeNode_stable CreateOrganizationInvitation_stable creating_laws)

end

text \<open>The one operation that changes platform memberships.\<close>

fun touchesPlatform :: "operation \<Rightarrow> bool" where
  "touchesPlatform (OpUpdateDeploymentMember d u a er es v nr ns nn now) = True"
| "touchesPlatform x = False"

context member_stable begin

lemma member_op_stable: "\<not> touchesPlatform x \<Longrightarrow> P s \<Longrightarrow> P (run_op x s)"
  by (cases x)
     (simp_all add: UpdateAvatar_stable UpsertSubscriptionPlan_stable SetMemberEntitlement_stable
       ImportSubscriptions_stable RegisterAccount_stable CreateDeploymentMember_stable
       RevokeOrganizationInvitation_stable DeleteOrganizationInvitation_stable RevokeSession_stable
       TouchSession_stable UpsertOwnedAgent_stable TryCommitPasswordChange_stable
       SettlePasswordChange_stable CreateSession_stable RegisterNode_stable RevokeNode_stable
       CreateOrganizationInvitation_stable creating_laws CreateOwner_stable
       MutateOrganization_stable UpdateMember_stable AcceptOrganizationInvitation_stable)

end

text \<open>The constraints hold along every run: each accepted statement re-establishes them.\<close>

interpretation schema: all_stable schema_ok
  by unfold_locales

end
