(* ===== verification/Event_Log.thy ===== *)
theory Event_Log
  imports Control_System
begin

text \<open>
  The feed of identity invalidations. Nexus keeps a cursor and asks for the events after it; the
  contract of such a feed is the locale \<open>ordered_log\<close>, in which a poller that asks again and
  again, while the log grows, is shown to receive every event once and in order. The database
  meets the contract in every state the operations reach. The service part is
  \<open>internal/service/auth/identity_invalidation.go\<close>.
\<close>

section \<open>The service\<close>

definition maxIdentityInvalidationBatch :: int where
  "maxIdentityInvalidationBatch = 256"

definition svc_LatestIdentityInvalidationID :: "db \<Rightarrow> int" where
  "svc_LatestIdentityInvalidationID s = repo_LatestIdentityInvalidationID s"

text \<open>The service returns the records as they are, field by field.\<close>

definition svc_ListIdentityInvalidations :: "int \<Rightarrow> int \<Rightarrow> db \<Rightarrow> IdentityInvalidationRecord list" where
  "svc_ListIdentityInvalidations after limit s =
     (let after = (if after < 0 then 0 else after);
          limit = (if limit \<le> 0 \<or> limit > maxIdentityInvalidationBatch
                   then maxIdentityInvalidationBatch else limit) in
      repo_ListIdentityInvalidations after limit s)"

section \<open>Polling an ordered log\<close>

text \<open>One page: at most \<open>n\<close> entries after the cursor; and the cursor a client keeps after it.\<close>

definition page :: "('e \<Rightarrow> int) \<Rightarrow> nat \<Rightarrow> int \<Rightarrow> 'e list \<Rightarrow> 'e list" where
  "page key n after es = take n (filter (\<lambda>e. after < key e) es)"

definition nextCursor :: "('e \<Rightarrow> int) \<Rightarrow> int \<Rightarrow> 'e list \<Rightarrow> int" where
  "nextCursor key after es = (if es = [] then after else key (last es))"

text \<open>A client that polls in each of the given states with a limit of its choice.\<close>

fun poll :: "('s \<Rightarrow> 'e list) \<Rightarrow> ('e \<Rightarrow> int) \<Rightarrow> int \<Rightarrow> (nat \<times> 's) list \<Rightarrow> 'e list \<times> int" where
  "poll entries key c [] = ([], c)"
| "poll entries key c ((n, s) # rest) =
     (let got = page key n c (entries s);
          (more, c') = poll entries key (nextCursor key c got) rest
      in (got @ more, c'))"

text \<open>The entries of an ordered list between two cursors.\<close>

definition between :: "('e \<Rightarrow> int) \<Rightarrow> int \<Rightarrow> int \<Rightarrow> 'e list \<Rightarrow> 'e list" where
  "between key c d es = filter (\<lambda>e. c < key e \<and> key e \<le> d) es"

lemma between_append:
  assumes "sorted_wrt (<) (map key es)" and "c \<le> d" and "d \<le> f"
  shows "between key c d es @ between key d f es = between key c f es"
  using assms
proof (induction es)
  case (Cons e es)
  show ?case
  proof (cases "key e \<le> d")
    case True
    with Cons show ?thesis by (auto simp: between_def)
  next
    case False
    with Cons.prems have "\<forall>x \<in> set es. d < key x" by auto
    then have "between key c d es = []" by (auto simp: between_def filter_empty_conv)
    with Cons False show ?thesis by (auto simp: between_def)
  qed
qed (simp add: between_def)

lemma filter_upto_last:
  assumes "sorted_wrt (<) (map key (xs @ ys))" and "xs \<noteq> []"
  shows "filter (\<lambda>e. key e \<le> (key (last xs) :: int)) (xs @ ys) = xs"
proof -
  from assms(2) obtain zs z where xs: "xs = zs @ [z]" by (cases xs rule: rev_cases) auto
  with assms(1) have "\<forall>a \<in> set zs. key a < key z" and "\<forall>b \<in> set ys. key z < key b"
    by (auto simp: sorted_wrt_append)
  then have "filter (\<lambda>e. key e \<le> key z) zs = zs" and "filter (\<lambda>e. key e \<le> key z) ys = []"
    by (auto simp: filter_id_conv filter_empty_conv not_le order_less_imp_le)
  then show ?thesis by (simp add: xs)
qed

lemma page_between:
  assumes "sorted_wrt (<) (map key es)"
  shows "page key n c es = between key c (nextCursor key c (page key n c es)) es"
proof (cases "page key n c es = []")
  case True
  then show ?thesis by (auto simp: nextCursor_def between_def filter_empty_conv)
next
  case False
  let ?f = "filter (\<lambda>e. c < key e) es"
  have "sorted_wrt (<) (map key ?f)"
    using assms by (simp add: sorted_wrt_map sorted_wrt_filter)
  then have "sorted_wrt (<) (map key (take n ?f @ drop n ?f))"
    by (simp only: append_take_drop_id)
  from filter_upto_last [OF this] False
  have "page key n c es = filter (\<lambda>e. key e \<le> key (last (page key n c es))) ?f"
    by (simp add: page_def)
  also have "\<dots> = between key c (key (last (page key n c es))) es"
    by (simp add: between_def conj_commute)
  finally show ?thesis using False by (simp add: nextCursor_def)
qed

lemma nextCursor_ge: "c \<le> nextCursor key c (page key n c es)"
proof (cases "page key n c es = []")
  case False
  then have "last (page key n c es) \<in> set (page key n c es)" by simp
  then show ?thesis by (auto simp: nextCursor_def page_def dest: in_set_takeD)
qed (simp add: nextCursor_def)

locale ordered_log =
  fixes valid :: "'s \<Rightarrow> bool"
    and step :: "'s \<Rightarrow> 's \<Rightarrow> bool"
    and entries :: "'s \<Rightarrow> 'e list"
    and key :: "'e \<Rightarrow> int"
  assumes ascending: "\<And>s. valid s \<Longrightarrow> sorted_wrt (<) (map key (entries s))"
    and valid_step: "\<And>s t. valid s \<Longrightarrow> step s t \<Longrightarrow> valid t"
    and append_only: "\<And>s t. valid s \<Longrightarrow> step s t \<Longrightarrow> prefix (entries s) (entries t)"
begin

text \<open>What lies between two cursors of a state stays the same in every later state.\<close>

lemma page_later:
  assumes "valid t" and "prefix (entries s) (entries t)"
  shows "page key n c (entries s) = between key c (nextCursor key c (page key n c (entries s))) (entries t)"
proof (cases "page key n c (entries s) = []")
  case True
  then show ?thesis by (auto simp: nextCursor_def between_def filter_empty_conv)
next
  case False
  from assms(2) obtain new where t: "entries t = entries s @ new" by (auto simp: prefix_def)
  with ascending [OF assms(1)] have asc: "sorted_wrt (<) (map key (entries s))"
    and later: "\<forall>a \<in> set (entries s). \<forall>b \<in> set new. key a < key b"
    by (auto simp: sorted_wrt_append)
  from False have "last (page key n c (entries s)) \<in> set (page key n c (entries s))" by simp
  then have "last (page key n c (entries s)) \<in> set (entries s)"
    by (auto simp: page_def dest: in_set_takeD)
  with later False have "between key c (nextCursor key c (page key n c (entries s))) new = []"
    by (force simp: between_def filter_empty_conv nextCursor_def)
  with page_between [OF asc, of n c] t show ?thesis by (simp add: between_def)
qed

lemma poll_between:
  assumes "successively step (map snd ns)" and "ns \<noteq> []" and "valid (snd (hd ns))"
    and "poll entries key c ns = (es, c')"
  shows "es = between key c c' (entries (snd (last ns))) \<and> c \<le> c' \<and> valid (snd (last ns)) \<and>
     prefix (entries (snd (hd ns))) (entries (snd (last ns)))"
  using assms
proof (induction ns arbitrary: c es)
  case (Cons x ns)
  obtain n s where x: "x = (n, s)" by (cases x)
  let ?got = "page key n c (entries s)"
  let ?c = "nextCursor key c ?got"
  have valid: "valid s" using Cons.prems x by simp
  show ?case
  proof (cases "ns = []")
    case True
    with Cons.prems x valid page_between [OF ascending [OF valid], of n c]
    show ?thesis by (auto simp: Let_def nextCursor_ge)
  next
    case False
    then obtain y where step: "step s (snd (hd ns))" and succ: "successively step (map snd ns)"
      using Cons.prems(1) x by (cases ns) auto
    obtain more where more: "poll entries key ?c ns = (more, c')" and es: "es = ?got @ more"
      using Cons.prems(4) x by (auto simp: Let_def split: prod.splits)
    have IH: "more = between key ?c c' (entries (snd (last ns)))" "?c \<le> c'" "valid (snd (last ns))"
      "prefix (entries (snd (hd ns))) (entries (snd (last ns)))"
      using Cons.IH [OF succ False valid_step [OF valid step] more] by auto
    have pre: "prefix (entries s) (entries (snd (last ns)))"
      using append_only [OF valid step] IH(4) by (rule prefix_order.trans)
    have "es = between key c c' (entries (snd (last ns)))"
      using between_append [OF ascending [OF IH(3)] nextCursor_ge [of c key n "entries s"] IH(2)]
        page_later [OF IH(3) pre, of n c]
      unfolding es IH(1) by simp
    then show ?thesis
      using False x IH pre nextCursor_ge [of c key n "entries s"] by simp
  qed
qed simp

end

text \<open>The database is such a log, each operation a step.\<close>

interpretation feed: ordered_log "\<lambda>s. log_inv s" "\<lambda>s t. \<exists>xs. t = run_all xs s"
  identity_invalidations ev_event_id
proof unfold_locales
  fix s :: db
  assume inv: "log_inv s"
  then show "sorted_wrt (<) (map ev_event_id (identity_invalidations s))"
    by (simp add: log_inv_def)
  fix t
  assume "\<exists>xs. t = run_all xs s"
  then obtain xs where run: "runs s xs t" by (auto simp: runs_run_all)
  show "log_inv t" by (rule log.run_stable [OF run inv])
  have "log_extends s t" by (rule grow.run_stable [OF run]) (simp add: log_extends_def)
  then show "prefix (identity_invalidations s) (identity_invalidations t)"
    by (simp add: log_extends_def)
qed

section \<open>The service is the page\<close>

lemma log_inv_start: "log_inv migrated_db"
  by (simp add: log_inv_def migrated_db_def)

lemma sort_key_sorted: "sorted (map f xs) \<Longrightarrow> sort_key f xs = xs"
  by (induction xs) (auto simp: insort_is_Cons)

definition batchSize :: "int \<Rightarrow> nat" where
  "batchSize limit = (if limit \<le> 0 \<or> limit > 256 then 256 else nat limit)"

lemma ListIdentityInvalidations_page:
  assumes "log_inv s"
  shows "svc_ListIdentityInvalidations after limit s =
     map scanInvalidation (page ev_event_id (batchSize limit) (max after 0) (identity_invalidations s))"
proof -
  have "sorted (map ev_event_id (filter P (identity_invalidations s)))" for P
    using log_sorted [OF assms] by (rule sorted_filter)
  then show ?thesis
    unfolding svc_ListIdentityInvalidations_def repo_ListIdentityInvalidations_def page_def
      sql_limit_def batchSize_def maxIdentityInvalidationBatch_def Let_def
    by (auto simp: sort_key_sorted max_def)
qed

section \<open>A client of the service\<close>

text \<open>
  A client that remembers the last event id it has seen. Before each request, with its limit,
  other clients run some operations.
\<close>

fun follow :: "int \<Rightarrow> (int \<times> operation list) list \<Rightarrow> db \<Rightarrow> IdentityInvalidationRecord list \<times> int" where
  "follow c [] s = ([], c)"
| "follow c ((limit, xs) # rest) s =
     (let t = run_all xs s;
          got = svc_ListIdentityInvalidations c limit t;
          (more, c') = follow (if got = [] then c else evr_EventID (last got)) rest t
      in (got @ more, c'))"

fun states :: "(int \<times> operation list) list \<Rightarrow> db \<Rightarrow> (nat \<times> db) list" where
  "states [] s = []"
| "states ((limit, xs) # plan) s = (batchSize limit, run_all xs s) # states plan (run_all xs s)"

lemma states_Nil [simp]: "states plan s = [] \<longleftrightarrow> plan = []"
  by (cases plan) auto

lemma states_last: "plan \<noteq> [] \<Longrightarrow> snd (last (states plan s)) = run_all (concat (map snd plan)) s"
  by (induction plan s rule: states.induct) auto

lemma states_hd: "plan \<noteq> [] \<Longrightarrow> snd (hd (states plan s)) = run_all (snd (hd plan)) s"
  by (cases plan) auto

lemma states_steps: "successively (\<lambda>s t. \<exists>xs. t = run_all xs s) (map snd (states plan s))"
proof (induction plan s rule: states.induct)
  case (2 limit xs plan s)
  then show ?case
    by (cases plan) (auto simp: successively_Cons hd_map states_hd)
qed simp

lemma follow_poll:
  "log_inv s \<Longrightarrow> 0 \<le> c \<Longrightarrow> follow c plan s =
     (map scanInvalidation (fst (poll identity_invalidations ev_event_id c (states plan s))),
      snd (poll identity_invalidations ev_event_id c (states plan s)))"
proof (induction plan arbitrary: c s)
  case (Cons x plan)
  obtain limit xs where x: "x = (limit, xs)" by (cases x)
  let ?t = "run_all xs s"
  let ?got = "page ev_event_id (batchSize limit) c (identity_invalidations ?t)"
  have inv: "log_inv ?t" using log.run_stable [OF _ Cons.prems(1)] by (simp add: runs_run_all)
  have got: "svc_ListIdentityInvalidations c limit ?t = map scanInvalidation ?got"
    using ListIdentityInvalidations_page [OF inv] Cons.prems(2) by (simp add: max_def)
  have cursor: "(if map scanInvalidation ?got = [] then c else evr_EventID (last (map scanInvalidation ?got)))
      = nextCursor ev_event_id c ?got"
    by (simp add: nextCursor_def last_map scanInvalidation_def)
  have "0 \<le> nextCursor ev_event_id c ?got"
    using Cons.prems(2) nextCursor_ge by (rule order_trans)
  from Cons.IH [OF inv this] show ?case
    unfolding x follow.simps states.simps poll.simps Let_def got cursor
    by (simp split: prod.splits)
qed simp

lemma follow_between:
  assumes "log_inv s" and "0 \<le> c" and "plan \<noteq> []" and "follow c plan s = (es, c')"
  shows "es = map scanInvalidation (between ev_event_id c c'
           (identity_invalidations (run_all (concat (map snd plan)) s)))" and "c \<le> c'"
proof -
  obtain rows where poll: "poll identity_invalidations ev_event_id c (states plan s) = (rows, c')"
    and es: "es = map scanInvalidation rows"
    using follow_poll [OF assms(1,2), of plan] assms(4) by (metis prod.collapse prod.inject)
  have ne: "states plan s \<noteq> []" using assms(3) by simp
  have "log_inv (snd (hd (states plan s)))"
  proof (cases plan)
    case (Cons x xs)
    then show ?thesis
      using log.run_stable [OF _ assms(1)] by (cases x) (simp add: runs_run_all)
  qed (use assms(3) in simp)
  from feed.poll_between [OF states_steps ne this poll]
  have *: "rows = between ev_event_id c c' (identity_invalidations (snd (last (states plan s))))" "c \<le> c'"
    by auto
  then show "es = map scanInvalidation (between ev_event_id c c'
           (identity_invalidations (run_all (concat (map snd plan)) s)))" and "c \<le> c'"
    unfolding es using states_last [OF assms(3)] by simp_all
qed

lemma between_distinct: "log_inv s \<Longrightarrow> distinct (map ev_event_id (between ev_event_id c d (identity_invalidations s)))"
  unfolding log_inv_def between_def by (metis distinct_map_filter strict_sorted_iff)

lemma log_inv_reached: "log_inv (run_all xs migrated_db)"
  using log.run_stable [OF _ log_inv_start] by (simp add: runs_run_all)

lemma short_page:
  "length (page key n c es) < n \<Longrightarrow> page key n c es = filter (\<lambda>e. c < key e) es"
  by (simp add: page_def min_def split: if_splits)

end
