(* ===== verification/Org_Ownership.thy ===== *)
theory Org_Ownership
  imports Control_System
begin

text \<open>
  Ownership of organizations: every active organization has an active owner in every state the
  operations reach. The schema's unique index gives at most one; that there is one at all is the
  work of the guards in \<open>organization.go\<close> and \<open>member.go\<close>.
\<close>

section \<open>The invariant\<close>

definition hasOwner :: "string \<Rightarrow> db \<Rightarrow> bool" where
  "hasOwner org s \<longleftrightarrow> (\<exists>x \<in> set (organization_memberships s). om_organization_id x = org \<and>
     om_status x = ''active'' \<and> om_role x = ''owner'')"

text \<open>All active organizations but one are owned: what dissolving and transferring keep throughout.\<close>

definition ownedExcept :: "string \<Rightarrow> db \<Rightarrow> bool" where
  "ownedExcept org s \<longleftrightarrow> (\<forall>x \<in> set (organizations s). o_status x = ''active'' \<longrightarrow>
     o_organization_id x \<noteq> org \<longrightarrow> hasOwner (o_organization_id x) s)"

definition owned :: "db \<Rightarrow> bool" where
  "owned s \<longleftrightarrow> (\<forall>x \<in> set (organizations s). o_status x = ''active'' \<longrightarrow>
     hasOwner (o_organization_id x) s)"

lemma owned_iff: "owned s \<longleftrightarrow> ownedExcept org s \<and>
    ((\<exists>x \<in> set (organizations s). o_status x = ''active'' \<and> o_organization_id x = org) \<longrightarrow> hasOwner org s)"
  by (auto simp: owned_def ownedExcept_def)

interpretation own: account_stable owned
  by unfold_locales
     (simp_all add: owned_def hasOwner_def core_statements sql_update_membership_def
       sql_revoke_user_sessions_def)

interpretation except: core_stable "ownedExcept org" for org
  by unfold_locales (simp_all add: ownedExcept_def hasOwner_def core_statements)

section \<open>Statements\<close>

lemma hasOwner_other:
  "org' \<noteq> org \<Longrightarrow> hasOwner org' (sql_join_organization org u r now s) = hasOwner org' s"
  "org' \<noteq> org \<Longrightarrow> hasOwner org' (sql_revoke_org_membership now org u s) = hasOwner org' s"
  "org' \<noteq> org \<Longrightarrow> hasOwner org' (sql_set_org_role r now org u s) = hasOwner org' s"
  "org' \<noteq> org \<Longrightarrow> hasOwner org' (sql_update_org_membership r st now u org s) = hasOwner org' s"
  by (auto simp: hasOwner_def org_statements is_org_member_def table_simps)

lemma organizations_frame [simp]:
  "organizations (sql_join_organization org u r now s) = organizations s"
  "organizations (sql_revoke_org_membership now org u s) = organizations s"
  "organizations (sql_set_org_role r now org u s) = organizations s"
  "organizations (sql_update_org_membership r st now u org s) = organizations s"
  "organizations (sql_insert_org_membership m s) = organizations s"
  by (simp_all add: org_statements)

lemma except_laws:
  "ownedExcept org s \<Longrightarrow> ownedExcept org (sql_join_organization org u r now s)"
  "ownedExcept org s \<Longrightarrow> ownedExcept org (sql_revoke_org_membership now org u s)"
  "ownedExcept org s \<Longrightarrow> ownedExcept org (sql_set_org_role r now org u s)"
  "ownedExcept org s \<Longrightarrow> ownedExcept org (sql_update_org_membership r st now u org s)"
  by (simp_all add: ownedExcept_def hasOwner_other)

lemma hasOwner_join: "hasOwner org (sql_join_organization org u ''owner'' now s)"
  by (auto simp: hasOwner_def sql_join_organization_def is_org_member_def bex_update_where)

text \<open>A change of a row that is not the active owner's leaves the owner in place.\<close>

lemma hasOwner_untouched:
  assumes "hasOwner org s"
    and "\<And>x. x \<in> set (organization_memberships s) \<Longrightarrow> is_org_member org u x \<Longrightarrow>
           om_status x \<noteq> ''active'' \<or> om_role x \<noteq> ''owner''"
  shows "hasOwner org (sql_join_organization org u r now s)"
    and "hasOwner org (sql_revoke_org_membership now org u s)"
    and "hasOwner org (sql_update_org_membership r st now u org s)"
proof -
  from assms obtain x where x: "x \<in> set (organization_memberships s)" "om_organization_id x = org"
    "om_status x = ''active''" "om_role x = ''owner''" "\<not> is_org_member org u x"
    unfolding hasOwner_def by blast
  then have "x \<in> set (update_where (is_org_member org u) f (organization_memberships s))" for f
    by (force simp: table_simps)
  with x show "hasOwner org (sql_revoke_org_membership now org u s)"
    and "hasOwner org (sql_update_org_membership r st now u org s)"
    and "hasOwner org (sql_join_organization org u r now s)"
    by (auto simp: hasOwner_def org_statements)
qed

lemma owned_untouched:
  assumes "owned s"
    and "\<And>x. x \<in> set (organization_memberships s) \<Longrightarrow> is_org_member org u x \<Longrightarrow>
           om_status x \<noteq> ''active'' \<or> om_role x \<noteq> ''owner''"
  shows "owned (sql_join_organization org u r now s)"
    and "owned (sql_revoke_org_membership now org u s)"
    and "owned (sql_update_org_membership r st now u org s)"
  using assms except_laws hasOwner_untouched [where org = org and u = u and s = s]
  by (simp_all add: owned_iff [of _ org])

lemma owned_insert_membership: "owned s \<Longrightarrow> owned (sql_insert_org_membership m s)"
  by (auto simp: owned_def hasOwner_def sql_insert_org_membership_def)

lemma owned_rename: "owned s \<Longrightarrow> owned (sql_rename_organization n now org s)"
  by (auto simp: owned_def hasOwner_def sql_rename_organization_def table_simps)

lemma owned_disable: "ownedExcept org s \<Longrightarrow> owned (sql_disable_organization now org s)"
  by (auto simp: owned_def ownedExcept_def hasOwner_def sql_disable_organization_def table_simps)

text \<open>The primary key makes the looked-up row the only one.\<close>

lemma org_member_unique:
  assumes "schema_ok s" and "x \<in> set (organization_memberships s)" and "is_org_member org u x"
    and "y \<in> set (organization_memberships s)" and "is_org_member org u y"
  shows "x = y"
  using assms key_unique [of "\<lambda>x. (om_organization_id x, om_user_id x)" "organization_memberships s" x y]
  by (simp add: schema_ok_def schema_org_memberships_def is_org_member_def)

lemma currentOrganization_Some:
  "currentOrganization s dep u = Some x \<Longrightarrow> x \<in> set (organization_memberships s) \<and>
     om_user_id x = u \<and> om_status x = ''active'' \<and> orgActiveIn s dep (om_organization_id x)"
  unfolding currentOrganization_def by (drule sql_first_Some) simp

lemma currentOrganization_None:
  "currentOrganization s dep u = None \<Longrightarrow> x \<in> set (organization_memberships s) \<Longrightarrow>
     om_user_id x = u \<Longrightarrow> om_status x = ''active'' \<Longrightarrow> \<not> orgActiveIn s dep (om_organization_id x)"
  by (auto simp: currentOrganization_def filter_empty_conv)

section \<open>Actions\<close>

text \<open>\<open>revokeOrganizationMember\<close> keeps ownership when the member is not the owner.\<close>

lemma revoke_keeps_except: "keeps (ownedExcept org) (revokeOrganizationMember dep org u now)"
  unfolding revokeOrganizationMember_def
  by (intro keeps_rules except_laws except.quiet_laws except.keeps_org_event)

lemma revoke_keeps_owned:
  assumes "owned s"
    and "\<And>x. x \<in> set (organization_memberships s) \<Longrightarrow> is_org_member org u x \<Longrightarrow>
           om_status x \<noteq> ''active'' \<or> om_role x \<noteq> ''owner''"
    and "revokeOrganizationMember dep org u now s = Inr (a, t)"
  shows "owned t"
proof -
  let ?s1 = "sql_revoke_org_membership now org u s"
  from assms(3) have "thenS (exec_stm (sql_revoke_agents now org u)) (
      thenS (exec_stm (sql_revoke_org_nodes now org u)) (
      appendOrganizationInvalidation dep org u True now)) ?s1 = Inr (a, t)"
    unfolding revokeOrganizationMember_def by simp
  moreover have "owned ?s1" by (rule owned_untouched [OF assms(1,2)])
  moreover have "keeps owned (thenS (exec_stm (sql_revoke_agents now org u)) (
      thenS (exec_stm (sql_revoke_org_nodes now org u)) (
      appendOrganizationInvalidation dep org u True now)))"
    by (intro keeps_rules own.quiet_laws own.keeps_org_event)
  ultimately show ?thesis by (blast dest: keepsD)
qed

lemma create_owned:
  assumes "owned s" and "createOrganization c s = Inr (org, t)"
  shows "owned t"
proof -
  let ?s1 = "sql_insert_organization (newOrganizationRow (oc_OrganizationID c)
     (pr_DeploymentID (oc_Actor c)) (oc_Name c) (oc_Now c)) s"
  have t: "t = sql_join_organization (oc_OrganizationID c) (pr_UserID (oc_Actor c)) ''owner'' (oc_Now c) ?s1"
    using assms(2) unfolding createOrganization_def joinOrganization_def by auto
  have "ownedExcept (oc_OrganizationID c) ?s1"
    using assms(1) by (auto simp: owned_def ownedExcept_def hasOwner_def sql_insert_organization_def
        newOrganizationRow_def)
  then show ?thesis
    unfolding t owned_iff [of _ "oc_OrganizationID c"] using hasOwner_join except_laws(1) by blast
qed

lemma join_owned:
  assumes "owned s" and "currentOrganization s (pr_DeploymentID (oc_Actor c)) (pr_UserID (oc_Actor c)) = None"
    and "joinByInvitation c s = Inr (org, t)"
  shows "owned t"
proof -
  from assms(3) obtain i where i: "openInvitation c s = Some i"
    unfolding joinByInvitation_def by (auto split: option.splits)
  then have act: "orgActiveIn s (pr_DeploymentID (oc_Actor c)) (i_organization_id i)"
    unfolding openInvitation_def by (auto dest: sql_first_Some)
  let ?j = "sql_join_organization (i_organization_id i) (pr_UserID (oc_Actor c)) (i_role i) (oc_Now c)"
  have "om_status x \<noteq> ''active'' \<or> om_role x \<noteq> ''owner''"
    if "x \<in> set (organization_memberships s)"
      and "is_org_member (i_organization_id i) (pr_UserID (oc_Actor c)) x" for x
    using currentOrganization_None [OF assms(2) that(1)] that(2) act by (auto simp: is_org_member_def)
  then have "owned (?j s)" by (rule owned_untouched [OF assms(1)])
  moreover have "thenS (exec_stm (sql_join_invitation (pr_UserID (oc_Actor c)) (oc_Now c)
      (i_invitation_id i))) (returnS (i_organization_id i)) (?j s) = Inr (org, t)"
    using assms(3) i unfolding joinByInvitation_def joinOrganization_def by auto
  moreover have "keeps owned (thenS (exec_stm (sql_join_invitation (pr_UserID (oc_Actor c)) (oc_Now c)
      (i_invitation_id i))) (returnS (i_organization_id i)))"
    by (intro keeps_rules own.quiet_laws)
  ultimately show ?thesis by (blast dest: keepsD)
qed

lemma transfer_owned:
  assumes "owned s" and "transferOrganization c org role s = Inr (org', t)"
  shows "owned t"
proof -
  let ?s1 = "sql_set_org_role ''admin'' (oc_Now c) org (pr_UserID (oc_Actor c)) s"
  let ?s2 = "sql_set_org_role ''owner'' (oc_Now c) org (oc_TargetUserID c) ?s1"
  from assms(2) have ne: "oc_TargetUserID c \<noteq> pr_UserID (oc_Actor c)"
    and target: "transferTarget c org s \<noteq> None"
    and rest: "thenS (appendOrganizationInvalidation (pr_DeploymentID (oc_Actor c)) org
        (oc_TargetUserID c) False (oc_Now c)) (returnS org) ?s2 = Inr (org', t)"
    unfolding transferOrganization_def by (auto split: if_splits option.splits)
  from target obtain x where "x \<in> set (organization_memberships s)"
      "is_org_member org (oc_TargetUserID c) x" "om_status x = ''active''"
    unfolding transferTarget_def findOrgMembership_def
    by (auto split: option.splits if_splits dest!: find_Some_set)
  with ne have "hasOwner org ?s2"
    by (auto simp: hasOwner_def sql_set_org_role_def is_org_member_def bex_update_where)
  moreover have "ownedExcept org ?s2"
    using assms(1) except_laws(3) owned_iff by blast
  ultimately have "owned ?s2" using owned_iff by blast
  moreover have "keeps owned (thenS (appendOrganizationInvalidation (pr_DeploymentID (oc_Actor c)) org
        (oc_TargetUserID c) False (oc_Now c)) (returnS org))"
    by (intro keeps_rules own.keeps_org_event)
  ultimately show ?thesis using rest by (blast dest: keepsD)
qed

lemma rename_owned: "keeps owned (renameOrganization c org role)"
  unfolding renameOrganization_def
  by (intro keeps_rules own.keeps_org_event owned_rename)

lemma dissolve_owned:
  assumes "owned s" and "dissolveOrganization c org role s = Inr (org', t)"
  shows "owned t"
proof -
  from assms(2) obtain u where
    loop: "forS (\<lambda>u. revokeOrganizationMember (pr_DeploymentID (oc_Actor c)) org u (oc_Now c))
       (activeOrgUsers org s) s = Inr ((), u)"
    and t: "t = sql_disable_organization (oc_Now c) org u"
    unfolding dissolveOrganization_def by (auto split: if_splits)
  have "ownedExcept org s" using assms(1) owned_iff by blast
  moreover have "keeps (ownedExcept org)
      (forS (\<lambda>u. revokeOrganizationMember (pr_DeploymentID (oc_Actor c)) org u (oc_Now c))
         (activeOrgUsers org s))"
    by (intro keeps_for revoke_keeps_except)
  ultimately have "ownedExcept org u" using loop by (blast dest: keepsD)
  then show ?thesis unfolding t by (rule owned_disable)
qed

section \<open>Operations\<close>

text \<open>
  The code represents "no organization" by the empty string, so organization identifiers must not
  be empty; the service generates them with a prefix.
\<close>

definition namedOrgs :: "db \<Rightarrow> bool" where
  "namedOrgs s \<longleftrightarrow> (\<forall>x \<in> set (organizations s). o_organization_id x \<noteq> '''')"

interpretation named: account_stable namedOrgs
  by unfold_locales
     (simp_all add: namedOrgs_def core_statements sql_update_membership_def
       sql_revoke_user_sessions_def)

lemma leave_owned:
  assumes "owned s" and "schema_ok s" and "x \<in> set (organization_memberships s)"
    and "is_org_member org (pr_UserID (oc_Actor c)) x"
    and "leaveOrganization c org (om_role x) s = Inr (org', t)"
  shows "owned t"
proof -
  from assms(5) have "om_role x \<noteq> ''owner''"
    and "revokeOrganizationMember (pr_DeploymentID (oc_Actor c)) org (pr_UserID (oc_Actor c))
        (oc_Now c) s = Inr ((), t)"
    unfolding leaveOrganization_def by (auto split: if_splits)
  then show ?thesis
    using assms(1-4) by (metis org_member_unique revoke_keeps_owned)
qed

lemma orgActiveIn_named: "namedOrgs s \<Longrightarrow> orgActiveIn s dep org \<Longrightarrow> org \<noteq> ''''"
  unfolding orgActiveIn_def findOrganization_def namedOrgs_def
  by (auto split: option.splits dest!: find_Some_set)

lemma organizationAction_owned:
  fixes c s
  defines "org \<equiv> currentID (actorOrg c s)" and "role \<equiv> currentRole (actorOrg c s)"
  assumes "owned s" and "schema_ok s" and "namedOrgs s" and "organizationGuard c org"
    and "organizationAction c org role s = Inr (org', t)"
  shows "owned t"
proof (cases "oc_Action c = ''create'' \<or> oc_Action c = ''join''")
  case True
  have "actorOrg c s = None"
  proof (cases "actorOrg c s")
    case (Some x)
    then have "om_organization_id x \<noteq> ''''"
      using assms(5) by (auto simp: actorOrg_def dest!: currentOrganization_Some orgActiveIn_named)
    then show ?thesis using assms(6) True Some by (simp add: org_def organizationGuard_def currentID_def)
  qed
  then have none: "currentOrganization s (pr_DeploymentID (oc_Actor c)) (pr_UserID (oc_Actor c)) = None"
    by (simp add: actorOrg_def)
  have "createOrganization c s = Inr (org', t) \<or> joinByInvitation c s = Inr (org', t)"
    using True assms(7) unfolding organizationAction_def by (elim disjE) simp_all
  then show ?thesis using create_owned [OF assms(3)] join_owned [OF assms(3) none] by blast
next
  case False
  then have "org \<noteq> ''''" using assms(6) by (auto simp: organizationGuard_def)
  then obtain x where x: "actorOrg c s = Some x" "org = om_organization_id x" "role = om_role x"
    unfolding org_def role_def currentID_def currentRole_def by (cases "actorOrg c s") auto
  then have "x \<in> set (organization_memberships s)" "is_org_member org (pr_UserID (oc_Actor c)) x"
    by (auto simp: actorOrg_def is_org_member_def dest!: currentOrganization_Some)
  moreover have "leaveOrganization c org (om_role x) s = Inr (org', t) \<or>
      transferOrganization c org role s = Inr (org', t) \<or> renameOrganization c org role s = Inr (org', t) \<or>
      dissolveOrganization c org role s = Inr (org', t)"
    using assms(7) False unfolding organizationAction_def x(3) [symmetric]
    by (simp split: if_split_asm)
  ultimately show ?thesis
    using leave_owned [OF assms(3,4)] transfer_owned [OF assms(3)] dissolve_owned [OF assms(3)]
      keepsD [OF rename_owned assms(3)] by blast
qed

lemma MutateOrganization_owned:
  assumes "owned s" and "schema_ok s" and "namedOrgs s"
  shows "owned (snd (repo_MutateOrganization c s))"
proof (cases "repo_MutateOrganization c s")
  case (Pair r t)
  show ?thesis
  proof (cases r)
    case Inl
    with Pair show ?thesis using MutateOrganization_Inl assms(1) by fastforce
  next
    case (Inr x)
    with Pair obtain org u where "organizationGuard c (currentID (actorOrg c s))"
      and "organizationAction c (currentID (actorOrg c s)) (currentRole (actorOrg c s)) s = Inr (org, u)"
      and ev: "closingEvent c org u = Inr ((), t)"
      by (auto simp only: MutateOrganization_Inr)
    with assms have "owned u" using organizationAction_owned by blast
    moreover have "keeps owned (closingEvent c org)"
      unfolding closingEvent_def by (intro keeps_rules own.keeps_org_event)
    ultimately show ?thesis using ev Pair by (auto dest: keepsD)
  qed
qed

text \<open>\<open>UpdateMember\<close>: the permission checks exclude the owner before and after the change.\<close>

definition ownedBeside :: "string \<Rightarrow> string \<Rightarrow> db \<Rightarrow> bool" where
  "ownedBeside org u s \<longleftrightarrow> owned s \<and> (\<forall>x \<in> set (organization_memberships s).
     is_org_member org u x \<longrightarrow> om_role x \<noteq> ''owner'')"

interpretation beside: core_stable "ownedBeside org u" for org u
  by unfold_locales (simp_all add: ownedBeside_def owned_def hasOwner_def core_statements)

lemma beside_update:
  assumes "ownedBeside org u s" and "r \<noteq> ''owner''"
  shows "ownedBeside org u (sql_update_org_membership r st now u org s)"
proof -
  from assms(1) have "owned (sql_update_org_membership r st now u org s)"
    by (intro owned_untouched) (auto simp: ownedBeside_def)
  moreover have "\<forall>x \<in> set (organization_memberships (sql_update_org_membership r st now u org s)).
     is_org_member org u x \<longrightarrow> om_role x \<noteq> ''owner''"
    using assms by (auto simp: ownedBeside_def sql_update_org_membership_def ball_update_where is_org_member_def)
  ultimately show ?thesis by (simp add: ownedBeside_def)
qed

lemma beside_revoke:
  assumes "ownedBeside org u s"
  shows "ownedBeside org u (sql_revoke_org_membership now org u s)"
proof -
  from assms have "owned (sql_revoke_org_membership now org u s)"
    by (intro owned_untouched) (auto simp: ownedBeside_def)
  moreover have "\<forall>x \<in> set (organization_memberships (sql_revoke_org_membership now org u s)).
     is_org_member org u x \<longrightarrow> om_role x \<noteq> ''owner''"
    using assms by (auto simp: ownedBeside_def sql_revoke_org_membership_def ball_update_where is_org_member_def)
  ultimately show ?thesis by (simp add: ownedBeside_def)
qed

lemma beside_effects: "keeps (ownedBeside org u) (memberEffects dep org u target nr ns nn now)"
  unfolding memberEffects_def revokeOrganizationMember_def
  by (intro keeps_rules beside_revoke beside.quiet_laws beside.keeps_org_event
      beside.keeps_changeDisplayName)

lemma queryOrganizationMember_Inr:
  assumes "queryOrganizationMember dep org u s = Inr target"
  obtains x where "x \<in> set (organization_memberships s)" and "is_org_member org u x"
    and "om_role x = dm_Role target" and "om_status x = dm_MembershipStatus target"
proof -
  from assms obtain m w x where "findMembership s dep u = Some m" "findUser s (m_user_id m) = Some w"
    "findOrgMembership s org (m_user_id m) = Some x"
    "target = scanDeploymentMember (m_deployment_id m) w (om_role x) (om_status x) (om_updated_at x)
       (m_web_access_disabled m)"
    unfolding queryOrganizationMember_def organizationMemberOf_def by (auto split: option.splits)
  then have "x \<in> set (organization_memberships s) \<and> is_org_member org u x \<and>
      om_role x = dm_Role target \<and> om_status x = dm_MembershipStatus target"
    unfolding findMembership_def findOrgMembership_def scanDeploymentMember_def
    by (auto dest!: find_Some_set simp: is_org_member_def)
  then show ?thesis using that by blast
qed

lemma mayManage_owner [simp]: "\<not> mayManage role ''owner''"
  by (simp add: mayManage_def)

lemma UpdateMember_owned:
  assumes "owned s" and "schema_ok s"
  shows "owned (snd (repo_UpdateMember dep org u actor er es ev nr ns nn now s))"
proof (cases "repo_UpdateMember dep org u actor er es ev nr ns nn now s")
  case (Pair r t)
  show ?thesis
  proof (cases r)
    case Inl
    with Pair have "t = s" by (blast intro: UpdateMember_Inl)
    with Pair assms(1) show ?thesis by simp
  next
    case (Inr y)
    with Pair obtain target role where q: "queryOrganizationMember dep org u s = Inr target"
      and may: "mayManage role (dm_Role target)" "mayManage role nr"
      and eff: "memberEffects dep org u target nr ns nn now
          (sql_update_org_membership nr ns now u org s) = Inr ((), t)"
      by (auto simp only: UpdateMember_Inr)
    from may have "dm_Role target \<noteq> ''owner''" "nr \<noteq> ''owner''" by auto
    with q have "ownedBeside org u s"
      using assms org_member_unique unfolding ownedBeside_def by (metis queryOrganizationMember_Inr)
    then have "ownedBeside org u (sql_update_org_membership nr ns now u org s)"
      using \<open>nr \<noteq> ''owner''\<close> by (rule beside_update)
    from keepsD [OF beside_effects this eff] Pair show ?thesis by (simp add: ownedBeside_def)
  qed
qed

lemma AcceptOrganizationInvitation_owned:
  "owned s \<Longrightarrow> owned (snd (repo_AcceptOrganizationInvitation r s))"
  unfolding repo_AcceptOrganizationInvitation_def acceptedAccount_def claimInvitation_def Let_def
  by (rule keeps_tx, assumption, intro keeps_rules own.quiet_laws own.keeps_insertUser
      owned_insert_membership)

lemma createOwner_statements_owned: "keeps owned (forS exec_stm (createOwnerStatements r))"
  by (rule keepsI, auto simp: createOwnerStatements_def Let_def owned_def hasOwner_def
      core_statements org_statements new_rows newOrganizationRow_def)

lemma CreateOwner_owned: "owned s \<Longrightarrow> owned (snd (repo_CreateOwner r s))"
  by (rule CreateOwner_keeps [OF createOwner_statements_owned own.keeps_defaultPlans])

section \<open>Runs\<close>

text \<open>Operations that create an organization name it.\<close>

definition namesOrg :: "operation \<Rightarrow> bool" where
  "namesOrg x \<longleftrightarrow> (case x of
     OpCreateOwner r \<Rightarrow> ow_OrganizationID r \<noteq> ''''
   | OpMutateOrganization c \<Rightarrow> oc_Action c = ''create'' \<longrightarrow> oc_OrganizationID c \<noteq> ''''
   | _ \<Rightarrow> True)"

lemma named_org_laws:
  "namedOrgs s \<Longrightarrow> namedOrgs (sql_rename_organization n now org s)"
  "namedOrgs s \<Longrightarrow> namedOrgs (sql_disable_organization now org s)"
  "namedOrgs s \<Longrightarrow> namedOrgs (sql_insert_org_membership m s)"
  "namedOrgs s \<Longrightarrow> namedOrgs (sql_join_organization org u r now s)"
  "namedOrgs s \<Longrightarrow> namedOrgs (sql_revoke_org_membership now org u s)"
  "namedOrgs s \<Longrightarrow> namedOrgs (sql_set_org_role r now org u s)"
  "namedOrgs s \<Longrightarrow> namedOrgs (sql_update_org_membership r st now u org s)"
  by (auto simp: namedOrgs_def org_statements table_simps)

lemma named_insert_organization:
  "namedOrgs s \<Longrightarrow> o_organization_id x \<noteq> '''' \<Longrightarrow> namedOrgs (sql_insert_organization x s)"
  by (auto simp: namedOrgs_def sql_insert_organization_def)

lemma named_revokeMember: "keeps namedOrgs (revokeOrganizationMember dep org u now)"
  unfolding revokeOrganizationMember_def
  by (intro keeps_rules named_org_laws named.quiet_laws named.keeps_org_event)

lemma named_create:
  "oc_OrganizationID c \<noteq> '''' \<Longrightarrow> keeps namedOrgs (createOrganization c)"
  unfolding createOrganization_def joinOrganization_def
  by (intro keeps_rules named_org_laws named_insert_organization) (simp_all add: newOrganizationRow_def)

lemma named_action:
  assumes "oc_Action c = ''create'' \<longrightarrow> oc_OrganizationID c \<noteq> ''''"
  shows "keeps namedOrgs (organizationAction c org role)"
proof (cases "oc_Action c = ''create''")
  case True
  with assms show ?thesis by (simp add: organizationAction_def named_create)
next
  case False
  then show ?thesis
    unfolding organizationAction_def joinByInvitation_def leaveOrganization_def
      transferOrganization_def renameOrganization_def dissolveOrganization_def joinOrganization_def
    by (simp only: if_False)
       (intro keeps_rules named.quiet_laws named_org_laws named.keeps_org_event named_revokeMember)
qed

lemma MutateOrganization_named:
  assumes "oc_Action c = ''create'' \<longrightarrow> oc_OrganizationID c \<noteq> ''''" and "namedOrgs s"
  shows "namedOrgs (snd (repo_MutateOrganization c s))"
  unfolding repo_MutateOrganization_def mutateOrganizationBody_def closingEvent_def
  by (rule keeps_tx, rule assms(2), intro keeps_rules named_action [OF assms(1)] named.keeps_org_event)

lemma UpdateMember_named: "namedOrgs s \<Longrightarrow> namedOrgs (snd (repo_UpdateMember a b c d e f g h i j k s))"
  unfolding repo_UpdateMember_def memberEffects_def
  by (rule keeps_tx, assumption, intro keeps_rules named.quiet_laws named_org_laws
      named.keeps_changeDisplayName named_revokeMember named.keeps_org_event)

lemma AcceptOrganizationInvitation_named:
  "namedOrgs s \<Longrightarrow> namedOrgs (snd (repo_AcceptOrganizationInvitation r s))"
  unfolding repo_AcceptOrganizationInvitation_def acceptedAccount_def claimInvitation_def Let_def
  by (rule keeps_tx, assumption, intro keeps_rules named.quiet_laws named.keeps_insertUser
      named_org_laws)

lemma createOwner_statements_named:
  "ow_OrganizationID r \<noteq> '''' \<Longrightarrow> keeps namedOrgs (forS exec_stm (createOwnerStatements r))"
  by (rule keepsI, auto simp: createOwnerStatements_def Let_def namedOrgs_def core_statements
      org_statements newOrganizationRow_def)

lemma CreateOwner_named:
  "ow_OrganizationID r \<noteq> '''' \<Longrightarrow> namedOrgs s \<Longrightarrow> namedOrgs (snd (repo_CreateOwner r s))"
  by (rule CreateOwner_keeps [OF createOwner_statements_named named.keeps_defaultPlans])

definition wellOwned :: "db \<Rightarrow> bool" where
  "wellOwned s \<longleftrightarrow> schema_ok s \<and> namedOrgs s \<and> owned s"

lemma own_step:
  assumes "wellOwned s" and "namesOrg x"
  shows "wellOwned (run_op x s)"
proof -
  have "schema_ok (run_op x s)"
    using schema.run_op_stable [OF schema.creates, of s x] assms(1) by (simp add: wellOwned_def)
  moreover have "namedOrgs (run_op x s)"
    using assms named.other_op_stable [of x s]
    by (cases x) (simp_all add: wellOwned_def namesOrg_def MutateOrganization_named UpdateMember_named
        AcceptOrganizationInvitation_named CreateOwner_named)
  moreover have "owned (run_op x s)"
    using assms own.other_op_stable [of x s]
    by (cases x) (simp_all add: wellOwned_def MutateOrganization_owned UpdateMember_owned
        AcceptOrganizationInvitation_owned CreateOwner_owned)
  ultimately show ?thesis by (simp add: wellOwned_def)
qed

lemma own_runs: "runs s xs t \<Longrightarrow> \<forall>x \<in> set xs. namesOrg x \<Longrightarrow> wellOwned s \<Longrightarrow> wellOwned t"
  by (induction rule: runs.induct) (simp_all add: own_step)

lemma own_start: "wellOwned migrated_db"
  using migrated_db_ok by (simp add: wellOwned_def namedOrgs_def owned_def) (simp add: migrated_db_def)

text \<open>The partial unique index on active owners allows one row.\<close>

definition activeOwners :: "string \<Rightarrow> db \<Rightarrow> nat" where
  "activeOwners org s = count_where (\<lambda>x. om_organization_id x = org \<and> om_status x = ''active'' \<and>
     om_role x = ''owner'') (organization_memberships s)"

lemma exactly_one_owner:
  assumes "wellOwned s" and "x \<in> set (organizations s)" and "o_status x = ''active''"
  shows "activeOwners (o_organization_id x) s = 1"
proof -
  let ?owner = "\<lambda>x. om_status x = ''active'' \<and> om_role x = ''owner''"
  have "distinct (map om_organization_id (filter ?owner (organization_memberships s)))"
    using assms(1) by (simp add: wellOwned_def schema_ok_def schema_org_memberships_def)
  from count_key_le1 [OF this, of "o_organization_id x"]
  have "activeOwners (o_organization_id x) s \<le> 1"
    by (simp add: activeOwners_def count_where_def conj_commute conj_left_commute)
  moreover have "activeOwners (o_organization_id x) s \<noteq> 0"
    using assms by (auto simp: wellOwned_def owned_def hasOwner_def activeOwners_def count_where_0)
  ultimately show ?thesis by simp
qed


end
