(* ===== verification/Platform_Ownership.thy ===== *)
theory Platform_Ownership
  imports Control_System
begin

text \<open>
  Permissions. The two live permission checks share one rule, stated as the locale
  \<open>permission\<close>: nobody acts on an owner or makes one, an administrator acts on members only, and
  an account without a live role does nothing. It protects the owner of the platform: once a
  deployment has an owner it keeps this owner, and the setup cannot be repeated.
\<close>

section \<open>The permission rule\<close>

text \<open>
  The contract of a live permission check: it lets an owner act on everyone but owners, an
  administrator on members, nobody else, and it changes nothing. What stands behind it in a
  transaction runs for these only.
\<close>

locale permission =
  fixes require :: "string \<Rightarrow> string \<Rightarrow> string \<Rightarrow> unit stm"
    and role :: "db \<Rightarrow> string \<Rightarrow> string \<Rightarrow> string option"
  assumes granted: "\<And>scope u r s x t. require scope u r s = Inr (x, t) \<longleftrightarrow> t = s \<and> r \<noteq> ''owner'' \<and>
      (role s scope u = Some ''owner'' \<or> role s scope u = Some ''admin'' \<and> r = ''member'')"
    and denied: "\<And>scope u r s e. require scope u r s = Inl e \<Longrightarrow> e = StoreErrStateConflict"
begin

lemma gate: "thenS (require scope u r) rest s =
    (if r \<noteq> ''owner'' \<and> (role s scope u = Some ''owner'' \<or> role s scope u = Some ''admin'' \<and> r = ''member'')
     then rest s else Inl StoreErrStateConflict)"
proof (cases "require scope u r s")
  case (Inl e)
  with denied granted [of scope u r s "()" s] show ?thesis by (auto simp: thenS_def bindS_def)
next
  case (Inr p)
  with granted [of scope u r s "fst p" "snd p"] show ?thesis by (cases p) (auto simp: thenS_def bindS_def)
qed

lemma owner_protected: "thenS (require scope u ''owner'') rest s = Inl StoreErrStateConflict"
  by (simp add: gate)

end

interpretation organization: permission requireOrganizationManager liveOrgRole
proof unfold_locales
  fix org u r s x t
  show "requireOrganizationManager org u r s = Inr (x, t) \<longleftrightarrow> t = s \<and> r \<noteq> ''owner'' \<and>
      (liveOrgRole s org u = Some ''owner'' \<or> liveOrgRole s org u = Some ''admin'' \<and> r = ''member'')"
    by (auto simp: mayManage_def)
next
  fix org u r s e
  assume "requireOrganizationManager org u r s = Inl e"
  then show "e = StoreErrStateConflict"
    by (auto simp: requireOrganizationManager_def split: option.splits if_splits)
qed

interpretation deployment: permission requireDeploymentManager liveRole
proof unfold_locales
  fix dep u r s x t
  show "requireDeploymentManager dep u r s = Inr (x, t) \<longleftrightarrow> t = s \<and> r \<noteq> ''owner'' \<and>
      (liveRole s dep u = Some ''owner'' \<or> liveRole s dep u = Some ''admin'' \<and> r = ''member'')"
    by (auto simp: mayManage_def)
next
  fix dep u r s e
  assume "requireDeploymentManager dep u r s = Inl e"
  then show "e = StoreErrStateConflict"
    by (auto simp: requireDeploymentManager_def split: option.splits if_splits)
qed

section \<open>The owner of the platform\<close>

definition is_member :: "string \<Rightarrow> string \<Rightarrow> membership_row \<Rightarrow> bool" where
  "is_member dep uid m \<longleftrightarrow> m_deployment_id m = dep \<and> m_user_id m = uid"

definition ownsPlatform :: "string \<Rightarrow> string \<Rightarrow> db \<Rightarrow> bool" where
  "ownsPlatform dep uid s \<longleftrightarrow> (\<exists>m \<in> set (deployment_memberships s).
     is_member dep uid m \<and> m_role m = ''owner'' \<and> m_status m = ''active'')"

interpretation platform: member_stable "ownsPlatform dep uid" for dep uid
  by unfold_locales (auto simp: ownsPlatform_def core_statements org_statements)

text \<open>The lock row of the control state is never deleted.\<close>

interpretation locked: all_stable "\<lambda>s. 1 \<in> set (control_state s)"
  by unfold_locales (simp_all add: all_statements)

lemma member_unique:
  assumes "schema_ok s" and "x \<in> set (deployment_memberships s)" and "is_member dep u x"
    and "y \<in> set (deployment_memberships s)" and "is_member dep u y"
  shows "x = y"
  using assms key_unique [of "\<lambda>m. (m_deployment_id m, m_user_id m)" "deployment_memberships s" x y]
  by (simp add: schema_ok_def schema_defs is_member_def)

lemma queryDeploymentMember_Inr:
  assumes "queryDeploymentMember dep u s = Inr target"
  obtains m where "m \<in> set (deployment_memberships s)" and "is_member dep u m"
    and "m_role m = dm_Role target" and "m_status m = dm_MembershipStatus target"
proof -
  from assms obtain m w where "findMembership s dep u = Some m"
    "target = scanDeploymentMember (m_deployment_id m) w (m_role m) (m_status m) (m_updated_at m)
       (m_web_access_disabled m)"
    unfolding queryDeploymentMember_def deploymentMemberOf_def by (auto split: option.splits)
  then show ?thesis
    using that unfolding findMembership_def scanDeploymentMember_def
    by (auto dest!: find_Some_set simp: is_member_def)
qed

lemma owns_update:
  assumes "ownsPlatform dep uid s"
    and "\<And>m. m \<in> set (deployment_memberships s) \<Longrightarrow> is_member d u m \<Longrightarrow> m_role m \<noteq> ''owner''"
  shows "ownsPlatform dep uid (sql_update_membership r st now d u s)"
proof -
  from assms(1) obtain m where m: "m \<in> set (deployment_memberships s)" "is_member dep uid m"
    "m_role m = ''owner''" "m_status m = ''active''"
    unfolding ownsPlatform_def by blast
  with assms(2) have "\<not> is_member d u m" by blast
  with m show ?thesis
    unfolding ownsPlatform_def sql_update_membership_def
    by (force simp: bex_update_where is_member_def)
qed

lemma UpdateDeploymentMember_owns:
  assumes "ownsPlatform dep uid s" and "schema_ok s"
  shows "ownsPlatform dep uid (snd (repo_UpdateDeploymentMember d u actor er es ev nr ns nn now s))"
proof (cases "repo_UpdateDeploymentMember d u actor er es ev nr ns nn now s")
  case (Pair r t)
  show ?thesis
  proof (cases r)
    case Inl
    with Pair have "t = s" by (blast intro: UpdateDeploymentMember_Inl)
    with Pair assms(1) show ?thesis by simp
  next
    case (Inr y)
    with Pair obtain target role where q: "queryDeploymentMember d u s = Inr target"
      and may: "mayManage role (dm_Role target)"
      and eff: "deploymentEffects d u target nr ns nn now (sql_update_membership nr ns now d u s)
          = Inr ((), t)"
      by (auto simp only: UpdateDeploymentMember_Inr)
    obtain m where m: "m \<in> set (deployment_memberships s)" "is_member d u m" "m_role m = dm_Role target"
      using queryDeploymentMember_Inr [OF q] by metis
    from may have "dm_Role target \<noteq> ''owner''" by (auto simp: mayManage_def)
    have "m_role m' \<noteq> ''owner''" if "m' \<in> set (deployment_memberships s)" "is_member d u m'" for m'
      using member_unique [OF assms(2) that m(1,2)] m(3) \<open>dm_Role target \<noteq> ''owner''\<close> by simp
    then have upd: "ownsPlatform dep uid (sql_update_membership nr ns now d u s)"
      by (rule owns_update [OF assms(1)])
    have "keeps (ownsPlatform dep uid) (deploymentEffects d u target nr ns nn now)"
      unfolding deploymentEffects_def
      by (intro keeps_rules platform.keeps_changeDisplayName platform.keeps_append_event)
         (simp add: ownsPlatform_def sql_revoke_user_sessions_def)
    from keepsD [OF this upd eff] Pair show ?thesis by simp
  qed
qed

lemma owns_step:
  "schema_ok s \<Longrightarrow> ownsPlatform dep uid s \<Longrightarrow> ownsPlatform dep uid (run_op x s)"
  using platform.member_op_stable [of x dep uid s] UpdateDeploymentMember_owns [of dep uid s]
  by (cases x) simp_all

lemma schema_step: "schema_ok s \<Longrightarrow> schema_ok (run_op x s)"
  by (rule schema.run_op_stable [OF schema.creates])

lemma schema_runs: "runs s xs t \<Longrightarrow> schema_ok s \<Longrightarrow> schema_ok t"
  by (rule schema.run_stable)

lemma schema_run_all: "schema_ok s \<Longrightarrow> schema_ok (run_all xs s)"
  using schema_runs runs_run_all by blast

lemma owns_runs: "runs s xs t \<Longrightarrow> schema_ok s \<Longrightarrow> ownsPlatform dep uid s \<Longrightarrow> ownsPlatform dep uid t"
  by (induction rule: runs.induct) (simp_all add: owns_step schema_step)

lemma CreateOwner_Inr:
  assumes "repo_CreateOwner r s = (Inr x, t)"
  shows "ownsPlatform (ow_DeploymentID r) (ow_UserID r) t"
proof -
  from assms obtain u where "forS exec_stm (createOwnerStatements r) s = Inr ((), u)"
    and plans: "insertDefaultSubscriptionPlans (ow_DeploymentID r) (ow_CreatedAt r) u = Inr ((), t)"
    by (auto simp: repo_CreateOwner_def run_tx_Inr simp del: forS.simps split: if_splits)
  then have "ownsPlatform (ow_DeploymentID r) (ow_UserID r) u"
    by (auto simp: createOwnerStatements_def Let_def ownsPlatform_def is_member_def core_statements
        org_statements new_rows)
  from keepsD [OF platform.keeps_defaultPlans this plans] show ?thesis .
qed

lemma owns_setup: "ownsPlatform dep uid s \<Longrightarrow> activeMemberships s \<noteq> 0"
  by (auto simp: ownsPlatform_def activeMemberships_def count_where_0)

lemma CreateOwner_again:
  "activeMemberships s \<noteq> 0 \<Longrightarrow> 1 \<in> set (control_state s) \<Longrightarrow>
     repo_CreateOwner r s = (Inl StoreErrAlreadySetup, s)"
  by (simp add: repo_CreateOwner_def run_tx_Inl)

end
