(* ===== verification/Session_Life.thy ===== *)
theory Session_Life
  imports Platform_Ownership
begin

text \<open>
  The life of sessions, invitations, receipts and nodes: what ends stays ended. Each end is a
  property of the database that the statements keep (an interpretation of the locales of
  \<open>Control_Statements\<close>), so it holds along every run that does not create a new row under the same
  key.
\<close>

section \<open>Resolving a session\<close>

text \<open>What a resolved principal rests on: the abstract reading of \<open>resolveSession\<close>.\<close>

definition grants :: "db \<Rightarrow> session_row \<Rightarrow> PrincipalRecord \<Rightarrow> bool" where
  "grants s x p \<longleftrightarrow> x \<in> set (sessions s) \<and> s_revoked_at x = None \<and>
     deploymentActive s (s_deployment_id x) \<and> userActive s (s_user_id x) \<and>
     membershipActive s (s_deployment_id x) (s_user_id x) \<and>
     pr_SessionID p = s_session_id x \<and> pr_UserID p = s_user_id x \<and>
     pr_DeploymentID p = s_deployment_id x \<and> pr_AuthMethod p = s_auth_method x"

lemma sessionPrincipal_grants:
  "x \<in> set (sessions s) \<Longrightarrow> sessionPrincipal s x = Some p \<Longrightarrow> grants s x p"
  unfolding sessionPrincipal_def grants_def userActive_def membershipActive_def findMembership_def
    findUser_def
  by (auto simp: principalOf_def split: option.splits if_splits dest!: find_Some_set)

lemma sql_first_map_filter:
  "sql_first (List.map_filter f xs) = Some y \<Longrightarrow> \<exists>x \<in> set xs. f x = Some y"
  by (induction xs) (auto simp: sql_first_def List.map_filter_simps split: option.splits)

lemma resolveSession_grants:
  "resolveSession P s = Some p \<Longrightarrow> \<exists>x. P x \<and> grants s x p"
  unfolding resolveSession_def
  by (drule sql_first_map_filter) (auto intro: sessionPrincipal_grants)

lemma resolveSession_None:
  "(\<And>x. x \<in> set (sessions s) \<Longrightarrow> P x \<Longrightarrow> s_revoked_at x \<noteq> None) \<Longrightarrow> resolveSession P s = None"
  by (cases "resolveSession P s") (use resolveSession_grants in \<open>fastforce simp: grants_def\<close>)+

lemma filter_unique:
  assumes "x \<in> set xs" and "P x" and "\<And>y. y \<in> set xs \<Longrightarrow> P y \<Longrightarrow> y = x" and "distinct xs"
  shows "filter P xs = [x]"
proof -
  obtain ys zs where xs: "xs = ys @ x # zs" using assms(1) by (auto simp: in_set_conv_decomp)
  then have "filter P ys = []" and "filter P zs = []"
    using assms(3,4) by (auto simp: filter_empty_conv)
  with xs assms(2) show ?thesis by simp
qed

text \<open>A session found by a unique key resolves to its own principal.\<close>

lemma resolveSession_unique:
  assumes "x \<in> set (sessions s)" and "P x" and "\<And>y. y \<in> set (sessions s) \<Longrightarrow> P y \<Longrightarrow> y = x"
    and "distinct (sessions s)"
  shows "resolveSession P s = sessionPrincipal s x"
proof -
  have "filter P (sessions s) = [x]"
    using assms(1-4) by (rule filter_unique)
  then show ?thesis
    by (cases "sessionPrincipal s x") (simp_all add: resolveSession_def List.map_filter_simps sql_first_def)
qed

section \<open>Ends\<close>

definition sessionDead :: "(session_row \<Rightarrow> bool) \<Rightarrow> db \<Rightarrow> bool" where
  "sessionDead P s \<longleftrightarrow> (\<forall>x \<in> set (sessions s). P x \<longrightarrow> s_revoked_at x \<noteq> None)"

definition tokenIs :: "string \<Rightarrow> session_row \<Rightarrow> bool" where
  "tokenIs h x \<longleftrightarrow> s_session_token_hash x = h"

definition accessOf :: "string \<Rightarrow> string \<Rightarrow> session_row \<Rightarrow> bool" where
  "accessOf dep uid x \<longleftrightarrow> s_deployment_id x = dep \<and> s_user_id x = uid"

definition invitationSpent :: "string \<Rightarrow> db \<Rightarrow> bool" where
  "invitationSpent h s \<longleftrightarrow> (\<forall>i \<in> set (organization_invitations s). i_token_hash i = h \<longrightarrow>
     i_accepted_at i \<noteq> None \<or> i_revoked_at i \<noteq> None)"

definition receiptIs :: "string \<Rightarrow> string \<Rightarrow> string \<Rightarrow> db \<Rightarrow> bool" where
  "receiptIs uid rid effect s \<longleftrightarrow> repo_PasswordChangeOutcome uid rid s = effect"

interpretation tokenDead: life_stable "sessionDead (tokenIs h)" for h
  by unfold_locales (auto simp: sessionDead_def tokenIs_def all_statements ball_update_where)

interpretation accessDead: life_stable "sessionDead (accessOf dep uid)" for dep uid
  by unfold_locales (auto simp: sessionDead_def accessOf_def all_statements ball_update_where)

interpretation spent: life_stable "invitationSpent h" for h
  by unfold_locales (auto simp: invitationSpent_def all_statements ball_update_where)

lemma find_append_Some: "find P xs = Some x \<Longrightarrow> find P (xs @ ys) = Some x"
  by (induction xs) auto

interpretation receipt: all_stable "\<lambda>s. find (\<lambda>r. r_user_id r = uid \<and> r_request_id r = rid)
    (password_change_receipts s) = Some r" for uid rid r
  by unfold_locales (simp_all add: all_statements find_append_Some)

section \<open>Sessions\<close>

text \<open>Operations that create no session for the given key.\<close>

definition noSession :: "(session_row \<Rightarrow> bool) \<Rightarrow> operation \<Rightarrow> bool" where
  "noSession P x \<longleftrightarrow> (case x of OpCreateSession r \<Rightarrow> \<not> P (newSessionRow r) | _ \<Rightarrow> True)"

lemma creates_sessionDead: "noSession Q x \<Longrightarrow> creates_ok (sessionDead Q) x"
  unfolding creates_ok_def noSession_def
  by (auto simp: keeps_exec_iff sessionDead_def core_statements split: operation.split)

lemma tokenDead_runs:
  assumes "sessionDead (tokenIs h) s" and "\<forall>x \<in> set xs. noSession (tokenIs h) x"
  shows "sessionDead (tokenIs h) (run_all xs s)"
  using tokenDead.runs_stable [of s xs "run_all xs s" h] assms creates_sessionDead
  by (auto simp: runs_run_all)

lemma accessDead_runs:
  assumes "sessionDead (accessOf dep uid) s" and "\<forall>x \<in> set xs. noSession (accessOf dep uid) x"
  shows "sessionDead (accessOf dep uid) (run_all xs s)"
  using accessDead.runs_stable [of s xs "run_all xs s" dep uid] assms creates_sessionDead
  by (auto simp: runs_run_all)

lemma dead_no_grant: "sessionDead P s \<Longrightarrow> grants s x p \<Longrightarrow> \<not> P x"
  by (auto simp: sessionDead_def grants_def)

lemma RevokeSession_Inr:
  "repo_RevokeSession h now s = (Inr r, t) \<longleftrightarrow> 1 \<in> set (control_state s) \<and>
     (case find (\<lambda>x. s_session_token_hash x = h \<and> s_revoked_at x = None) (sessions s) of
        None \<Rightarrow> r = None \<and> t = s
      | Some x \<Rightarrow> r = Some \<lparr>rs_DeploymentID = s_deployment_id x, rs_UserID = s_user_id x,
           rs_SessionID = s_session_id x\<rparr> \<and> schema_ok (sql_revoke_session now h s) \<and>
         appendIdentityInvalidation (s_deployment_id x) (s_user_id x) (s_session_id x)
                 ''session_revoked'' now (sql_revoke_session now h s) = Inr ((), t))"
  unfolding repo_RevokeSession_def run_tx_Inr by (auto split: option.splits)

lemma append_event_sessions:
  "appendIdentityInvalidation a b c d e s = Inr ((), t) \<Longrightarrow> sessions t = sessions s"
  by (auto simp: appendIdentityInvalidation_def sql_append_event_def)

lemma RevokeSession_dead:
  assumes "repo_RevokeSession h now s = (Inr r, t)"
  shows "sessionDead (tokenIs h) t"
proof (cases "find (\<lambda>x. s_session_token_hash x = h \<and> s_revoked_at x = None) (sessions s)")
  case None
  with assms show ?thesis
    by (auto simp: RevokeSession_Inr sessionDead_def tokenIs_def find_None_all)
next
  case (Some x)
  with assms have "sessions t = sessions (sql_revoke_session now h s)"
    by (auto simp: RevokeSession_Inr dest: append_event_sessions)
  then show ?thesis
    by (auto simp: sessionDead_def tokenIs_def sql_revoke_session_def ball_update_where)
qed

lemma dead_ResolveByTokenHash:
  "sessionDead (tokenIs h) s \<Longrightarrow> repo_ResolveSessionByTokenHash h now s = None"
  unfolding repo_ResolveSessionByTokenHash_def
  by (rule resolveSession_None) (auto simp: sessionDead_def tokenIs_def)

lemma deploymentEffects_dead:
  assumes "deploymentEffects dep u target nr ''revoked'' nn now s = Inr ((), t)"
  shows "sessionDead (accessOf dep u) t"
proof -
  from assms obtain v where v: "changeDisplayName u (dm_DisplayName target) nn now s = Inr ((), v)"
    and rest: "(if dm_Role target \<noteq> nr \<or> dm_MembershipStatus target \<noteq> ''revoked''
       then appendIdentityInvalidation dep u '''' ''principal_changed'' now
       else returnS ()) (sql_revoke_user_sessions now dep u v) = Inr ((), t)"
    unfolding deploymentEffects_def by auto
  have "sessionDead (accessOf dep u) (sql_revoke_user_sessions now dep u v)"
    by (auto simp: sessionDead_def accessOf_def sql_revoke_user_sessions_def ball_update_where)
  moreover have "sessions t = sessions (sql_revoke_user_sessions now dep u v)"
    using rest by (auto split: if_splits dest: append_event_sessions)
  ultimately show ?thesis by (simp add: sessionDead_def)
qed

lemma revoked_access_dead:
  assumes "repo_UpdateDeploymentMember dep u actor er es ev nr ''revoked'' nn now s = (Inr r, t)"
  shows "sessionDead (accessOf dep u) t"
  using assms deploymentEffects_dead by (auto simp only: UpdateDeploymentMember_Inr)

section \<open>Logging in\<close>

lemma session_key:
  "schema_ok s \<Longrightarrow> x \<in> set (sessions s) \<Longrightarrow> y \<in> set (sessions s) \<Longrightarrow>
     s_session_token_hash x = s_session_token_hash y \<Longrightarrow> x = y"
  using key_unique [of s_session_token_hash "sessions s" x y]
  by (simp add: schema_ok_def schema_defs)

lemma sessions_distinct: "schema_ok s \<Longrightarrow> distinct (sessions s)"
  by (auto simp: schema_ok_def schema_defs distinct_map)

lemma ResolveByTokenHash_row:
  assumes "schema_ok s" and "x \<in> set (sessions s)" and "now < s_expires_at x"
  shows "repo_ResolveSessionByTokenHash (s_session_token_hash x) now s = sessionPrincipal s x"
  unfolding repo_ResolveSessionByTokenHash_def
  using assms by (intro resolveSession_unique) (auto intro: session_key sessions_distinct)

lemma CreateSession_Inr:
  "repo_CreateSession r s = (Inr x, t) \<longleftrightarrow>
     schema_ok (sql_purge_sessions (sr_CreatedAt r) s) \<and>
     schema_ok (sql_insert_session (newSessionRow r) (sql_purge_sessions (sr_CreatedAt r) s)) \<and>
     t = sql_update_last_login (sr_CreatedAt r) (pr_UserID (sr_Principal r))
           (sql_insert_session (newSessionRow r) (sql_purge_sessions (sr_CreatedAt r) s)) \<and>
     schema_ok t"
  unfolding repo_CreateSession_def run_tx_Inr by auto

lemma find_update_where:
  assumes "\<And>r. k (f r) = k r"
  shows "find (\<lambda>r. k r = v) (update_where P f rows) =
     map_option (\<lambda>r. if P r then f r else r) (find (\<lambda>r. k r = v) rows)"
  using assms by (induction rows) (auto simp: update_where_def)

lemma userActive_login [simp]: "userActive (sql_update_last_login now u s) v = userActive s v"
proof -
  have "findUser (sql_update_last_login now u s) v =
      map_option (\<lambda>r. if u_user_id r = u then r\<lparr>u_last_login_at := Some now, u_updated_at := now\<rparr> else r)
        (findUser s v)"
    unfolding findUser_def sql_update_last_login_def by (simp add: find_update_where)
  then show ?thesis by (auto simp: userActive_def split: option.splits)
qed

lemma active_frames [simp]:
  "membershipActive (sql_update_last_login now u s) d v = membershipActive s d v"
  "deploymentActive (sql_update_last_login now u s) d = deploymentActive s d"
  "userActive (sql_insert_session x s) v = userActive s v"
  "membershipActive (sql_insert_session x s) d v = membershipActive s d v"
  "deploymentActive (sql_insert_session x s) d = deploymentActive s d"
  "userActive (sql_purge_sessions now s) v = userActive s v"
  "membershipActive (sql_purge_sessions now s) d v = membershipActive s d v"
  "deploymentActive (sql_purge_sessions now s) d = deploymentActive s d"
  by (simp_all add: userActive_def membershipActive_def deploymentActive_def findUser_def
      findMembership_def findDeployment_def sql_update_last_login_def sql_insert_session_def
      sql_purge_sessions_def)

lemma sessionPrincipal_active:
  assumes "s_revoked_at x = None" and "deploymentActive s (s_deployment_id x)"
    and "userActive s (s_user_id x)" and "membershipActive s (s_deployment_id x) (s_user_id x)"
  shows "\<exists>p. sessionPrincipal s x = Some p"
  using assms by (auto simp: sessionPrincipal_def userActive_def membershipActive_def split: option.splits)

lemma CreateSession_sessions:
  "repo_CreateSession r s = (Inr x, t) \<Longrightarrow>
     sessions t = filter (\<lambda>x. \<not> purgeable (sr_CreatedAt r) s x) (sessions s) @ [newSessionRow r]"
  by (simp add: CreateSession_Inr sql_update_last_login_def sql_insert_session_def sql_purge_sessions_def)

lemma CreateSession_schema: "repo_CreateSession r s = (Inr x, t) \<Longrightarrow> schema_ok t"
  unfolding CreateSession_Inr by blast

lemma login_resolves:
  assumes "repo_CreateSession r s = (Inr x, t)" and "now < sr_ExpiresAt r"
    and "deploymentActive s (pr_DeploymentID (sr_Principal r))"
    and "userActive s (pr_UserID (sr_Principal r))"
    and "membershipActive s (pr_DeploymentID (sr_Principal r)) (pr_UserID (sr_Principal r))"
  shows "\<exists>p. repo_ResolveSessionByTokenHash (sr_TokenHash r) now t = Some p \<and> grants t (newSessionRow r) p"
proof -
  from assms(1) have row: "newSessionRow r \<in> set (sessions t)" and ok: "schema_ok t"
    using CreateSession_sessions CreateSession_schema by auto
  from assms obtain p where p: "sessionPrincipal t (newSessionRow r) = Some p"
    using sessionPrincipal_active [of "newSessionRow r" t]
    by (auto simp: CreateSession_Inr newSessionRow_def)
  have "repo_ResolveSessionByTokenHash (s_session_token_hash (newSessionRow r)) now t = Some p"
    using ResolveByTokenHash_row [OF ok row] assms(2) p by (simp add: newSessionRow_def)
  with sessionPrincipal_grants [OF row p] show ?thesis by (simp add: newSessionRow_def)
qed

text \<open>The purge that comes with a login takes no session that still works.\<close>

lemma login_keeps_others:
  assumes "repo_CreateSession r s = (Inr x, t)" and "schema_ok s" and "sr_CreatedAt r \<le> now"
    and "repo_ResolveSessionByTokenHash h now s = Some p"
  shows "\<exists>q y. repo_ResolveSessionByTokenHash h now t = Some q \<and> grants s y p \<and> grants t y q"
proof -
  from assms(4) obtain y where y: "grants s y p" "s_session_token_hash y = h" "now < s_expires_at y"
    unfolding repo_ResolveSessionByTokenHash_def by (auto dest!: resolveSession_grants)
  then have "\<not> purgeable (sr_CreatedAt r) s y"
    using assms(3) by (simp add: purgeable_def grants_def)
  then have row: "y \<in> set (sessions t)"
    using y(1) assms(1) by (simp add: CreateSession_sessions grants_def)
  have ok: "schema_ok t" using assms(1) by (rule CreateSession_schema)
  have "\<exists>q. sessionPrincipal t y = Some q"
    using y(1) assms(1) by (intro sessionPrincipal_active) (auto simp: grants_def CreateSession_Inr)
  then obtain q where q: "sessionPrincipal t y = Some q" by blast
  with ResolveByTokenHash_row [OF ok row, of now] y sessionPrincipal_grants [OF row q]
  show ?thesis by auto
qed

end
