(* ===== verification/Credential_Life.thy ===== *)
theory Credential_Life
  imports Session_Life
begin

text \<open>
  What is used once: invitations, which one account or one member accepts, and password change
  requests, whose receipt is written once; and the revocation of nodes that a committed
  password change carries out.
\<close>

section \<open>Invitations\<close>

definition noInvitation :: "string \<Rightarrow> operation \<Rightarrow> bool" where
  "noInvitation h x \<longleftrightarrow>
     (case x of OpCreateOrganizationInvitation r \<Rightarrow> ir_TokenHash r \<noteq> h | _ \<Rightarrow> True)"

lemma creates_spent: "noInvitation h x \<Longrightarrow> creates_ok (invitationSpent h) x"
  unfolding creates_ok_def noInvitation_def
  by (auto simp: keeps_exec_iff invitationSpent_def core_statements newInvitationRow_def
      split: operation.split)

lemma spent_runs:
  assumes "invitationSpent h s" and "\<forall>x \<in> set xs. noInvitation h x"
  shows "invitationSpent h (run_all xs s)"
  using spent.runs_stable [of s xs "run_all xs s" h] assms creates_spent
  by (auto simp: runs_run_all)

lemma selectInvitation_Inr:
  assumes "selectInvitation P s = Inr r"
  obtains i where "i \<in> set (organization_invitations s)" and "P i"
    and "ir_InvitationID r = i_invitation_id i" and "ir_TokenHash r = i_token_hash i"
    and "ir_AcceptedAt r = i_accepted_at i" and "ir_RevokedAt r = i_revoked_at i"
    and "ir_ExpiresAt r = i_expires_at i" and "ir_OrganizationID r = i_organization_id i"
    and "ir_Role r = i_role i"
proof -
  from assms have "sql_first (List.map_filter (scanOrganizationInvitation s)
      (filter P (organization_invitations s))) = Some r"
    unfolding selectInvitation_def by (auto split: option.splits)
  then obtain i where "i \<in> set (organization_invitations s)" "P i"
    "scanOrganizationInvitation s i = Some r"
    by (auto dest!: sql_first_map_filter)
  then show ?thesis
    using that unfolding scanOrganizationInvitation_def by (auto split: option.splits if_splits)
qed

lemma invitation_key:
  "schema_ok s \<Longrightarrow> i \<in> set (organization_invitations s) \<Longrightarrow> j \<in> set (organization_invitations s) \<Longrightarrow>
     i_token_hash i = i_token_hash j \<Longrightarrow> i = j"
  using key_unique [of i_token_hash "organization_invitations s" i j]
  by (simp add: schema_ok_def schema_defs)

text \<open>Ending the row with the token hash spends the token.\<close>

lemma spent_after:
  assumes "schema_ok s" and "i \<in> set (organization_invitations s)" and "i_token_hash i = h"
  shows "invitation_pending now i \<Longrightarrow> invitationSpent h (sql_accept_invitation uid now (i_invitation_id i) s)"
    and "invitationSpent h (sql_join_invitation uid now (i_invitation_id i) s)"
proof -
  have "j = i" if "j \<in> set (organization_invitations s)" "i_token_hash j = h" for j
    using invitation_key [OF assms(1) that(1) assms(2)] that(2) assms(3) by simp
  then show "invitation_pending now i \<Longrightarrow> invitationSpent h (sql_accept_invitation uid now (i_invitation_id i) s)"
    and "invitationSpent h (sql_join_invitation uid now (i_invitation_id i) s)"
    by (auto simp: invitationSpent_def sql_accept_invitation_def sql_join_invitation_def ball_update_where)
qed

lemma spent_Accept:
  assumes "invitationSpent (ai_TokenHash r) s"
  shows "\<exists>e. repo_AcceptOrganizationInvitation r s = (Inl e, s)"
proof (cases "repo_AcceptOrganizationInvitation r s")
  case (Pair x t)
  show ?thesis
  proof (cases x)
    case (Inl e)
    with Pair show ?thesis by (auto dest: AcceptOrganizationInvitation_Inl)
  next
    case (Inr y)
    with Pair obtain iv where "selectInvitation (\<lambda>i. i_token_hash i = ai_TokenHash r) s = Inr iv"
      and "ir_AcceptedAt iv = None" and "ir_RevokedAt iv = None"
      by (auto simp only: AcceptOrganizationInvitation_Inr)
    then have False
      using assms by (elim selectInvitation_Inr) (auto simp: invitationSpent_def)
    then show ?thesis ..
  qed
qed

lemma Accept_spent:
  assumes "repo_AcceptOrganizationInvitation r s = (Inr m, t)" and "schema_ok s"
  shows "invitationSpent (ai_TokenHash r) t"
proof -
  from assms(1) obtain iv u where sel: "selectInvitation (\<lambda>i. i_token_hash i = ai_TokenHash r) s = Inr iv"
    and live: "ir_AcceptedAt iv = None" "ir_RevokedAt iv = None" "ai_AcceptedAt r < ir_ExpiresAt iv"
    and acc: "acceptedAccount r iv s = Inr ((), u)" and claim: "claimInvitation r iv u = Inr ((), t)"
    by (auto simp only: AcceptOrganizationInvitation_Inr)
  obtain i where i: "i \<in> set (organization_invitations s)" "i_token_hash i = ai_TokenHash r"
    "ir_InvitationID iv = i_invitation_id i" "invitation_pending (ai_AcceptedAt r) i"
    using selectInvitation_Inr [OF sel] live by (metis invitation_pending_def)
  from acc have u: "organization_invitations u = organization_invitations s" "schema_ok u"
    by (rule acceptedAccount_frame)+
  from claim have t: "t = sql_accept_invitation (ai_UserID r) (ai_AcceptedAt r) (i_invitation_id i) u"
    by (simp add: claimInvitation_Inr i(3))
  show ?thesis
    unfolding t by (rule spent_after(1)) (use i u in simp_all)
qed

lemma join_spent:
  assumes "joinByInvitation c s = Inr (org, t)" and "schema_ok s"
  shows "invitationSpent (oc_TokenHash c) t"
proof -
  from assms(1) obtain i u where found: "openInvitation c s = Some i"
    and u: "joinOrganization (i_organization_id i) (pr_UserID (oc_Actor c)) (i_role i) (oc_Now c) s = Inr ((), u)"
    and t: "t = sql_join_invitation (pr_UserID (oc_Actor c)) (oc_Now c) (i_invitation_id i) u"
    unfolding joinByInvitation_def by (auto split: option.splits)
  from found have "i \<in> set (organization_invitations s)" "i_token_hash i = oc_TokenHash c"
    unfolding openInvitation_def by (auto dest!: sql_first_Some)
  moreover from u have "organization_invitations u = organization_invitations s" "schema_ok u"
    by (auto simp: joinOrganization_def sql_join_organization_def)
  ultimately show ?thesis unfolding t by (intro spent_after(2)) simp_all
qed

lemma spent_join: "invitationSpent (oc_TokenHash c) s \<Longrightarrow> joinByInvitation c s = Inl StoreErrInvitationInvalid"
proof -
  assume "invitationSpent (oc_TokenHash c) s"
  then have "openInvitation c s = None"
    by (auto simp: openInvitation_def invitationSpent_def invitation_pending_def filter_empty_conv)
  then show ?thesis by (simp add: joinByInvitation_def)
qed

section \<open>Receipts\<close>

definition findReceipt :: "string \<Rightarrow> string \<Rightarrow> db \<Rightarrow> receipt_row option" where
  "findReceipt uid rid s =
     find (\<lambda>r. r_user_id r = uid \<and> r_request_id r = rid) (password_change_receipts s)"

lemma receipt_runs: "findReceipt uid rid s = Some r \<Longrightarrow> findReceipt uid rid (run_all xs s) = Some r"
  using receipt.run_stable [of s xs "run_all xs s"] by (simp add: findReceipt_def runs_run_all)

lemma findReceipt_None:
  "findReceipt uid rid s = None \<longleftrightarrow>
     (uid, rid) \<notin> set (map (\<lambda>r. (r_user_id r, r_request_id r)) (password_change_receipts s))"
  by (auto simp: findReceipt_def find_None_all)

lemma insertReceipt_Inr:
  "insertReceiptIfAbsent uid rid effect now s = Inr (n, t) \<longleftrightarrow>
     (if findReceipt uid rid s \<noteq> None then n = 0 \<and> t = s
      else n = 1 \<and> t = sql_insert_receipt \<lparr>r_user_id = uid, r_request_id = rid, r_effect = effect,
             r_resolved_at = now, r_created_at = now\<rparr> s \<and> schema_ok t)"
  unfolding insertReceiptIfAbsent_def by (simp only: bindS_Inr queryS_simp) (auto simp: findReceipt_None)

lemma outcome_receipt:
  "repo_PasswordChangeOutcome uid rid s = (case findReceipt uid rid s of None \<Rightarrow> '''' | Some r \<Rightarrow> r_effect r)"
  by (simp add: repo_PasswordChangeOutcome_def findReceipt_def)

lemma TryCommit_existing:
  "findReceipt uid rid s = Some r \<Longrightarrow> 1 \<in> set (control_state s) \<Longrightarrow>
     repo_TryCommitPasswordChange uid rid cur next' now s = (Inr PasswordAttemptExisting, s)"
  unfolding repo_TryCommitPasswordChange_def run_tx_Inr
  by (rule disjI2) (auto simp: insertReceipt_Inr)

text \<open>A step that only appends events leaves every other table alone.\<close>

definition sameButEvents :: "db \<Rightarrow> db \<Rightarrow> bool" where
  "sameButEvents s t \<longleftrightarrow> tables t\<lparr>t_identity_invalidations := [], t_next_event_id := 0\<rparr> =
     tables s\<lparr>t_identity_invalidations := [], t_next_event_id := 0\<rparr>"

lemma sameButEvents_append [simp]: "sameButEvents s (sql_append_event a b c d e f g t) = sameButEvents s t"
  by (simp add: sameButEvents_def sql_append_event_def)

lemma keeps_same_append: "keeps (sameButEvents s) (appendIdentityInvalidation a b c d e)"
  unfolding appendIdentityInvalidation_def by (intro keeps_rules) simp

lemma sameButEvents_refl [simp]: "sameButEvents s s"
  by (simp add: sameButEvents_def)

lemma sameButEvents_tables:
  assumes "sameButEvents s t"
  shows "execution_nodes t = execution_nodes s" and "sessions t = sessions s"
    and "password_credentials t = password_credentials s"
    and "password_change_receipts t = password_change_receipts s" and "users t = users s"
    and "deployment_memberships t = deployment_memberships s"
    and "organization_memberships t = organization_memberships s"
    and "organizations t = organizations s" and "agents t = agents s"
    and "deployments t = deployments s"
  using assms unfolding sameButEvents_def by (cases "tables s"; cases "tables t"; simp)+

lemma appendInvalidation_same:
  "appendIdentityInvalidation a b c d e s = Inr ((), t) \<Longrightarrow> sameButEvents s t"
  using keepsD [OF keeps_same_append, of s s] by simp

lemma revokeUserNodes_Inr:
  assumes "revokeUserNodes uid now s = Inr ((), t)"
  shows "sameButEvents (sql_revoke_user_nodes now uid s) t"
proof -
  from assms have "forS (\<lambda>(dep, nid). appendIdentityInvalidation dep uid (''node:'' @ nid) ''session_revoked'' now)
      (liveNodesOf uid s) (sql_revoke_user_nodes now uid s) = Inr ((), t)"
    unfolding revokeUserNodes_def by auto
  moreover have "keeps (sameButEvents (sql_revoke_user_nodes now uid s))
      (forS (\<lambda>(dep, nid). appendIdentityInvalidation dep uid (''node:'' @ nid) ''session_revoked'' now)
        (liveNodesOf uid s))"
    by (intro keeps_rules keeps_same_append)
  ultimately show ?thesis by (blast intro: keepsD sameButEvents_refl)
qed

definition nodesDead :: "string \<Rightarrow> db \<Rightarrow> bool" where
  "nodesDead uid s \<longleftrightarrow> (\<forall>n \<in> set (execution_nodes s). n_owner_user_id n = uid \<longrightarrow> n_revoked_at n \<noteq> None)"

lemma TryCommit_committed:
  "repo_TryCommitPasswordChange uid rid cur next' now s = (Inr PasswordAttemptCommitted, t) \<longleftrightarrow>
     1 \<in> set (control_state s) \<and> findReceipt uid rid s = None \<and>
     (let s1 = sql_insert_receipt \<lparr>r_user_id = uid, r_request_id = rid, r_effect = ''committed'',
                 r_resolved_at = now, r_created_at = now\<rparr> s;
          s2 = sql_update_credential next' now uid cur s1 in
      schema_ok s1 \<and> schema_ok s2 \<and> revokeUserNodes uid now s2 = Inr ((), t)) \<and>
     count_where (\<lambda>c. c_user_id c = uid \<and> c_password_hash c = cur) (password_credentials s) = 1"
  unfolding repo_TryCommitPasswordChange_def run_tx_Inr Let_def
  by (auto simp: insertReceipt_Inr sql_insert_receipt_def split: if_splits)

lemma credentials_distinct: "schema_ok s \<Longrightarrow> distinct (map c_user_id (password_credentials s))"
  by (simp add: schema_ok_def schema_defs)

lemma committed_effects:
  assumes "repo_TryCommitPasswordChange uid rid cur next' now s = (Inr PasswordAttemptCommitted, t)"
    and "schema_ok s"
  shows "repo_PasswordChangeOutcome uid rid t = ''committed''" and "nodesDead uid t"
    and "sessions t = sessions s"
    and "\<exists>c. findCredential s uid = Some c \<and> c_password_hash c = cur"
    and "\<exists>c. findCredential t uid = Some c \<and> c_password_hash c = next'"
    and "\<And>v. v \<noteq> uid \<Longrightarrow> findCredential t v = findCredential s v"
proof -
  let ?s1 = "sql_insert_receipt \<lparr>r_user_id = uid, r_request_id = rid, r_effect = ''committed'',
                 r_resolved_at = now, r_created_at = now\<rparr> s"
  let ?s2 = "sql_update_credential next' now uid cur ?s1"
  from assms(1) have new: "findReceipt uid rid s = None"
    and one: "count_where (\<lambda>c. c_user_id c = uid \<and> c_password_hash c = cur) (password_credentials s) = 1"
    and nodes: "revokeUserNodes uid now ?s2 = Inr ((), t)"
    unfolding TryCommit_committed Let_def by simp_all
  note same = sameButEvents_tables [OF revokeUserNodes_Inr [OF nodes]]
  have receipts: "password_change_receipts t = password_change_receipts s @
      [\<lparr>r_user_id = uid, r_request_id = rid, r_effect = ''committed'', r_resolved_at = now, r_created_at = now\<rparr>]"
    using same(4) by (simp add: sql_revoke_user_nodes_def sql_update_credential_def sql_insert_receipt_def)
  have "find P (xs @ [x]) = Some x" if "find P xs = None" "P x" for P and xs :: "receipt_row list" and x
    using that by (induction xs) (auto split: if_splits)
  then show "repo_PasswordChangeOutcome uid rid t = ''committed''"
    using new by (simp add: outcome_receipt findReceipt_def receipts)
  show "nodesDead uid t"
    unfolding nodesDead_def same(1)
    by (simp add: sql_revoke_user_nodes_def ball_update_where sql_update_credential_def sql_insert_receipt_def)
  show "sessions t = sessions s"
    using same(2) by (simp add: sql_revoke_user_nodes_def sql_update_credential_def sql_insert_receipt_def)
  have creds: "password_credentials t = update_where (\<lambda>c. c_user_id c = uid \<and> c_password_hash c = cur)
       (\<lambda>c. c\<lparr>c_password_hash := next', c_password_updated_at := now, c_updated_at := now\<rparr>)
       (password_credentials s)"
    using same(3) by (simp add: sql_revoke_user_nodes_def sql_update_credential_def sql_insert_receipt_def)
  then have found: "findCredential t v = map_option (\<lambda>c. if c_user_id c = uid \<and> c_password_hash c = cur
      then c\<lparr>c_password_hash := next', c_password_updated_at := now, c_updated_at := now\<rparr> else c)
      (findCredential s v)" for v
    by (simp add: findCredential_def find_update_where)
  from one have "count_where (\<lambda>c. c_user_id c = uid \<and> c_password_hash c = cur) (password_credentials s) \<noteq> 0"
    by simp
  then obtain c where c: "c \<in> set (password_credentials s)" "c_user_id c = uid" "c_password_hash c = cur"
    unfolding count_where_0 by blast
  have "findCredential s uid = Some c"
    using find_key [OF credentials_distinct [OF assms(2)] c(1)] by (simp add: findCredential_def c(2))
  with c found show "\<exists>c. findCredential s uid = Some c \<and> c_password_hash c = cur"
    and "\<exists>c. findCredential t uid = Some c \<and> c_password_hash c = next'" by auto
  show "findCredential t v = findCredential s v" if "v \<noteq> uid" for v
    using that found [of v] unfolding findCredential_def
    by (cases "find (\<lambda>c. c_user_id c = v) (password_credentials s)") (auto dest: find_Some_set)
qed

end
