(* ===== verification/Node_Life.thy ===== *)
theory Node_Life
  imports Credential_Life
begin

text \<open>
  The authorisation of execution nodes: what a registration has checked, that registering twice
  is registering once, that a revoked node is not registered again while its row exists, and
  that a revoked node has no owner and no credential.
\<close>

lemma insertNodeIfAbsent_Inr:
  "insertNodeIfAbsent node s = Inr ((), t) \<longleftrightarrow>
     (if n_node_id node \<in> set (map n_node_id (execution_nodes s)) \<or>
         n_credential_hash node \<in> set (map n_credential_hash (execution_nodes s))
      then t = s else t = sql_insert_node node s \<and> schema_ok t)"
  unfolding insertNodeIfAbsent_def by auto

lemma RegisterNode_Inr:
  "repo_RegisterNode node s = (Inr stored, t) \<longleftrightarrow> 1 \<in> set (control_state s) \<and>
     liveSession s (n_parent_session_id node) (n_owner_user_id node) (n_deployment_id node) (n_created_at node) \<and>
     list_all (agentUsable s node) (n_agent_ids_json node) \<and>
     insertNodeIfAbsent (node\<lparr>n_revoked_at := None\<rparr>) s = Inr ((), t) \<and>
     find (\<lambda>n. n_node_id n = n_node_id node) (execution_nodes t) = Some stored \<and>
     sameAuthorization stored node"
  unfolding repo_RegisterNode_def run_tx_Inr by (auto split: if_splits option.splits)

lemma RegisterNode_Inl: "repo_RegisterNode node s = (Inl e, t) \<Longrightarrow> t = s"
  unfolding repo_RegisterNode_def by (rule run_tx_fail)

lemma nodes_distinct: "schema_ok s \<Longrightarrow> distinct (map n_node_id (execution_nodes s))"
  by (simp add: schema_ok_def schema_defs)

text \<open>A success reports the row that is in the table: authorised as asked for, and live.\<close>

lemma RegisterNode_stored:
  assumes "repo_RegisterNode node s = (Inr stored, t)"
  shows "stored \<in> set (execution_nodes t)" and "n_node_id stored = n_node_id node"
    and "sameAuthorization stored node"
  using assms by (auto simp: RegisterNode_Inr dest: find_Some_set)

lemma RegisterNode_revoked:
  assumes "schema_ok s" and "n \<in> set (execution_nodes s)" and "n_node_id n = n_node_id node"
    and "n_revoked_at n \<noteq> None"
  shows "\<exists>e. repo_RegisterNode node s = (Inl e, s)"
proof (cases "repo_RegisterNode node s")
  case (Pair r t)
  show ?thesis
  proof (cases r)
    case (Inl e)
    with Pair show ?thesis by (auto dest: RegisterNode_Inl)
  next
    case (Inr stored)
    with Pair have "repo_RegisterNode node s = (Inr stored, t)" by simp
    moreover from assms(2,3) have "n_node_id node \<in> set (map n_node_id (execution_nodes s))"
      by (metis imageI set_map)
    ultimately have "t = s" by (auto simp: RegisterNode_Inr insertNodeIfAbsent_Inr)
    with Pair Inr have "find (\<lambda>x. n_node_id x = n_node_id node) (execution_nodes s) = Some stored"
      and "sameAuthorization stored node"
      by (simp_all add: RegisterNode_Inr)
    moreover have "find (\<lambda>x. n_node_id x = n_node_id node) (execution_nodes s) = Some n"
      using find_key [OF nodes_distinct [OF assms(1)] assms(2)] by (simp add: assms(3))
    ultimately show ?thesis using assms(4) by (simp add: sameAuthorization_def)
  qed
qed

text \<open>Repeating a registration that succeeded, while the session lives, changes nothing.\<close>

lemma find_node_insert:
  "find (\<lambda>n. n_node_id n = k) xs = None \<Longrightarrow> n_node_id x = k \<Longrightarrow> find (\<lambda>n. n_node_id n = k) (xs @ [x]) = Some x"
  by (induction xs) (auto split: if_splits)

lemma agentUsable_insert [simp]: "agentUsable (sql_insert_node n s) node a = agentUsable s node a"
  unfolding agentUsable_def activeAgentOwner_def ownerActive_def membershipActive_def userActive_def orgActiveIn_def
    findMembership_def findUser_def findOrganization_def findOrgMembership_def
  by (simp add: sql_insert_node_def)

lemma liveSession_insert [simp]: "liveSession (sql_insert_node n s) a b c d = liveSession s a b c d"
  by (simp add: liveSession_def sql_insert_node_def)

lemma RegisterNode_again:
  assumes "repo_RegisterNode node s = (Inr stored, t)"
  shows "repo_RegisterNode node t = (Inr stored, t)"
proof -
  have "agentUsable t node = agentUsable s node" and "liveSession t = liveSession s"
    and "control_state t = control_state s"
    using assms by (auto simp: RegisterNode_Inr insertNodeIfAbsent_Inr fun_eq_iff split: if_splits)
       (simp_all add: sql_insert_node_def)
  moreover have "n_node_id node \<in> set (map n_node_id (execution_nodes t))"
    using RegisterNode_stored [OF assms] by (metis imageI set_map)
  ultimately show ?thesis
    using assms by (simp add: RegisterNode_Inr insertNodeIfAbsent_Inr)
qed

section \<open>Revocation\<close>

definition nodeDead :: "string \<Rightarrow> db \<Rightarrow> bool" where
  "nodeDead nid s \<longleftrightarrow> (\<forall>n \<in> set (execution_nodes s). n_node_id n = nid \<longrightarrow> n_revoked_at n \<noteq> None)"

lemma RevokeNode_dead:
  assumes "repo_RevokeNode dep org owner sid nid now s = (Inr x, t)" and "schema_ok s"
  shows "nodeDead nid t \<and> schema_ok t \<and> (\<exists>n \<in> set (execution_nodes t). n_node_id n = nid)"
proof -
  from assms(1) obtain u n where u: "buryNode dep org owner sid nid now s = Inr ((), u)"
    and n: "ownedNode dep org owner nid u = Some n"
    and e: "endNode dep owner nid now n u = Inr ((), t)"
    unfolding repo_RevokeNode_def run_tx_Inr by (auto split: option.splits)
  from e have rest: "n_revoked_at n \<noteq> None \<and> t = u \<or> n_revoked_at n = None \<and>
      appendIdentityInvalidation dep owner (''node:'' @ nid) ''session_revoked'' now
        (sql_revoke_node now nid u) = Inr ((), t)"
    unfolding endNode_def by (simp split: if_splits)
  have ok: "schema_ok u"
    using u assms(2) by (auto simp: buryNode_def insertNodeIfAbsent_Inr split: if_splits)
  from n have row: "n \<in> set (execution_nodes u)" "n_node_id n = nid"
    unfolding ownedNode_def by (auto dest: find_Some_set)
  from rest show ?thesis
  proof
    assume *: "n_revoked_at n \<noteq> None \<and> t = u"
    have "m = n" if "m \<in> set (execution_nodes u)" "n_node_id m = nid" for m
      using key_unique [OF nodes_distinct [OF ok] that(1) row(1)] that(2) row(2) by simp
    with * have "nodeDead nid t" unfolding nodeDead_def by blast
    moreover have "schema_ok t" using * ok by simp
    moreover have "\<exists>n \<in> set (execution_nodes t). n_node_id n = nid" using * row by blast
    ultimately show ?thesis by blast
  next
    assume "n_revoked_at n = None \<and> appendIdentityInvalidation dep owner (''node:'' @ nid)
        ''session_revoked'' now (sql_revoke_node now nid u) = Inr ((), t)"
    then have ev: "appendIdentityInvalidation dep owner (''node:'' @ nid) ''session_revoked'' now
        (sql_revoke_node now nid u) = Inr ((), t)" by (rule conjunct2)
    have nodes: "execution_nodes t = execution_nodes (sql_revoke_node now nid u)"
      by (rule sameButEvents_tables(1) [OF appendInvalidation_same [OF ev]])
    have "nodeDead nid t"
      unfolding nodeDead_def nodes by (simp add: sql_revoke_node_def ball_update_where)
    moreover have "schema_ok t" using ev by (auto simp: appendIdentityInvalidation_def)
    moreover have "\<exists>n \<in> set (execution_nodes t). n_node_id n = nid"
      using row unfolding nodes by (auto simp: sql_revoke_node_def bex_update_where)
    ultimately show ?thesis by blast
  qed
qed

interpretation deadNode: life_stable "nodeDead nid" for nid
  by unfold_locales (auto simp: nodeDead_def all_statements ball_update_where)

lemma dead_NodeByCredential:
  "nodeDead nid s \<Longrightarrow> repo_NodeByCredential h s = Inr n \<Longrightarrow> n_node_id n \<noteq> nid"
  by (auto simp: repo_NodeByCredential_def nodeDead_def split: option.splits dest!: find_Some_set)

lemma dead_ResolveNodeOwner:
  assumes "nodeDead (n_node_id node) s"
  shows "repo_ResolveNodeOwner node s = None"
proof (rule ccontr)
  assume "repo_ResolveNodeOwner node s \<noteq> None"
  then obtain p where "repo_ResolveNodeOwner node s = Some p" by blast
  then obtain n where "n \<in> set (execution_nodes s)" "n_node_id n = n_node_id node" "n_revoked_at n = None"
    unfolding repo_ResolveNodeOwner_def by (auto dest!: resolveSession_grants)
  with assms show False by (auto simp: nodeDead_def)
qed

text \<open>Operations that register no node under the id.\<close>

definition noNode :: "string \<Rightarrow> operation \<Rightarrow> bool" where
  "noNode nid x \<longleftrightarrow> (case x of OpRegisterNode n \<Rightarrow> n_node_id n \<noteq> nid | _ \<Rightarrow> True)"

lemma creates_nodeDead: "noNode nid x \<Longrightarrow> creates_ok (nodeDead nid) x"
  unfolding creates_ok_def noNode_def
  by (auto simp: keeps_exec_iff nodeDead_def core_statements tombstone_def split: operation.split)

lemma nodeDead_runs:
  assumes "nodeDead nid s" and "\<forall>x \<in> set xs. noNode nid x"
  shows "nodeDead nid (run_all xs s)"
  using deadNode.runs_stable [of s xs "run_all xs s" nid] assms creates_nodeDead
  by (auto simp: runs_run_all)

section \<open>Nodes of sessions that have been purged\<close>

lemma agentUsable_frame:
  assumes "agents t = agents s" and "organizations t = organizations s"
    and "organization_memberships t = organization_memberships s"
    and "membershipActive t = membershipActive s" and "userActive t = userActive s"
  shows "agentUsable t = agentUsable s"
proof -
  have "findOrgMembership t = findOrgMembership s" "orgActiveIn t = orgActiveIn s"
    using assms by (simp_all add: fun_eq_iff findOrgMembership_def orgActiveIn_def findOrganization_def)
  with assms show ?thesis
    by (simp add: fun_eq_iff agentUsable_def activeAgentOwner_def ownerActive_def)
qed

lemma CreateSession_frames:
  assumes "repo_CreateSession r s = (Inr x, t)"
  shows "agentUsable t = agentUsable s" and "control_state t = control_state s"
    and "deployments t = deployments s" and "organizations t = organizations s"
    and "map u_user_id (users t) = map u_user_id (users s)"
    and "execution_nodes t = filter (\<lambda>n. n_parent_session_id n \<notin>
        s_session_id ` {x \<in> set (sessions s). purgeable (sr_CreatedAt r) s x}) (execution_nodes s)"
proof -
  let ?p = "sql_purge_sessions (sr_CreatedAt r) s"
  have t: "t = sql_update_last_login (sr_CreatedAt r) (pr_UserID (sr_Principal r))
      (sql_insert_session (newSessionRow r) ?p)"
    using assms unfolding CreateSession_Inr by blast
  have "membershipActive t = membershipActive s" "userActive t = userActive s"
    unfolding t by (simp_all add: fun_eq_iff)
  then show "agentUsable t = agentUsable s"
    by (intro agentUsable_frame)
       (simp_all add: t sql_update_last_login_def sql_insert_session_def sql_purge_sessions_def)
  show "control_state t = control_state s" "deployments t = deployments s" "organizations t = organizations s"
    "map u_user_id (users t) = map u_user_id (users s)"
    "execution_nodes t = filter (\<lambda>n. n_parent_session_id n \<notin>
        s_session_id ` {x \<in> set (sessions s). purgeable (sr_CreatedAt r) s x}) (execution_nodes s)"
    by (simp_all add: t sql_update_last_login_def sql_insert_session_def sql_purge_sessions_def map_update_where)
qed

lemma schema_ok_insert_node:
  assumes "schema_ok s" and "n_node_id m \<notin> n_node_id ` set (execution_nodes s)"
    and "n_credential_hash m \<notin> n_credential_hash ` set (execution_nodes s)"
    and "n_deployment_id m \<in> set (map d_deployment_id (deployments s))"
    and "n_organization_id m \<in> set (map o_organization_id (organizations s))"
    and "n_owner_user_id m \<in> set (map u_user_id (users s))"
    and "n_parent_session_id m \<in> set (map s_session_id (sessions s))"
  shows "schema_ok (sql_insert_node m s)"
proof -
  have "schema_nodes (sql_insert_node m s)"
    using assms by (simp add: schema_ok_def schema_nodes_def sql_insert_node_def)
  then show ?thesis
    using assms(1) by (simp add: schema_ok_def sql_insert_node_def schema_deployments_def schema_users_def
        schema_identities_def schema_credentials_def schema_memberships_def schema_sessions_def schema_receipts_def
        schema_invalidations_def schema_plans_def schema_entitlements_def schema_organizations_def
        schema_org_memberships_def schema_invitations_def schema_agents_def cong: option.case_cong)
qed

text \<open>The same node, under another session and in force.\<close>

definition movedNode :: "node_row \<Rightarrow> string \<Rightarrow> time \<Rightarrow> node_row" where
  "movedNode n sid c = n\<lparr>n_parent_session_id := sid, n_created_at := c, n_revoked_at := None\<rparr>"

lemma movedNode_simps [simp]:
  "n_node_id (movedNode n p c) = n_node_id n" "n_credential_hash (movedNode n p c) = n_credential_hash n"
  "n_deployment_id (movedNode n p c) = n_deployment_id n" "n_organization_id (movedNode n p c) = n_organization_id n"
  "n_owner_user_id (movedNode n p c) = n_owner_user_id n" "n_agent_ids_json (movedNode n p c) = n_agent_ids_json n"
  "n_parent_session_id (movedNode n p c) = p" "n_created_at (movedNode n p c) = c"
  "n_revoked_at (movedNode n p c) = None" "(movedNode n p c)\<lparr>n_revoked_at := None\<rparr> = movedNode n p c"
  "agentUsable s (movedNode n p c) = agentUsable s n"
  by (simp_all add: movedNode_def agentUsable_def fun_eq_iff)

lemma purged_node_gone:
  assumes "schema_ok s" and "n \<in> set (execution_nodes s)" and x: "x \<in> set (sessions s)"
    "s_session_id x = n_parent_session_id n" "purgeable (sr_CreatedAt r) s x" and "repo_CreateSession r s = (Inr y, t)"
  shows "n_node_id n \<notin> n_node_id ` set (execution_nodes t) \<and>
     n_credential_hash n \<notin> n_credential_hash ` set (execution_nodes t)"
proof -
  have nodes: "schema_nodes s" using assms(1) by (simp add: schema_ok_def)
  have kept: "k \<in> set (execution_nodes s) \<and> k \<noteq> n" if "k \<in> set (execution_nodes t)" for k
    using that x rev_image_eqI [of x "{x \<in> set (sessions s). purgeable (sr_CreatedAt r) s x}" "n_parent_session_id n" s_session_id]
    unfolding CreateSession_frames(6) [OF assms(6)] by auto
  then show ?thesis
    using nodes assms(2) key_unique [of n_node_id "execution_nodes s"] key_unique [of n_credential_hash "execution_nodes s"]
    by (fastforce simp: schema_nodes_def)
qed

lemma NodeByCredential_none:
  "h \<notin> n_credential_hash ` set (execution_nodes s) \<Longrightarrow> repo_NodeByCredential h s = Inl StoreErrNotFound"
proof -
  assume "h \<notin> n_credential_hash ` set (execution_nodes s)"
  then have "find (\<lambda>n. n_credential_hash n = h \<and> n_revoked_at n = None) (execution_nodes s) = None"
    unfolding find_None_all by (metis imageI)
  then show ?thesis by (simp add: repo_NodeByCredential_def)
qed

lemma purged_node_returns:
  assumes "schema_ok s" and n: "n \<in> set (execution_nodes s)"
    and x: "x \<in> set (sessions s)" "s_session_id x = n_parent_session_id n" "purgeable (sr_CreatedAt r) s x"
    and login: "repo_CreateSession r s = (Inr y, t)"
    and owner: "pr_UserID (sr_Principal r) = n_owner_user_id n" "pr_DeploymentID (sr_Principal r) = n_deployment_id n"
    and "c < sr_ExpiresAt r" and "1 \<in> set (control_state s)" and "list_all (agentUsable s n) (n_agent_ids_json n)"
  shows "repo_RegisterNode (movedNode n (sr_SessionID r) c) t =
     (Inr (movedNode n (sr_SessionID r) c), sql_insert_node (movedNode n (sr_SessionID r) c) t)"
proof -
  let ?m = "movedNode n (sr_SessionID r) c"
  note frames = CreateSession_frames [OF login]
  have row: "newSessionRow r \<in> set (sessions t)" using CreateSession_sessions [OF login] by simp
  have nodes: "schema_nodes s" using assms(1) by (simp add: schema_ok_def)
  note free = purged_node_gone [OF assms(1) n x login, THEN conjunct1] purged_node_gone [OF assms(1) n x login, THEN conjunct2]
  have ok: "schema_ok (sql_insert_node ?m t)"
  proof (rule schema_ok_insert_node [OF CreateSession_schema [OF login]])
    show "n_parent_session_id ?m \<in> set (map s_session_id (sessions t))"
      using row by (force simp: newSessionRow_def)
  qed (use nodes n free frames(3,4,5) in \<open>auto simp: schema_nodes_def\<close>)
  have live: "liveSession t (sr_SessionID r) (n_owner_user_id n) (n_deployment_id n) c"
    unfolding liveSession_def by (rule bexI [OF _ row]) (use owner assms(9) in \<open>simp add: newSessionRow_def\<close>)
  have "find (\<lambda>k. n_node_id k = n_node_id n) (execution_nodes t) = None"
    using free(1) unfolding find_None_iff by (metis imageI)
  then have "find (\<lambda>k. n_node_id k = n_node_id n) (execution_nodes (sql_insert_node ?m t)) = Some ?m"
    by (simp add: sql_insert_node_def find_node_insert)
  then show ?thesis
    using live ok free assms(10,11) frames(1,2)
    by (simp add: RegisterNode_Inr insertNodeIfAbsent_Inr sameAuthorization_def)
qed

lemma NodeByCredential_insert:
  assumes "n_credential_hash m \<notin> n_credential_hash ` set (execution_nodes s)" and "n_revoked_at m = None"
  shows "repo_NodeByCredential (n_credential_hash m) (sql_insert_node m s) = Inr m"
proof -
  have "find (\<lambda>n. n_credential_hash n = n_credential_hash m \<and> n_revoked_at n = None) (execution_nodes s) = None"
    using assms(1) unfolding find_None_iff by (metis imageI)
  moreover have "find P xs = None \<Longrightarrow> P m \<Longrightarrow> find P (xs @ [m]) = Some m" for P xs
    by (induction xs) (auto split: if_splits)
  ultimately show ?thesis using assms(2) by (simp add: repo_NodeByCredential_def sql_insert_node_def)
qed

end
