(* ===== verification/Org_Effects.thy ===== *)
theory Org_Effects
  imports Org_Ownership Node_Life
begin

text \<open>
  What the organization actions do and what they leave alone: transferring swaps two roles,
  leaving and dissolving end memberships together with the agents and nodes they carried, and
  none of the actions touches the platform account of anybody.
\<close>

section \<open>The platform account is left alone\<close>

definition samePlatform :: "db \<Rightarrow> db \<Rightarrow> bool" where
  "samePlatform s t \<longleftrightarrow> users t = users s \<and> deployments t = deployments s \<and>
     deployment_memberships t = deployment_memberships s \<and> sessions t = sessions s \<and>
     password_credentials t = password_credentials s \<and> identities t = identities s \<and>
     member_entitlements t = member_entitlements s"

lemma samePlatform_org [simp]:
  "samePlatform s (sql_insert_organization r t) = samePlatform s t"
  "samePlatform s (sql_rename_organization a0 b0 c0 t) = samePlatform s t"
  "samePlatform s (sql_disable_organization a1 b1 t) = samePlatform s t"
  "samePlatform s (sql_join_organization a2 b2 c2 d2 t) = samePlatform s t"
  "samePlatform s (sql_revoke_org_membership a3 b3 c3 t) = samePlatform s t"
  "samePlatform s (sql_set_org_role a4 b4 c4 d4 t) = samePlatform s t"
  "samePlatform s (sql_update_org_membership a5 b5 c5 d5 e5 t) = samePlatform s t"
  "samePlatform s (sql_join_invitation a6 b6 c6 t) = samePlatform s t"
  "samePlatform s (sql_revoke_agents a7 b7 c7 t) = samePlatform s t"
  "samePlatform s (sql_revoke_org_nodes a8 b8 c8 t) = samePlatform s t"
  "samePlatform s (sql_append_event a9 b9 c9 d9 e9 f9 g9 t) = samePlatform s t"
  by (simp_all add: samePlatform_def sql_insert_organization_def sql_rename_organization_def
      sql_disable_organization_def sql_join_organization_def sql_revoke_org_membership_def
      sql_set_org_role_def sql_update_org_membership_def sql_join_invitation_def
      sql_revoke_agents_def sql_revoke_org_nodes_def sql_append_event_def)

lemma keeps_samePlatform: "(\<And>t. samePlatform s (f t) = samePlatform s t) \<Longrightarrow> keeps (samePlatform s) (exec_stm f)"
  by (intro keeps_rules) simp

lemma MutateOrganization_platform: "samePlatform s (snd (repo_MutateOrganization c s))"
  unfolding repo_MutateOrganization_def mutateOrganizationBody_def organizationAction_def
    createOrganization_def joinByInvitation_def leaveOrganization_def transferOrganization_def
    renameOrganization_def dissolveOrganization_def joinOrganization_def closingEvent_def
    revokeOrganizationMember_def appendOrganizationInvalidation_def
  by (rule keeps_tx, simp add: samePlatform_def)
     (intro keeps_begin keeps_bind keeps_then keeps_query keeps_if keeps_fail keeps_return
       keeps_option keeps_for keeps_samePlatform samePlatform_org)

section \<open>Leaving\<close>

text \<open>What remains of a member who left: no membership, no agent and no node in the organization.\<close>

definition hasLeft :: "string \<Rightarrow> string \<Rightarrow> db \<Rightarrow> bool" where
  "hasLeft org u s \<longleftrightarrow>
     (\<forall>x \<in> set (organization_memberships s). is_org_member org u x \<longrightarrow> om_status x = ''revoked'') \<and>
     (\<forall>a \<in> set (agents s). ag_organization_id a = org \<and> ag_owner_user_id a = u \<longrightarrow> ag_status a = ''revoked'') \<and>
     (\<forall>n \<in> set (execution_nodes s). n_organization_id n = org \<and> n_owner_user_id n = u \<longrightarrow>
        n_revoked_at n \<noteq> None)"

definition notIn :: "string \<Rightarrow> string \<Rightarrow> db \<Rightarrow> bool" where
  "notIn org u s \<longleftrightarrow>
     (\<forall>x \<in> set (organization_memberships s). is_org_member org u x \<longrightarrow> om_status x \<noteq> ''active'')"

definition revokeRows :: "string \<Rightarrow> string \<Rightarrow> time \<Rightarrow> db \<Rightarrow> db" where
  "revokeRows org u now s =
     sql_revoke_org_nodes now org u (sql_revoke_agents now org u (sql_revoke_org_membership now org u s))"

lemma appendOrganization_same:
  "appendOrganizationInvalidation d org u b now s = Inr ((), t) \<Longrightarrow> sameButEvents s t"
  unfolding appendOrganizationInvalidation_def by auto

lemma revokeOrganizationMember_Inr:
  "revokeOrganizationMember d org u now s = Inr ((), t) \<Longrightarrow> sameButEvents (revokeRows org u now s) t"
  unfolding revokeOrganizationMember_def revokeRows_def by (auto dest: appendOrganization_same)

lemma revokeRows_left: "hasLeft org u (revokeRows org u now s)"
  by (auto simp: hasLeft_def revokeRows_def sql_revoke_org_nodes_def sql_revoke_agents_def
      sql_revoke_org_membership_def ball_update_where is_org_member_def)

lemma revokeRows_keep:
  "hasLeft org v s \<Longrightarrow> hasLeft org v (revokeRows org u now s)"
  "notIn org v s \<Longrightarrow> notIn org v (revokeRows org u now s)"
  by (auto simp: hasLeft_def notIn_def revokeRows_def sql_revoke_org_nodes_def sql_revoke_agents_def
      sql_revoke_org_membership_def ball_update_where is_org_member_def)

lemma hasLeft_notIn: "hasLeft org u s \<Longrightarrow> notIn org u s"
  by (auto simp: hasLeft_def notIn_def)

lemma left_same:
  assumes "sameButEvents s t"
  shows "hasLeft org u t = hasLeft org u s" and "notIn org u t = notIn org u s"
    and "organizations t = organizations s"
    and "organization_memberships t = organization_memberships s"
  using sameButEvents_tables [OF assms] by (simp_all add: hasLeft_def notIn_def)

lemma revokeMember_left:
  assumes "revokeOrganizationMember d org u now s = Inr ((), t)"
  shows "hasLeft org u t" and "hasLeft org v s \<Longrightarrow> hasLeft org v t" and "notIn org v s \<Longrightarrow> notIn org v t"
    and "organizations t = organizations s"
  using left_same [OF revokeOrganizationMember_Inr [OF assms]] revokeRows_left revokeRows_keep
  by (auto simp: revokeRows_def sql_revoke_org_nodes_def sql_revoke_agents_def sql_revoke_org_membership_def)

lemma revokeMembers_left:
  assumes "forS (\<lambda>u. revokeOrganizationMember d org u now) us s = Inr ((), t)"
  shows "(\<forall>u. u \<in> set us \<or> hasLeft org u s \<longrightarrow> hasLeft org u t) \<and>
     (\<forall>u. u \<in> set us \<or> notIn org u s \<longrightarrow> notIn org u t) \<and> organizations t = organizations s"
  using assms
proof (induction us arbitrary: s)
  case (Cons u us)
  then obtain v where u: "revokeOrganizationMember d org u now s = Inr ((), v)"
    and rest: "forS (\<lambda>u. revokeOrganizationMember d org u now) us v = Inr ((), t)" by auto
  from Cons.IH [OF rest] revokeMember_left [OF u] show ?case
    by (auto intro: hasLeft_notIn)
qed simp

section \<open>The actions\<close>

text \<open>A successful action with the organization the actor is in.\<close>

lemma MutateOrganization_member:
  assumes "repo_MutateOrganization c s = (Inr r, t)"
    and "oc_Action c = ''leave'' \<or> oc_Action c = ''transfer'' \<or> oc_Action c = ''dissolve''"
  obtains x org' u where "actorOrg c s = Some x"
    and "pr_OrganizationID (oc_Actor c) = om_organization_id x"
    and "organizationAction c (om_organization_id x) (om_role x) s = Inr (org', u)"
    and "sameButEvents u t"
proof -
  from assms(1) obtain org' u where guard: "organizationGuard c (currentID (actorOrg c s))"
    and act: "organizationAction c (currentID (actorOrg c s)) (currentRole (actorOrg c s)) s = Inr (org', u)"
    and close: "closingEvent c org' u = Inr ((), t)"
    by (auto simp only: MutateOrganization_Inr)
  from guard assms(2) have "currentID (actorOrg c s) \<noteq> ''''"
    and id: "currentID (actorOrg c s) = pr_OrganizationID (oc_Actor c)"
    by (auto simp: organizationGuard_def)
  then obtain x where x: "actorOrg c s = Some x"
    unfolding currentID_def by (cases "actorOrg c s") auto
  have "sameButEvents u t"
    using close unfolding closingEvent_def by (auto split: if_splits dest: appendOrganization_same)
  with that x act id show ?thesis by (simp add: currentID_def currentRole_def)
qed

lemma actorOrg_Some:
  assumes "actorOrg c s = Some x"
  shows "x \<in> set (organization_memberships s)"
    and "is_org_member (om_organization_id x) (pr_UserID (oc_Actor c)) x" and "om_status x = ''active''"
  using currentOrganization_Some [of s _ _ x] assms by (auto simp: actorOrg_def is_org_member_def)

lemma leave_effects:
  assumes "repo_MutateOrganization c s = (Inr r, t)" and "oc_Action c = ''leave''"
  shows "hasLeft (pr_OrganizationID (oc_Actor c)) (pr_UserID (oc_Actor c)) t"
    and "organizations t = organizations s"
    and "\<exists>x. actorOrg c s = Some x \<and> om_role x \<noteq> ''owner''"
proof -
  obtain x org' u where x: "actorOrg c s = Some x" "pr_OrganizationID (oc_Actor c) = om_organization_id x"
    and act: "organizationAction c (om_organization_id x) (om_role x) s = Inr (org', u)"
    and same: "sameButEvents u t"
    using MutateOrganization_member [OF assms(1)] assms(2) by blast
  from act assms(2) have "om_role x \<noteq> ''owner''"
    and rev: "revokeOrganizationMember (pr_DeploymentID (oc_Actor c)) (om_organization_id x)
        (pr_UserID (oc_Actor c)) (oc_Now c) s = Inr ((), u)"
    by (auto simp: organizationAction_def leaveOrganization_def split: if_splits)
  then show "hasLeft (pr_OrganizationID (oc_Actor c)) (pr_UserID (oc_Actor c)) t"
    and "organizations t = organizations s" and "\<exists>x. actorOrg c s = Some x \<and> om_role x \<noteq> ''owner''"
    using revokeMember_left [OF rev] left_same [OF same] x by simp_all
qed

lemma activeOrgUsers_notIn: "u \<notin> set (activeOrgUsers org s) \<Longrightarrow> notIn org u s"
  by (auto simp: activeOrgUsers_def notIn_def is_org_member_def)

lemma dissolve_effects:
  assumes "repo_MutateOrganization c s = (Inr r, t)" and "oc_Action c = ''dissolve''"
  shows "\<forall>u. notIn (pr_OrganizationID (oc_Actor c)) u t"
    and "\<forall>u \<in> set (activeOrgUsers (pr_OrganizationID (oc_Actor c)) s).
      hasLeft (pr_OrganizationID (oc_Actor c)) u t"
    and "\<forall>o' \<in> set (organizations t). o_organization_id o' = pr_OrganizationID (oc_Actor c) \<longrightarrow>
      o_status o' = ''disabled''"
    and "\<exists>x. actorOrg c s = Some x \<and> om_role x = ''owner''"
proof -
  let ?org = "pr_OrganizationID (oc_Actor c)"
  obtain x org' v where x: "actorOrg c s = Some x" "?org = om_organization_id x"
    and act: "organizationAction c (om_organization_id x) (om_role x) s = Inr (org', v)"
    and same: "sameButEvents v t"
    using MutateOrganization_member [OF assms(1)] assms(2) by blast
  from act assms(2) have "dissolveOrganization c ?org (om_role x) s = Inr (org', v)"
    by (simp add: organizationAction_def x(2))
  then obtain u where role: "om_role x = ''owner''"
    and loop: "forS (\<lambda>w. revokeOrganizationMember (pr_DeploymentID (oc_Actor c)) ?org w (oc_Now c))
        (activeOrgUsers ?org s) s = Inr ((), u)"
    and v: "v = sql_disable_organization (oc_Now c) ?org u"
    unfolding dissolveOrganization_def by (auto split: if_splits)
  note left = revokeMembers_left [OF loop]
  have frame: "hasLeft ?org w v = hasLeft ?org w u" "notIn ?org w v = notIn ?org w u" for w
    by (simp_all add: v hasLeft_def notIn_def sql_disable_organization_def)
  show "\<forall>u. notIn ?org u t"
    using left activeOrgUsers_notIn [of _ ?org s] by (auto simp: left_same [OF same] frame)
  show "\<forall>u \<in> set (activeOrgUsers ?org s). hasLeft ?org u t"
    using left by (auto simp: left_same [OF same] frame)
  show "\<forall>o' \<in> set (organizations t). o_organization_id o' = ?org \<longrightarrow> o_status o' = ''disabled''"
    by (auto simp: left_same [OF same] v sql_disable_organization_def ball_update_where)
  show "\<exists>x. actorOrg c s = Some x \<and> om_role x = ''owner''" using x role by blast
qed

lemma transfer_effects:
  assumes "repo_MutateOrganization c s = (Inr r, t)" and "oc_Action c = ''transfer''"
  shows "oc_TargetUserID c \<noteq> pr_UserID (oc_Actor c)"
    and "\<exists>x. actorOrg c s = Some x \<and> om_role x = ''owner''"
    and "organization_memberships t = map (\<lambda>x.
       if is_org_member (pr_OrganizationID (oc_Actor c)) (pr_UserID (oc_Actor c)) x
       then x\<lparr>om_role := ''admin'', om_updated_at := oc_Now c\<rparr>
       else if is_org_member (pr_OrganizationID (oc_Actor c)) (oc_TargetUserID c) x
       then x\<lparr>om_role := ''owner'', om_updated_at := oc_Now c\<rparr> else x) (organization_memberships s)"
    and "\<exists>x. findOrgMembership s (pr_OrganizationID (oc_Actor c)) (oc_TargetUserID c) = Some x \<and>
       om_status x = ''active''"
proof -
  let ?org = "pr_OrganizationID (oc_Actor c)"
  obtain x org' v where x: "actorOrg c s = Some x" "?org = om_organization_id x"
    and act: "organizationAction c (om_organization_id x) (om_role x) s = Inr (org', v)"
    and same: "sameButEvents v t"
    using MutateOrganization_member [OF assms(1)] assms(2) by blast
  from act assms(2) have "transferOrganization c ?org (om_role x) s = Inr (org', v)"
    by (simp add: organizationAction_def x(2))
  then have role: "om_role x = ''owner''" and ne: "oc_TargetUserID c \<noteq> pr_UserID (oc_Actor c)"
    and target: "transferTarget c ?org s \<noteq> None"
    and ev: "appendOrganizationInvalidation (pr_DeploymentID (oc_Actor c)) ?org (oc_TargetUserID c)
       False (oc_Now c) (sql_set_org_role ''owner'' (oc_Now c) ?org (oc_TargetUserID c)
       (sql_set_org_role ''admin'' (oc_Now c) ?org (pr_UserID (oc_Actor c)) s)) = Inr ((), v)"
    unfolding transferOrganization_def by (auto split: if_splits option.splits)
  show "oc_TargetUserID c \<noteq> pr_UserID (oc_Actor c)" by (rule ne)
  show "\<exists>x. actorOrg c s = Some x \<and> om_role x = ''owner''" using x role by blast
  show "organization_memberships t = map (\<lambda>x.
       if is_org_member ?org (pr_UserID (oc_Actor c)) x
       then x\<lparr>om_role := ''admin'', om_updated_at := oc_Now c\<rparr>
       else if is_org_member ?org (oc_TargetUserID c) x
       then x\<lparr>om_role := ''owner'', om_updated_at := oc_Now c\<rparr> else x) (organization_memberships s)"
    unfolding left_same(4) [OF same] left_same(4) [OF appendOrganization_same [OF ev]]
    using ne by (auto simp: sql_set_org_role_def update_where_def is_org_member_def)
  show "\<exists>x. findOrgMembership s ?org (oc_TargetUserID c) = Some x \<and> om_status x = ''active''"
    using target unfolding transferTarget_def by (auto split: option.splits if_splits)
qed

end
