(* ===== verification/Member_Updates.thy ===== *)
theory Member_Updates
  imports Org_Effects
begin

text \<open>
  The two member updates as read-modify-write operations: who may perform them, what a reader
  sees afterwards, and that an update based on a version another update has replaced fails.
\<close>

section \<open>The tables after an update\<close>

lemma appendProfile_same:
  assumes "appendProfileInvalidations u now s = Inr ((), t)"
  shows "sameButEvents s t"
proof -
  have "keeps (sameButEvents s) (appendProfileInvalidations u now)"
    unfolding appendProfileInvalidations_def by (intro keeps_rules keeps_same_append)
  from keepsD [OF this sameButEvents_refl assms] show ?thesis .
qed

text \<open>The change of display name, in terms of the user found.\<close>

lemma changeDisplayName_Inr:
  assumes "changeDisplayName u old nn now s = Inr ((), t)"
  shows "sameButEvents (if nn = old then s else sql_update_display_name nn now u old s) t"
  using assms unfolding changeDisplayName_def
  by (auto split: if_splits dest: appendProfile_same)

lemma changeDisplayName_tables:
  assumes "changeDisplayName u old nn now s = Inr ((), t)"
  shows "deployment_memberships t = deployment_memberships s"
    and "organization_memberships t = organization_memberships s"
    and "findUser s u = Some w \<Longrightarrow> u_display_name w = old \<Longrightarrow> findUser t u =
      Some (if nn = old then w else w\<lparr>u_display_name := nn, u_updated_at := now\<rparr>)"
proof -
  note same = sameButEvents_tables [OF changeDisplayName_Inr [OF assms]]
  show "deployment_memberships t = deployment_memberships s"
    and "organization_memberships t = organization_memberships s"
    using same(6,7) by (simp_all add: sql_update_display_name_def split: if_splits)
  assume w: "findUser s u = Some w" "u_display_name w = old"
  then have "u_user_id w = u" by (auto simp: findUser_def dest: find_Some_set)
  with w same(5) show "findUser t u =
      Some (if nn = old then w else w\<lparr>u_display_name := nn, u_updated_at := now\<rparr>)"
    by (auto simp: findUser_def sql_update_display_name_def find_update_where)
qed

lemma deploymentEffects_tables:
  assumes "deploymentEffects dep u target nr ns nn now s = Inr ((), t)"
  shows "\<exists>v. changeDisplayName u (dm_DisplayName target) nn now s = Inr ((), v) \<and>
     deployment_memberships t = deployment_memberships v \<and> users t = users v"
proof -
  from assms obtain v w where v: "changeDisplayName u (dm_DisplayName target) nn now s = Inr ((), v)"
    and w: "w = (if ns = ''revoked'' then sql_revoke_user_sessions now dep u v else v)"
    and t: "(if dm_Role target \<noteq> nr \<or> dm_MembershipStatus target \<noteq> ns
       then appendIdentityInvalidation dep u '''' ''principal_changed'' now else returnS ()) w = Inr ((), t)"
    unfolding deploymentEffects_def by (auto split: if_splits)
  from t have "sameButEvents w t"
    by (auto split: if_splits dest: appendInvalidation_same)
  from sameButEvents_tables(5,6) [OF this] v show ?thesis
    by (auto simp: w sql_revoke_user_sessions_def)
qed

lemma find_memberships:
  "findMembership s dep u = find (\<lambda>m. (m_deployment_id m, m_user_id m) = (dep, u)) (deployment_memberships s)"
  by (simp add: findMembership_def)

lemma findMembership_update:
  "findMembership s dep u = Some m \<Longrightarrow> findMembership (sql_update_membership r st now dep u s) dep u =
     Some (m\<lparr>m_role := r, m_status := st, m_updated_at := now\<rparr>)"
proof -
  assume m: "findMembership s dep u = Some m"
  then have "m_deployment_id m = dep" "m_user_id m = u"
    by (auto simp: findMembership_def dest: find_Some_set)
  with m show ?thesis
    unfolding find_memberships sql_update_membership_def
    by (simp add: find_update_where del: prod.inject)
qed

lemma queryDeploymentMember_rows:
  "queryDeploymentMember dep u s = Inr target \<longleftrightarrow> (\<exists>m w. findMembership s dep u = Some m \<and>
     findUser s u = Some w \<and> target = scanDeploymentMember dep w (m_role m) (m_status m)
       (m_updated_at m) (m_web_access_disabled m))"
  unfolding queryDeploymentMember_def deploymentMemberOf_def findMembership_def
  by (auto split: option.splits dest: find_Some_set)

text \<open>The rows a reader joins after a successful update.\<close>

lemma UpdateDeploymentMember_rows:
  assumes "repo_UpdateDeploymentMember dep u actor er es ev nr ns nn now s = (Inr r, t)"
  obtains m w where "findMembership s dep u = Some m" and "findUser s u = Some w"
    and "r = updatedMember (scanDeploymentMember dep w (m_role m) (m_status m) (m_updated_at m)
        (m_web_access_disabled m)) nr ns nn now"
    and "findMembership t dep u = Some (m\<lparr>m_role := nr, m_status := ns, m_updated_at := now\<rparr>)"
    and "findUser t u = Some (if nn = u_display_name w then w else w\<lparr>u_display_name := nn, u_updated_at := now\<rparr>)"
proof -
  let ?v = "sql_update_membership nr ns now dep u s"
  from assms obtain target where q: "queryDeploymentMember dep u s = Inr target"
    and eff: "deploymentEffects dep u target nr ns nn now ?v = Inr ((), t)"
    and r: "r = updatedMember target nr ns nn now"
    by (auto simp only: UpdateDeploymentMember_Inr)
  from q obtain m w where m: "findMembership s dep u = Some m" and w: "findUser s u = Some w"
    and target: "target = scanDeploymentMember dep w (m_role m) (m_status m) (m_updated_at m)
        (m_web_access_disabled m)"
    by (auto simp only: queryDeploymentMember_rows)
  from deploymentEffects_tables [OF eff] obtain x where
    x: "changeDisplayName u (dm_DisplayName target) nn now ?v = Inr ((), x)"
    and t: "deployment_memberships t = deployment_memberships x" "users t = users x" by blast
  have "findUser ?v u = Some w" using w by (simp add: findUser_def sql_update_membership_def)
  with changeDisplayName_tables [OF x] t
  have "findUser t u = Some (if nn = u_display_name w then w else w\<lparr>u_display_name := nn, u_updated_at := now\<rparr>)"
    by (simp add: target scanDeploymentMember_def findUser_def)
  moreover have "findMembership t dep u = findMembership ?v dep u"
    using changeDisplayName_tables(1) [OF x] t(1) by (simp add: findMembership_def)
  ultimately show ?thesis using that m w r target findMembership_update [OF m] by simp
qed

lemma UpdateDeploymentMember_read:
  assumes "repo_UpdateDeploymentMember dep u actor er es ev nr ns nn now s = (Inr r, t)"
    and "\<And>w. findUser s u = Some w \<Longrightarrow> u_updated_at w \<le> now"
  shows "repo_DeploymentMemberByID dep u t = Inr r"
proof -
  obtain m w where "findUser s u = Some w"
    and "r = updatedMember (scanDeploymentMember dep w (m_role m) (m_status m) (m_updated_at m)
        (m_web_access_disabled m)) nr ns nn now"
    and "findMembership t dep u = Some (m\<lparr>m_role := nr, m_status := ns, m_updated_at := now\<rparr>)"
    and "findUser t u = Some (if nn = u_display_name w then w else w\<lparr>u_display_name := nn, u_updated_at := now\<rparr>)"
    using UpdateDeploymentMember_rows [OF assms(1)] by metis
  then show ?thesis
    using assms(2) [of w] unfolding repo_DeploymentMemberByID_def queryDeploymentMember_rows
    by (auto simp: scanDeploymentMember_def updatedMember_def After_def)
qed

lemma UnixMicro_mono: "a \<le> b \<Longrightarrow> UnixMicro a \<le> UnixMicro b"
  by (simp add: UnixMicro_def zdiv_mono1)

text \<open>The version after an update, and the updates that expect another one.\<close>

lemma UpdateDeploymentMember_version:
  assumes "repo_UpdateDeploymentMember dep u actor er es ev nr ns nn now s = (Inr r, t)"
  obtains target where "queryDeploymentMember dep u t = Inr target" and "now \<le> dm_UpdatedAt target"
proof -
  obtain m w where "findMembership t dep u = Some (m\<lparr>m_role := nr, m_status := ns, m_updated_at := now\<rparr>)"
    and "findUser t u = Some (if nn = u_display_name w then w else w\<lparr>u_display_name := nn, u_updated_at := now\<rparr>)"
    by (rule UpdateDeploymentMember_rows [OF assms])
  then obtain target where "queryDeploymentMember dep u t = Inr target" "now \<le> dm_UpdatedAt target"
    unfolding queryDeploymentMember_rows by (auto simp: scanDeploymentMember_def After_def)
  then show thesis by (rule that)
qed

lemma UpdateDeploymentMember_stale:
  assumes "queryDeploymentMember dep u t = Inr target" and "ev \<noteq> UnixMicro (dm_UpdatedAt target)"
  shows "\<exists>e. repo_UpdateDeploymentMember dep u actor er es ev nr ns nn now t = (Inl e, t)"
proof (cases "repo_UpdateDeploymentMember dep u actor er es ev nr ns nn now t")
  case (Pair x t')
  with assms show ?thesis
    by (cases x) (auto simp only: UpdateDeploymentMember_Inr expectedMember_def sum.inject dest: UpdateDeploymentMember_Inl)
qed

end
