(* ===== verification/Entitlement_Life.thy ===== *)
theory Entitlement_Life
  imports Platform_Ownership
begin

text \<open>
  Plans and entitlements: once a deployment is set up, each of its members has an effective
  entitlement in every later state, and binding a member to a plan is read back.
\<close>

definition hasPlan :: "string \<Rightarrow> string \<Rightarrow> db \<Rightarrow> bool" where
  "hasPlan dep key s \<longleftrightarrow>
     (\<exists>p \<in> set (subscription_plans s). p_deployment_id p = dep \<and> p_plan_key p = key)"

text \<open>Plans are archived and never deleted.\<close>

lemma hasPlan_keys:
  "hasPlan dep key s \<longleftrightarrow> (dep, key) \<in> set (map (\<lambda>p. (p_deployment_id p, p_plan_key p)) (subscription_plans s))"
  by (auto simp: hasPlan_def)

lemma plan_keys_upsert:
  "set (map (\<lambda>p. (p_deployment_id p, p_plan_key p)) (subscription_plans (sql_upsert_plan r s))) =
     insert (p_deployment_id r, p_plan_key r)
       (set (map (\<lambda>p. (p_deployment_id p, p_plan_key p)) (subscription_plans s)))"
proof (cases "\<exists>p \<in> set (subscription_plans s). same_plan r p")
  case True
  then obtain p where "p \<in> set (subscription_plans s)" and "same_plan r p" by blast
  then have "(p_deployment_id r, p_plan_key r) = (p_deployment_id p, p_plan_key p)"
    by (simp add: same_plan_def)
  with \<open>p \<in> set (subscription_plans s)\<close> have "(p_deployment_id r, p_plan_key r) \<in>
      set (map (\<lambda>p. (p_deployment_id p, p_plan_key p)) (subscription_plans s))"
    unfolding set_map by (rule rev_image_eqI)
  moreover have "map (\<lambda>p. (p_deployment_id p, p_plan_key p)) (subscription_plans (sql_upsert_plan r s)) =
      map (\<lambda>p. (p_deployment_id p, p_plan_key p)) (subscription_plans s)"
    using True by (simp add: sql_upsert_plan_def map_update_where)
  ultimately show ?thesis by (simp only: insert_absorb)
next
  case False
  then show ?thesis by (simp add: sql_upsert_plan_def)
qed

lemma hasPlan_upsert: "hasPlan dep key (sql_upsert_plan r s) \<longleftrightarrow>
    hasPlan dep key s \<or> (p_deployment_id r = dep \<and> p_plan_key r = key)"
  unfolding hasPlan_keys plan_keys_upsert by auto

interpretation plan: all_stable "hasPlan dep key" for dep key
  by unfold_locales (simp add: hasPlan_upsert | simp add: hasPlan_def all_statements)+

lemma hasPlan_find: "hasPlan dep key s \<longleftrightarrow> (\<exists>p. findPlan s dep key = Some p)"
proof -
  have "(\<exists>p. find P xs = Some p) \<longleftrightarrow> (\<exists>p \<in> set xs. P p)" for P and xs :: "plan_row list"
    by (induction xs) auto
  then show ?thesis by (simp add: hasPlan_def findPlan_def)
qed

lemma defaultPlans_free:
  assumes "insertDefaultSubscriptionPlans dep now s = Inr ((), t)"
  shows "hasPlan dep ''free'' t"
  using assms
  by (auto simp: insertDefaultSubscriptionPlans_def defaultPlans_def upsertSubscriptionPlan_def
      hasPlan_upsert)

lemma CreateOwner_free:
  assumes "repo_CreateOwner r s = (Inr x, t)"
  shows "hasPlan (ow_DeploymentID r) ''free'' t"
  using assms defaultPlans_free
  by (auto simp: repo_CreateOwner_def run_tx_Inr simp del: forS.simps split: if_splits)

text \<open>A binding refers to a plan of the same deployment (a foreign key).\<close>

lemma bound_plan:
  assumes "schema_ok s" and "findEntitlement s dep u = Some e"
  shows "hasPlan dep (e_plan_key e) s"
proof -
  from assms(2) have "e \<in> set (member_entitlements s)" and dep: "e_deployment_id e = dep"
    unfolding findEntitlement_def by (auto dest: find_Some_set)
  with assms(1) have "(e_deployment_id e, e_plan_key e) \<in>
      set (map (\<lambda>p. (p_deployment_id p, p_plan_key p)) (subscription_plans s))"
    by (auto simp: schema_ok_def schema_defs)
  with dep show ?thesis by (auto simp: hasPlan_def)
qed

lemma entitlement_exists:
  assumes "schema_ok s" and "hasPlan dep ''free'' s" and "findMembership s dep u \<noteq> None"
  shows "\<exists>e. repo_EffectiveEntitlement dep u s = Inr e"
proof -
  have "hasPlan dep (boundPlanKey s dep u) s"
    using assms(2) bound_plan [OF assms(1)] by (simp add: boundPlanKey_def split: option.split)
  then show ?thesis
    using assms(3) by (auto simp: repo_EffectiveEntitlement_def hasPlan_find)
qed

section \<open>Binding a member to a plan\<close>

lemma SetMemberEntitlement_Inr:
  "repo_SetMemberEntitlement dep u key now s = (Inr x, t) \<longleftrightarrow>
     1 \<in> set (control_state s) \<and> dep \<in> set (map d_deployment_id (deployments s)) \<and>
     (\<exists>p. findPlan s dep key = Some p \<and> p_status p = ''active'') \<and> findMembership s dep u \<noteq> None \<and>
     (if boundPlanKey s dep u = key then t = s else
      (let v = sql_upsert_entitlement \<lparr>e_deployment_id = dep, e_user_id = u, e_plan_key = key,
                  e_created_at = now, e_updated_at = now\<rparr> s in
       schema_ok v \<and> appendIdentityInvalidation dep u '''' ''entitlement_changed'' now v = Inr ((), t)))"
  unfolding repo_SetMemberEntitlement_def run_tx_Inr Let_def
  by (auto split: option.splits if_splits)

lemma find_upsert_entitlement:
  "e_deployment_id r = dep \<Longrightarrow> e_user_id r = u \<Longrightarrow>
     \<exists>e. findEntitlement (sql_upsert_entitlement r s) dep u = Some e \<and> e_plan_key e = e_plan_key r"
proof -
  assume r: "e_deployment_id r = dep" "e_user_id r = u"
  have upd: "\<exists>e. find (same_member r) (update_where (same_member r)
        (\<lambda>e. e\<lparr>e_plan_key := e_plan_key r, e_updated_at := e_updated_at r\<rparr>) xs) = Some e \<and>
      e_plan_key e = e_plan_key r" if "\<exists>e \<in> set xs. same_member r e" for xs
    using that by (induction xs) (auto simp: update_where_def same_member_def)
  have new: "find P (xs @ [y]) = Some y" if "\<forall>x \<in> set xs. \<not> P x" "P y" for P and xs and y :: entitlement_row
    using that by (induction xs) auto
  have "findEntitlement v dep u = find (same_member r) (member_entitlements v)" for v
    by (simp add: findEntitlement_def same_member_def [abs_def] r)
  then show ?thesis
    using upd [of "member_entitlements s"] new [of "member_entitlements s" "same_member r" r]
    by (auto simp: sql_upsert_entitlement_def same_member_def)
qed

lemma append_event_frames:
  assumes "appendIdentityInvalidation a b c d e s = Inr ((), t)"
  shows "findPlan t = findPlan s" and "findMembership t = findMembership s"
    and "findEntitlement t = findEntitlement s"
  using assms by (auto simp: appendIdentityInvalidation_def sql_append_event_def findPlan_def
      findMembership_def findEntitlement_def fun_eq_iff)

lemma SetMemberEntitlement_bound:
  assumes "repo_SetMemberEntitlement dep u key now s = (Inr x, t)"
  shows "boundPlanKey t dep u = key" and "findPlan t = findPlan s" and "findMembership t dep u \<noteq> None"
proof -
  let ?v = "sql_upsert_entitlement \<lparr>e_deployment_id = dep, e_user_id = u, e_plan_key = key,
                  e_created_at = now, e_updated_at = now\<rparr> s"
  have frames: "findPlan ?v = findPlan s" "findMembership ?v = findMembership s"
    by (simp_all add: findPlan_def findMembership_def sql_upsert_entitlement_def fun_eq_iff)
  consider "boundPlanKey s dep u = key" "t = s" "findMembership s dep u \<noteq> None"
    | "appendIdentityInvalidation dep u '''' ''entitlement_changed'' now ?v = Inr ((), t)"
      "findMembership s dep u \<noteq> None"
    using assms by (auto simp: SetMemberEntitlement_Inr Let_def split: if_splits)
  then have "boundPlanKey t dep u = key \<and> findPlan t = findPlan s \<and> findMembership t dep u \<noteq> None"
  proof cases
    case 2
    then show ?thesis
      using append_event_frames [OF 2(1)] frames find_upsert_entitlement [of _ dep u s]
      by (auto simp: boundPlanKey_def)
         (metis entitlement_row.select_convs(1,2,3) option.simps(5))
  qed simp
  then show "boundPlanKey t dep u = key" and "findPlan t = findPlan s" and "findMembership t dep u \<noteq> None"
    by auto
qed

lemma SetMemberEntitlement_read:
  assumes "repo_SetMemberEntitlement dep u key now s = (Inr x, t)"
  shows "\<exists>e p. repo_EffectiveEntitlement dep u t = Inr e \<and> er_PlanKey e = key \<and>
     findPlan s dep key = Some p \<and> p_status p = ''active'' \<and>
     er_MonthlyTokenLimit e = p_monthly_token_limit p"
proof -
  obtain p where p: "findPlan s dep key = Some p" "p_status p = ''active''"
    using assms by (auto simp: SetMemberEntitlement_Inr)
  then have "p_plan_key p = key" by (auto simp: findPlan_def dest: find_Some_set)
  with p SetMemberEntitlement_bound [OF assms] show ?thesis
    by (auto simp: repo_EffectiveEntitlement_def)
qed

end
