(* ===== verification/Invitation_Life.thy ===== *)
theory Invitation_Life
  imports Platform_Ownership Session_Life
begin

text \<open>
  How invitations end before they are accepted: a manager revokes a pending one and deletes one that
  is over. The permission of the manager is that of the locale \<open>permission\<close>.
\<close>

lemma schema_ok_invitations:
  "schema_ok s \<Longrightarrow> schema_invitations (DB (tables s\<lparr>t_organization_invitations := is\<rparr>)) \<Longrightarrow>
    schema_ok (DB (tables s\<lparr>t_organization_invitations := is\<rparr>))"
  by (simp add: schema_ok_def schema_deployments_def schema_users_def schema_identities_def
      schema_credentials_def schema_memberships_def schema_sessions_def schema_receipts_def
      schema_invalidations_def schema_plans_def schema_entitlements_def schema_organizations_def
      schema_org_memberships_def schema_agents_def schema_nodes_def)

lemma revoke_invitation_ok:
  assumes "schema_ok s"
  shows "schema_ok (sql_revoke_invitation now org iid s)"
  unfolding sql_revoke_invitation_def
proof (rule schema_ok_invitations [OF assms])
  have "schema_invitations s" using assms by (simp add: schema_ok_def)
  then show "schema_invitations (DB (tables s\<lparr>t_organization_invitations := update_where
      (\<lambda>i. i_organization_id i = org \<and> i_invitation_id i = iid \<and> invitation_pending now i)
      (\<lambda>i. i\<lparr>i_revoked_at := Some now, i_updated_at := now\<rparr>) (organization_invitations s)\<rparr>))"
    by (auto simp: schema_invitations_def ball_update_where map_update_where invitation_pending_def
        cong: option.case_cong)
qed

lemma delete_invitation_ok:
  assumes "schema_ok s"
  shows "schema_ok (sql_delete_invitation now org iid s)"
  unfolding sql_delete_invitation_def
  by (rule schema_ok_invitations [OF assms])
     (use assms in \<open>auto simp: schema_ok_def schema_invitations_def distinct_filter_map cong: option.case_cong\<close>)

lemma invitation_row:
  assumes "schema_ok s" and "i \<in> set (organization_invitations s)"
  shows "find (\<lambda>j. i_organization_id j = i_organization_id i \<and> i_invitation_id j = i_invitation_id i)
      (organization_invitations s) = Some i"
    and "count_where (\<lambda>j. i_organization_id j = i_organization_id i \<and> i_invitation_id j = i_invitation_id i \<and> Q j)
      (organization_invitations s) = (if Q i then 1 else 0)"
proof -
  have keys: "distinct (map i_invitation_id (organization_invitations s))"
    using assms(1) by (simp add: schema_ok_def schema_invitations_def)
  note same = key_unique [OF keys _ assms(2)]
  obtain k where k: "find (\<lambda>j. i_organization_id j = i_organization_id i \<and> i_invitation_id j = i_invitation_id i)
      (organization_invitations s) = Some k"
    using assms(2) by (cases "find (\<lambda>j. i_organization_id j = i_organization_id i \<and>
        i_invitation_id j = i_invitation_id i) (organization_invitations s)") (auto simp: find_None_iff)
  with find_Some_set [OF k] same [of k] show "find (\<lambda>j. i_organization_id j = i_organization_id i \<and>
      i_invitation_id j = i_invitation_id i) (organization_invitations s) = Some i" by simp
  show "count_where (\<lambda>j. i_organization_id j = i_organization_id i \<and> i_invitation_id j = i_invitation_id i \<and> Q j)
      (organization_invitations s) = (if Q i then 1 else 0)"
  proof (cases "Q i")
    case True
    then have "filter (\<lambda>j. i_organization_id j = i_organization_id i \<and> i_invitation_id j = i_invitation_id i \<and> Q j)
        (organization_invitations s) = [i]"
      using assms(2) same distinct_map [THEN iffD1, OF keys, THEN conjunct1] by (intro filter_unique) auto
    with True show ?thesis by (simp add: count_where_def)
  next
    case False
    then have "\<forall>j \<in> set (organization_invitations s).
        \<not> (i_organization_id j = i_organization_id i \<and> i_invitation_id j = i_invitation_id i \<and> Q j)"
      using same by blast
    then show ?thesis using False by (simp add: count_where_def filter_empty_conv)
  qed
qed

lemma invitation_manager:
  assumes "schema_ok s"
  shows "thenS (requireInvitationManager org iid u) rest s = Inr z \<longleftrightarrow>
     (\<exists>i. i \<in> set (organization_invitations s) \<and> i_organization_id i = org \<and> i_invitation_id i = iid \<and>
        (liveOrgRole s org u = Some ''owner'' \<or> liveOrgRole s org u = Some ''admin'' \<and> i_role i = ''member'') \<and>
        rest s = Inr z)"
proof (cases "find (\<lambda>i. i_organization_id i = org \<and> i_invitation_id i = iid) (organization_invitations s)")
  case None
  have "thenS (requireInvitationManager org iid u) rest s = Inl StoreErrInvitationInvalid"
    by (simp add: requireInvitationManager_def thenS_def bindS_def queryS_def failS_def None)
  with None show ?thesis by (auto simp: find_None_all)
next
  case (Some i)
  from find_Some_set [OF this] have i: "i \<in> set (organization_invitations s)" "i_organization_id i = org" "i_invitation_id i = iid"
    by simp_all
  have rows: "schema_invitations s" using assms by (simp add: schema_ok_def)
  then have only: "j = i" if "j \<in> set (organization_invitations s)" "i_invitation_id j = iid" for j
    using key_unique [of i_invitation_id "organization_invitations s" j i] that i
    by (simp add: schema_invitations_def)
  have "i_role i \<noteq> ''owner''" using rows i(1) by (auto simp: schema_invitations_def)
  moreover have "thenS (requireInvitationManager org iid u) rest s =
      thenS (requireOrganizationManager org u (i_role i)) rest s"
    by (simp add: requireInvitationManager_def thenS_def bindS_def queryS_def Some)
  ultimately have "thenS (requireInvitationManager org iid u) rest s =
      (if liveOrgRole s org u = Some ''owner'' \<or> liveOrgRole s org u = Some ''admin'' \<and> i_role i = ''member''
       then rest s else Inl StoreErrStateConflict)"
    by (simp only: organization.gate) simp
  then show ?thesis using i only by (metis Inl_Inr_False)
qed

text \<open>Revoking and deleting are one transaction with another condition and another statement.\<close>

lemma invitation_ended:
  assumes "schema_ok s" and "schema_ok (f s)"
  shows "run_tx (thenS beginIdentityWrite (thenS (requireInvitationManager org iid u)
       (bindS (queryS (\<lambda>s. count_where (\<lambda>i. i_organization_id i = org \<and> i_invitation_id i = iid \<and> Q i)
           (organization_invitations s)))
        (\<lambda>count. thenS (exec_stm f)
           (if count \<noteq> 1 then failS StoreErrInvitationInvalid else returnS (Commit ())))))) s = (Inr (), t) \<longleftrightarrow>
     1 \<in> set (control_state s) \<and> t = f s \<and>
     (\<exists>i. i \<in> set (organization_invitations s) \<and> i_organization_id i = org \<and> i_invitation_id i = iid \<and>
        (liveOrgRole s org u = Some ''owner'' \<or> liveOrgRole s org u = Some ''admin'' \<and> i_role i = ''member'') \<and> Q i)"
proof -
  define rest where "rest = bindS (queryS (\<lambda>s. count_where (\<lambda>i. i_organization_id i = org \<and>
      i_invitation_id i = iid \<and> Q i) (organization_invitations s)))
    (\<lambda>count. thenS (exec_stm f) (if count \<noteq> 1 then failS StoreErrInvitationInvalid else returnS (Commit ())))"
  have rest: "rest s = Inr (out, t') \<longleftrightarrow> out = Commit () \<and> t' = f s \<and>
      count_where (\<lambda>i. i_organization_id i = org \<and> i_invitation_id i = iid \<and> Q i) (organization_invitations s) = 1" for out t'
    using assms(2) unfolding rest_def by auto
  have "run_tx (thenS beginIdentityWrite (thenS (requireInvitationManager org iid u) rest)) s = (Inr (), t) \<longleftrightarrow>
      1 \<in> set (control_state s) \<and> thenS (requireInvitationManager org iid u) rest s = Inr (Commit (), t)"
    using invitation_manager [OF assms(1), of org iid u rest]
    by (auto simp: run_tx_Inr rest simp del: thenS_Inr simp: thenS_Inr [of beginIdentityWrite])
  then show ?thesis
    using invitation_row(2) [OF assms(1)] unfolding rest_def [symmetric] invitation_manager [OF assms(1)] rest
    by (auto split: if_splits)
qed

lemma revoked_rows:
  assumes "schema_ok s" and "i \<in> set (organization_invitations s)" and "invitation_pending now i"
    and "i_organization_id i = org" and "i_invitation_id i = iid"
  shows "sql_revoke_invitation now org iid s = DB (tables s\<lparr>t_organization_invitations :=
     map (\<lambda>j. if i_invitation_id j = iid then j\<lparr>i_revoked_at := Some now, i_updated_at := now\<rparr> else j)
       (organization_invitations s)\<rparr>)"
proof -
  have "distinct (map i_invitation_id (organization_invitations s))"
    using assms(1) by (simp add: schema_ok_def schema_invitations_def)
  note same = key_unique [OF this _ assms(2)]
  have "map (\<lambda>j. if i_organization_id j = org \<and> i_invitation_id j = iid \<and> invitation_pending now j
      then j\<lparr>i_revoked_at := Some now, i_updated_at := now\<rparr> else j) (organization_invitations s) =
    map (\<lambda>j. if i_invitation_id j = iid then j\<lparr>i_revoked_at := Some now, i_updated_at := now\<rparr> else j)
      (organization_invitations s)"
    using same assms(3-5) by (intro map_cong refl) auto
  then show ?thesis by (simp only: sql_revoke_invitation_def update_where_def)
qed

lemma deleted_rows:
  assumes "schema_ok s" and "i \<in> set (organization_invitations s)" and "\<not> invitation_pending now i"
    and "i_organization_id i = org" and "i_invitation_id i = iid"
  shows "sql_delete_invitation now org iid s = DB (tables s\<lparr>t_organization_invitations :=
     filter (\<lambda>j. i_invitation_id j \<noteq> iid) (organization_invitations s)\<rparr>)"
proof -
  have "distinct (map i_invitation_id (organization_invitations s))"
    using assms(1) by (simp add: schema_ok_def schema_invitations_def)
  note same = key_unique [OF this _ assms(2)]
  have over: "(i_accepted_at j \<noteq> None \<or> i_revoked_at j \<noteq> None \<or> i_expires_at j \<le> now) = (\<not> invitation_pending now j)" for j
    by (auto simp: invitation_pending_def)
  have "filter (\<lambda>j. \<not> (i_organization_id j = org \<and> i_invitation_id j = iid \<and>
      \<not> invitation_pending now j)) (organization_invitations s) =
    filter (\<lambda>j. i_invitation_id j \<noteq> iid) (organization_invitations s)"
    using same assms(3-5) by (intro filter_cong) auto
  then show ?thesis by (simp only: sql_delete_invitation_def over)
qed

lemma RevokeInvitation_Inr:
  assumes "schema_ok s"
  shows "repo_RevokeOrganizationInvitation org iid u now s = (Inr (), t) \<longleftrightarrow> 1 \<in> set (control_state s) \<and>
     t = sql_revoke_invitation now org iid s \<and>
     (\<exists>i. i \<in> set (organization_invitations s) \<and> i_organization_id i = org \<and> i_invitation_id i = iid \<and>
        (liveOrgRole s org u = Some ''owner'' \<or> liveOrgRole s org u = Some ''admin'' \<and> i_role i = ''member'') \<and>
        invitation_pending now i)"
  unfolding repo_RevokeOrganizationInvitation_def
  by (rule invitation_ended [where f = "sql_revoke_invitation now org iid", OF assms revoke_invitation_ok [OF assms]])

lemma DeleteInvitation_Inr:
  assumes "schema_ok s"
  shows "repo_DeleteOrganizationInvitation org iid u now s = (Inr (), t) \<longleftrightarrow> 1 \<in> set (control_state s) \<and>
     t = sql_delete_invitation now org iid s \<and>
     (\<exists>i. i \<in> set (organization_invitations s) \<and> i_organization_id i = org \<and> i_invitation_id i = iid \<and>
        (liveOrgRole s org u = Some ''owner'' \<or> liveOrgRole s org u = Some ''admin'' \<and> i_role i = ''member'') \<and>
        \<not> invitation_pending now i)"
proof -
  have over: "(i_accepted_at i \<noteq> None \<or> i_revoked_at i \<noteq> None \<or> i_expires_at i \<le> now) = (\<not> invitation_pending now i)" for i
    by (auto simp: invitation_pending_def)
  show ?thesis
    unfolding repo_DeleteOrganizationInvitation_def over
    by (rule invitation_ended [where f = "sql_delete_invitation now org iid", OF assms delete_invitation_ok [OF assms]])
qed

text \<open>The result written out, where the rows found determine it.\<close>

lemma rewrite_witness:
  "(\<And>i. P i \<Longrightarrow> x = y) \<Longrightarrow> (a \<and> t = x \<and> (\<exists>i. P i)) \<longleftrightarrow> (a \<and> (\<exists>i. P i) \<and> t = y)"
  by auto

end
