(* ===== verification/Control_Examples.thy ===== *)
theory Control_Examples
  imports Control_System
begin

text \<open>
  A small deployment to evaluate the model on: its setup by Ann, the accounts Bob and Cid, the
  organization of Ann with the other two in it, and a session for each.
\<close>

definition exampleOwner :: OwnerRecord where
  "exampleOwner = \<lparr>ow_DeploymentID = ''d'', ow_DeploymentName = ''D'', ow_OrganizationID = ''o'',
     ow_OrganizationName = ''O'', ow_UserID = ''ann'', ow_IdentityID = ''ia'', ow_CredentialID = ''ca'',
     ow_Username = ''ann'', ow_DisplayName = ''Ann'', ow_PasswordHash = ''ha'', ow_CreatedAt = 1\<rparr>"

definition exampleAccount :: "string \<Rightarrow> NewMemberRecord" where
  "exampleAccount u = \<lparr>nm_DeploymentID = ''d'', nm_UserID = u, nm_IdentityID = ''i'' @ u,
     nm_CredentialID = ''c'' @ u, nm_Username = u, nm_DisplayName = u, nm_PasswordHash = ''h'' @ u,
     nm_Role = ''member'', nm_CreatedAt = 2\<rparr>"

definition examplePrincipal :: "string \<Rightarrow> string \<Rightarrow> string \<Rightarrow> PrincipalRecord" where
  "examplePrincipal u org role = \<lparr>pr_WebAccessDisabled = False, pr_OrganizationRole = role,
     pr_DeploymentID = ''d'', pr_OrganizationID = org, pr_OrganizationName = '''', pr_UserID = u,
     pr_Username = u, pr_DisplayName = u, pr_Role = ''member'', pr_Avatar = '''',
     pr_AuthMethod = ''password'', pr_SessionID = ''s'' @ u\<rparr>"

definition exampleCommand :: "string \<Rightarrow> string \<Rightarrow> string \<Rightarrow> OrganizationCommand" where
  "exampleCommand action u target = \<lparr>oc_Actor = examplePrincipal u ''o'' '''', oc_Action = action,
     oc_OrganizationID = '''', oc_Name = ''N'', oc_TargetUserID = target, oc_TokenHash = '''', oc_Now = 9\<rparr>"

definition exampleInvitation :: "string \<Rightarrow> string \<Rightarrow> OrganizationInvitationRecord" where
  "exampleInvitation iid role = \<lparr>ir_InvitationID = iid, ir_DeploymentID = ''d'', ir_OrganizationID = ''o'',
     ir_OrganizationName = ''O'', ir_TokenHash = ''t'' @ iid, ir_Role = role, ir_CreatedByUserID = ''ann'',
     ir_AcceptedByUserID = '''', ir_ExpiresAt = 100, ir_AcceptedAt = None, ir_RevokedAt = None,
     ir_CreatedAt = 3, ir_UpdatedAt = 3\<rparr>"

definition exampleJoin :: "string \<Rightarrow> string \<Rightarrow> OrganizationCommand" where
  "exampleJoin u iid = \<lparr>oc_Actor = examplePrincipal u '''' '''', oc_Action = ''join'',
     oc_OrganizationID = '''', oc_Name = '''', oc_TargetUserID = '''', oc_TokenHash = ''t'' @ iid, oc_Now = 4\<rparr>"

definition exampleSession :: "string \<Rightarrow> SessionRecord" where
  "exampleSession u = \<lparr>sr_SessionID = ''s'' @ u, sr_TokenHash = ''k'' @ u,
     sr_Principal = examplePrincipal u '''' '''', sr_ExpiresAt = 50, sr_ClientIP = '''', sr_UserAgent = '''',
     sr_CreatedAt = 5\<rparr>"

definition exampleSetup :: "operation list" where
  "exampleSetup = [OpCreateOwner exampleOwner, OpRegisterAccount (exampleAccount ''bob''),
     OpCreateOrganizationInvitation (exampleInvitation ''1'' ''member''),
     OpMutateOrganization (exampleJoin ''bob'' ''1''),
     OpCreateSession (exampleSession ''ann''), OpCreateSession (exampleSession ''bob'')]"

text \<open>The database after these operations, written out.\<close>

definition exampleDb :: db where
  "exampleDb = DB (
     \<lparr>t_control_state = [1],
     t_deployments =
     [\<lparr>d_deployment_id = ''d'', d_name = ''D'', d_status = ''active'',
     d_created_at = 1, d_updated_at = 1\<rparr>],
     t_users =
     [\<lparr>u_user_id = ''ann'', u_username = ''ann'', u_display_name = ''Ann'',
     u_status = ''active'', u_avatar = None, u_last_login_at = Some 5,
     u_created_at = 1, u_updated_at = 5\<rparr>,
     \<lparr>u_user_id = ''bob'', u_username = ''bob'', u_display_name = ''bob'',
     u_status = ''active'', u_avatar = None, u_last_login_at = Some 5,
     u_created_at = 2, u_updated_at = 5\<rparr>],
     t_identities =
     [\<lparr>idn_identity_id = ''ia'', idn_user_id = ''ann'',
     idn_provider = ''password'', idn_subject = ''ann'',
     idn_created_at = 1, idn_updated_at = 1\<rparr>,
     \<lparr>idn_identity_id = ''ibob'', idn_user_id = ''bob'',
     idn_provider = ''password'', idn_subject = ''bob'',
     idn_created_at = 2, idn_updated_at = 2\<rparr>],
     t_password_credentials =
     [\<lparr>c_credential_id = ''ca'', c_user_id = ''ann'',
     c_password_hash = ''ha'', c_password_algo = ''argon2id'',
     c_password_updated_at = 1, c_created_at = 1, c_updated_at = 1\<rparr>,
     \<lparr>c_credential_id = ''cbob'', c_user_id = ''bob'',
     c_password_hash = ''hbob'', c_password_algo = ''argon2id'',
     c_password_updated_at = 2, c_created_at = 2, c_updated_at = 2\<rparr>],
     t_deployment_memberships =
     [\<lparr>m_deployment_id = ''d'', m_user_id = ''ann'', m_role = ''owner'',
     m_status = ''active'', m_created_at = 1, m_updated_at = 1,
     m_web_access_disabled = False\<rparr>,
     \<lparr>m_deployment_id = ''d'', m_user_id = ''bob'', m_role = ''member'',
     m_status = ''active'', m_created_at = 2, m_updated_at = 2,
     m_web_access_disabled = False\<rparr>],
     t_sessions =
     [\<lparr>s_session_id = ''sann'', s_deployment_id = ''d'',
     s_user_id = ''ann'', s_session_token_hash = ''kann'',
     s_auth_method = ''password'', s_expires_at = 50,
     s_last_seen_at = 5, s_client_ip = None, s_user_agent = None,
     s_revoked_at = None, s_created_at = 5, s_updated_at = 5\<rparr>,
     \<lparr>s_session_id = ''sbob'', s_deployment_id = ''d'',
     s_user_id = ''bob'', s_session_token_hash = ''kbob'',
     s_auth_method = ''password'', s_expires_at = 50,
     s_last_seen_at = 5, s_client_ip = None, s_user_agent = None,
     s_revoked_at = None, s_created_at = 5, s_updated_at = 5\<rparr>],
     t_password_change_receipts = [],
     t_identity_invalidations =
     [\<lparr>ev_event_id = 1, ev_deployment_id = ''d'', ev_user_id = ''bob'',
     ev_session_id = None, ev_reason = ''organization_changed'',
     ev_created_at = 4, ev_organization_id = ''o'',
     ev_membership_revoked = False\<rparr>],
     t_next_event_id = 2,
     t_subscription_plans =
     [\<lparr>p_deployment_id = ''d'', p_plan_key = ''free'',
     p_display_name = ''Free'', p_status = ''active'',
     p_monthly_token_limit = Some 200000,
     p_notes =
     [CHR 0xE9, CHR 0xBB, CHR 0x98, CHR 0xE8, CHR 0xAE, CHR 0xA4,
     CHR 0xE5, CHR 0x85, CHR 0x8D, CHR 0xE8, CHR 0xB4, CHR 0xB9,
     CHR 0xE9, CHR 0xA2, CHR 0x9D, CHR 0xE5, CHR 0xBA, CHR 0xA6],
     p_sort_order = 10, p_created_at = 1, p_updated_at = 1\<rparr>,
     \<lparr>p_deployment_id = ''d'', p_plan_key = ''admin'',
     p_display_name = ''Admin'', p_status = ''active'',
     p_monthly_token_limit = None,
     p_notes =
     [CHR 0xE6, CHR 0x97, CHR 0xA0, CHR 0xE9, CHR 0x99, CHR 0x90,
     CHR 0xE9, CHR 0xA2, CHR 0x9D, CHR 0xE5, CHR 0xBA, CHR 0xA6,
     CHR 0xE7, CHR 0xAE, CHR 0xA1, CHR 0xE7, CHR 0x90, CHR 0x86,
     CHR 0xE5, CHR 0xA5, CHR 0x97, CHR 0xE9, CHR 0xA4, CHR 0x90],
     p_sort_order = 90, p_created_at = 1, p_updated_at = 1\<rparr>],
     t_member_entitlements = [],
     t_organizations =
     [\<lparr>o_organization_id = ''o'', o_deployment_id = ''d'', o_name = ''O'',
     o_status = ''active'', o_created_at = 1, o_updated_at = 1\<rparr>],
     t_organization_memberships =
     [\<lparr>om_organization_id = ''o'', om_user_id = ''ann'',
     om_role = ''owner'', om_status = ''active'', om_created_at = 1,
     om_updated_at = 1\<rparr>,
     \<lparr>om_organization_id = ''o'', om_user_id = ''bob'',
     om_role = ''member'', om_status = ''active'', om_created_at = 4,
     om_updated_at = 4\<rparr>],
     t_organization_invitations =
     [\<lparr>i_invitation_id = ''1'', i_organization_id = ''o'',
     i_token_hash = ''t1'', i_role = ''member'',
     i_created_by_user_id = ''ann'',
     i_accepted_by_user_id = Some ''bob'', i_expires_at = 100,
     i_accepted_at = Some 4, i_revoked_at = None, i_created_at = 3,
     i_updated_at = 4\<rparr>],
     t_agents = [], t_execution_nodes = []\<rparr>)"

lemma exampleDb_reached: "run_all exampleSetup migrated_db = exampleDb"
  by code_simp

lemma exampleDb_ok: "schema_ok exampleDb"
  using schema.run_stable [of migrated_db exampleSetup exampleDb] migrated_db_ok exampleDb_reached
  by (simp add: runs_run_all)

text \<open>An update of Bob's platform membership by Ann.\<close>

definition exampleUpdate :: "string \<Rightarrow> time \<Rightarrow> db \<Rightarrow> (store_error + DeploymentMemberRecord) \<times> db" where
  "exampleUpdate status now =
     repo_UpdateDeploymentMember ''d'' ''bob'' ''ann'' ''member'' ''active'' 0 ''member'' status ''Bob'' now"

text \<open>A result without an error, taken apart.\<close>

lemma success: "\<not> isl (fst x) \<Longrightarrow> x = (Inr (projr (fst x)), snd x)"
  by (cases x; cases "fst x") auto

end
