(* ===== verification/Repository_Theorems.thy ===== *)
theory Repository_Theorems
  imports Event_Log Member_Updates Entitlement_Life Invitation_Life Control_Examples
begin

text \<open>
  The properties of the repository, each with an application to the example deployment. A run is
  a list of operations; \<open>run_all\<close> applies them in order, failed ones included.
\<close>

section \<open>Ownership and permissions\<close>



text \<open>C2: the account that set the deployment up remains its active owner whatever operations
  follow, so the setup stays closed: it is no longer required and is refused with AlreadySetup.\<close>

theorem platform_owner_is_permanent:
  assumes "repo_CreateOwner r s = (Inr (), t)" and "schema_ok s"
  shows "ownsPlatform (ow_DeploymentID r) (ow_UserID r) (run_all ops t) \<and>
     \<not> repo_SetupRequired (run_all ops t) \<and>
     repo_CreateOwner r' (run_all ops t) = (Inl StoreErrAlreadySetup, run_all ops t)"
proof -
  have "schema_ok t"
    using assms schema_step [of s "OpCreateOwner r"] by simp
  then have owns: "ownsPlatform (ow_DeploymentID r) (ow_UserID r) (run_all ops t)"
    using owns_runs [of t ops "run_all ops t"] CreateOwner_Inr [OF assms(1)] by (simp add: runs_run_all)
  have "1 \<in> set (control_state s)"
    using assms(1) by (auto simp: repo_CreateOwner_def run_tx_Inr)
  then have "1 \<in> set (control_state t)"
    using locked.run_op_stable [OF locked.creates, of s "OpCreateOwner r"] assms(1) by simp
  then have "1 \<in> set (control_state (run_all ops t))"
    using locked.run_stable [of t ops "run_all ops t"] by (simp add: runs_run_all)
  then show ?thesis
    using owns owns_setup [OF owns] CreateOwner_again by (simp add: repo_SetupRequired_def)
qed

theorem platform_owner_is_permanent_witness:
  "repo_CreateOwner exampleOwner (run_all [OpUpdateDeploymentMember ''d'' ''ann'' ''ann'' ''owner'' ''active'' 0
      ''member'' ''revoked'' ''x'' 9] (snd (repo_CreateOwner exampleOwner migrated_db))) =
    (Inl StoreErrAlreadySetup, run_all [OpUpdateDeploymentMember ''d'' ''ann'' ''ann'' ''owner'' ''active'' 0
      ''member'' ''revoked'' ''x'' 9] (snd (repo_CreateOwner exampleOwner migrated_db)))"
proof -
  have "repo_CreateOwner exampleOwner migrated_db = (Inr (), snd (repo_CreateOwner exampleOwner migrated_db))"
    using success [of "repo_CreateOwner exampleOwner migrated_db"] by code_simp
  from platform_owner_is_permanent [OF this migrated_db_ok] show ?thesis by blast
qed

text \<open>C3: an invitation is ended exactly by those who may manage its role, a live owner of the
  organization or, for an invitation of a member, a live administrator: a revocation succeeds just when
  the invitation is of this organization and pending, a deletion just when it is over (accepted, revoked
  or expired). A revocation marks this row and nothing else, a deletion removes it and nothing else.
  The lock row of the control state is the one that the migration creates.\<close>

theorem invitations_are_ended_by_managers:
  assumes "schema_ok s"
  shows "(repo_RevokeOrganizationInvitation org iid u now s = (Inr (), t) \<longleftrightarrow> 1 \<in> set (control_state s) \<and>
       (\<exists>i. i \<in> set (organization_invitations s) \<and> i_organization_id i = org \<and> i_invitation_id i = iid \<and>
          (liveOrgRole s org u = Some ''owner'' \<or> liveOrgRole s org u = Some ''admin'' \<and> i_role i = ''member'') \<and>
          i_accepted_at i = None \<and> i_revoked_at i = None \<and> now < i_expires_at i) \<and>
       t = DB (tables s\<lparr>t_organization_invitations := map (\<lambda>j. if i_invitation_id j = iid
            then j\<lparr>i_revoked_at := Some now, i_updated_at := now\<rparr> else j) (organization_invitations s)\<rparr>)) \<and>
     (repo_DeleteOrganizationInvitation org iid u now s = (Inr (), t) \<longleftrightarrow> 1 \<in> set (control_state s) \<and>
       (\<exists>i. i \<in> set (organization_invitations s) \<and> i_organization_id i = org \<and> i_invitation_id i = iid \<and>
          (liveOrgRole s org u = Some ''owner'' \<or> liveOrgRole s org u = Some ''admin'' \<and> i_role i = ''member'') \<and>
          \<not> (i_accepted_at i = None \<and> i_revoked_at i = None \<and> now < i_expires_at i)) \<and>
       t = DB (tables s\<lparr>t_organization_invitations :=
            filter (\<lambda>j. i_invitation_id j \<noteq> iid) (organization_invitations s)\<rparr>))"
  unfolding RevokeInvitation_Inr [OF assms] DeleteInvitation_Inr [OF assms] invitation_pending_def [symmetric]
  by (intro conjI rewrite_witness) (elim conjE, erule (3) revoked_rows [OF assms], elim conjE, erule (3) deleted_rows [OF assms])

definition exampleInvited :: db where
  "exampleInvited = run_op (OpCreateOrganizationInvitation (exampleInvitation ''2'' ''admin'')) exampleDb"

theorem invitations_are_ended_by_managers_witness:
  "repo_RevokeOrganizationInvitation ''o'' ''2'' ''ann'' 9 exampleInvited =
     (Inr (), DB (tables exampleInvited\<lparr>t_organization_invitations := map (\<lambda>j. if i_invitation_id j = ''2''
        then j\<lparr>i_revoked_at := Some 9, i_updated_at := 9\<rparr> else j) (organization_invitations exampleInvited)\<rparr>))"
proof -
  have ok: "schema_ok exampleInvited" unfolding exampleInvited_def by (rule schema_step [OF exampleDb_ok])
  have "1 \<in> set (control_state exampleInvited)" "liveOrgRole exampleInvited ''o'' ''ann'' = Some ''owner''"
    and "list_ex (\<lambda>i. i_organization_id i = ''o'' \<and> i_invitation_id i = ''2'' \<and> i_accepted_at i = None \<and>
      i_revoked_at i = None \<and> 9 < i_expires_at i) (organization_invitations exampleInvited)"
    by code_simp+
  then show ?thesis
    using invitations_are_ended_by_managers [OF ok, THEN conjunct1] by (auto simp: list_ex_iff)
qed

text \<open>C4: a member update that succeeds was made by a live manager who may act both on the old and
  on the new role, on an active member at the expected version, and not to remove oneself.\<close>

theorem member_update_is_authorized:
  assumes "repo_UpdateMember dep org u actor er es ev nr ns nn now s = (Inr r, t)"
  shows "\<exists>target role. queryOrganizationMember dep org u s = Inr target \<and>
     liveOrgRole s org actor = Some role \<and>
     (role = ''owner'' \<or> role = ''admin'' \<and> er = ''member'' \<and> nr = ''member'') \<and>
     dm_Role target = er \<and> er \<noteq> ''owner'' \<and> nr \<noteq> ''owner'' \<and> dm_MembershipStatus target = ''active'' \<and>
     UnixMicro (dm_UpdatedAt target) = ev \<and> (actor = u \<longrightarrow> ns \<noteq> ''revoked'')"
  using assms by (auto simp only: UpdateMember_Inr expectedMember_def mayManage_def)

theorem member_update_is_authorized_witness:
  "\<exists>target role. queryOrganizationMember ''d'' ''o'' ''bob'' exampleDb = Inr target \<and>
     liveOrgRole exampleDb ''o'' ''ann'' = Some role \<and>
     (role = ''owner'' \<or> role = ''admin'' \<and> ''member'' = ''member'' \<and> ''admin'' = ''member'') \<and>
     dm_Role target = ''member'' \<and> ''member'' \<noteq> ''owner'' \<and> ''admin'' \<noteq> ''owner'' \<and>
     dm_MembershipStatus target = ''active'' \<and>
     UnixMicro (dm_UpdatedAt target) = 0 \<and> (''ann'' = ''bob'' \<longrightarrow> ''active'' \<noteq> ''revoked'')"
  by (rule member_update_is_authorized [OF success, where es = "''active''" and nn = "''Bob''" and now = 9])
     code_simp

text \<open>C5: after a deployment member was updated at some clock, the member that is read has a last change
  not before that clock, and every update that expects another version than this change in
  microseconds fails, whatever it asks for and whoever asks, and changes nothing. So of two updates from
  one version the second fails, unless the clock of the first was not past this version.\<close>

theorem stale_member_update_fails:
  assumes "repo_UpdateDeploymentMember dep u actor er es ev nr ns nn now s = (Inr r, t)"
  shows "\<exists>target. repo_DeploymentMemberByID dep u t = Inr target \<and> now \<le> dm_UpdatedAt target \<and>
     (\<forall>actor' er' es' ev' nr' ns' nn' now'. ev' \<noteq> UnixMicro (dm_UpdatedAt target) \<longrightarrow>
        (\<exists>e. repo_UpdateDeploymentMember dep u actor' er' es' ev' nr' ns' nn' now' t = (Inl e, t))) \<and>
     (ev < UnixMicro now \<longrightarrow> ev \<noteq> UnixMicro (dm_UpdatedAt target))"
proof -
  obtain target where target: "queryDeploymentMember dep u t = Inr target" "now \<le> dm_UpdatedAt target"
    by (rule UpdateDeploymentMember_version [OF assms])
  have "UnixMicro now \<le> UnixMicro (dm_UpdatedAt target)" using target(2) by (rule UnixMicro_mono)
  with target UpdateDeploymentMember_stale [OF target(1)] show ?thesis
    unfolding repo_DeploymentMemberByID_def by (intro exI [of _ target]) auto
qed

theorem stale_member_update_fails_witness:
  "\<exists>e. exampleUpdate ''active'' 9000 (snd (exampleUpdate ''revoked'' 7000 exampleDb)) =
     (Inl e, snd (exampleUpdate ''revoked'' 7000 exampleDb))"
proof -
  have update: "repo_UpdateDeploymentMember ''d'' ''bob'' ''ann'' ''member'' ''active'' 0 ''member'' ''revoked'' ''Bob'' 7000 exampleDb =
      (Inr (projr (fst (exampleUpdate ''revoked'' 7000 exampleDb))), snd (exampleUpdate ''revoked'' 7000 exampleDb))"
    unfolding exampleUpdate_def by (rule success) code_simp
  have "(0::int) < UnixMicro 7000" by code_simp
  with stale_member_update_fails [OF update] show ?thesis unfolding exampleUpdate_def by blast
qed

text \<open>A successful update answers with what the next read of the member returns, when the
  clock is not behind the last change of the profile.\<close>

theorem member_update_reads_back:
  assumes "repo_UpdateDeploymentMember dep u actor er es ev nr ns nn now s = (Inr r, t)"
    and "list_all (\<lambda>w. u_updated_at w \<le> now) (users s)"
  shows "repo_DeploymentMemberByID dep u t = Inr r"
  using assms(1)
  by (rule UpdateDeploymentMember_read)
     (use assms(2) in \<open>auto simp: findUser_def list_all_iff dest: find_Some_set\<close>)

theorem member_update_reads_back_witness:
  "repo_DeploymentMemberByID ''d'' ''bob'' (snd (exampleUpdate ''revoked'' 7000 exampleDb)) =
     Inr (projr (fst (exampleUpdate ''revoked'' 7000 exampleDb)))"
  unfolding exampleUpdate_def by (rule member_update_reads_back [OF success]) code_simp+

end
