(* ===== verification/Lifecycle_Theorems.thy ===== *)
theory Lifecycle_Theorems
  imports Repository_Theorems
begin

text \<open>
  The properties of sessions, invitations, password requests, nodes, organizations, entitlements
  and the event feed, each with an application to the example deployment.
\<close>

section \<open>Events\<close>

text \<open>C6: a client that follows the feed from any cursor, with any limits and with other
  operations between its requests, receives exactly the events between its first and its last
  cursor: none twice, none skipped.\<close>

theorem polling_is_lossless:
  assumes "s = run_all before migrated_db" and "0 \<le> c" and "plan \<noteq> []"
    and "follow c plan s = (es, c')"
  shows "es = map scanInvalidation (filter (\<lambda>e. c < ev_event_id e \<and> ev_event_id e \<le> c')
       (identity_invalidations (run_all (concat (map snd plan)) s)))"
  using follow_between(1) [OF _ assms(2-4)] log_inv_reached assms(1) by (simp add: between_def)

definition examplePlan :: "(int \<times> operation list) list" where
  "examplePlan = [(1, exampleSetup),
     (1, [OpRevokeSession ''kbob'' 8, OpUpdateAvatar ''ann'' ''cat'' 9]), (0, [])]"

theorem polling_is_lossless_witness:
  "fst (follow 0 examplePlan (run_all [] migrated_db)) = map scanInvalidation
     (filter (\<lambda>e. 0 < ev_event_id e \<and> ev_event_id e \<le> snd (follow 0 examplePlan (run_all [] migrated_db)))
       (identity_invalidations (run_all (concat (map snd examplePlan)) (run_all [] migrated_db))))"
  by (rule polling_is_lossless [where before = "[]"]) (simp, simp, code_simp, simp)

text \<open>A page shorter than the limit is the rest of the feed, so a client knows that it has
  caught up.\<close>

theorem short_page_is_the_rest:
  assumes "s = run_all ops migrated_db" and "0 \<le> after"
    and "int (length (svc_ListIdentityInvalidations after limit s)) < limit" and "limit \<le> 256"
  shows "svc_ListIdentityInvalidations after limit s =
     map scanInvalidation (filter (\<lambda>e. after < ev_event_id e) (identity_invalidations s))"
proof -
  have inv: "log_inv s" using assms(1) log_inv_reached by simp
  have size: "batchSize limit = nat limit" using assms(3,4) by (auto simp: batchSize_def)
  have svc: "svc_ListIdentityInvalidations after limit s =
      map scanInvalidation (page ev_event_id (nat limit) after (identity_invalidations s))"
    using ListIdentityInvalidations_page [OF inv, of after limit] assms(2) by (simp add: size max_def)
  from assms(3) have "length (page ev_event_id (nat limit) after (identity_invalidations s)) < nat limit"
    by (simp add: svc)
  then have "page ev_event_id (nat limit) after (identity_invalidations s) =
      filter (\<lambda>e. after < ev_event_id e) (identity_invalidations s)"
    by (rule short_page)
  with svc show ?thesis by simp
qed

theorem short_page_is_the_rest_witness:
  "svc_ListIdentityInvalidations 0 5 (run_all exampleSetup migrated_db) =
     map scanInvalidation (filter (\<lambda>e. 0 < ev_event_id e)
       (identity_invalidations (run_all exampleSetup migrated_db)))"
  by (rule short_page_is_the_rest [where ops = exampleSetup]) (simp, simp, code_simp, simp)

section \<open>Sessions\<close>

text \<open>A new session of an active account resolves, until it expires, to the account it was
  created for.\<close>

theorem login_resolves_to_the_account:
  assumes "repo_CreateSession r s = (Inr (), t)" and "now < sr_ExpiresAt r"
    and "deploymentActive s (pr_DeploymentID (sr_Principal r))"
    and "userActive s (pr_UserID (sr_Principal r))"
    and "membershipActive s (pr_DeploymentID (sr_Principal r)) (pr_UserID (sr_Principal r))"
  shows "\<exists>p. repo_ResolveSessionByTokenHash (sr_TokenHash r) now t = Some p \<and>
     pr_SessionID p = sr_SessionID r \<and> pr_UserID p = pr_UserID (sr_Principal r) \<and>
     pr_DeploymentID p = pr_DeploymentID (sr_Principal r) \<and>
     pr_AuthMethod p = pr_AuthMethod (sr_Principal r)"
  using login_resolves [OF assms] by (auto simp: grants_def newSessionRow_def)

theorem login_resolves_to_the_account_witness:
  "\<exists>p. repo_ResolveSessionByTokenHash (sr_TokenHash (exampleSession ''cid'')) 9
       (snd (repo_CreateSession (exampleSession ''cid'') (run_op (OpRegisterAccount (exampleAccount ''cid'')) exampleDb)))
       = Some p \<and> pr_SessionID p = sr_SessionID (exampleSession ''cid'') \<and>
     pr_UserID p = pr_UserID (sr_Principal (exampleSession ''cid'')) \<and>
     pr_DeploymentID p = pr_DeploymentID (sr_Principal (exampleSession ''cid'')) \<and>
     pr_AuthMethod p = pr_AuthMethod (sr_Principal (exampleSession ''cid''))"
proof -
  let ?s = "run_op (OpRegisterAccount (exampleAccount ''cid'')) exampleDb"
  have "repo_CreateSession (exampleSession ''cid'') ?s = (Inr (), snd (repo_CreateSession (exampleSession ''cid'') ?s))"
    using success [of "repo_CreateSession (exampleSession ''cid'') ?s"] by code_simp
  then show ?thesis by (rule login_resolves_to_the_account) code_simp+
qed

text \<open>C7: the purge that comes with a login takes no session that still resolves.\<close>

theorem login_purges_no_live_session:
  assumes "repo_CreateSession r s = (Inr (), t)" and "schema_ok s" and "sr_CreatedAt r \<le> now"
    and "repo_ResolveSessionByTokenHash h now s = Some p"
  shows "\<exists>q. repo_ResolveSessionByTokenHash h now t = Some q \<and> pr_SessionID q = pr_SessionID p \<and>
     pr_UserID q = pr_UserID p"
  using login_keeps_others [OF assms] by (fastforce simp: grants_def)

theorem login_purges_no_live_session_witness:
  "\<exists>q. repo_ResolveSessionByTokenHash ''kbob'' 9 (snd (repo_CreateSession
       ((exampleSession ''ann'')\<lparr>sr_SessionID := ''s2'', sr_TokenHash := ''k2''\<rparr>) exampleDb)) = Some q \<and>
     pr_SessionID q = pr_SessionID (the (repo_ResolveSessionByTokenHash ''kbob'' 9 exampleDb)) \<and>
     pr_UserID q = pr_UserID (the (repo_ResolveSessionByTokenHash ''kbob'' 9 exampleDb))"
proof -
  let ?r = "(exampleSession ''ann'')\<lparr>sr_SessionID := ''s2'', sr_TokenHash := ''k2''\<rparr>"
  have "repo_CreateSession ?r exampleDb = (Inr (), snd (repo_CreateSession ?r exampleDb))"
    using success [of "repo_CreateSession ?r exampleDb"] by code_simp
  then show ?thesis
    by (rule login_purges_no_live_session [OF _ exampleDb_ok]) code_simp+
qed

text \<open>C8: a revoked session token never resolves again, whatever operations follow, as long as no
  new session is created under the same token hash.\<close>

theorem revoked_session_stays_revoked:
  assumes "repo_RevokeSession h now s = (Inr r, t)" and "list_all (noSession (tokenIs h)) ops"
  shows "repo_ResolveSessionByTokenHash h later (run_all ops t) = None"
  using tokenDead_runs [OF RevokeSession_dead [OF assms(1)]] assms(2)
  by (intro dead_ResolveByTokenHash) (simp add: list_all_iff)

theorem revoked_session_stays_revoked_witness:
  "repo_ResolveSessionByTokenHash ''kbob'' 9 (run_all [OpCreateSession (exampleSession ''cid'')]
     (snd (repo_RevokeSession ''kbob'' 8 exampleDb))) = None"
  by (rule revoked_session_stays_revoked [OF success]) code_simp+

text \<open>C9: revoking a member's access to the deployment ends the member's sessions for good:
  whatever follows, restoring the access included, no session resolves to the member until a
  new one is created.\<close>

theorem revoked_access_ends_sessions:
  assumes "repo_UpdateDeploymentMember dep u actor er es ev nr ''revoked'' nn now s = (Inr r, t)"
    and "list_all (noSession (accessOf dep u)) ops"
    and "repo_ResolveSessionByTokenHash h later (run_all ops t) = Some p"
  shows "\<not> (pr_UserID p = u \<and> pr_DeploymentID p = dep)"
proof -
  have "sessionDead (accessOf dep u) (run_all ops t)"
    using accessDead_runs [OF revoked_access_dead [OF assms(1)]] assms(2) by (simp add: list_all_iff)
  moreover obtain x where "grants (run_all ops t) x p"
    using assms(3) unfolding repo_ResolveSessionByTokenHash_def by (auto dest!: resolveSession_grants)
  ultimately have "\<not> accessOf dep u x" by (rule dead_no_grant)
  with \<open>grants (run_all ops t) x p\<close> show ?thesis by (auto simp: grants_def accessOf_def)
qed

definition exampleRestore :: "operation list" where
  "exampleRestore = [OpUpdateDeploymentMember ''d'' ''bob'' ''ann'' ''member'' ''revoked'' 7
     ''member'' ''active'' ''Bob'' 9000]"

theorem revoked_access_ends_sessions_witness:
  "\<not> (pr_UserID (the (repo_ResolveSessionByTokenHash ''kann'' 9 (run_all exampleRestore
     (snd (exampleUpdate ''revoked'' 7000 exampleDb))))) = ''bob'' \<and>
   pr_DeploymentID (the (repo_ResolveSessionByTokenHash ''kann'' 9 (run_all exampleRestore
     (snd (exampleUpdate ''revoked'' 7000 exampleDb))))) = ''d'')"
  unfolding exampleUpdate_def
  by (rule revoked_access_ends_sessions [OF success, where s = exampleDb and actor = "''ann''"
        and er = "''member''" and ev = 0 and es = "''active''" and nr = "''member''" and nn = "''Bob''"
        and now = 7000 and ops = exampleRestore and h = "''kann''" and later = 9])
     code_simp+

end
