(* ===== verification/Tenancy_Theorems.thy ===== *)
theory Tenancy_Theorems
  imports Lifecycle_Theorems
begin

text \<open>
  The properties of invitations, password requests, nodes, organization actions and plans, each
  with an application to the example deployment.
\<close>

section \<open>Invitations\<close>

lemma join_run_spent:
  assumes "repo_MutateOrganization c s = (Inr x, t)" and "oc_Action c = ''join''" and "schema_ok s"
  shows "invitationSpent (oc_TokenHash c) t"
proof -
  from assms(1,2) obtain org u where act: "joinByInvitation c s = Inr (org, u)"
    and close: "closingEvent c org u = Inr ((), t)"
    by (auto simp only: MutateOrganization_Inr) (auto simp: organizationAction_def)
  have "keeps (invitationSpent (oc_TokenHash c)) (closingEvent c org)"
    unfolding closingEvent_def by (intro keeps_rules spent.keeps_org_event)
  from keepsD [OF this join_spent [OF act assms(3)] close] show ?thesis .
qed

text \<open>C10: an invitation that a new account accepted is used up: whatever operations follow, its token
  admits neither another account nor an existing one, unless an invitation with the same token
  hash is created.\<close>

theorem accepted_invitation_is_used_up:
  assumes "repo_AcceptOrganizationInvitation r s = (Inr m, t)" and "schema_ok s"
    and "list_all (noInvitation (ai_TokenHash r)) ops"
    and "ai_TokenHash r' = ai_TokenHash r" and "oc_TokenHash c = ai_TokenHash r"
  shows "(\<exists>e. repo_AcceptOrganizationInvitation r' (run_all ops t) = (Inl e, run_all ops t)) \<and>
     joinByInvitation c (run_all ops t) = Inl StoreErrInvitationInvalid"
  using spent_runs [OF Accept_spent [OF assms(1,2)]] assms(3-5) spent_Accept [of r'] spent_join [of c]
  by (simp add: list_all_iff)

definition exampleAccept :: "string \<Rightarrow> AcceptOrganizationInvitationRecord" where
  "exampleAccept u = \<lparr>ai_TokenHash = ''t2'', ai_UserID = u, ai_IdentityID = ''i'' @ u,
     ai_CredentialID = ''c'' @ u, ai_Username = u, ai_DisplayName = u, ai_PasswordHash = ''h'',
     ai_AcceptedAt = 6\<rparr>"

definition exampleInvited :: db where
  "exampleInvited = run_op (OpCreateOrganizationInvitation (exampleInvitation ''2'' ''admin'')) exampleDb"

theorem accepted_invitation_is_used_up_witness:
  "(\<exists>e. repo_AcceptOrganizationInvitation (exampleAccept ''eve'')
       (run_all [] (snd (repo_AcceptOrganizationInvitation (exampleAccept ''dan'') exampleInvited))) =
      (Inl e, run_all [] (snd (repo_AcceptOrganizationInvitation (exampleAccept ''dan'') exampleInvited)))) \<and>
     joinByInvitation (exampleJoin ''dan'' ''2'')
       (run_all [] (snd (repo_AcceptOrganizationInvitation (exampleAccept ''dan'') exampleInvited))) =
       Inl StoreErrInvitationInvalid"
proof (rule accepted_invitation_is_used_up [OF success])
  show "schema_ok exampleInvited"
    unfolding exampleInvited_def by (rule schema_step [OF exampleDb_ok])
qed (code_simp | simp add: exampleAccept_def exampleJoin_def)+

text \<open>The same for an invitation that a signed-in account joined with.\<close>

theorem joined_invitation_is_used_up:
  assumes "repo_MutateOrganization c s = (Inr x, t)" and "oc_Action c = ''join''" and "schema_ok s"
    and "list_all (noInvitation (oc_TokenHash c)) ops"
    and "ai_TokenHash r = oc_TokenHash c" and "oc_TokenHash c' = oc_TokenHash c"
  shows "(\<exists>e. repo_AcceptOrganizationInvitation r (run_all ops t) = (Inl e, run_all ops t)) \<and>
     joinByInvitation c' (run_all ops t) = Inl StoreErrInvitationInvalid"
  using spent_runs [OF join_run_spent [OF assms(1-3)]] assms(4-6) spent_Accept [of r] spent_join [of c']
  by (simp add: list_all_iff)

definition exampleCid :: db where
  "exampleCid = run_op (OpRegisterAccount (exampleAccount ''cid'')) exampleInvited"

theorem joined_invitation_is_used_up_witness:
  "(\<exists>e. repo_AcceptOrganizationInvitation (exampleAccept ''eve'')
       (run_all [] (snd (repo_MutateOrganization (exampleJoin ''cid'' ''2'') exampleCid))) =
      (Inl e, run_all [] (snd (repo_MutateOrganization (exampleJoin ''cid'' ''2'') exampleCid)))) \<and>
     joinByInvitation (exampleJoin ''ann'' ''2'')
       (run_all [] (snd (repo_MutateOrganization (exampleJoin ''cid'' ''2'') exampleCid))) =
       Inl StoreErrInvitationInvalid"
proof (rule joined_invitation_is_used_up [OF success])
  show "schema_ok exampleCid"
    unfolding exampleCid_def exampleInvited_def by (intro schema_step exampleDb_ok)
qed (code_simp | simp add: exampleAccept_def exampleJoin_def)+

section \<open>Passwords\<close>

text \<open>C11: a password request is decided once: when its outcome is recorded, every later state
  records the same outcome, and trying to commit the request again reports it as existing and
  changes nothing.\<close>

theorem password_request_is_decided_once:
  assumes "repo_PasswordChangeOutcome u rid s = effect" and "effect \<noteq> ''''" and "1 \<in> set (control_state s)"
  shows "repo_PasswordChangeOutcome u rid (run_all ops s) = effect \<and>
     repo_TryCommitPasswordChange u rid cur nxt now (run_all ops s) =
       (Inr PasswordAttemptExisting, run_all ops s)"
proof -
  obtain r where r: "findReceipt u rid s = Some r" "r_effect r = effect"
    using assms(1,2) by (auto simp: outcome_receipt split: option.splits)
  have "1 \<in> set (control_state (run_all ops s))"
    using locked.run_stable [of s ops "run_all ops s"] assms(3) by (simp add: runs_run_all)
  with receipt_runs [OF r(1), of ops] r(2) show ?thesis
    by (simp add: outcome_receipt TryCommit_existing)
qed

theorem password_request_is_decided_once_witness:
  "repo_PasswordChangeOutcome ''bob'' ''r'' (run_all [OpSettlePasswordChange ''bob'' ''r'' ''not_applied'' 9]
       (snd (repo_TryCommitPasswordChange ''bob'' ''r'' ''hbob'' ''new'' 8 exampleDb))) = ''committed'' \<and>
     repo_TryCommitPasswordChange ''bob'' ''r'' ''new'' ''newer'' 9
       (run_all [OpSettlePasswordChange ''bob'' ''r'' ''not_applied'' 9]
       (snd (repo_TryCommitPasswordChange ''bob'' ''r'' ''hbob'' ''new'' 8 exampleDb))) =
       (Inr PasswordAttemptExisting, run_all [OpSettlePasswordChange ''bob'' ''r'' ''not_applied'' 9]
       (snd (repo_TryCommitPasswordChange ''bob'' ''r'' ''hbob'' ''new'' 8 exampleDb)))"
  by (rule password_request_is_decided_once) code_simp+

text \<open>C12: a committed password change has found the expected hash, leaves the new one, records the
  outcome, revokes every node of the user and keeps the sessions and the other credentials.\<close>

theorem committed_password_change:
  assumes "repo_TryCommitPasswordChange u rid cur nxt now s = (Inr PasswordAttemptCommitted, t)"
    and "schema_ok s"
  shows "map_option c_password_hash (findCredential s u) = Some cur \<and>
     map_option c_password_hash (findCredential t u) = Some nxt \<and>
     repo_PasswordChangeOutcome u rid t = ''committed'' \<and>
     list_all (\<lambda>n. n_owner_user_id n = u \<longrightarrow> n_revoked_at n \<noteq> None) (execution_nodes t) \<and>
     sessions t = sessions s \<and> (v \<noteq> u \<longrightarrow> findCredential t v = findCredential s v)"
  using committed_effects [OF assms] by (auto simp: nodesDead_def list_all_iff)

definition exampleNode :: "string \<Rightarrow> node_row" where
  "exampleNode u = \<lparr>n_node_id = ''n'' @ u, n_deployment_id = ''d'', n_organization_id = ''o'',
     n_owner_user_id = u, n_parent_session_id = ''s'' @ u, n_credential_hash = ''x'' @ u, n_name = ''Box'',
     n_agent_ids_json = [], n_created_at = 6, n_revoked_at = None\<rparr>"

definition exampleNodes :: db where
  "exampleNodes = run_op (OpRegisterNode (exampleNode ''bob'')) exampleDb"

lemma exampleNodes_ok: "schema_ok exampleNodes"
  unfolding exampleNodes_def by (rule schema_step [OF exampleDb_ok])

theorem committed_password_change_witness:
  "map_option c_password_hash (findCredential exampleNodes ''bob'') = Some ''hbob'' \<and>
     map_option c_password_hash (findCredential (snd (repo_TryCommitPasswordChange ''bob'' ''r'' ''hbob'' ''new'' 8 exampleNodes)) ''bob'') = Some ''new'' \<and>
     repo_PasswordChangeOutcome ''bob'' ''r'' (snd (repo_TryCommitPasswordChange ''bob'' ''r'' ''hbob'' ''new'' 8 exampleNodes)) = ''committed'' \<and>
     list_all (\<lambda>n. n_owner_user_id n = ''bob'' \<longrightarrow> n_revoked_at n \<noteq> None)
       (execution_nodes (snd (repo_TryCommitPasswordChange ''bob'' ''r'' ''hbob'' ''new'' 8 exampleNodes))) \<and>
     sessions (snd (repo_TryCommitPasswordChange ''bob'' ''r'' ''hbob'' ''new'' 8 exampleNodes)) = sessions exampleNodes \<and>
     findCredential (snd (repo_TryCommitPasswordChange ''bob'' ''r'' ''hbob'' ''new'' 8 exampleNodes)) ''ann'' =
        findCredential exampleNodes ''ann''"
proof -
  have "repo_TryCommitPasswordChange ''bob'' ''r'' ''hbob'' ''new'' 8 exampleNodes =
      (Inr PasswordAttemptCommitted, snd (repo_TryCommitPasswordChange ''bob'' ''r'' ''hbob'' ''new'' 8 exampleNodes))"
    by (rule prod_eqI) (code_simp, simp)
  from committed_password_change [OF this exampleNodes_ok, of "''ann''"] show ?thesis
    by (elim conjE) (intro conjI; simp)
qed

section \<open>Nodes\<close>

text \<open>C13: a registration that succeeds was made under a live session of the node's owner and for
  agents the owner may use; the node in the table is authorised exactly as asked for; and
  registering it again changes nothing and answers the same.\<close>

theorem node_registration_is_checked:
  assumes "repo_RegisterNode node s = (Inr stored, t)"
  shows "liveSession s (n_parent_session_id node) (n_owner_user_id node) (n_deployment_id node)
       (n_created_at node) \<and>
     list_all (agentUsable s node) (n_agent_ids_json node) \<and>
     stored \<in> set (execution_nodes t) \<and> n_node_id stored = n_node_id node \<and>
     sameAuthorization stored node \<and> repo_RegisterNode node t = (Inr stored, t)"
  using assms RegisterNode_stored [OF assms] RegisterNode_again [OF assms]
  by (simp add: RegisterNode_Inr)

definition exampleAgent :: AgentRecord where
  "exampleAgent = \<lparr>ar_AgentID = ''g'', ar_DeploymentID = ''d'', ar_OrganizationID = ''o'',
     ar_OwnerUserID = ''bob'', ar_SourceAgentID = ''g0'', ar_Name = ''G'', ar_Avatar = '''',
     ar_Status = ''active'', ar_CreatedAt = 5, ar_UpdatedAt = 5\<rparr>"

definition exampleAgents :: db where
  "exampleAgents = run_op (OpUpsertOwnedAgent exampleAgent 5) exampleDb"

definition agentNode :: node_row where
  "agentNode = (exampleNode ''bob'')\<lparr>n_agent_ids_json := [''g'']\<rparr>"

theorem node_registration_is_checked_witness:
  "liveSession exampleAgents (n_parent_session_id agentNode) (n_owner_user_id agentNode)
       (n_deployment_id agentNode) (n_created_at agentNode) \<and>
     list_all (agentUsable exampleAgents agentNode) (n_agent_ids_json agentNode) \<and>
     projr (fst (repo_RegisterNode agentNode exampleAgents)) \<in>
       set (execution_nodes (snd (repo_RegisterNode agentNode exampleAgents))) \<and>
     n_node_id (projr (fst (repo_RegisterNode agentNode exampleAgents))) = n_node_id agentNode \<and>
     sameAuthorization (projr (fst (repo_RegisterNode agentNode exampleAgents))) agentNode \<and>
     repo_RegisterNode agentNode (snd (repo_RegisterNode agentNode exampleAgents)) =
       (Inr (projr (fst (repo_RegisterNode agentNode exampleAgents))), snd (repo_RegisterNode agentNode exampleAgents))"
  by (rule node_registration_is_checked [OF success]) code_simp

text \<open>C14: a revoked node stays revoked. Its id is not registered again in the state that follows, and
  in every later state no credential finds it and no session owns it, as long as no operation
  registers the id.\<close>

theorem revoked_node_stays_revoked:
  assumes "repo_RevokeNode dep org owner sid nid now s = (Inr x, t)" and "schema_ok s"
    and "list_all (noNode nid) ops" and "n_node_id node = nid"
  shows "(\<exists>e. repo_RegisterNode node t = (Inl e, t)) \<and>
     repo_ResolveNodeOwner node (run_all ops t) = None \<and>
     \<not> (repo_NodeByCredential h (run_all ops t) = Inr n \<and> n_node_id n = nid)"
proof -
  note dead = RevokeNode_dead [OF assms(1,2)]
  then have "nodeDead nid (run_all ops t)"
    using nodeDead_runs assms(3) by (simp add: list_all_iff)
  then have "repo_ResolveNodeOwner node (run_all ops t) = None"
    and "repo_NodeByCredential h (run_all ops t) = Inr n \<longrightarrow> n_node_id n \<noteq> nid"
    using dead_ResolveNodeOwner assms(4) dead_NodeByCredential by auto
  moreover obtain m where "m \<in> set (execution_nodes t)" "n_node_id m = nid" "n_revoked_at m \<noteq> None"
    using dead unfolding nodeDead_def by blast
  then have "\<exists>e. repo_RegisterNode node t = (Inl e, t)"
    using RegisterNode_revoked [of t m node] dead assms(4) by simp
  ultimately show ?thesis by blast
qed

theorem revoked_node_stays_revoked_witness:
  "(\<exists>e. repo_RegisterNode (exampleNode ''bob'') (snd (repo_RevokeNode ''d'' ''o'' ''bob'' ''sbob'' ''nbob'' 9 exampleNodes)) =
      (Inl e, snd (repo_RevokeNode ''d'' ''o'' ''bob'' ''sbob'' ''nbob'' 9 exampleNodes))) \<and>
     repo_ResolveNodeOwner (exampleNode ''bob'') (run_all [OpRegisterNode (exampleNode ''ann'')]
       (snd (repo_RevokeNode ''d'' ''o'' ''bob'' ''sbob'' ''nbob'' 9 exampleNodes))) = None \<and>
     \<not> (repo_NodeByCredential ''xbob'' (run_all [OpRegisterNode (exampleNode ''ann'')]
       (snd (repo_RevokeNode ''d'' ''o'' ''bob'' ''sbob'' ''nbob'' 9 exampleNodes))) = Inr (exampleNode ''bob'') \<and>
      n_node_id (exampleNode ''bob'') = ''nbob'')"
  by (rule revoked_node_stays_revoked [OF success exampleNodes_ok])
     (code_simp, code_simp, simp add: exampleNode_def)





section \<open>Organization actions\<close>

text \<open>C16: a transfer that succeeds was asked by the owner for another active member; it makes the
  target owner and the former owner administrator, and changes no other membership.\<close>

theorem transfer_swaps_the_owner:
  assumes "repo_MutateOrganization c s = (Inr x, t)" and "oc_Action c = ''transfer''"
  shows "(\<exists>y. actorOrg c s = Some y \<and> om_role y = ''owner'') \<and>
     (\<exists>y. findOrgMembership s (pr_OrganizationID (oc_Actor c)) (oc_TargetUserID c) = Some y \<and>
        om_status y = ''active'') \<and>
     oc_TargetUserID c \<noteq> pr_UserID (oc_Actor c) \<and>
     organization_memberships t = map (\<lambda>y.
       if is_org_member (pr_OrganizationID (oc_Actor c)) (pr_UserID (oc_Actor c)) y
       then y\<lparr>om_role := ''admin'', om_updated_at := oc_Now c\<rparr>
       else if is_org_member (pr_OrganizationID (oc_Actor c)) (oc_TargetUserID c) y
       then y\<lparr>om_role := ''owner'', om_updated_at := oc_Now c\<rparr> else y) (organization_memberships s)"
  using transfer_effects [OF assms] by blast

definition exampleTransfer :: OrganizationCommand where
  "exampleTransfer = exampleCommand ''transfer'' ''ann'' ''bob''"

theorem transfer_swaps_the_owner_witness:
  "(\<exists>y. actorOrg exampleTransfer exampleDb = Some y \<and> om_role y = ''owner'') \<and>
     (\<exists>y. findOrgMembership exampleDb (pr_OrganizationID (oc_Actor exampleTransfer))
        (oc_TargetUserID exampleTransfer) = Some y \<and> om_status y = ''active'') \<and>
     oc_TargetUserID exampleTransfer \<noteq> pr_UserID (oc_Actor exampleTransfer) \<and>
     organization_memberships (snd (repo_MutateOrganization exampleTransfer exampleDb)) = map (\<lambda>y.
       if is_org_member (pr_OrganizationID (oc_Actor exampleTransfer)) (pr_UserID (oc_Actor exampleTransfer)) y
       then y\<lparr>om_role := ''admin'', om_updated_at := oc_Now exampleTransfer\<rparr>
       else if is_org_member (pr_OrganizationID (oc_Actor exampleTransfer)) (oc_TargetUserID exampleTransfer) y
       then y\<lparr>om_role := ''owner'', om_updated_at := oc_Now exampleTransfer\<rparr> else y)
       (organization_memberships exampleDb)"
  by (rule transfer_swaps_the_owner [OF success]) (code_simp, simp add: exampleTransfer_def exampleCommand_def)

text \<open>Leaving is open to every member but the owner; it ends the membership together with the
  member's agents and nodes in the organization, and the organization stays.\<close>

theorem leaving_ends_the_membership:
  assumes "repo_MutateOrganization c s = (Inr x, t)" and "oc_Action c = ''leave''"
  shows "(\<exists>y. actorOrg c s = Some y \<and> om_role y \<noteq> ''owner'') \<and>
     hasLeft (pr_OrganizationID (oc_Actor c)) (pr_UserID (oc_Actor c)) t \<and>
     organizations t = organizations s"
  using leave_effects [OF assms] by blast

definition exampleLeave :: OrganizationCommand where
  "exampleLeave = exampleCommand ''leave'' ''bob'' ''''"

theorem leaving_ends_the_membership_witness:
  "(\<exists>y. actorOrg exampleLeave exampleAgents = Some y \<and> om_role y \<noteq> ''owner'') \<and>
     hasLeft (pr_OrganizationID (oc_Actor exampleLeave)) (pr_UserID (oc_Actor exampleLeave))
       (snd (repo_MutateOrganization exampleLeave exampleAgents)) \<and>
     organizations (snd (repo_MutateOrganization exampleLeave exampleAgents)) = organizations exampleAgents"
  by (rule leaving_ends_the_membership [OF success]) (code_simp, simp add: exampleLeave_def exampleCommand_def)

text \<open>Dissolving is for the owner; afterwards the organization is disabled, nobody is an active
  member of it, and whoever was has no agent and no node left in it.\<close>

theorem dissolving_ends_the_organization:
  assumes "repo_MutateOrganization c s = (Inr x, t)" and "oc_Action c = ''dissolve''"
  shows "(\<exists>y. actorOrg c s = Some y \<and> om_role y = ''owner'') \<and>
     (\<forall>u. notIn (pr_OrganizationID (oc_Actor c)) u t) \<and>
     list_all (\<lambda>u. hasLeft (pr_OrganizationID (oc_Actor c)) u t)
       (activeOrgUsers (pr_OrganizationID (oc_Actor c)) s) \<and>
     list_all (\<lambda>y. o_organization_id y = pr_OrganizationID (oc_Actor c) \<longrightarrow> o_status y = ''disabled'')
       (organizations t)"
  using dissolve_effects [OF assms] by (simp add: list_all_iff)

definition exampleDissolve :: OrganizationCommand where
  "exampleDissolve = exampleCommand ''dissolve'' ''ann'' ''''"

theorem dissolving_ends_the_organization_witness:
  "(\<exists>y. actorOrg exampleDissolve exampleAgents = Some y \<and> om_role y = ''owner'') \<and>
     (\<forall>u. notIn (pr_OrganizationID (oc_Actor exampleDissolve)) u
        (snd (repo_MutateOrganization exampleDissolve exampleAgents))) \<and>
     list_all (\<lambda>u. hasLeft (pr_OrganizationID (oc_Actor exampleDissolve)) u
        (snd (repo_MutateOrganization exampleDissolve exampleAgents)))
       (activeOrgUsers (pr_OrganizationID (oc_Actor exampleDissolve)) exampleAgents) \<and>
     list_all (\<lambda>y. o_organization_id y = pr_OrganizationID (oc_Actor exampleDissolve) \<longrightarrow> o_status y = ''disabled'')
       (organizations (snd (repo_MutateOrganization exampleDissolve exampleAgents)))"
  by (rule dissolving_ends_the_organization [OF success])
     (code_simp, simp add: exampleDissolve_def exampleCommand_def)

text \<open>No organization action, successful or not, touches a platform account: users, access to
  deployments, sessions, credentials, identities and plan bindings stay as they are.\<close>

theorem organization_actions_keep_accounts:
  "samePlatform s (snd (repo_MutateOrganization c s))"
  by (rule MutateOrganization_platform)

section \<open>Plans\<close>

text \<open>C17: once a deployment is set up, every account with access to it has an effective
  entitlement in every later state, whatever happens to plans and bindings.\<close>

theorem entitlements_are_total:
  assumes "repo_CreateOwner r s = (Inr (), t)" and "schema_ok s"
    and "findMembership (run_all ops t) (ow_DeploymentID r) u \<noteq> None"
  shows "\<exists>e. repo_EffectiveEntitlement (ow_DeploymentID r) u (run_all ops t) = Inr e"
proof -
  have ok: "schema_ok t" using schema_step [OF assms(2), of "OpCreateOwner r"] assms(1) by simp
  have "hasPlan (ow_DeploymentID r) ''free'' (run_all ops t)"
    using plan.run_stable [of t ops "run_all ops t"] CreateOwner_free [OF assms(1)]
    by (simp add: runs_run_all)
  then show ?thesis by (rule entitlement_exists [OF schema_run_all [OF ok] _ assms(3)])
qed

theorem entitlements_are_total_witness:
  "\<exists>e. repo_EffectiveEntitlement (ow_DeploymentID exampleOwner) ''bob''
     (run_all [OpRegisterAccount (exampleAccount ''bob'')] (snd (repo_CreateOwner exampleOwner migrated_db))) = Inr e"
proof (rule entitlements_are_total [OF _ migrated_db_ok])
  show "repo_CreateOwner exampleOwner migrated_db = (Inr (), snd (repo_CreateOwner exampleOwner migrated_db))"
    using success [of "repo_CreateOwner exampleOwner migrated_db"] by code_simp
qed code_simp

text \<open>C18: binding a member to a plan, which must be active, is what the next read of the member's
  entitlement returns.\<close>

theorem entitlement_is_read_back:
  assumes "repo_SetMemberEntitlement dep u key now s = (Inr x, t)"
  shows "\<exists>e p. repo_EffectiveEntitlement dep u t = Inr e \<and> er_PlanKey e = key \<and>
     findPlan s dep key = Some p \<and> p_status p = ''active'' \<and>
     er_MonthlyTokenLimit e = p_monthly_token_limit p"
  using assms by (rule SetMemberEntitlement_read)

theorem entitlement_is_read_back_witness:
  "\<exists>e p. repo_EffectiveEntitlement ''d'' ''bob'' (snd (repo_SetMemberEntitlement ''d'' ''bob'' ''admin'' 9 exampleDb)) = Inr e \<and>
     er_PlanKey e = ''admin'' \<and> findPlan exampleDb ''d'' ''admin'' = Some p \<and> p_status p = ''active'' \<and>
     er_MonthlyTokenLimit e = p_monthly_token_limit p"
  by (rule entitlement_is_read_back [OF success]) code_simp

end
