(* ===== verification/Svc_Text.thy ===== *)
theory Svc_Text
  imports Control_Prelude
begin

text \<open>
  The text formats of the service: hexadecimal and unpadded base64 (\<open>encoding/hex\<close>,
  \<open>encoding/base64\<close>), splitting at a separator and decimal numbers (\<open>strings\<close>, \<open>strconv\<close>,
  \<open>fmt.Sscanf\<close>). Each encoder comes with the law that its decoder inverts it and with the
  characters it writes.
\<close>

named_theorems text_simps \<open>encoders, their alphabets and their inverses\<close>

section \<open>Hexadecimal\<close>

definition hexDigits :: string where
  "hexDigits = ''0123456789abcdef''"

definition HexEncode :: "string \<Rightarrow> string" where
  "HexEncode bs = concat (map (\<lambda>c. [hexDigits ! (byte c div 16), hexDigits ! (byte c mod 16)]) bs)"

lemma length_HexEncode [text_simps]: "length (HexEncode bs) = 2 * length bs"
  by (induction bs) (simp_all add: HexEncode_def)

lemma byte_inject: "byte c = byte d \<Longrightarrow> c = d"
  by (metis char_of_char)

lemma hexDigits_inject: "i < 16 \<Longrightarrow> j < 16 \<Longrightarrow> hexDigits ! i = hexDigits ! j \<Longrightarrow> i = j"
proof -
  assume "i < 16" "j < 16" "hexDigits ! i = hexDigits ! j"
  moreover have "distinct hexDigits" and "length hexDigits = 16"
    by (simp_all add: hexDigits_def)
  ultimately show "i = j" by (simp add: nth_eq_iff_index_eq)
qed

lemma HexEncode_inject: "HexEncode xs = HexEncode ys \<Longrightarrow> xs = ys"
proof (induction xs arbitrary: ys)
  case Nil
  then show ?case by (cases ys) (simp_all add: HexEncode_def)
next
  case (Cons x xs)
  then obtain y ys' where ys: "ys = y # ys'" by (cases ys) (simp_all add: HexEncode_def)
  with Cons.prems have "hexDigits ! (byte x div 16) = hexDigits ! (byte y div 16)"
    and "hexDigits ! (byte x mod 16) = hexDigits ! (byte y mod 16)"
    and "HexEncode xs = HexEncode ys'"
    by (simp_all add: HexEncode_def)
  moreover from this(1) have "byte x div 16 = byte y div 16"
    by (rule hexDigits_inject [rotated 2]) (simp_all add: less_mult_imp_div_less)
  moreover from \<open>hexDigits ! (byte x mod 16) = _\<close> have "byte x mod 16 = byte y mod 16"
    by (rule hexDigits_inject [rotated 2]) simp_all
  ultimately have "byte x = byte y" and "xs = ys'"
    using Cons.IH by (metis div_mult_mod_eq)+
  with ys show ?case by (simp add: byte_inject)
qed

section \<open>Base64 without padding\<close>

definition stdAlphabet :: string where
  "stdAlphabet = ''ABCDEFGHIJKLMNOPQRSTUVWXYZabcdefghijklmnopqrstuvwxyz0123456789+/''"

definition urlAlphabet :: string where
  "urlAlphabet = ''ABCDEFGHIJKLMNOPQRSTUVWXYZabcdefghijklmnopqrstuvwxyz0123456789-_''"

fun sextets :: "nat list \<Rightarrow> nat list" where
  "sextets (a # b # c # r) =
     a div 4 # (a mod 4 * 16 + b div 16) # (b mod 16 * 4 + c div 64) # c mod 64 # sextets r"
| "sextets [a, b] = [a div 4, a mod 4 * 16 + b div 16, b mod 16 * 4]"
| "sextets [a] = [a div 4, a mod 4 * 16]"
| "sextets [] = []"

fun octets :: "nat list \<Rightarrow> nat list option" where
  "octets (w # x # y # z # r) =
     map_option (\<lambda>t. (w * 4 + x div 16) # (x mod 16 * 16 + y div 4) # (y mod 4 * 64 + z) # t) (octets r)"
| "octets [w, x, y] = Some [w * 4 + x div 16, x mod 16 * 16 + y div 4]"
| "octets [w, x] = Some [w * 4 + x div 16]"
| "octets [w] = None"
| "octets [] = Some []"

fun indexOf :: "char \<Rightarrow> string \<Rightarrow> nat option" where
  "indexOf c [] = None"
| "indexOf c (d # s) = (if c = d then Some 0 else map_option Suc (indexOf c s))"

definition b64Encode :: "string \<Rightarrow> string \<Rightarrow> string" where
  "b64Encode alphabet bs = map ((!) alphabet) (sextets (map byte bs))"

text \<open>The decoder skips line breaks and ignores the bits left over in the last character.\<close>

definition lineBreak :: "char \<Rightarrow> bool" where
  "lineBreak c \<longleftrightarrow> byte c = 10 \<or> byte c = 13"

definition b64Decode :: "string \<Rightarrow> string \<Rightarrow> string option" where
  "b64Decode alphabet s =
     (case those (map (\<lambda>c. indexOf c alphabet) (filter (\<lambda>c. \<not> lineBreak c) s)) of
        None \<Rightarrow> None
      | Some digits \<Rightarrow> map_option (map char_of) (octets digits))"

text \<open>What the laws need of an alphabet.\<close>

definition isAlphabet :: "string \<Rightarrow> bool" where
  "isAlphabet a \<longleftrightarrow> distinct a \<and> length a = 64 \<and> list_all (\<lambda>c. \<not> lineBreak c) a"

lemma alphabets [text_simps]: "isAlphabet stdAlphabet" "isAlphabet urlAlphabet"
  by code_simp+

text \<open>Two digits in mixed radix, packed and unpacked.\<close>

lemma unpack: "(y::nat) < k \<Longrightarrow> (x * k + y) div k = x" "(y::nat) < k \<Longrightarrow> (x * k + y) mod k = y"
  by simp_all

lemma pack_less: "(x::nat) < m \<Longrightarrow> y < k \<Longrightarrow> x * k + y < m * k"
proof -
  assume "x < m" "y < k"
  then have "x * k + y < x * k + k" and "(x + 1) * k \<le> m * k" by (simp_all del: mult_Suc)
  then show ?thesis by simp
qed

lemma sextets_less: "(\<And>n. n \<in> set ns \<Longrightarrow> n < 256) \<Longrightarrow> d \<in> set (sextets ns) \<Longrightarrow> d < 64"
proof (induction ns rule: sextets.induct)
  case (1 a b c r)
  have "a div 4 < 64" "b div 16 < 16" "c div 64 < 4"
    using "1.prems"(1) by (simp_all add: less_mult_imp_div_less)
  moreover from this have "a mod 4 * 16 + b div 16 < 4 * 16" "b mod 16 * 4 + c div 64 < 16 * 4"
    by (simp_all only: pack_less mod_less_divisor zero_less_numeral)
  ultimately show ?case using 1 by auto
next
  case (2 a b)
  have "a div 4 < 64" "b div 16 < 16"
    using "2.prems"(1) by (simp_all add: less_mult_imp_div_less)
  moreover from this have "a mod 4 * 16 + b div 16 < 4 * 16" "b mod 16 * 4 + 0 < 16 * 4"
    by (simp_all only: pack_less mod_less_divisor zero_less_numeral)
  ultimately show ?case using 2 by auto
next
  case (3 a)
  have "a div 4 < 64" using "3.prems"(1) by (simp add: less_mult_imp_div_less)
  moreover have "a mod 4 * 16 + 0 < 4 * 16"
    by (simp only: pack_less mod_less_divisor zero_less_numeral)
  ultimately show ?case using 3 by auto
qed simp

lemma octets_sextets: "(\<And>n. n \<in> set ns \<Longrightarrow> n < 256) \<Longrightarrow> octets (sextets ns) = Some ns"
proof (induction ns rule: sextets.induct)
  case (1 a b c r)
  have "b div 16 < 16" "c div 64 < 4" using "1.prems" by (simp_all add: less_mult_imp_div_less)
  with 1 show ?case by (simp add: unpack)
next
  case (2 a b)
  have "b div 16 < 16" using "2.prems" by (simp add: less_mult_imp_div_less)
  then show ?case by (simp add: unpack)
qed simp_all

lemma sextets_Nil [simp]: "sextets ns = [] \<longleftrightarrow> ns = []"
  by (cases ns rule: sextets.cases) simp_all

lemma indexOf_nth: "distinct a \<Longrightarrow> i < length a \<Longrightarrow> indexOf (a ! i) a = Some i"
  by (induction a arbitrary: i) (auto simp: nth_Cons' less_Suc_eq_0_disj)

lemma b64_chars:
  assumes "isAlphabet a" shows "set (b64Encode a bs) \<subseteq> set a"
proof -
  have "d < 64" if "d \<in> set (sextets (map byte bs))" for d
    using that by (rule sextets_less [rotated]) auto
  with assms show ?thesis by (auto simp: b64Encode_def isAlphabet_def)
qed

lemma b64_Nil [text_simps]: "b64Encode a bs = [] \<longleftrightarrow> bs = []"
  by (simp add: b64Encode_def)

lemma those_Some_map: "(\<And>x. x \<in> set xs \<Longrightarrow> f x = Some (g x)) \<Longrightarrow> those (map f xs) = Some (map g xs)"
  by (induction xs) simp_all

lemma b64_roundtrip [text_simps]:
  assumes "isAlphabet a" shows "b64Decode a (b64Encode a bs) = Some bs"
proof -
  define ds where "ds = sextets (map byte bs)"
  have less: "d < 64" if "d \<in> set ds" for d
    using that unfolding ds_def by (rule sextets_less [rotated]) auto
  have "filter (\<lambda>c. \<not> lineBreak c) (b64Encode a bs) = b64Encode a bs"
    using b64_chars [OF assms] assms by (auto simp: filter_id_conv isAlphabet_def list_all_iff)
  moreover have "those (map (\<lambda>d. indexOf (a ! d) a) ds) = Some (map (\<lambda>d. d) ds)"
    using less assms by (intro those_Some_map) (simp add: isAlphabet_def indexOf_nth)
  moreover have "octets ds = Some (map byte bs)"
    unfolding ds_def by (rule octets_sextets) auto
  ultimately show ?thesis
    by (simp add: b64Decode_def b64Encode_def o_def flip: ds_def)
qed

section \<open>Splitting\<close>

fun SplitOn :: "char \<Rightarrow> string \<Rightarrow> string list" where
  "SplitOn d [] = [[]]"
| "SplitOn d (c # s) = (if c = d then [] # SplitOn d s
     else case SplitOn d s of [] \<Rightarrow> [[c]] | x # xs \<Rightarrow> (c # x) # xs)"

lemma SplitOn_end [text_simps]: "d \<notin> set x \<Longrightarrow> SplitOn d x = [x]"
  by (induction x) auto

lemma SplitOn_append [text_simps]: "d \<notin> set x \<Longrightarrow> SplitOn d (x @ d # s) = x # SplitOn d s"
  by (induction x) auto

definition TrimPrefix :: "string \<Rightarrow> string \<Rightarrow> string" where
  "TrimPrefix p s = (if prefix p s then drop (length p) s else s)"

lemma TrimPrefix_append [text_simps]: "TrimPrefix p (p @ s) = s"
  by (simp add: TrimPrefix_def)

section \<open>Decimal numbers\<close>

definition isDigit :: "char \<Rightarrow> bool" where
  "isDigit c \<longleftrightarrow> 48 \<le> byte c \<and> byte c \<le> 57"

definition digitChar :: "int \<Rightarrow> char" where
  "digitChar d = char_of (48 + nat d)"

function showDigits :: "int \<Rightarrow> string" where
  "showDigits i = (if i < 10 then [digitChar i] else showDigits (i div 10) @ [digitChar (i mod 10)])"
  by pat_completeness auto
termination
  by (relation "measure nat") (auto simp: nat_less_iff)

declare showDigits.simps [simp del]

definition showInt :: "int \<Rightarrow> string" where
  "showInt i = (if i < 0 then CHR ''-'' # showDigits (- i) else showDigits i)"

fun parseDigits :: "int \<Rightarrow> string \<Rightarrow> int option" where
  "parseDigits acc [] = Some acc"
| "parseDigits acc (c # s) = (if isDigit c then parseDigits (acc * 10 + int (byte c - 48)) s else None)"

text \<open>\<open>strconv.Atoi\<close>: an optional sign, at least one digit, and a value of 64 bits.\<close>

definition Atoi :: "string \<Rightarrow> int option" where
  "Atoi s =
     (let neg = prefix ''-'' s;
          digits = (if prefix ''-'' s \<or> prefix ''+'' s then tl s else s)
      in if digits = [] then None else
         case parseDigits 0 digits of None \<Rightarrow> None
         | Some n \<Rightarrow> if neg then (if n \<le> 2 ^ 63 then Some (- n) else None)
             else (if n < 2 ^ 63 then Some n else None))"

lemma byte_char_of [simp]: "n < 256 \<Longrightarrow> byte (char_of n) = n"
  by (simp add: of_char_of)

lemma digitChar_digit: "0 \<le> d \<Longrightarrow> d < 10 \<Longrightarrow> isDigit (digitChar d) \<and> int (byte (digitChar d) - 48) = d"
  by (simp add: digitChar_def isDigit_def)

lemma parseDigits_append:
  "parseDigits acc (xs @ ys) = Option.bind (parseDigits acc xs) (\<lambda>a. parseDigits a ys)"
  by (induction xs arbitrary: acc) auto

lemma showDigits_digits: "0 \<le> i \<Longrightarrow> c \<in> set (showDigits i) \<Longrightarrow> isDigit c"
proof (induction i rule: showDigits.induct)
  case (1 i)
  have d: "isDigit (digitChar (i mod 10))" by (rule digitChar_digit [THEN conjunct1]) simp_all
  show ?case
  proof (cases "i < 10")
    case True
    with "1.prems" digitChar_digit show ?thesis by (subst (asm) showDigits.simps) simp
  next
    case False
    with 1 d show ?thesis by (subst (asm) (2) showDigits.simps) auto
  qed
qed

lemma showDigits_Nil [simp]: "showDigits i \<noteq> []"
  by (subst showDigits.simps) simp

lemma parse_showDigits [text_simps]: "0 \<le> i \<Longrightarrow> parseDigits 0 (showDigits i) = Some i"
proof (induction i rule: showDigits.induct)
  case (1 i)
  have d: "isDigit (digitChar (i mod 10))" "int (byte (digitChar (i mod 10)) - 48) = i mod 10"
    using digitChar_digit [of "i mod 10"] by simp_all
  show ?case
  proof (cases "i < 10")
    case True
    with "1.prems" digitChar_digit [of i] show ?thesis by (subst showDigits.simps) simp
  next
    case False
    with 1 d show ?thesis
      by (subst showDigits.simps) (simp add: parseDigits_append)
  qed
qed

lemma Atoi_showDigits [text_simps]: "0 \<le> n \<Longrightarrow> n < 2 ^ 63 \<Longrightarrow> Atoi (showDigits n) = Some n"
proof -
  assume n: "0 \<le> n" "n < 2 ^ 63"
  have "isDigit (hd (showDigits n))" by (rule showDigits_digits [OF n(1)], rule hd_in_set) simp
  then have "hd (showDigits n) \<noteq> CHR ''-''" "hd (showDigits n) \<noteq> CHR ''+''"
    by (auto simp: isDigit_def)
  then have "\<not> prefix ''-'' (showDigits n)" "\<not> prefix ''+'' (showDigits n)"
    by (cases "showDigits n"; simp)+
  with n show ?thesis by (simp add: Atoi_def parse_showDigits)
qed

text \<open>
  \<open>fmt.Sscanf\<close> with \<open>%d\<close> into an unsigned integer of some bits: leading space but no line break,
  at least one digit, and no overflow. It answers with the rest of the input.
\<close>

function skipSpace :: "string \<Rightarrow> string option" where
  "skipSpace s = (if s = [] \<or> space_len space1 space2 space3 s = 0 then Some s
     else if byte (hd s) = 10 then None else skipSpace (drop (space_len space1 space2 space3 s) s))"
  by pat_completeness auto
termination
  by (relation "measure length") auto

declare skipSpace.simps [simp del]

definition scanUint :: "nat \<Rightarrow> string \<Rightarrow> (int \<times> string) option" where
  "scanUint bits s = Option.bind (skipSpace s) (\<lambda>t.
     let digits = takeWhile isDigit t in
     if digits = [] then None else Option.bind (parseDigits 0 digits) (\<lambda>n.
     if n < 2 ^ bits then Some (n, dropWhile isDigit t) else None))"

definition scanLiteral :: "string \<Rightarrow> string \<Rightarrow> string option" where
  "scanLiteral p s = (if prefix p s then Some (drop (length p) s) else None)"

end
