(* ===== verification/Cfg_DotEnv.thy ===== *)
theory Cfg_DotEnv
  imports Svc_Text
begin

text \<open>
  \<open>loadenv.go\<close> of \<open>internal/config\<close>: the parser of \<open>.env\<close> files with comments, quotes, escapes and
  variable expansion, and the loader that adds their variables to the process environment. The
  text is handled byte by byte; where the code works on code points, a multi-byte code point is
  never equal to the ASCII bytes looked for, so the bytes give the same answer.
\<close>

type_synonym environment = "string \<rightharpoonup> string"

datatype dotenv_error = EmptyKey | UnexpectedCharacter char | NoAssignment | UnterminatedQuote

abbreviation newline :: char where "newline \<equiv> CHR 0x0A"
abbreviation backslash :: char where "backslash \<equiv> CHR 0x5C"

definition blank :: "char \<Rightarrow> bool" where
  "blank c \<longleftrightarrow> c = CHR '' '' \<or> c = CHR 0x09"

text \<open>What follows the next line break.\<close>

definition afterLine :: "string \<Rightarrow> string" where
  "afterLine s = tl (dropWhile (\<lambda>c. c \<noteq> newline) s)"

lemma afterLine_length: "length (afterLine s) \<le> length s"
  using length_dropWhile_le [of "\<lambda>c. c \<noteq> newline" s] by (simp add: afterLine_def)

lemma afterLine_less: "newline \<in> set s \<Longrightarrow> length (afterLine s) < length s"
proof -
  assume "newline \<in> set s"
  then have "dropWhile (\<lambda>c. c \<noteq> newline) s \<noteq> []" by (auto simp: dropWhile_eq_Nil_conv)
  then have "length (afterLine s) < length (dropWhile (\<lambda>c. c \<noteq> newline) s)"
    unfolding afterLine_def by simp
  then show ?thesis using length_dropWhile_le [of "\<lambda>c. c \<noteq> newline" s] by linarith
qed

text \<open>\<open>bytes.ReplaceAll(src, "\r\n", "\n")\<close>.\<close>

fun unixLines :: "string \<Rightarrow> string" where
  "unixLines (a # b # s) = (if a = CHR 0x0D \<and> b = newline then newline # unixLines s else a # unixLines (b # s))"
| "unixLines [a] = [a]"
| "unixLines [] = []"

section \<open>Statements\<close>

lemma trimLeft_length: "length (trimLeft s) \<le> length s"
  unfolding trimLeft_def by (rule suffix_length_le [OF trim_start_suffix])

function findStatementStart :: "string \<Rightarrow> string option" where
  "findStatementStart src =
     (if trimLeft src = [] then None
      else if hd (trimLeft src) \<noteq> CHR ''#'' then Some (trimLeft src)
      else if newline \<notin> set (trimLeft src) then None
      else findStatementStart (afterLine (trimLeft src)))"
  by pat_completeness auto
termination
proof (relation "measure length")
  fix src :: string
  assume "\<not> newline \<notin> set (trimLeft src)"
  then show "(afterLine (trimLeft src), src) \<in> measure length"
    using afterLine_less [of "trimLeft src"] trimLeft_length [of src] by simp
qed simp

declare findStatementStart.simps [simp del]

text \<open>
  The loop of \<open>locateKeyName\<close> turns single bytes into runes: the letters, digits and spaces of
  Latin-1.
\<close>

definition latinLetter :: "char \<Rightarrow> bool" where
  "latinLetter c \<longleftrightarrow> (let b = byte c in 65 \<le> b \<and> b \<le> 90 \<or> 97 \<le> b \<and> b \<le> 122 \<or> b = 170 \<or> b = 181 \<or>
     b = 186 \<or> 192 \<le> b \<and> b \<noteq> 215 \<and> b \<noteq> 247)"

definition latinSpace :: "char \<Rightarrow> bool" where
  "latinSpace c \<longleftrightarrow> (let b = byte c in 9 \<le> b \<and> b \<le> 13 \<or> b = 32 \<or> b = 133 \<or> b = 160)"

definition keyChar :: "char \<Rightarrow> bool" where
  "keyChar c \<longleftrightarrow> latinLetter c \<or> isDigit c \<or> c = CHR ''_'' \<or> c = CHR ''.'' \<or> latinSpace c"

fun scanKey :: "string \<Rightarrow> dotenv_error + string \<times> string" where
  "scanKey [] = Inl NoAssignment"
| "scanKey (c # s) =
     (if c = CHR ''='' \<or> c = CHR '':'' then Inr ([], s)
      else if keyChar c then map_sum id (\<lambda>(key, rest). (c # key, rest)) (scanKey s)
      else Inl (UnexpectedCharacter c))"

definition skipExport :: "string \<Rightarrow> string" where
  "skipExport s = (if prefix ''export '' s then dropWhile blank (drop 7 s) else s)"

definition locateKeyName :: "string \<Rightarrow> dotenv_error + string \<times> string" where
  "locateKeyName src =
     (case scanKey (skipExport (trimLeft src)) of
        Inl e \<Rightarrow> Inl e
      | Inr (key, rest) \<Rightarrow>
        if trimRight key = [] then Inl EmptyKey else Inr (trimRight key, dropWhile blank rest))"

section \<open>Values\<close>

text \<open>\<open>escapeRegex\<close> and \<open>unescapeCharsRegex\<close>, replaced from left to right.\<close>

fun escapePass :: "string \<Rightarrow> string" where
  "escapePass (a # b # s) =
     (if a = backslash \<and> b \<noteq> newline
      then (if b = CHR ''n'' then [newline] else if b = CHR ''r'' then [CHR 0x0D]
            else if b = CHR ''t'' then [CHR 0x09] else [a, b]) @ escapePass s
      else a # escapePass (b # s))"
| "escapePass [a] = [a]"
| "escapePass [] = []"

fun unescapePass :: "string \<Rightarrow> string" where
  "unescapePass (a # b # s) =
     (if a = backslash \<and> b \<noteq> CHR ''$'' then b # unescapePass s else a # unescapePass (b # s))"
| "unescapePass [a] = [a]"
| "unescapePass [] = []"

definition expandEscapes :: "string \<Rightarrow> string" where
  "expandEscapes s = unescapePass (escapePass s)"

definition nameStart :: "char \<Rightarrow> bool" where
  "nameStart c \<longleftrightarrow> 65 \<le> byte c \<and> byte c \<le> 90 \<or> 97 \<le> byte c \<and> byte c \<le> 122 \<or> c = CHR ''_''"

definition nameChar :: "char \<Rightarrow> bool" where
  "nameChar c \<longleftrightarrow> nameStart c \<or> isDigit c"

definition lookupVar :: "environment \<Rightarrow> environment \<Rightarrow> string \<Rightarrow> string option" where
  "lookupVar sys vars name = (case vars name of Some v \<Rightarrow> Some v | None \<Rightarrow> sys name)"

text \<open>A reference \<open>${NAME}\<close> at the start of the text, with the text after it.\<close>

definition braced :: "string \<Rightarrow> (string \<times> string) option" where
  "braced s = (if prefix ''${'' s \<and> drop 2 s \<noteq> [] \<and> nameStart (hd (drop 2 s)) then
       (case dropWhile nameChar (drop 2 s) of
          CHR ''}'' # rest \<Rightarrow> Some (takeWhile nameChar (drop 2 s), rest)
        | _ \<Rightarrow> None)
     else None)"

lemma braced_length: "braced s = Some (name, rest) \<Longrightarrow> length rest < length s"
proof -
  assume s: "braced s = Some (name, rest)"
  then have "length (CHR ''}'' # rest) = length (dropWhile nameChar (drop 2 s))"
    by (auto simp: braced_def split: if_splits list.splits char.splits bool.splits)
  then show ?thesis using length_dropWhile_le [of nameChar "drop 2 s"] by simp
qed

function expandBraced :: "environment \<Rightarrow> environment \<Rightarrow> string \<Rightarrow> string" where
  "expandBraced sys vars [] = []"
| "expandBraced sys vars (c # s) =
     (case (if c = backslash then braced s else None) of
        Some (name, rest) \<Rightarrow> ''${'' @ name @ ''}'' @ expandBraced sys vars rest
      | None \<Rightarrow>
        (case braced (c # s) of
           Some (name, rest) \<Rightarrow>
             (case lookupVar sys vars name of None \<Rightarrow> [] | Some v \<Rightarrow> v) @ expandBraced sys vars rest
         | None \<Rightarrow> c # expandBraced sys vars s))"
  by pat_completeness auto
termination
  by (relation "measure (\<lambda>(_, _, s). length s)") (auto split: if_splits dest!: braced_length)

function expandSimple :: "environment \<Rightarrow> environment \<Rightarrow> string \<Rightarrow> string" where
  "expandSimple sys vars [] = []"
| "expandSimple sys vars (c # s) =
     (if c = CHR ''$'' \<and> s \<noteq> [] \<and> nameStart (hd s) then
        (case lookupVar sys vars (takeWhile nameChar s) of
           None \<Rightarrow> c # takeWhile nameChar s | Some v \<Rightarrow> v) @ expandSimple sys vars (dropWhile nameChar s)
      else c # expandSimple sys vars s)"
  by pat_completeness auto
termination
  by (relation "measure (\<lambda>(_, _, s). length s)") (auto simp: le_imp_less_Suc length_dropWhile_le)

definition expandVariables :: "environment \<Rightarrow> environment \<Rightarrow> string \<Rightarrow> string" where
  "expandVariables sys vars s = expandSimple sys vars (expandBraced sys vars s)"

text \<open>The loop that looks for the closing quote, with the byte before the current one.\<close>

fun closingQuote :: "char \<Rightarrow> char \<Rightarrow> string \<Rightarrow> (string \<times> string) option" where
  "closingQuote q before [] = None"
| "closingQuote q before (c # s) =
     (if c = q \<and> before \<noteq> backslash then Some ([], s)
      else map_option (\<lambda>(raw, rest). (c # raw, rest)) (closingQuote q c s))"

text \<open>\<open>strings.Cut(line, " #")\<close>: what comes before.\<close>

fun cutComment :: "string \<Rightarrow> string option" where
  "cutComment (a # b # s) =
     (if a = CHR '' '' \<and> b = CHR ''#'' then Some [] else map_option ((#) a) (cutComment (b # s)))"
| "cutComment [a] = None"
| "cutComment [] = None"

definition withoutComment :: "string \<Rightarrow> string" where
  "withoutComment line = (case cutComment line of None \<Rightarrow> line
     | Some v \<Rightarrow> if v = [] then line else v)"

definition extractVarValue ::
  "environment \<Rightarrow> environment \<Rightarrow> string \<Rightarrow> dotenv_error + string \<times> string" where
  "extractVarValue sys vars src =
     (case src of [] \<Rightarrow> Inr ([], [])
      | q # s \<Rightarrow>
        if q = CHR 0x27 \<or> q = CHR 0x22 then
          (case closingQuote q q s of None \<Rightarrow> Inl UnterminatedQuote
           | Some (raw, rest) \<Rightarrow>
             Inr (if q = CHR 0x22 then expandVariables sys vars (expandEscapes raw) else raw, afterLine rest))
        else
          Inr (expandVariables sys vars
                 (rev (dropWhile blank (rev (withoutComment (takeWhile (\<lambda>c. c \<noteq> newline) src))))),
               afterLine src))"

section \<open>Files\<close>

text \<open>Every statement that is read shortens the text: the loop ends.\<close>

lemma scanKey_length: "scanKey s = Inr (key, rest) \<Longrightarrow> length rest < length s"
  by (induction s arbitrary: key rest)
     (auto split: if_splits sum.splits simp: less_Suc_eq map_sum_def)

lemma locateKeyName_length: "locateKeyName s = Inr (key, rest) \<Longrightarrow> length rest < length s"
proof -
  assume "locateKeyName s = Inr (key, rest)"
  then obtain k r where "scanKey (skipExport (trimLeft s)) = Inr (k, r)" "rest = dropWhile blank r"
    by (auto simp: locateKeyName_def split: sum.splits if_splits)
  moreover have "length (skipExport t) \<le> length t" for t
    using length_dropWhile_le [of blank "drop 7 t"] by (auto simp: skipExport_def)
  ultimately show ?thesis
    using scanKey_length [of "skipExport (trimLeft s)" k r] trimLeft_length [of s]
      length_dropWhile_le [of blank r] by (meson le_less_trans less_le_trans)
qed

lemma closingQuote_length: "closingQuote q b s = Some (raw, rest) \<Longrightarrow> length rest < length s"
  by (induction s arbitrary: b raw) (auto split: if_splits simp: less_Suc_eq)

lemma extractVarValue_length: "extractVarValue sys vars s = Inr (v, rest) \<Longrightarrow> length rest \<le> length s"
proof (cases s)
  case (Cons q t)
  assume e: "extractVarValue sys vars s = Inr (v, rest)"
  show ?thesis
  proof (cases "q = CHR 0x27 \<or> q = CHR 0x22")
    case True
    with e Cons obtain raw r where "closingQuote q q t = Some (raw, r)" "rest = afterLine r"
      by (auto simp: extractVarValue_def split: option.splits)
    then show ?thesis using closingQuote_length [of q q t raw r] afterLine_length [of r] Cons by simp
  next
    case False
    with e Cons have "rest = afterLine s" by (auto simp: extractVarValue_def)
    then show ?thesis using afterLine_length by simp
  qed
qed (simp add: extractVarValue_def)

lemma findStatementStart_length: "findStatementStart s = Some t \<Longrightarrow> length t \<le> length s"
proof (induction s rule: findStatementStart.induct)
  case (1 s)
  have "length (afterLine (trimLeft s)) \<le> length s"
    using afterLine_length [of "trimLeft s"] trimLeft_length [of s] by simp
  with 1(2) 1(1) trimLeft_length [of s] show ?case
    by (auto simp: findStatementStart.simps [of s] split: if_splits)
qed

function parseStatements ::
  "environment \<Rightarrow> environment \<Rightarrow> string \<Rightarrow> dotenv_error + environment" where
  "parseStatements sys out src =
     (case findStatementStart src of None \<Rightarrow> Inr out
      | Some s \<Rightarrow>
        (case locateKeyName s of Inl e \<Rightarrow> Inl e
         | Inr (key, left) \<Rightarrow>
           (case extractVarValue sys out left of Inl e \<Rightarrow> Inl e
            | Inr (value, rest) \<Rightarrow> parseStatements sys (out(key \<mapsto> value)) rest)))"
  by pat_completeness auto
termination
  by (relation "measure (\<lambda>(_, _, s). length s)")
     (auto dest!: findStatementStart_length locateKeyName_length extractVarValue_length)

declare parseStatements.simps [simp del]

definition parseEnvBytes :: "environment \<Rightarrow> string \<Rightarrow> dotenv_error + environment" where
  "parseEnvBytes sys src = parseStatements sys Map.empty (unixLines src)"

text \<open>
  \<open>os.Setenv\<close> refuses a value with a zero byte, and the code ignores that; a key of the parser
  is never empty and holds neither an equals sign nor a zero byte.
\<close>

definition setMissing :: "environment \<Rightarrow> environment \<Rightarrow> environment" where
  "setMissing vars sys = (\<lambda>k. case sys k of Some v \<Rightarrow> Some v
     | None \<Rightarrow> (case vars k of None \<Rightarrow> None | Some v \<Rightarrow> if CHR 0x00 \<in> set v then None else Some v))"

fun loadFirst :: "(string \<Rightarrow> string option) \<Rightarrow> string list \<Rightarrow> environment \<Rightarrow>
    (string \<times> dotenv_error) option \<times> environment" where
  "loadFirst readFile [] sys = (None, sys)"
| "loadFirst readFile (name # names) sys =
     (case readFile name of None \<Rightarrow> loadFirst readFile names sys
      | Some data \<Rightarrow> (case parseEnvBytes sys data of Inl e \<Rightarrow> (Some (name, e), sys)
          | Inr vars \<Rightarrow> (None, setMissing vars sys)))"

definition LoadDotEnv :: "(string \<Rightarrow> string option) \<Rightarrow> string list \<Rightarrow> environment \<Rightarrow>
    (string \<times> dotenv_error) option \<times> environment" where
  "LoadDotEnv readFile filenames sys =
     loadFirst readFile (if filenames = [] then [''.env'', ''../.env''] else filenames) sys"

end
