(* ===== verification/Cfg_Config.thy ===== *)
theory Cfg_Config
  imports Cfg_DotEnv
begin

text \<open>
  \<open>config.go\<close> of \<open>internal/config\<close>: the configuration read from the environment, the service
  token with its file, and the validation that a start has to pass. What the process sees of the
  outside is a record: its environment, its files and the directories it cannot make.
\<close>

section \<open>Paths\<close>

text \<open>\<open>strings.Join\<close> and, of \<open>path/filepath\<close> on Unix, \<open>Clean\<close>, \<open>Join\<close> and \<open>Dir\<close>.\<close>

fun joinWith :: "string \<Rightarrow> string list \<Rightarrow> string" where
  "joinWith sep [] = []"
| "joinWith sep [x] = x"
| "joinWith sep (x # y # xs) = x @ sep @ joinWith sep (y # xs)"

fun cleanParts :: "bool \<Rightarrow> string list \<Rightarrow> string list \<Rightarrow> string list" where
  "cleanParts rooted out [] = rev out"
| "cleanParts rooted out (p # ps) =
     (if p = '''' \<or> p = ''.'' then cleanParts rooted out ps
      else if p = ''..'' then
        (case out of
           [] \<Rightarrow> cleanParts rooted (if rooted then [] else [''..'']) ps
         | q # qs \<Rightarrow> cleanParts rooted (if q = ''..'' then ''..'' # q # qs else qs) ps)
      else cleanParts rooted (p # out) ps)"

definition CleanPath :: "string \<Rightarrow> string" where
  "CleanPath path = (if path = '''' then ''.'' else
     let rooted = hd path = CHR ''/'';
         cleaned = (if rooted then ''/'' else '''') @
           joinWith ''/'' (cleanParts rooted [] (SplitOn (CHR ''/'') path))
     in if cleaned = '''' then ''.'' else cleaned)"

definition JoinPath :: "string list \<Rightarrow> string" where
  "JoinPath elems = (case dropWhile (\<lambda>e. e = '''') elems of [] \<Rightarrow> '''' | es \<Rightarrow> CleanPath (joinWith ''/'' es))"

definition DirPath :: "string \<Rightarrow> string" where
  "DirPath path = CleanPath (rev (dropWhile (\<lambda>c. c \<noteq> CHR ''/'') (rev path)))"

section \<open>The outside\<close>

record world =
  wd_env :: environment
  wd_files :: "string \<rightharpoonup> string"
  wd_unreadable :: "string set"
  wd_unwritable :: "string set"
  wd_nodir :: "string set"

datatype read_result = FileData string | FileMissing | FileUnreadable

definition ReadFile :: "string \<Rightarrow> world \<Rightarrow> read_result" where
  "ReadFile path w = (if path \<in> wd_unreadable w then FileUnreadable else
     case wd_files w path of None \<Rightarrow> FileMissing | Some data \<Rightarrow> FileData data)"

text \<open>\<open>os.MkdirAll\<close> of the directory, then \<open>os.WriteFile\<close> of one line.\<close>

datatype io_error = ReadFailed string | WriteFailed string | MkdirFailed string | RandomFailed

definition writeLine :: "string \<Rightarrow> string \<Rightarrow> world \<Rightarrow> io_error option \<times> world" where
  "writeLine path value w =
     (if DirPath path \<in> wd_nodir w then (Some (MkdirFailed (DirPath path)), w)
      else if path \<in> wd_unwritable w then (Some (WriteFailed path), w)
      else (None, w\<lparr>wd_files := (wd_files w)(path \<mapsto> value @ [newline])\<rparr>))"

section \<open>Reading the environment\<close>

definition Getenv :: "environment \<Rightarrow> string \<Rightarrow> string" where
  "Getenv e name = (case e name of None \<Rightarrow> '''' | Some v \<Rightarrow> v)"

definition env :: "environment \<Rightarrow> string \<Rightarrow> string \<Rightarrow> string" where
  "env e name fallback = (if TrimSpace (Getenv e name) \<noteq> '''' then TrimSpace (Getenv e name) else fallback)"

definition envInt :: "environment \<Rightarrow> string \<Rightarrow> int \<Rightarrow> int" where
  "envInt e name fallback = (case Atoi (TrimSpace (Getenv e name)) of None \<Rightarrow> fallback
     | Some v \<Rightarrow> if v \<le> 0 then fallback else v)"

definition envAnyInt :: "environment \<Rightarrow> string \<Rightarrow> int \<Rightarrow> int" where
  "envAnyInt e name fallback = (case Atoi (TrimSpace (Getenv e name)) of None \<Rightarrow> fallback | Some v \<Rightarrow> v)"

definition ParseBool :: "string \<Rightarrow> bool option" where
  "ParseBool s = (if s \<in> {''1'', ''t'', ''T'', ''TRUE'', ''true'', ''True''} then Some True
     else if s \<in> {''0'', ''f'', ''F'', ''FALSE'', ''false'', ''False''} then Some False else None)"

definition envBool :: "environment \<Rightarrow> string \<Rightarrow> bool \<Rightarrow> bool" where
  "envBool e name fallback = (let value = TrimSpace (Getenv e name) in
     if value = '''' then fallback else case ParseBool value of None \<Rightarrow> fallback | Some b \<Rightarrow> b)"

text \<open>The product of two 64-bit durations wraps around.\<close>

definition wrap64 :: "int \<Rightarrow> int" where
  "wrap64 i = (i + 2 ^ 63) mod 2 ^ 64 - 2 ^ 63"

definition timesUnit :: "int \<Rightarrow> time \<Rightarrow> time" where
  "timesUnit n unit = wrap64 (n * unit)"

record Config =
  cf_RegistrationEnabled :: bool
  cf_Address :: string
  cf_LogLevel :: string
  cf_LogFormat :: string
  cf_LogPath :: string
  cf_LogStdout :: bool
  cf_LogNoColor :: bool
  cf_LogFileEnabled :: bool
  cf_LogRotateDaily :: bool
  cf_LogMaxSizeMB :: int
  cf_LogMaxAgeDays :: int
  cf_LogMaxBackups :: int
  cf_LogCompress :: bool
  cf_DatabaseDriver :: string
  cf_DatabaseURL :: string
  cf_APIBase :: string
  cf_WebAuthBase :: string
  cf_ServiceToken :: string
  cf_ServiceTokenFile :: string
  cf_SetupToken :: string
  cf_SigningPrivateKey :: string
  cf_SigningKeyFile :: string
  cf_SigningPublicKeyFile :: string
  cf_SessionTTL :: time
  cf_SessionCookieName :: string
  cf_CookieSecure :: bool
  cf_CookieSameSite :: string
  cf_PrincipalTTL :: time
  cf_PrincipalAudience :: string

definition levelOf :: "environment \<Rightarrow> string" where
  "levelOf e = (if TrimSpace (Getenv e ''LOG_LEVEL'') \<noteq> '''' then TrimSpace (Getenv e ''LOG_LEVEL'')
     else if envBool e ''DEBUG'' False then ''debug'' else ''info'')"

definition formatOf :: "environment \<Rightarrow> string" where
  "formatOf e = (if TrimSpace (Getenv e ''LOG_FORMAT'') \<noteq> '''' then TrimSpace (Getenv e ''LOG_FORMAT'')
     else if envBool e ''DEBUG'' False then ''pretty'' else ''json'')"

text \<open>\<open>os.UserHomeDir\<close> is the variable \<open>HOME\<close>; its error, when that is empty, is ignored.\<close>

definition readConfig :: "environment \<Rightarrow> Config" where
  "readConfig e =
     (let dataDir = env e ''CONTROL_DATA_DIR'' (JoinPath [Getenv e ''HOME'', ''.nexus'', ''control'']) in
      \<lparr>cf_RegistrationEnabled = envBool e ''CONTROL_REGISTRATION_ENABLED'' False,
       cf_Address = env e ''CONTROL_ADDRESS'' ''0.0.0.0:8020'',
       cf_LogLevel = levelOf e, cf_LogFormat = formatOf e,
       cf_LogPath = env e ''LOG_PATH'' (JoinPath [dataDir, ''logs'', ''logger.log'']),
       cf_LogStdout = envBool e ''LOG_STDOUT'' True,
       cf_LogNoColor = envBool e ''LOG_NO_COLOR'' False,
       cf_LogFileEnabled = envBool e ''LOG_FILE_ENABLED'' True,
       cf_LogRotateDaily = envBool e ''LOG_ROTATE_DAILY'' True,
       cf_LogMaxSizeMB = envAnyInt e ''LOG_MAX_SIZE_MB'' 10,
       cf_LogMaxAgeDays = envAnyInt e ''LOG_MAX_AGE_DAYS'' 7,
       cf_LogMaxBackups = envAnyInt e ''LOG_MAX_BACKUPS'' 7,
       cf_LogCompress = envBool e ''LOG_COMPRESS'' True,
       cf_DatabaseDriver = ToLower (env e ''CONTROL_DATABASE_DRIVER'' ''sqlite''),
       cf_DatabaseURL = env e ''CONTROL_DATABASE_URL'' (JoinPath [dataDir, ''data'', ''control.db'']),
       cf_APIBase = env e ''CONTROL_API_BASE'' ''/api/control/v1'',
       cf_WebAuthBase = env e ''CONTROL_WEB_AUTH_BASE'' ''/auth/v1'',
       cf_ServiceToken = TrimSpace (Getenv e ''CONTROL_SERVICE_TOKEN''),
       cf_ServiceTokenFile = env e ''CONTROL_SERVICE_TOKEN_FILE'' (JoinPath [dataDir, ''control-service.token'']),
       cf_SetupToken = TrimSpace (Getenv e ''CONTROL_SETUP_TOKEN''),
       cf_SigningPrivateKey = TrimSpace (Getenv e ''CONTROL_SIGNING_PRIVATE_KEY''),
       cf_SigningKeyFile = env e ''CONTROL_SIGNING_KEY_FILE'' (JoinPath [dataDir, ''control-signing.key'']),
       cf_SigningPublicKeyFile = env e ''CONTROL_SIGNING_PUBLIC_KEY_FILE'' (JoinPath [dataDir, ''control-signing.pub'']),
       cf_SessionTTL = timesUnit (envInt e ''CONTROL_SESSION_TTL_HOURS'' 24) hour,
       cf_SessionCookieName = env e ''AUTH_SESSION_COOKIE_NAME'' ''nexus_session'',
       cf_CookieSecure = envBool e ''AUTH_COOKIE_SECURE'' False,
       cf_CookieSameSite = ToLower (env e ''AUTH_COOKIE_SAMESITE'' ''lax''),
       cf_PrincipalTTL = timesUnit (envInt e ''CONTROL_PRINCIPAL_TTL_SECONDS'' 60) second,
       cf_PrincipalAudience = env e ''CONTROL_PRINCIPAL_AUDIENCE'' ''nexus-runtime''\<rparr>)"

text \<open>\<open>Load\<close>: the \<open>.env\<close> file first, its error ignored.\<close>

definition dotenvFile :: "world \<Rightarrow> string \<Rightarrow> string option" where
  "dotenvFile w name = (case ReadFile name w of FileData data \<Rightarrow> Some data | _ \<Rightarrow> None)"

definition Load :: "world \<Rightarrow> Config \<times> world" where
  "Load w = (let e = snd (LoadDotEnv (dotenvFile w) [] (wd_env w)) in (readConfig e, w\<lparr>wd_env := e\<rparr>))"

section \<open>The service token\<close>

text \<open>The buffer is what the random source gives for 32 bytes, or nothing when it fails.\<close>

definition PrepareServiceToken ::
  "string option \<Rightarrow> Config \<Rightarrow> world \<Rightarrow> (io_error + Config) \<times> world" where
  "PrepareServiceToken buffer c w =
     (if TrimSpace (cf_ServiceToken c) \<noteq> '''' then (Inr c, w) else
      case ReadFile (cf_ServiceTokenFile c) w of
        FileData data \<Rightarrow> (Inr (c\<lparr>cf_ServiceToken := TrimSpace data\<rparr>), w)
      | FileUnreadable \<Rightarrow> (Inl (ReadFailed (cf_ServiceTokenFile c)), w)
      | FileMissing \<Rightarrow>
        (case buffer of None \<Rightarrow> (Inl RandomFailed, w)
         | Some bytes \<Rightarrow>
           (case writeLine (cf_ServiceTokenFile c) (HexEncode bytes) w of
              (Some e, w') \<Rightarrow> (Inl e, w')
            | (None, w') \<Rightarrow> (Inr (c\<lparr>cf_ServiceToken := HexEncode bytes\<rparr>), w'))))"

section \<open>Validation\<close>

datatype config_error =
    DatabaseURLEmpty | SQLiteWithPostgresURL | PostgresURLInvalid | DriverUnsupported
  | ServiceTokenShort | SetupTokenShort | BasePathInvalid | CookieNameEmpty | SameSiteNeedsSecure
  | SameSiteUnsupported | TTLNotPositive | PrincipalTTLTooLong | AudienceEmpty | AudienceReserved

text \<open>\<open>url.Parse\<close> is a parameter: the scheme and the host of a URL that it accepts.\<close>

type_synonym url_parser = "string \<Rightarrow> (string \<times> string) option"

definition postgresURL :: "url_parser \<Rightarrow> string \<Rightarrow> bool" where
  "postgresURL parse u = (case parse u of None \<Rightarrow> False
     | Some (scheme, hst) \<Rightarrow> (scheme = ''postgres'' \<or> scheme = ''postgresql'') \<and> hst \<noteq> '''')"

definition validateDatabase :: "url_parser \<Rightarrow> Config \<Rightarrow> config_error option" where
  "validateDatabase parse c =
     (let driver = ToLower (TrimSpace (cf_DatabaseDriver c)); databaseURL = TrimSpace (cf_DatabaseURL c) in
      if databaseURL = '''' then Some DatabaseURLEmpty
      else if driver \<in> {''sqlite'', ''sqlite3''} then
        (if prefix ''postgres'' (ToLower databaseURL) then Some SQLiteWithPostgresURL else None)
      else if driver \<in> {''postgres'', ''postgresql'', ''pg'', ''pgx''} then
        (if postgresURL parse databaseURL then None else Some PostgresURLInvalid)
      else Some DriverUnsupported)"

definition validateSameSite :: "Config \<Rightarrow> config_error option" where
  "validateSameSite c =
     (if cf_CookieSameSite c = ''lax'' \<or> cf_CookieSameSite c = ''strict'' then None
      else if cf_CookieSameSite c = ''none'' then (if cf_CookieSecure c then None else Some SameSiteNeedsSecure)
      else Some SameSiteUnsupported)"

definition Validate :: "url_parser \<Rightarrow> Config \<Rightarrow> config_error option" where
  "Validate parse c =
     (if validateDatabase parse c \<noteq> None then validateDatabase parse c
      else if length (cf_ServiceToken c) < 32 then Some ServiceTokenShort
      else if cf_SetupToken c \<noteq> '''' \<and> length (cf_SetupToken c) < 32 then Some SetupTokenShort
      else if \<not> prefix ''/'' (cf_APIBase c) \<or> \<not> prefix ''/'' (cf_WebAuthBase c) then Some BasePathInvalid
      else if TrimSpace (cf_SessionCookieName c) = '''' then Some CookieNameEmpty
      else if validateSameSite c \<noteq> None then validateSameSite c
      else if cf_SessionTTL c \<le> 0 \<or> cf_PrincipalTTL c \<le> 0 then Some TTLNotPositive
      else if 5 * minute < cf_PrincipalTTL c then Some PrincipalTTLTooLong
      else if TrimSpace (cf_PrincipalAudience c) = '''' then Some AudienceEmpty
      else if TrimSpace (cf_PrincipalAudience c) = ''nexus-relay-user'' \<or>
        TrimSpace (cf_PrincipalAudience c) = ''nexus-relay-node'' then Some AudienceReserved
      else None)"

lemma Validate_None:
  "Validate parse c = None \<longleftrightarrow> validateDatabase parse c = None \<and> 32 \<le> length (cf_ServiceToken c) \<and>
     (cf_SetupToken c = '''' \<or> 32 \<le> length (cf_SetupToken c)) \<and>
     prefix ''/'' (cf_APIBase c) \<and> prefix ''/'' (cf_WebAuthBase c) \<and>
     TrimSpace (cf_SessionCookieName c) \<noteq> '''' \<and> validateSameSite c = None \<and>
     0 < cf_SessionTTL c \<and> 0 < cf_PrincipalTTL c \<and> cf_PrincipalTTL c \<le> 5 * minute \<and>
     TrimSpace (cf_PrincipalAudience c) \<notin> {'''', ''nexus-relay-user'', ''nexus-relay-node''}"
  by (auto simp: Validate_def)

text \<open>A generated token is there again on the next start.\<close>

lemma writeLine_None:
  "writeLine path value w = (None, w') \<Longrightarrow> wd_files w' path = Some (value @ [newline]) \<and>
     wd_unreadable w' = wd_unreadable w \<and> (\<forall>p. p \<noteq> path \<longrightarrow> wd_files w' p = wd_files w p)"
  by (auto simp: writeLine_def split: if_splits)

end
