(* ===== verification/Cfg_Database.thy ===== *)
theory Cfg_Database
  imports Cfg_Config
begin

text \<open>
  \<open>dialect.go\<close> and \<open>database.go\<close> of \<open>internal/storage\<close>: the choice of the driver and the SQL
  fragments that differ, and the connection string. The string of an SQLite database is rewritten
  so that every connection checks foreign keys and begins immediate transactions, on which the
  model of the database rests; the query string functions of \<open>net/url\<close> are modelled for that.
\<close>

section \<open>Dialects\<close>

definition NormalizeSQLDriver :: "string \<Rightarrow> string" where
  "NormalizeSQLDriver driver =
     (if ToLower (TrimSpace driver) \<in> {''postgres'', ''postgresql'', ''pg'', ''pgx''} then ''pgx'' else ''sqlite'')"

definition IsSQLiteSQLDriver :: "string \<Rightarrow> bool" where
  "IsSQLiteSQLDriver driver \<longleftrightarrow> NormalizeSQLDriver driver = ''sqlite''"

definition MigrationDirName :: "string \<Rightarrow> string" where
  "MigrationDirName driver = (if NormalizeSQLDriver driver = ''pgx'' then ''postgres'' else ''sqlite'')"

record SQLDialect =
  dl_postgres :: bool

definition NewSQLDialect :: "string \<Rightarrow> SQLDialect" where
  "NewSQLDialect driver = \<lparr>dl_postgres = (NormalizeSQLDriver driver = ''pgx'')\<rparr>"

definition BindParam :: "SQLDialect \<Rightarrow> int \<Rightarrow> string" where
  "BindParam d index = (if dl_postgres d then CHR ''$'' # showInt index else ''?'')"

definition IsPostgres :: "SQLDialect \<Rightarrow> bool" where
  "IsPostgres d = dl_postgres d"

definition BindList :: "SQLDialect \<Rightarrow> int \<Rightarrow> string" where
  "BindList d count = joinWith '', '' (map (BindParam d) [1..count])"

definition ForUpdate :: "SQLDialect \<Rightarrow> string" where
  "ForUpdate d = (if dl_postgres d then '' FOR UPDATE'' else '''')"

section \<open>Paths and query strings\<close>

definition trimSQLiteScheme :: "string \<Rightarrow> string" where
  "trimSQLiteScheme value = (if prefix ''sqlite://'' (ToLower value) then drop 9 value else value)"

text \<open>\<open>os.UserHomeDir\<close> fails when \<open>HOME\<close> is empty; \<open>FromSlash\<close> is the identity on Unix.\<close>

definition homeDir :: "environment \<Rightarrow> string option" where
  "homeDir e = (if Getenv e ''HOME'' = '''' then None else Some (Getenv e ''HOME''))"

definition expandHomePath :: "environment \<Rightarrow> string \<Rightarrow> string" where
  "expandHomePath e value =
     (case homeDir e of None \<Rightarrow> value
      | Some home \<Rightarrow>
        if value = ''~'' then home
        else if prefix ''~/'' value \<or> prefix (''~'' @ [backslash]) value
        then JoinPath [home, dropWhile (\<lambda>c. c = CHR ''/'' \<or> c = backslash) (drop 2 value)]
        else value)"

text \<open>\<open>strings.Cut\<close> at a byte: before it, and after it if it is there.\<close>

definition cutAt :: "char \<Rightarrow> string \<Rightarrow> string \<times> string" where
  "cutAt c s = (takeWhile (\<lambda>x. x \<noteq> c) s, tl (dropWhile (\<lambda>x. x \<noteq> c) s))"

definition hexValue :: "char \<Rightarrow> nat option" where
  "hexValue c = (let b = byte c in if 48 \<le> b \<and> b \<le> 57 then Some (b - 48)
     else if 97 \<le> b \<and> b \<le> 102 then Some (b - 87)
     else if 65 \<le> b \<and> b \<le> 70 then Some (b - 55) else None)"

fun QueryUnescape :: "string \<Rightarrow> string option" where
  "QueryUnescape [] = Some []"
| "QueryUnescape (c # s) =
     (if c = CHR ''%'' then
        (case s of a # b # t \<Rightarrow>
           (case (hexValue a, hexValue b) of
              (Some x, Some y) \<Rightarrow> map_option ((#) (char_of (16 * x + y))) (QueryUnescape t)
            | _ \<Rightarrow> None)
         | _ \<Rightarrow> None)
      else map_option ((#) (if c = CHR ''+'' then CHR '' '' else c)) (QueryUnescape s))"

definition unreserved :: "char \<Rightarrow> bool" where
  "unreserved c \<longleftrightarrow> 65 \<le> byte c \<and> byte c \<le> 90 \<or> 97 \<le> byte c \<and> byte c \<le> 122 \<or> isDigit c \<or>
     c \<in> {CHR ''-'', CHR ''_'', CHR ''.'', CHR ''~''}"

definition upperHex :: string where
  "upperHex = ''0123456789ABCDEF''"

definition escapeChar :: "char \<Rightarrow> string" where
  "escapeChar c = (if unreserved c then [c] else if c = CHR '' '' then ''+''
     else [CHR ''%'', upperHex ! (byte c div 16), upperHex ! (byte c mod 16)])"

definition QueryEscape :: "string \<Rightarrow> string" where
  "QueryEscape s = concat (map escapeChar s)"

text \<open>
  \<open>url.ParseQuery\<close>: the pairs in the order of the text, of which \<open>url.Values\<close> is the grouping by
  key; any part that does not parse makes the whole an error.
\<close>

definition parsePair :: "string \<Rightarrow> (string \<times> string) option" where
  "parsePair part = (if CHR '';'' \<in> set part then None else
     (let (k, v) = cutAt (CHR ''='') part in
      case (QueryUnescape k, QueryUnescape v) of (Some k', Some v') \<Rightarrow> Some (k', v') | _ \<Rightarrow> None))"

definition ParseQuery :: "string \<Rightarrow> (string \<times> string) list option" where
  "ParseQuery q = those (map parsePair (filter (\<lambda>p. p \<noteq> '''') (SplitOn (CHR ''&'') q)))"

definition valuesOf :: "string \<Rightarrow> (string \<times> string) list \<Rightarrow> string list" where
  "valuesOf k ps = map snd (filter (\<lambda>p. fst p = k) ps)"

text \<open>\<open>Values.Encode\<close>: sorted by key, the values of a key in their order.\<close>

definition EncodeQuery :: "(string \<times> string) list \<Rightarrow> string" where
  "EncodeQuery ps = joinWith ''&'' (map (\<lambda>(k, v). QueryEscape k @ ''='' @ QueryEscape v) (sort_key fst ps))"

section \<open>Connection strings\<close>

definition pragmaName :: "string \<Rightarrow> string" where
  "pragmaName p = takeWhile (\<lambda>c. c \<notin> {CHR ''('', CHR ''='', CHR '' '', CHR 0x09}) (ToLower (TrimSpace p))"

definition overridden :: "string \<Rightarrow> bool" where
  "overridden p \<longleftrightarrow> pragmaName p = ''busy_timeout'' \<or> pragmaName p = ''foreign_keys''"

definition sqliteValues :: "(string \<times> string) list \<Rightarrow> (string \<times> string) list" where
  "sqliteValues vs =
     filter (\<lambda>p. fst p \<noteq> ''_txlock'' \<and> fst p \<noteq> ''_pragma'') vs @ [(''_txlock'', ''immediate'')] @
     map (Pair ''_pragma'') (filter (\<lambda>p. \<not> overridden p) (valuesOf ''_pragma'' vs) @
       [''busy_timeout(5000)'', ''foreign_keys(1)''])"

definition sqliteConnectionDSN :: "string \<Rightarrow> string option" where
  "sqliteConnectionDSN dsn = (let (base, rawQuery) = cutAt (CHR ''?'') dsn in
     map_option (\<lambda>vs. base @ ''?'' @ EncodeQuery (sqliteValues vs)) (ParseQuery rawQuery))"

datatype open_error = DatabaseURLRejected | DSNRejected | ParentNotMade string

text \<open>
  The URL of PostgreSQL with the search path set is given back by \<open>net/url\<close>, a parameter here.
\<close>

definition normalizeDatabaseURL ::
  "url_parser \<Rightarrow> (string \<Rightarrow> string) \<Rightarrow> environment \<Rightarrow> string \<Rightarrow> string \<Rightarrow> open_error + string" where
  "normalizeDatabaseURL parse withSearchPath e driver raw = (let value = TrimSpace raw in
     if IsSQLiteSQLDriver driver then Inr (expandHomePath e (trimSQLiteScheme value))
     else if postgresURL parse value then Inr (withSearchPath value) else Inl DatabaseURLRejected)"

definition ensureSQLiteParent :: "string \<Rightarrow> world \<Rightarrow> open_error option" where
  "ensureSQLiteParent dsn w = (let path = fst (cutAt (CHR ''?'') dsn) in
     if path = '''' \<or> path = '':memory:'' \<or> prefix ''file:'' path then None
     else if DirPath path = ''.'' \<or> DirPath path = ''/'' then None
     else if DirPath path \<in> wd_nodir w then Some (ParentNotMade (DirPath path)) else None)"

text \<open>\<open>Open\<close> up to the call of the driver: the connection string it is given.\<close>

definition connectionString ::
  "url_parser \<Rightarrow> (string \<Rightarrow> string) \<Rightarrow> Config \<Rightarrow> world \<Rightarrow> open_error + string" where
  "connectionString parse withSearchPath c w =
     (let driver = NormalizeSQLDriver (cf_DatabaseDriver c) in
      case normalizeDatabaseURL parse withSearchPath (wd_env w) driver (cf_DatabaseURL c) of
        Inl e \<Rightarrow> Inl e
      | Inr dsn \<Rightarrow>
        if IsSQLiteSQLDriver driver then
          (case ensureSQLiteParent dsn w of Some e \<Rightarrow> Inl e
           | None \<Rightarrow> (case sqliteConnectionDSN dsn of None \<Rightarrow> Inl DSNRejected | Some d \<Rightarrow> Inr d))
        else Inr dsn)"

end
