(* ===== verification/Svc_Core.thy ===== *)
theory Svc_Core
  imports Svc_Text Repo_Node
begin

text \<open>
  The ground of \<open>internal/service/auth\<close>: the state a request runs on, the service's errors and
  actions, the constants and read models of \<open>model.go\<close>, and the normalisation of input and the
  identifiers of \<open>validate.go\<close>.
\<close>

section \<open>Read models\<close>

record User =
  us_UserID :: string
  us_Username :: string
  us_DisplayName :: string
  us_Status :: string
  us_Avatar :: string
  us_LastLoginAt :: "time option"
  us_CreatedAt :: time
  us_UpdatedAt :: time

record Entitlement =
  en_PlanKey :: string
  en_PlanName :: string
  en_MonthlyTokenLimit :: "int option"
  en_UpdatedAt :: time

record Principal =
  pn_WebAccessDisabled :: bool
  pn_OrganizationRole :: string
  pn_NodeID :: string
  pn_ParentSessionID :: string
  pn_AgentIDs :: "string list"
  pn_DeploymentID :: string
  pn_OrganizationID :: string
  pn_OrganizationName :: string
  pn_UserID :: string
  pn_Username :: string
  pn_DisplayName :: string
  pn_Role :: string
  pn_Avatar :: string
  pn_AuthMethod :: string
  pn_SessionID :: string
  pn_Entitlement :: Entitlement

record PrincipalClaims =
  cl_WebAccessDisabled :: bool
  cl_OrganizationRole :: string
  cl_NodeID :: string
  cl_ParentSessionID :: string
  cl_AgentIDs :: "string list"
  cl_Version :: int
  cl_Issuer :: string
  cl_Audience :: string
  cl_IssuedAt :: int
  cl_ExpiresAt :: int
  cl_DeploymentID :: string
  cl_OrganizationID :: string
  cl_OrganizationName :: string
  cl_UserID :: string
  cl_Username :: string
  cl_DisplayName :: string
  cl_Role :: string
  cl_Avatar :: string
  cl_AuthMethod :: string
  cl_SessionID :: string
  cl_Entitlement :: Entitlement

section \<open>The service and the state of a request\<close>

text \<open>
  The cryptographic primitives and the JSON encoder are fields of the runtime, as are the
  readings of the random source (the \<open>k\<close>-th request for \<open>n\<close> bytes, which may fail) and of the
  clock (the \<open>k\<close>-th reading); the host counts the readings of both and holds the database.
\<close>

record runtime =
  rt_now :: "nat \<Rightarrow> time"
  rt_rand :: "nat \<Rightarrow> nat \<Rightarrow> string option"
  rt_argon2 :: "string \<Rightarrow> string \<Rightarrow> int \<Rightarrow> int \<Rightarrow> int \<Rightarrow> int \<Rightarrow> string"
  rt_argon2_version :: int
  rt_sha256 :: "string \<Rightarrow> string"
  rt_ed25519 :: "string \<Rightarrow> string \<Rightarrow> string"
  rt_marshal :: "PrincipalClaims \<Rightarrow> string option"

record Signer =
  sg_privateKey :: string
  sg_publicKey :: string

record Service =
  sv_signer :: Signer
  sv_runtime :: runtime
  sv_sessionTTL :: time
  sv_principalTTL :: time
  sv_audiences :: "string list"
  sv_setupEnabled :: bool
  sv_registrationEnabled :: bool

record host =
  h_db :: db
  h_ticks :: nat
  h_draws :: nat

section \<open>Errors\<close>

text \<open>
  The sentinels of \<open>model.go\<close>; \<open>Reason\<close> is an \<open>errors.New\<close> at the place that names it,
  \<open>FromStore\<close> an error of the repository, \<open>FromRuntime\<close> one of the standard library,
  \<open>ErrorList\<close> the result of \<open>errors.Join\<close> and \<open>Wrapped\<close> that of \<open>fmt.Errorf\<close> with \<open>%w\<close>.
\<close>

datatype reason =
    UsernameLength | UsernameCharacter | PasswordTooShort | PasswordTooLong | RoleUnsupported
  | RequestIDLength | RequestIDCharacter | DisplayNameTooLong | DeploymentNameTooLong
  | OrganizationNameTooLong | AudienceInvalid | AvatarTooLong | RequestNotSettled | StatusUnsupported
  | RevokesItself | UsernameTaken | PlanKeyInvalid | DisplayNameInvalid | PlanStatusInvalid
  | FreePlanArchived | TokenLimitInvalid | NotesTooLong | HashFormat | HashVersion | HashParameters
  | HashSalt | HashValue
  | SourcePathInvalid | SourceNoUsers | SourceUserUnsupported | NotSetUp | SourceNoPlans
  | SourceSchemaVersion | SourceDeploymentCount | SourceDeploymentInvalid | SourceAccountCounts
  | SourceUserIncomplete | SourceUsername | SourceUserStatus | SourceUserRole
  | SourceMembershipStatus | SourceIdentity | SourceMembershipMismatch | SourceNoActiveOwner

datatype service_error =
    ErrAlreadySetup | ErrInvalidCredentials | ErrCurrentPassword | ErrUnauthenticated | ErrForbidden
  | ErrConflict | ErrNotFound | ErrPlanNotFound | ErrRequestInvalid | ErrRequestNotApplied
  | ErrInvitationInvalid
  | Reason reason | FromStore store_error | FromRuntime
  | ErrorList "service_error list" | Wrapped service_error

text \<open>\<open>errors.Is\<close>, and \<open>errors.Join\<close> with a possible nil as its second argument.\<close>

fun errorIs :: "service_error \<Rightarrow> service_error \<Rightarrow> bool" where
  "errorIs (ErrorList es) target \<longleftrightarrow> ErrorList es = target \<or> (\<exists>e \<in> set es. errorIs e target)"
| "errorIs (Wrapped e) target \<longleftrightarrow> Wrapped e = target \<or> errorIs e target"
| "errorIs e target \<longleftrightarrow> e = target"

definition joinError :: "service_error \<Rightarrow> service_error option \<Rightarrow> service_error" where
  "joinError e other = ErrorList (case other of None \<Rightarrow> [e] | Some d \<Rightarrow> [e, d])"

lemma errorIs_join [simp]:
  "errorIs (joinError e None) t \<longleftrightarrow> joinError e None = t \<or> errorIs e t"
  "errorIs (joinError e (Some d)) t \<longleftrightarrow> joinError e (Some d) = t \<or> errorIs e t \<or> errorIs d t"
  by (simp_all add: joinError_def)

section \<open>Actions\<close>

type_synonym 'a act = "host \<Rightarrow> (service_error + 'a) \<times> host"

definition returnA :: "'a \<Rightarrow> 'a act" where
  "returnA a = (\<lambda>h. (Inr a, h))"

definition failA :: "service_error \<Rightarrow> 'a act" where
  "failA e = (\<lambda>h. (Inl e, h))"

definition bindA :: "'a act \<Rightarrow> ('a \<Rightarrow> 'b act) \<Rightarrow> 'b act" where
  "bindA m f = (\<lambda>h. case m h of (Inl e, k) \<Rightarrow> (Inl e, k) | (Inr a, k) \<Rightarrow> f a k)"

text \<open>Handle the error of a call where it returns, or translate it.\<close>

definition catchA :: "'a act \<Rightarrow> (service_error \<Rightarrow> 'a act) \<Rightarrow> 'a act" where
  "catchA m f = (\<lambda>h. case m h of (Inl e, k) \<Rightarrow> f e k | (Inr a, k) \<Rightarrow> (Inr a, k))"

definition whenErr :: "(service_error \<Rightarrow> service_error) \<Rightarrow> 'a act \<Rightarrow> 'a act" where
  "whenErr f m = catchA m (\<lambda>e. failA (f e))"

definition checkA :: "service_error + 'a \<Rightarrow> 'a act" where
  "checkA r = (\<lambda>h. (r, h))"

text \<open>Reads and transactions of the repository.\<close>

definition readA :: "(db \<Rightarrow> 'a) \<Rightarrow> 'a act" where
  "readA q = (\<lambda>h. (Inr (q (h_db h)), h))"

definition liftA :: "(db \<Rightarrow> store_error + 'a) \<Rightarrow> 'a act" where
  "liftA q = (\<lambda>h. (map_sum FromStore id (q (h_db h)), h))"

definition callA :: "(db \<Rightarrow> (store_error + 'a) \<times> db) \<Rightarrow> 'a act" where
  "callA op = (\<lambda>h. (map_sum FromStore id (fst (op (h_db h))), h\<lparr>h_db := snd (op (h_db h))\<rparr>))"

text \<open>\<open>s.now()\<close> and \<open>rand.Read\<close>.\<close>

definition nowA :: "Service \<Rightarrow> time act" where
  "nowA sv = (\<lambda>h. (Inr (rt_now (sv_runtime sv) (h_ticks h)), h\<lparr>h_ticks := Suc (h_ticks h)\<rparr>))"

definition randA :: "Service \<Rightarrow> nat \<Rightarrow> string option act" where
  "randA sv n = (\<lambda>h. (Inr (rt_rand (sv_runtime sv) (h_draws h) n), h\<lparr>h_draws := Suc (h_draws h)\<rparr>))"

lemmas act_defs = returnA_def failA_def bindA_def catchA_def whenErr_def checkA_def readA_def
  liftA_def callA_def nowA_def randA_def

lemma returnA_simp [simp]: "returnA a h = (Inr a, h)" by (simp add: act_defs)
lemma failA_simp [simp]: "failA e h = (Inl e, h)" by (simp add: act_defs)
lemma readA_simp [simp]: "readA q h = (Inr (q (h_db h)), h)" by (simp add: act_defs)
lemma checkA_simp [simp]: "checkA r h = (r, h)" by (simp add: act_defs)

lemma bindA_Inr [simp]:
  "bindA m f h = (Inr b, k) \<longleftrightarrow> (\<exists>a j. m h = (Inr a, j) \<and> f a j = (Inr b, k))"
  by (auto simp: bindA_def split: prod.splits sum.splits)

lemma bindA_Inl [simp]:
  "bindA m f h = (Inl e, k) \<longleftrightarrow> m h = (Inl e, k) \<or> (\<exists>a j. m h = (Inr a, j) \<and> f a j = (Inl e, k))"
  by (auto simp: bindA_def split: prod.splits sum.splits)

lemma whenErr_Inr [simp]: "whenErr f m h = (Inr b, k) \<longleftrightarrow> m h = (Inr b, k)"
  by (auto simp: whenErr_def catchA_def split: prod.splits sum.splits)

lemma whenErr_Inl [simp]: "whenErr f m h = (Inl e, k) \<longleftrightarrow> (\<exists>d. m h = (Inl d, k) \<and> e = f d)"
  by (auto simp: whenErr_def catchA_def split: prod.splits sum.splits)

lemma catchA_Inr [simp]: "catchA m f h = (Inr b, k) \<longleftrightarrow>
    m h = (Inr b, k) \<or> (\<exists>e j. m h = (Inl e, j) \<and> f e j = (Inr b, k))"
  by (auto simp: catchA_def split: prod.splits sum.splits)

lemma catchA_Inl [simp]: "catchA m f h = (Inl e, k) \<longleftrightarrow>
    (\<exists>d j. m h = (Inl d, j) \<and> f d j = (Inl e, k))"
  by (auto simp: catchA_def split: prod.splits sum.splits)

lemma liftA_Inr [simp]: "liftA q h = (Inr a, k) \<longleftrightarrow> q (h_db h) = Inr a \<and> k = h"
  by (cases "q (h_db h)") (auto simp: liftA_def)

lemma liftA_Inl [simp]: "liftA q h = (Inl e, k) \<longleftrightarrow> (\<exists>d. q (h_db h) = Inl d \<and> e = FromStore d) \<and> k = h"
  by (cases "q (h_db h)") (auto simp: liftA_def)

lemma callA_Inr [simp]:
  "callA op h = (Inr a, k) \<longleftrightarrow> (\<exists>t. op (h_db h) = (Inr a, t) \<and> k = h\<lparr>h_db := t\<rparr>)"
  by (cases "op (h_db h)"; cases "fst (op (h_db h))") (auto simp: callA_def)

lemma callA_Inl [simp]: "callA op h = (Inl e, k) \<longleftrightarrow>
    (\<exists>d t. op (h_db h) = (Inl d, t) \<and> e = FromStore d \<and> k = h\<lparr>h_db := t\<rparr>)"
  by (cases "op (h_db h)"; cases "fst (op (h_db h))") (auto simp: callA_def)

lemma nowA_Inr [simp]: "nowA sv h = (Inr t, k) \<longleftrightarrow>
    t = rt_now (sv_runtime sv) (h_ticks h) \<and> k = h\<lparr>h_ticks := Suc (h_ticks h)\<rparr>"
  by (auto simp: nowA_def)

lemma nowA_Inl [simp]: "nowA sv h \<noteq> (Inl e, k)" by (simp add: nowA_def)

lemma randA_Inr [simp]: "randA sv n h = (Inr b, k) \<longleftrightarrow>
    b = rt_rand (sv_runtime sv) (h_draws h) n \<and> k = h\<lparr>h_draws := Suc (h_draws h)\<rparr>"
  by (auto simp: randA_def)

lemma randA_Inl [simp]: "randA sv n h \<noteq> (Inl e, k)" by (simp add: randA_def)

text \<open>Evaluation looks at the rest of an action only when its first step has returned.\<close>

lemma bindA_case [code_unfold]:
  "bindA m f = (\<lambda>h. case m h of (r, k) \<Rightarrow> (case r of Inl e \<Rightarrow> (Inl e, k) | Inr a \<Rightarrow> f a k))"
  by (auto simp: bindA_def fun_eq_iff split: prod.splits sum.splits)

lemma catchA_case [code_unfold]:
  "catchA m f = (\<lambda>h. case m h of (r, k) \<Rightarrow> (case r of Inl e \<Rightarrow> f e k | Inr a \<Rightarrow> (Inr a, k)))"
  by (auto simp: catchA_def fun_eq_iff split: prod.splits sum.splits)

section \<open>Normalisation of input\<close>

definition maxPasswordLength :: nat where
  "maxPasswordLength = 1024"

definition lowerLetter :: "char \<Rightarrow> bool" where
  "lowerLetter c \<longleftrightarrow> 97 \<le> byte c \<and> byte c \<le> 122"

definition upperLetter :: "char \<Rightarrow> bool" where
  "upperLetter c \<longleftrightarrow> 65 \<le> byte c \<and> byte c \<le> 90"

text \<open>
  A code point outside ASCII is refused by both checks, and all its bytes are 128 or more, so
  checking the bytes is checking the code points.
\<close>

definition usernameChar :: "char \<Rightarrow> bool" where
  "usernameChar c \<longleftrightarrow> lowerLetter c \<or> isDigit c \<or> c \<in> set ''-_.''"

definition requestIDChar :: "char \<Rightarrow> bool" where
  "requestIDChar c \<longleftrightarrow> lowerLetter c \<or> upperLetter c \<or> isDigit c \<or> c \<in> set ''._:-''"

definition normalizeUsername :: "string \<Rightarrow> service_error + string" where
  "normalizeUsername value = (let value = ToLower (TrimSpace value) in
     if length value < 3 \<or> 64 < length value then Inl (Reason UsernameLength)
     else if list_all usernameChar value then Inr value else Inl (Reason UsernameCharacter))"

definition validatePassword :: "string \<Rightarrow> service_error option" where
  "validatePassword value =
     (if length value < 8 then Some (Reason PasswordTooShort)
      else if maxPasswordLength < length value then Some (Reason PasswordTooLong) else None)"

definition normalizeRole :: "string \<Rightarrow> service_error + string" where
  "normalizeRole value = (let role = TrimSpace value in
     if role = '''' \<or> role = ''member'' then Inr ''member''
     else if role = ''owner'' \<or> role = ''admin'' then Inr role else Inl (Reason RoleUnsupported))"

definition normalizeRequestID :: "string \<Rightarrow> service_error + string" where
  "normalizeRequestID value = (let value = TrimSpace value in
     if length value < 8 \<or> 128 < length value then Inl (Reason RequestIDLength)
     else if list_all requestIDChar value then Inr value else Inl (Reason RequestIDCharacter))"

section \<open>Identifiers and tokens\<close>

definition newID :: "Service \<Rightarrow> string \<Rightarrow> string act" where
  "newID sv pfx = bindA (randA sv 12) (\<lambda>buffer. case buffer of
      None \<Rightarrow> bindA (nowA sv) (\<lambda>t. returnA (pfx @ ''_'' @ showInt t))
    | Some bs \<Rightarrow> returnA (pfx @ ''_'' @ HexEncode bs))"

definition newToken :: "Service \<Rightarrow> string act" where
  "newToken sv = bindA (randA sv 32) (\<lambda>buffer. case buffer of
      None \<Rightarrow> failA FromRuntime | Some bs \<Rightarrow> returnA (HexEncode bs))"

definition hashToken :: "Service \<Rightarrow> string \<Rightarrow> string" where
  "hashToken sv value = HexEncode (rt_sha256 (sv_runtime sv) (TrimSpace value))"

text \<open>What the checks leave: normal forms, on which they are the identity.\<close>

definition validUsername :: "string \<Rightarrow> bool" where
  "validUsername u \<longleftrightarrow> 3 \<le> length u \<and> length u \<le> 64 \<and> list_all usernameChar u"

lemma normalizeUsername_Inr:
  "normalizeUsername v = Inr u \<longleftrightarrow> u = ToLower (TrimSpace v) \<and> validUsername u"
  by (auto simp: normalizeUsername_def Let_def validUsername_def)

lemma ToLower_id: "list_all (\<lambda>c. \<not> upperLetter c \<and> byte c < 128) s \<Longrightarrow> ToLower s = s"
  by (induction s rule: ToLower.induct) (auto simp: lower_char_def upperLetter_def)

definition visible :: "char \<Rightarrow> bool" where
  "visible c \<longleftrightarrow> 32 < byte c \<and> byte c < 128"

lemma usernameChar_visible: "usernameChar c \<Longrightarrow> visible c \<and> \<not> upperLetter c"
  by (auto simp: usernameChar_def lowerLetter_def upperLetter_def isDigit_def visible_def)

lemma requestIDChar_visible: "requestIDChar c \<Longrightarrow> visible c"
  by (auto simp: requestIDChar_def lowerLetter_def upperLetter_def isDigit_def visible_def)

lemma space_len_visible:
  assumes "visible c"
  shows "space_len space1 space2 space3 (c # s) = 0"
    and "space_len space1 (\<lambda>a b. space2 b a) (\<lambda>a b c. space3 c b a) (c # s) = 0"
  using assms by (cases s; cases "tl s"; auto simp: visible_def space1_def space2_def space3_def)+

lemma TrimSpace_visible:
  assumes "s \<noteq> []" and "visible (hd s)" and "visible (last s)" shows "TrimSpace s = s"
proof -
  obtain c r where s: "s = c # r" using assms(1) by (cases s) auto
  obtain d t where rev: "rev s = d # t" using assms(1) by (cases "rev s") auto
  then have "last s = d" by (metis hd_rev list.sel(1))
  with s rev assms show ?thesis
    by (simp add: TrimSpace_def trimLeft_def trimRight_def trim_start_id space_len_visible)
       (metis rev_swap rev.simps(2))
qed

lemma TrimSpace_all_visible: "list_all visible s \<Longrightarrow> TrimSpace s = s"
  by (cases "s = []") (simp_all add: TrimSpace_visible list_all_iff)

lemma normalizeUsername_fixed: "validUsername u \<Longrightarrow> normalizeUsername u = Inr u"
proof -
  assume u: "validUsername u"
  then have "TrimSpace u = u"
    by (auto simp: validUsername_def list_all_iff usernameChar_visible intro!: TrimSpace_all_visible)
  moreover have "ToLower u = u"
    using u usernameChar_visible
    by (auto simp: validUsername_def list_all_iff visible_def intro!: ToLower_id)
  ultimately show ?thesis using u by (simp add: normalizeUsername_Inr)
qed

lemma normalizeRequestID_fixed: "normalizeRequestID v = Inr r \<Longrightarrow> normalizeRequestID r = Inr r"
  by (auto simp: normalizeRequestID_def Let_def split: if_splits)

lemma normalizeRequestID_TrimSpace: "normalizeRequestID v = Inr r \<Longrightarrow> r = TrimSpace v"
  by (auto simp: normalizeRequestID_def Let_def split: if_splits)

lemma normalizeRole_Inr:
  "normalizeRole v = Inr r \<Longrightarrow> r = ''owner'' \<or> r = ''admin'' \<or> r = ''member''"
  by (auto simp: normalizeRole_def Let_def split: if_splits)

end
