(* ===== verification/Svc_Password.thy ===== *)
theory Svc_Password
  imports Svc_Core
begin

text \<open>
  \<open>password.go\<close> and \<open>signing.go\<close> of \<open>internal/service/auth\<close>: the encoded Argon2id hash and its
  verification, and the signed principal token. The hash written by one is read by the other
  (\<open>verify_hash\<close>), and a token splits into the parts it was made of (\<open>token_parts\<close>).
\<close>

section \<open>Password hashes\<close>

definition passwordMemory :: int where "passwordMemory = 64 * 1024"
definition passwordIterations :: int where "passwordIterations = 3"
definition passwordParallelism :: int where "passwordParallelism = 2"
definition passwordKeyLength :: int where "passwordKeyLength = 32"

definition encodeHash :: "Service \<Rightarrow> string \<Rightarrow> string \<Rightarrow> string" where
  "encodeHash sv salt value =
     ''$argon2id$v='' @ showDigits (rt_argon2_version (sv_runtime sv)) @ ''$m='' @ showDigits passwordMemory @
     '',t='' @ showDigits passwordIterations @ '',p='' @ showDigits passwordParallelism @ ''$'' @
     b64Encode stdAlphabet salt @ ''$'' @ b64Encode stdAlphabet value"

definition hashPassword :: "Service \<Rightarrow> string \<Rightarrow> string act" where
  "hashPassword sv password = bindA (randA sv 16) (\<lambda>salt. case salt of
      None \<Rightarrow> failA FromRuntime
    | Some salt \<Rightarrow> returnA (encodeHash sv salt (rt_argon2 (sv_runtime sv) password salt
        passwordIterations passwordMemory passwordParallelism passwordKeyLength)))"

text \<open>\<open>fmt.Sscanf(s, "m=%d,t=%d,p=%d", ...)\<close>; what follows the last number is not read.\<close>

definition scanParameters :: "string \<Rightarrow> (int \<times> int \<times> int) option" where
  "scanParameters s =
     Option.bind (scanLiteral ''m='' s) (\<lambda>s. Option.bind (scanUint 32 s) (\<lambda>(memory, s).
     Option.bind (scanLiteral '',t='' s) (\<lambda>s. Option.bind (scanUint 32 s) (\<lambda>(iterations, s).
     Option.bind (scanLiteral '',p='' s) (\<lambda>s. Option.bind (scanUint 8 s) (\<lambda>(parallelism, s).
     Some (memory, iterations, parallelism)))))))"

definition verifyPassword :: "Service \<Rightarrow> string \<Rightarrow> string \<Rightarrow> service_error + bool" where
  "verifyPassword sv password encoded =
     (let parts = SplitOn (CHR ''$'') (TrimSpace encoded) in
      if length parts \<noteq> 6 \<or> parts ! 0 \<noteq> '''' \<or> parts ! 1 \<noteq> ''argon2id'' then Inl (Reason HashFormat)
      else if Atoi (TrimPrefix ''v='' (parts ! 2)) \<noteq> Some (rt_argon2_version (sv_runtime sv))
      then Inl (Reason HashVersion)
      else case scanParameters (parts ! 3) of None \<Rightarrow> Inl (Reason HashParameters)
      | Some (memory, iterations, parallelism) \<Rightarrow>
        if memory = 0 \<or> iterations = 0 \<or> parallelism = 0 then Inl (Reason HashParameters) else
        case b64Decode stdAlphabet (parts ! 4) of None \<Rightarrow> Inl (Reason HashSalt)
        | Some salt \<Rightarrow>
          if salt = [] then Inl (Reason HashSalt) else
          case b64Decode stdAlphabet (parts ! 5) of None \<Rightarrow> Inl (Reason HashValue)
          | Some want \<Rightarrow>
            if want = [] then Inl (Reason HashValue) else
            Inr (rt_argon2 (sv_runtime sv) password salt iterations memory parallelism
                   (int (length want) mod 2 ^ 32) = want))"

lemma digit_visible: "isDigit c \<Longrightarrow> visible c \<and> c \<noteq> CHR ''$'' \<and> c \<noteq> CHR ''.''"
  by (auto simp: isDigit_def visible_def)

lemma stdAlphabet_plain: "list_all (\<lambda>c. visible c \<and> c \<noteq> CHR ''$'') stdAlphabet"
  by code_simp

lemma b64_std_plain: "c \<in> set (b64Encode stdAlphabet bs) \<Longrightarrow> visible c \<and> c \<noteq> CHR ''$''"
  using b64_chars [OF alphabets(1), of bs] stdAlphabet_plain by (auto simp: list_all_iff)

lemma encodeHash_visible:
  assumes "0 \<le> rt_argon2_version (sv_runtime sv)" shows "list_all visible (encodeHash sv salt value)"
  using showDigits_digits [OF assms] showDigits_digits [of passwordMemory]
    showDigits_digits [of passwordIterations] showDigits_digits [of passwordParallelism]
    digit_visible b64_std_plain
  by (auto simp: encodeHash_def list_all_iff passwordMemory_def passwordIterations_def
      passwordParallelism_def) (auto simp: visible_def)

definition writtenParameters :: string where
  "writtenParameters = ''m=65536,t=3,p=2''"

lemma written_parameters:
  "''m='' @ showDigits passwordMemory @ '',t='' @ showDigits passwordIterations @ '',p='' @
     showDigits passwordParallelism = writtenParameters"
  "CHR ''$'' \<notin> set writtenParameters"
  "scanParameters writtenParameters = Some (passwordMemory, passwordIterations, passwordParallelism)"
  by code_simp+

lemma encodeHash_segments:
  "encodeHash sv salt value = '''' @ CHR ''$'' # ''argon2id'' @ CHR ''$'' #
     (''v='' @ showDigits (rt_argon2_version (sv_runtime sv))) @ CHR ''$'' # writtenParameters @ CHR ''$'' #
     b64Encode stdAlphabet salt @ CHR ''$'' # b64Encode stdAlphabet value"
  by (simp add: encodeHash_def flip: written_parameters(1))

lemma encodeHash_parts:
  assumes "0 \<le> rt_argon2_version (sv_runtime sv)"
  shows "SplitOn (CHR ''$'') (encodeHash sv salt value) =
     ['''', ''argon2id'', ''v='' @ showDigits (rt_argon2_version (sv_runtime sv)), writtenParameters,
      b64Encode stdAlphabet salt, b64Encode stdAlphabet value]"
proof -
  have "CHR ''$'' \<notin> set ''argon2id''" "CHR ''$'' \<notin> set (b64Encode stdAlphabet x)"
    "CHR ''$'' \<notin> set (''v='' @ showDigits (rt_argon2_version (sv_runtime sv)))" for x
    using b64_std_plain showDigits_digits [OF assms] digit_visible by fastforce+
  then show ?thesis
    unfolding encodeHash_segments
    by (simp only: SplitOn_append SplitOn_end written_parameters(2) list.set empty_iff not_False_eq_True)
qed

text \<open>What the check of a written hash computes, whatever the password.\<close>

lemma verify_hash:
  assumes "salt \<noteq> []" and "int (length value) = passwordKeyLength"
    and version: "0 \<le> rt_argon2_version (sv_runtime sv)" "rt_argon2_version (sv_runtime sv) < 2 ^ 63"
  shows "verifyPassword sv password (encodeHash sv salt value) =
     Inr (rt_argon2 (sv_runtime sv) password salt passwordIterations passwordMemory
       passwordParallelism passwordKeyLength = value)"
proof -
  have "value \<noteq> []" using assms(2) by (auto simp: passwordKeyLength_def)
  moreover have "TrimSpace (encodeHash sv salt value) = encodeHash sv salt value"
    by (rule TrimSpace_all_visible, rule encodeHash_visible, rule version)
  moreover have "passwordMemory \<noteq> 0" "passwordIterations \<noteq> 0" "passwordParallelism \<noteq> 0"
    "passwordKeyLength mod 2 ^ 32 = passwordKeyLength"
    "\<And>n. TrimPrefix ''v='' (CHR ''v'' # CHR ''='' # n) = n"
    by (simp_all add: passwordMemory_def passwordIterations_def passwordParallelism_def passwordKeyLength_def
        TrimPrefix_def)
  ultimately show ?thesis
    using assms
    by (simp add: verifyPassword_def encodeHash_parts Let_def Atoi_showDigits
        written_parameters(3) b64_roundtrip alphabets del: power_Suc)
qed

section \<open>Principal tokens\<close>

definition quoted :: "string \<Rightarrow> string" where
  "quoted s = CHR 0x22 # s @ [CHR 0x22]"

definition principalTokenHeader :: string where
  "principalTokenHeader =
     ''{'' @ quoted ''alg'' @ '':'' @ quoted ''EdDSA'' @ '','' @ quoted ''typ'' @ '':'' @
     quoted ''NEXUS-PRINCIPAL'' @ '','' @ quoted ''v'' @ '':1}''"

definition principalClaims :: "Principal \<Rightarrow> string \<Rightarrow> time \<Rightarrow> time \<Rightarrow> PrincipalClaims" where
  "principalClaims p audience now ttl =
     \<lparr>cl_WebAccessDisabled = pn_WebAccessDisabled p, cl_OrganizationRole = pn_OrganizationRole p,
      cl_NodeID = pn_NodeID p, cl_ParentSessionID = pn_ParentSessionID p, cl_AgentIDs = pn_AgentIDs p,
      cl_Version = 1, cl_Issuer = ''nexus-control'', cl_Audience = audience,
      cl_IssuedAt = Unix now, cl_ExpiresAt = Unix (now + ttl),
      cl_DeploymentID = pn_DeploymentID p, cl_OrganizationID = pn_OrganizationID p,
      cl_OrganizationName = pn_OrganizationName p, cl_UserID = pn_UserID p,
      cl_Username = pn_Username p, cl_DisplayName = pn_DisplayName p, cl_Role = pn_Role p,
      cl_Avatar = pn_Avatar p, cl_AuthMethod = pn_AuthMethod p, cl_SessionID = pn_SessionID p,
      cl_Entitlement = pn_Entitlement p\<rparr>"

definition Sign :: "Service \<Rightarrow> Principal \<Rightarrow> string \<Rightarrow> time \<Rightarrow> time \<Rightarrow> service_error + string" where
  "Sign sv who audience now ttl =
     (case rt_marshal (sv_runtime sv) (principalClaims who audience now ttl) of
        None \<Rightarrow> Inl FromRuntime
      | Some payload \<Rightarrow>
        (let signed = b64Encode urlAlphabet principalTokenHeader @ ''.'' @ b64Encode urlAlphabet payload;
             signature = rt_ed25519 (sv_runtime sv) (sg_privateKey (sv_signer sv)) signed
         in Inr (signed @ ''.'' @ b64Encode urlAlphabet signature)))"

definition PublicKey :: "Service \<Rightarrow> string" where
  "PublicKey sv = b64Encode stdAlphabet (sg_publicKey (sv_signer sv))"

lemma urlAlphabet_plain: "list_all (\<lambda>c. c \<noteq> CHR ''.'') urlAlphabet"
  by code_simp

lemma b64_url_plain: "CHR ''.'' \<notin> set (b64Encode urlAlphabet bs)"
  using b64_chars [OF alphabets(2), of bs] urlAlphabet_plain by (auto simp: list_all_iff)

text \<open>The three parts of a token, read back.\<close>

lemma token_parts:
  assumes "Sign sv who audience now ttl = Inr token"
  obtains payload where "rt_marshal (sv_runtime sv) (principalClaims who audience now ttl) = Some payload"
    and "map (b64Decode urlAlphabet) (SplitOn (CHR ''.'') token) =
      [Some principalTokenHeader, Some payload,
       Some (rt_ed25519 (sv_runtime sv) (sg_privateKey (sv_signer sv))
         (b64Encode urlAlphabet principalTokenHeader @ ''.'' @ b64Encode urlAlphabet payload))]"
proof -
  obtain payload where payload: "rt_marshal (sv_runtime sv) (principalClaims who audience now ttl) = Some payload"
    and token: "token = b64Encode urlAlphabet principalTokenHeader @ CHR ''.'' #
      b64Encode urlAlphabet payload @ CHR ''.'' # b64Encode urlAlphabet
        (rt_ed25519 (sv_runtime sv) (sg_privateKey (sv_signer sv))
          (b64Encode urlAlphabet principalTokenHeader @ ''.'' @ b64Encode urlAlphabet payload))"
    using assms by (auto simp: Sign_def Let_def split: option.splits)
  show thesis
    by (rule that [OF payload])
       (simp add: token SplitOn_append SplitOn_end b64_url_plain b64_roundtrip alphabets)
qed

end
