(* ===== verification/Svc_Entitlement.thy ===== *)
theory Svc_Entitlement
  imports Svc_Password
begin

text \<open>
  \<open>entitlement.go\<close> of \<open>internal/service/auth\<close>: the catalogue a manager sees and edits, the
  normal form of a plan, and the entitlement that every principal carries.
\<close>

record SubscriptionPlan =
  sp_PlanKey :: string
  sp_DisplayName :: string
  sp_Status :: string
  sp_MonthlyTokenLimit :: "int option"
  sp_Notes :: string
  sp_SortOrder :: int

record SubscriptionAccount =
  sc_UserID :: string
  sc_Username :: string
  sc_DisplayName :: string
  sc_Role :: string
  sc_UserStatus :: string
  sc_PlanKey :: string
  sc_PlanName :: string
  sc_MonthlyTokenLimit :: "int option"
  sc_Avatar :: string
  sc_LastLoginAt :: "time option"
  sc_CreatedAt :: time
  sc_UpdatedAt :: time

record SubscriptionOverview =
  so_Plans :: "SubscriptionPlan list"
  so_Accounts :: "SubscriptionAccount list"
  so_UpdatedAt :: time

record UpsertSubscriptionPlanInput =
  pi_PlanKey :: string
  pi_DisplayName :: string
  pi_Status :: string
  pi_MonthlyTokenLimit :: "int option"
  pi_Notes :: string
  pi_SortOrder :: int

text \<open>The regular expression of plan keys: a letter or digit, then at most 63 more or \<open>_\<close>, \<open>-\<close>.\<close>

definition alphanumeric :: "char \<Rightarrow> bool" where
  "alphanumeric c \<longleftrightarrow> lowerLetter c \<or> upperLetter c \<or> isDigit c"

definition planKeyPattern :: "string \<Rightarrow> bool" where
  "planKeyPattern k \<longleftrightarrow> (case k of [] \<Rightarrow> False
     | c # r \<Rightarrow> alphanumeric c \<and> length r \<le> 63 \<and>
         list_all (\<lambda>d. alphanumeric d \<or> d = CHR ''_'' \<or> d = CHR ''-'') r)"

definition trimmedPlan :: "UpsertSubscriptionPlanInput \<Rightarrow> UpsertSubscriptionPlanInput" where
  "trimmedPlan raw = raw\<lparr>pi_PlanKey := TrimSpace (pi_PlanKey raw),
     pi_DisplayName := TrimSpace (pi_DisplayName raw), pi_Status := TrimSpace (pi_Status raw),
     pi_Notes := TrimSpace (pi_Notes raw)\<rparr>"

definition defaultStatus :: "string \<Rightarrow> string" where
  "defaultStatus status = (if status = '''' then ''active'' else status)"

definition defaultOrder :: "int \<Rightarrow> int" where
  "defaultOrder n = (if n = 0 then 100 else n)"

definition normalizeSubscriptionPlan ::
  "UpsertSubscriptionPlanInput \<Rightarrow> service_error + UpsertSubscriptionPlanInput" where
  "normalizeSubscriptionPlan raw =
     (let input = trimmedPlan raw; status = defaultStatus (pi_Status input) in
      if \<not> planKeyPattern (pi_PlanKey input) then Inl (Reason PlanKeyInvalid)
      else if pi_DisplayName input = '''' \<or> 128 < length (pi_DisplayName input)
      then Inl (Reason DisplayNameInvalid)
      else if status \<noteq> ''active'' \<and> status \<noteq> ''archived'' then Inl (Reason PlanStatusInvalid)
      else if pi_PlanKey input = ''free'' \<and> status \<noteq> ''active'' then Inl (Reason FreePlanArchived)
      else if (case pi_MonthlyTokenLimit input of None \<Rightarrow> False | Some n \<Rightarrow> n < 0)
      then Inl (Reason TokenLimitInvalid)
      else if 4096 < length (pi_Notes input) then Inl (Reason NotesTooLong)
      else Inr (input\<lparr>pi_Status := status, pi_SortOrder := defaultOrder (pi_SortOrder input)\<rparr>))"

definition validateImportedSubscriptionPlan :: "UpsertSubscriptionPlanInput \<Rightarrow> service_error option" where
  "validateImportedSubscriptionPlan input =
     (case normalizeSubscriptionPlan input of Inl e \<Rightarrow> Some (Wrapped e) | Inr _ \<Rightarrow> None)"

definition entitlementFromRecord :: "EntitlementRecord \<Rightarrow> Entitlement" where
  "entitlementFromRecord r = \<lparr>en_PlanKey = er_PlanKey r, en_PlanName = er_PlanName r,
     en_MonthlyTokenLimit = er_MonthlyTokenLimit r, en_UpdatedAt = er_UpdatedAt r\<rparr>"

definition subscriptionPlanFromRecord :: "plan_row \<Rightarrow> SubscriptionPlan" where
  "subscriptionPlanFromRecord r = \<lparr>sp_PlanKey = p_plan_key r, sp_DisplayName = p_display_name r,
     sp_Status = p_status r, sp_MonthlyTokenLimit = p_monthly_token_limit r, sp_Notes = p_notes r,
     sp_SortOrder = p_sort_order r\<rparr>"

definition subscriptionAccountFromRecord :: "SubscriptionAccountRecord \<Rightarrow> SubscriptionAccount" where
  "subscriptionAccountFromRecord r = \<lparr>sc_UserID = sa_UserID r, sc_Username = sa_Username r,
     sc_DisplayName = sa_DisplayName r, sc_Role = sa_Role r, sc_UserStatus = sa_MembershipStatus r,
     sc_PlanKey = sa_PlanKey r, sc_PlanName = sa_PlanName r,
     sc_MonthlyTokenLimit = sa_MonthlyTokenLimit r, sc_Avatar = sa_Avatar r,
     sc_LastLoginAt = sa_LastLoginAt r, sc_CreatedAt = sa_CreatedAt r,
     sc_UpdatedAt = (if After (sa_EntitlementUpdatedAt r) (sa_UpdatedAt r)
        then sa_EntitlementUpdatedAt r else sa_UpdatedAt r)\<rparr>"

text \<open>\<open>role != RoleOwner && role != RoleAdmin\<close>, the check at the entry of every management call.\<close>

definition isManager :: "string \<Rightarrow> bool" where
  "isManager role \<longleftrightarrow> role = ''owner'' \<or> role = ''admin''"

definition svc_SubscriptionOverview :: "Service \<Rightarrow> Principal \<Rightarrow> SubscriptionOverview act" where
  "svc_SubscriptionOverview sv actor =
     (if \<not> isManager (pn_Role actor) then failA ErrForbidden else
      bindA (readA (repo_ListSubscriptionPlans (pn_DeploymentID actor))) (\<lambda>plans.
      bindA (readA (repo_ListSubscriptionAccounts (pn_DeploymentID actor))) (\<lambda>accounts.
      bindA (nowA sv) (\<lambda>now.
      returnA \<lparr>so_Plans = map subscriptionPlanFromRecord plans,
        so_Accounts = map subscriptionAccountFromRecord accounts, so_UpdatedAt = now\<rparr>))))"

definition planRow :: "string \<Rightarrow> UpsertSubscriptionPlanInput \<Rightarrow> plan_row" where
  "planRow dep p = \<lparr>p_deployment_id = dep, p_plan_key = pi_PlanKey p,
     p_display_name = pi_DisplayName p, p_status = pi_Status p,
     p_monthly_token_limit = pi_MonthlyTokenLimit p, p_notes = pi_Notes p,
     p_sort_order = pi_SortOrder p, p_created_at = zeroTime, p_updated_at = zeroTime\<rparr>"

definition invalid :: "service_error + 'a \<Rightarrow> service_error + 'a" where
  "invalid r = map_sum (\<lambda>e. joinError ErrRequestInvalid (Some e)) id r"

definition svc_UpsertSubscriptionPlan ::
  "Service \<Rightarrow> Principal \<Rightarrow> UpsertSubscriptionPlanInput \<Rightarrow> SubscriptionOverview act" where
  "svc_UpsertSubscriptionPlan sv actor input =
     (if \<not> isManager (pn_Role actor) then failA ErrForbidden else
      bindA (checkA (invalid (normalizeSubscriptionPlan input))) (\<lambda>normalized.
      bindA (nowA sv) (\<lambda>now.
      bindA (callA (repo_UpsertSubscriptionPlan (planRow (pn_DeploymentID actor) normalized) now)) (\<lambda>_.
      svc_SubscriptionOverview sv actor))))"

text \<open>\<open>if errors.Is(err, store.X) { return Y }\<close>, tried in order.\<close>

fun mapStoreError :: "(store_error \<times> service_error) list \<Rightarrow> service_error \<Rightarrow> service_error" where
  "mapStoreError [] e = e"
| "mapStoreError ((d, f) # rules) e = (if errorIs e (FromStore d) then f else mapStoreError rules e)"

definition svc_UpdateMemberEntitlement ::
  "Service \<Rightarrow> Principal \<Rightarrow> string \<Rightarrow> string \<Rightarrow> SubscriptionOverview act" where
  "svc_UpdateMemberEntitlement sv actor userID inputPlanKey =
     (if \<not> isManager (pn_Role actor) then failA ErrForbidden else
      let userID = TrimSpace userID; planKey = TrimSpace inputPlanKey in
      if userID = '''' \<or> \<not> planKeyPattern planKey then failA ErrRequestInvalid else
      bindA (nowA sv) (\<lambda>now.
      bindA (whenErr (mapStoreError [(StoreErrPlanNotFound, ErrPlanNotFound), (StoreErrNotFound, ErrNotFound)])
        (callA (repo_SetMemberEntitlement (pn_DeploymentID actor) userID planKey now))) (\<lambda>_.
      svc_SubscriptionOverview sv actor)))"

definition svc_EffectiveEntitlement :: "string \<Rightarrow> string \<Rightarrow> Entitlement act" where
  "svc_EffectiveEntitlement deploymentID userID =
     (let deploymentID = TrimSpace deploymentID; userID = TrimSpace userID in
      if deploymentID = '''' \<or> userID = '''' then failA ErrRequestInvalid else
      bindA (whenErr (mapStoreError [(StoreErrNotFound, ErrNotFound)])
        (liftA (repo_EffectiveEntitlement deploymentID userID))) (\<lambda>record.
      returnA (entitlementFromRecord record)))"

definition attachEntitlement :: "Principal \<Rightarrow> Principal act" where
  "attachEntitlement p = bindA (svc_EffectiveEntitlement (pn_DeploymentID p) (pn_UserID p))
     (\<lambda>e. returnA (p\<lparr>pn_Entitlement := e\<rparr>))"

section \<open>Normal forms\<close>

lemma planKeyPattern_visible: "planKeyPattern k \<Longrightarrow> list_all visible k"
  by (auto simp: planKeyPattern_def list_all_iff alphanumeric_def lowerLetter_def upperLetter_def
      isDigit_def visible_def split: list.splits)

text \<open>A normalised plan is accepted as it is by the schema and by a second normalisation.\<close>

definition normalPlan :: "UpsertSubscriptionPlanInput \<Rightarrow> bool" where
  "normalPlan p \<longleftrightarrow> trimmedPlan p = p \<and> planKeyPattern (pi_PlanKey p) \<and>
     pi_DisplayName p \<noteq> '''' \<and> length (pi_DisplayName p) \<le> 128 \<and>
     (pi_Status p = ''active'' \<or> pi_Status p = ''archived'') \<and>
     (pi_PlanKey p = ''free'' \<longrightarrow> pi_Status p = ''active'') \<and>
     (case pi_MonthlyTokenLimit p of None \<Rightarrow> True | Some n \<Rightarrow> 0 \<le> n) \<and>
     length (pi_Notes p) \<le> 4096 \<and> pi_SortOrder p \<noteq> 0"

lemma TrimSpace_statuses [simp]: "TrimSpace ''active'' = ''active''" "TrimSpace ''archived'' = ''archived''"
  by (simp_all add: TrimSpace_visible visible_def)

lemma normalizeSubscriptionPlan_Inr:
  assumes "normalizeSubscriptionPlan raw = Inr p" shows "normalPlan p"
proof -
  have "planKeyPattern (pi_PlanKey (trimmedPlan raw))" "pi_DisplayName (trimmedPlan raw) \<noteq> ''''"
    "length (pi_DisplayName (trimmedPlan raw)) \<le> 128" "length (pi_Notes (trimmedPlan raw)) \<le> 4096"
    "pi_PlanKey (trimmedPlan raw) = ''free'' \<longrightarrow> defaultStatus (pi_Status (trimmedPlan raw)) = ''active''"
    "\<not> (case pi_MonthlyTokenLimit (trimmedPlan raw) of None \<Rightarrow> False | Some n \<Rightarrow> n < 0)"
    and p: "p = (trimmedPlan raw)\<lparr>pi_Status := defaultStatus (pi_Status (trimmedPlan raw)),
      pi_SortOrder := defaultOrder (pi_SortOrder (trimmedPlan raw))\<rparr>"
    and status: "defaultStatus (pi_Status (trimmedPlan raw)) = ''active'' \<or>
      defaultStatus (pi_Status (trimmedPlan raw)) = ''archived''"
    using assms unfolding normalizeSubscriptionPlan_def Let_def by (metis Inl_Inr_False sum.inject(2) not_less)+
  moreover have "trimmedPlan p = p"
    using status by (cases raw) (auto simp: p trimmedPlan_def)
  ultimately show ?thesis
    by (simp add: normalPlan_def defaultOrder_def not_less split: option.splits)
qed

lemma normalPlan_fixed: "normalPlan p \<Longrightarrow> normalizeSubscriptionPlan p = Inr p"
  by (cases "pi_MonthlyTokenLimit p")
     (auto simp: normalizeSubscriptionPlan_def Let_def normalPlan_def defaultStatus_def defaultOrder_def)

lemma attachEntitlement_Inr:
  "attachEntitlement p h = (Inr q, k) \<longleftrightarrow> k = h \<and> TrimSpace (pn_DeploymentID p) \<noteq> '''' \<and>
     TrimSpace (pn_UserID p) \<noteq> '''' \<and>
     (\<exists>r. repo_EffectiveEntitlement (TrimSpace (pn_DeploymentID p)) (TrimSpace (pn_UserID p)) (h_db h) = Inr r \<and>
        q = p\<lparr>pn_Entitlement := entitlementFromRecord r\<rparr>)"
  by (auto simp: attachEntitlement_def svc_EffectiveEntitlement_def Let_def)

lemma attachEntitlement_Inl_host: "attachEntitlement p h = (Inl e, k) \<Longrightarrow> k = h"
  by (auto simp: attachEntitlement_def svc_EffectiveEntitlement_def Let_def split: if_splits)

end
