(* ===== verification/Svc_Session.thy ===== *)
theory Svc_Session
  imports Svc_Entitlement
begin

text \<open>
  \<open>service.go\<close> of \<open>internal/service/auth\<close>: the set-up of the deployment, login and logout, the
  resolution of sessions to principals, and the tokens issued for them.
\<close>

section \<open>Principals\<close>

definition zeroEntitlement :: Entitlement where
  "zeroEntitlement = \<lparr>en_PlanKey = '''', en_PlanName = '''', en_MonthlyTokenLimit = None,
     en_UpdatedAt = zeroTime\<rparr>"

definition principalFromRecord :: "PrincipalRecord \<Rightarrow> Principal" where
  "principalFromRecord r = \<lparr>pn_WebAccessDisabled = pr_WebAccessDisabled r,
     pn_OrganizationRole = pr_OrganizationRole r, pn_NodeID = '''', pn_ParentSessionID = '''',
     pn_AgentIDs = [], pn_DeploymentID = pr_DeploymentID r, pn_OrganizationID = pr_OrganizationID r,
     pn_OrganizationName = pr_OrganizationName r, pn_UserID = pr_UserID r,
     pn_Username = pr_Username r, pn_DisplayName = pr_DisplayName r, pn_Role = pr_Role r,
     pn_Avatar = pr_Avatar r, pn_AuthMethod = pr_AuthMethod r, pn_SessionID = pr_SessionID r,
     pn_Entitlement = zeroEntitlement\<rparr>"

definition principalRecord :: "Principal \<Rightarrow> PrincipalRecord" where
  "principalRecord p = \<lparr>pr_WebAccessDisabled = pn_WebAccessDisabled p,
     pr_OrganizationRole = pn_OrganizationRole p, pr_DeploymentID = pn_DeploymentID p,
     pr_OrganizationID = pn_OrganizationID p, pr_OrganizationName = pn_OrganizationName p,
     pr_UserID = pn_UserID p, pr_Username = pn_Username p, pr_DisplayName = pn_DisplayName p,
     pr_Role = pn_Role p, pr_Avatar = pn_Avatar p, pr_AuthMethod = pn_AuthMethod p,
     pr_SessionID = pn_SessionID p\<rparr>"

lemma principalRecord_from [simp]: "principalRecord (principalFromRecord r) = r"
  by (simp add: principalRecord_def principalFromRecord_def)

section \<open>Set-up\<close>

record State =
  st_RegistrationEnabled :: bool
  st_SetupRequired :: bool
  st_SetupEnabled :: bool
  st_AuthRequired :: bool
  st_PasswordLoginEnabled :: bool

definition svc_State :: "Service \<Rightarrow> State act" where
  "svc_State sv = bindA (readA repo_SetupRequired) (\<lambda>required.
     returnA \<lparr>st_RegistrationEnabled = sv_registrationEnabled sv \<and> \<not> required,
       st_SetupRequired = required, st_SetupEnabled = sv_setupEnabled sv, st_AuthRequired = True,
       st_PasswordLoginEnabled = (\<not> required)\<rparr>)"

record SetupOwnerInput =
  su_Username :: string
  su_DisplayName :: string
  su_Password :: string
  su_DeploymentName :: string
  su_OrganizationName :: string

text \<open>An error that the code joins to \<open>ErrRequestInvalid\<close>, as an action.\<close>

definition refuse :: "reason \<Rightarrow> 'a act" where
  "refuse r = failA (joinError ErrRequestInvalid (Some (Reason r)))"

definition checkPassword :: "string \<Rightarrow> unit act" where
  "checkPassword value = (case validatePassword value of None \<Rightarrow> returnA ()
     | Some e \<Rightarrow> failA (joinError ErrRequestInvalid (Some e)))"

text \<open>\<open>if name == "" { name = other }\<close> after trimming.\<close>

definition trimOr :: "string \<Rightarrow> string \<Rightarrow> string" where
  "trimOr value other = (if TrimSpace value = '''' then other else TrimSpace value)"

definition ownerPrincipal :: "string \<Rightarrow> string \<Rightarrow> string \<Rightarrow> string \<Rightarrow> string \<Rightarrow> string \<Rightarrow> Principal" where
  "ownerPrincipal dep org orgName uid username displayName =
     \<lparr>pn_WebAccessDisabled = False, pn_OrganizationRole = ''owner'', pn_NodeID = '''',
      pn_ParentSessionID = '''', pn_AgentIDs = [], pn_DeploymentID = dep, pn_OrganizationID = org,
      pn_OrganizationName = orgName, pn_UserID = uid, pn_Username = username,
      pn_DisplayName = displayName, pn_Role = ''owner'', pn_Avatar = '''',
      pn_AuthMethod = ''password'', pn_SessionID = '''', pn_Entitlement = zeroEntitlement\<rparr>"

definition ownerRecord :: "Principal \<Rightarrow> string \<Rightarrow> string \<Rightarrow> string \<Rightarrow> string \<Rightarrow> time \<Rightarrow> OwnerRecord" where
  "ownerRecord p deploymentName idn cred hash now =
     \<lparr>ow_DeploymentID = pn_DeploymentID p, ow_DeploymentName = deploymentName,
      ow_OrganizationID = pn_OrganizationID p, ow_OrganizationName = pn_OrganizationName p,
      ow_UserID = pn_UserID p, ow_IdentityID = idn, ow_CredentialID = cred,
      ow_Username = pn_Username p, ow_DisplayName = pn_DisplayName p, ow_PasswordHash = hash,
      ow_CreatedAt = now\<rparr>"

definition svc_SetupOwner :: "Service \<Rightarrow> SetupOwnerInput \<Rightarrow> Principal act" where
  "svc_SetupOwner sv input =
     bindA (checkA (invalid (normalizeUsername (su_Username input)))) (\<lambda>username.
     bindA (checkPassword (su_Password input)) (\<lambda>_.
     let displayName = trimOr (su_DisplayName input) username;
         deploymentName = trimOr (su_DeploymentName input) ''Nexus'';
         organizationName = trimOr (su_OrganizationName input) deploymentName
     in if 128 < length displayName then refuse DisplayNameTooLong
     else if 128 < length deploymentName then refuse DeploymentNameTooLong
     else if 128 < length organizationName then refuse OrganizationNameTooLong
     else
     bindA (hashPassword sv (su_Password input)) (\<lambda>passwordHash.
     bindA (newID sv ''dep'') (\<lambda>dep. bindA (newID sv ''org'') (\<lambda>org. bindA (newID sv ''user'') (\<lambda>uid.
     bindA (newID sv ''idn'') (\<lambda>idn. bindA (newID sv ''cred'') (\<lambda>cred. bindA (nowA sv) (\<lambda>now.
     let p = ownerPrincipal dep org organizationName uid username displayName in
     bindA (whenErr (mapStoreError [(StoreErrAlreadySetup, ErrAlreadySetup)])
       (callA (repo_CreateOwner (ownerRecord p deploymentName idn cred passwordHash now)))) (\<lambda>_.
     attachEntitlement p))))))))))"

section \<open>Login\<close>

record LoginInput =
  li_Username :: string
  li_Password :: string
  li_ClientIP :: string
  li_UserAgent :: string

record LoginResult =
  lo_SessionToken :: string
  lo_Principal :: Principal

definition loginSession :: "Service \<Rightarrow> LoginInput \<Rightarrow> Principal \<Rightarrow> string \<Rightarrow> time \<Rightarrow> SessionRecord" where
  "loginSession sv input p token now =
     \<lparr>sr_SessionID = pn_SessionID p, sr_TokenHash = hashToken sv token,
      sr_Principal = principalRecord p, sr_ExpiresAt = now + sv_sessionTTL sv,
      sr_ClientIP = li_ClientIP input, sr_UserAgent = li_UserAgent input, sr_CreatedAt = now\<rparr>"

text \<open>What the stored login record must satisfy for the password to be accepted.\<close>

definition acceptedLogin :: "Service \<Rightarrow> string \<Rightarrow> LoginRecord \<Rightarrow> bool" where
  "acceptedLogin sv password r \<longleftrightarrow> verifyPassword sv password (lr_PasswordHash r) = Inr True \<and>
     lr_UserStatus r = ''active'' \<and> lr_MembershipState r = ''active''"

definition svc_Login :: "Service \<Rightarrow> LoginInput \<Rightarrow> LoginResult act" where
  "svc_Login sv input =
     (case normalizeUsername (li_Username input) of
        Inl _ \<Rightarrow> failA ErrInvalidCredentials
      | Inr username \<Rightarrow>
        if TrimSpace (li_Password input) = '''' \<or> maxPasswordLength < length (li_Password input)
        then failA ErrInvalidCredentials else
        bindA (readA (repo_LoginRecord username)) (\<lambda>record. case record of
          None \<Rightarrow> failA ErrInvalidCredentials
        | Some r \<Rightarrow>
          if \<not> acceptedLogin sv (li_Password input) r then failA ErrInvalidCredentials else
          bindA (newID sv ''sess'') (\<lambda>sid.
          bindA (attachEntitlement ((principalFromRecord (lr_Principal r))
            \<lparr>pn_AuthMethod := ''password'', pn_SessionID := sid\<rparr>)) (\<lambda>p.
          bindA (newToken sv) (\<lambda>token.
          bindA (nowA sv) (\<lambda>now.
          bindA (callA (repo_CreateSession (loginSession sv input p token now))) (\<lambda>_.
          returnA \<lparr>lo_SessionToken = token, lo_Principal = p\<rparr>)))))))"

definition svc_Logout :: "Service \<Rightarrow> string \<Rightarrow> unit act" where
  "svc_Logout sv token =
     (if TrimSpace token = '''' then returnA () else
      bindA (nowA sv) (\<lambda>now.
      bindA (callA (repo_RevokeSession (hashToken sv token) now)) (\<lambda>_. returnA ())))"

section \<open>Resolution\<close>

definition touched :: "PrincipalRecord \<Rightarrow> time \<Rightarrow> Principal act" where
  "touched record now = bindA (callA (repo_TouchSession (pr_SessionID record) now)) (\<lambda>_.
     attachEntitlement (principalFromRecord record))"

definition svc_ResolveSession :: "Service \<Rightarrow> string \<Rightarrow> Principal option act" where
  "svc_ResolveSession sv token =
     (if TrimSpace token = '''' then returnA None else
      bindA (nowA sv) (\<lambda>now.
      bindA (readA (repo_ResolveSessionByTokenHash (hashToken sv token) now)) (\<lambda>found. case found of
          None \<Rightarrow> returnA None
        | Some record \<Rightarrow> bindA (touched record now) (\<lambda>p. returnA (Some p)))))"

definition svc_VerifyBoundHuman :: "Service \<Rightarrow> string \<Rightarrow> string \<Rightarrow> Principal act" where
  "svc_VerifyBoundHuman sv userID sessionID =
     bindA (nowA sv) (\<lambda>now.
     bindA (readA (repo_ResolveSessionByID (TrimSpace sessionID) now)) (\<lambda>found. case found of
         None \<Rightarrow> failA ErrInvalidCredentials
       | Some record \<Rightarrow> if pr_UserID record \<noteq> TrimSpace userID then failA ErrInvalidCredentials
           else touched record now))"

section \<open>Tokens\<close>

definition relayUserAudience :: string where
  "relayUserAudience = ''nexus-relay-user''"

definition signPrincipal :: "Service \<Rightarrow> Principal \<Rightarrow> string \<Rightarrow> string act" where
  "signPrincipal sv p audience = (let audience = TrimSpace audience in
     if audience = relayUserAudience \<and> (pn_OrganizationID p = '''' \<or> pn_OrganizationRole p = '''')
     then failA ErrForbidden
     else if audience = '''' \<or> audience \<notin> set (sv_audiences sv) then refuse AudienceInvalid
     else bindA (nowA sv) (\<lambda>now. checkA (Sign sv p audience now (sv_principalTTL sv))))"

definition svc_ExchangeBoundHuman :: "Service \<Rightarrow> string \<Rightarrow> string \<Rightarrow> string \<Rightarrow> string act" where
  "svc_ExchangeBoundHuman sv userID sessionID audience =
     bindA (svc_VerifyBoundHuman sv userID sessionID) (\<lambda>p. signPrincipal sv p audience)"

definition svc_ExchangePrincipal :: "Service \<Rightarrow> string \<Rightarrow> string \<Rightarrow> (string \<times> Principal option) act" where
  "svc_ExchangePrincipal sv token audience =
     bindA (svc_ResolveSession sv token) (\<lambda>found. case found of
         None \<Rightarrow> returnA ('''', None)
       | Some p \<Rightarrow> bindA (signPrincipal sv p audience) (\<lambda>t. returnA (t, Some p)))"

section \<open>Roles and profiles\<close>

definition svc_ActiveRole :: "string \<Rightarrow> string act" where
  "svc_ActiveRole userID =
     whenErr (mapStoreError [(StoreErrNotFound, ErrNotFound)]) (liftA (repo_ActiveRole userID))"

definition userFromRecord :: "UserRecord \<Rightarrow> User" where
  "userFromRecord r = \<lparr>us_UserID = ur_UserID r, us_Username = ur_Username r,
     us_DisplayName = ur_DisplayName r, us_Status = ur_Status r, us_Avatar = ur_Avatar r,
     us_LastLoginAt = ur_LastLoginAt r, us_CreatedAt = ur_CreatedAt r, us_UpdatedAt = ur_UpdatedAt r\<rparr>"

definition svc_UserByID :: "string \<Rightarrow> User act" where
  "svc_UserByID userID =
     bindA (whenErr (mapStoreError [(StoreErrNotFound, ErrNotFound)]) (liftA (repo_UserByID userID)))
       (\<lambda>record. returnA (userFromRecord record))"

definition svc_UpdateAvatar :: "Service \<Rightarrow> string \<Rightarrow> string \<Rightarrow> User act" where
  "svc_UpdateAvatar sv userID avatar = (let avatar = TrimSpace avatar in
     if 255 < length avatar then refuse AvatarTooLong else
     bindA (nowA sv) (\<lambda>now.
     bindA (whenErr (mapStoreError [(StoreErrNotFound, ErrNotFound)])
       (callA (repo_UpdateAvatar userID avatar now))) (\<lambda>_.
     svc_UserByID userID)))"

end
