(* ===== verification/Svc_Import.thy ===== *)
theory Svc_Import
  imports Svc_Session
begin

text \<open>
  \<open>import.go\<close> and \<open>import_organization.go\<close> of \<open>internal/service/auth\<close>: filling an empty Control
  from the database of an old Nexus or of an old Control. A source is opened read-only at a
  path; what is there, if anything, is a parameter. An old Control has this program's own
  tables; of an old Nexus the columns that the queries name are kept.
\<close>

section \<open>Sources\<close>

definition controlSQLiteImportSchemaVersion :: int where
  "controlSQLiteImportSchemaVersion = 11"

record nexus_user =
  nu_User :: UserRecord
  nu_Role :: string

record nexus_credential =
  nc_user_id :: string
  nc_CredentialID :: string
  nc_PasswordHash :: string
  nc_PasswordAlgorithm :: string
  nc_PasswordUpdatedAt :: time
  nc_CreatedAt :: time
  nc_UpdatedAt :: time

record nexus_db =
  nx_users :: "nexus_user list"
  nx_credentials :: "nexus_credential list"
  nx_plans :: "plan_row list option"
  nx_subscriptions :: "ImportedEntitlementRecord list option"

record control_source =
  cs_version :: int
  cs_db :: db

definition openReadOnlySQLite :: "(string \<Rightarrow> 'a option) \<Rightarrow> string \<Rightarrow> 'a act" where
  "openReadOnlySQLite sourceAt path =
     (if TrimSpace path = '''' then failA (Reason SourcePathInvalid)
      else case sourceAt (TrimSpace path) of None \<Rightarrow> failA (Wrapped FromRuntime) | Some x \<Rightarrow> returnA x)"

text \<open>\<open>for _, x := range xs { y, err := f(x); ... ys = append(ys, y) }\<close>\<close>

fun mapA :: "('a \<Rightarrow> 'b act) \<Rightarrow> 'a list \<Rightarrow> 'b list act" where
  "mapA f [] = returnA []"
| "mapA f (x # xs) = bindA (f x) (\<lambda>y. bindA (mapA f xs) (\<lambda>ys. returnA (y # ys)))"

section \<open>An old Nexus\<close>

definition nexusUsers :: "nexus_db \<Rightarrow> (nexus_user \<times> nexus_credential) list" where
  "nexusUsers src = sort_key (\<lambda>(u, c). ur_CreatedAt (nu_User u))
     [(u, c). u \<leftarrow> nx_users src, ur_UserID (nu_User u) \<noteq> ''__system__'',
              c \<leftarrow> nx_credentials src, nc_user_id c = ur_UserID (nu_User u)]"

definition scanImportedUser :: "nexus_user \<Rightarrow> nexus_credential \<Rightarrow> string \<Rightarrow> ImportedUserRecord" where
  "scanImportedUser u c idn = \<lparr>iu_WebAccessDisabled = False, iu_User = nu_User u, iu_Role = nu_Role u,
     iu_MembershipStatus = '''', iu_MembershipCreated = zeroTime, iu_MembershipUpdated = zeroTime,
     iu_IdentityID = idn, iu_IdentityCreated = zeroTime, iu_IdentityUpdated = zeroTime,
     iu_CredentialID = nc_CredentialID c, iu_PasswordHash = nc_PasswordHash c,
     iu_PasswordAlgorithm = nc_PasswordAlgorithm c, iu_PasswordUpdatedAt = nc_PasswordUpdatedAt c,
     iu_CredentialCreated = nc_CreatedAt c, iu_CredentialUpdated = nc_UpdatedAt c\<rparr>"

definition importNexusUser :: "Service \<Rightarrow> nexus_user \<times> nexus_credential \<Rightarrow> ImportedUserRecord act" where
  "importNexusUser sv = (\<lambda>(u, c).
     if isl (normalizeRole (nu_Role u)) \<or> nc_PasswordAlgorithm c \<noteq> ''argon2id''
     then failA (Reason SourceUserUnsupported)
     else bindA (newID sv ''idn'') (\<lambda>idn. returnA (scanImportedUser u c idn)))"

definition planInput :: "plan_row \<Rightarrow> UpsertSubscriptionPlanInput" where
  "planInput p = \<lparr>pi_PlanKey = p_plan_key p, pi_DisplayName = p_display_name p, pi_Status = p_status p,
     pi_MonthlyTokenLimit = p_monthly_token_limit p, pi_Notes = p_notes p, pi_SortOrder = p_sort_order p\<rparr>"

definition checkPlan :: "plan_row \<Rightarrow> plan_row act" where
  "checkPlan p = (case validateImportedSubscriptionPlan (planInput p) of
       Some e \<Rightarrow> failA e | None \<Rightarrow> returnA p)"

definition scanImportedSubscriptions :: "nexus_db \<Rightarrow> (plan_row list \<times> ImportedEntitlementRecord list) act" where
  "scanImportedSubscriptions src = (case nx_plans src of
       None \<Rightarrow> returnA ([], [])
     | Some rows \<Rightarrow>
       bindA (mapA checkPlan (sort_key (\<lambda>p. (p_sort_order p, p_plan_key p)) rows)) (\<lambda>plans.
       case nx_subscriptions src of None \<Rightarrow> returnA (plans, [])
       | Some subs \<Rightarrow> returnA (plans, sort_key ie_UserID
           (filter (\<lambda>x. ie_UserID x \<noteq> ''__system__'' \<and>
              ie_UserID x \<in> set (map (\<lambda>u. ur_UserID (nu_User u)) (nx_users src))) subs))))"

definition svc_ImportNexusSQLite ::
  "Service \<Rightarrow> (string \<Rightarrow> nexus_db option) \<Rightarrow> string \<Rightarrow> string \<Rightarrow> unit act" where
  "svc_ImportNexusSQLite sv sourceAt path rawName =
     bindA (svc_State sv) (\<lambda>state.
     if \<not> st_SetupRequired state then failA ErrAlreadySetup else
     bindA (openReadOnlySQLite sourceAt path) (\<lambda>src.
     bindA (mapA (importNexusUser sv) (nexusUsers src)) (\<lambda>items.
     if items = [] then failA (Reason SourceNoUsers) else
     bindA (scanImportedSubscriptions src) (\<lambda>(plans, entitlements).
     bindA (newID sv ''dep'') (\<lambda>dep. bindA (nowA sv) (\<lambda>now.
     whenErr (mapStoreError [(StoreErrAlreadySetup, ErrAlreadySetup)])
       (callA (repo_ImportDeployment dep (trimOr rawName ''Nexus'') items plans entitlements now))))))))"

definition svc_ImportNexusSubscriptionsSQLite ::
  "Service \<Rightarrow> (string \<Rightarrow> nexus_db option) \<Rightarrow> string \<Rightarrow> unit act" where
  "svc_ImportNexusSubscriptionsSQLite sv sourceAt path =
     bindA (svc_State sv) (\<lambda>state.
     if st_SetupRequired state then failA (Reason NotSetUp) else
     bindA (openReadOnlySQLite sourceAt path) (\<lambda>src.
     bindA (scanImportedSubscriptions src) (\<lambda>(plans, entitlements).
     if plans = [] then failA (Reason SourceNoPlans) else
     bindA (nowA sv) (\<lambda>now. callA (repo_ImportSubscriptions plans entitlements now)))))"

section \<open>An old Control\<close>

type_synonym account_row = "user_row \<times> identity_row \<times> credential_row \<times> membership_row"

definition controlAccounts :: "string \<Rightarrow> db \<Rightarrow> account_row list" where
  "controlAccounts dep s = sort_key (\<lambda>(u, i, c, m). (u_created_at u, u_user_id u))
     [(u, i, c, m). u \<leftarrow> users s, i \<leftarrow> identities s, idn_user_id i = u_user_id u,
        c \<leftarrow> password_credentials s, c_user_id c = u_user_id u,
        m \<leftarrow> deployment_memberships s, m_user_id m = u_user_id u, m_deployment_id m = dep]"

definition importedUser :: "account_row \<Rightarrow> ImportedUserRecord" where
  "importedUser = (\<lambda>(u, i, c, m). \<lparr>iu_WebAccessDisabled = m_web_access_disabled m,
     iu_User = \<lparr>ur_UserID = u_user_id u, ur_Username = u_username u, ur_DisplayName = u_display_name u,
       ur_Status = u_status u, ur_Avatar = nullString (u_avatar u), ur_LastLoginAt = u_last_login_at u,
       ur_CreatedAt = u_created_at u, ur_UpdatedAt = u_updated_at u\<rparr>,
     iu_Role = m_role m, iu_MembershipStatus = m_status m, iu_MembershipCreated = m_created_at m,
     iu_MembershipUpdated = m_updated_at m, iu_IdentityID = idn_identity_id i,
     iu_IdentityCreated = idn_created_at i, iu_IdentityUpdated = idn_updated_at i,
     iu_CredentialID = c_credential_id c, iu_PasswordHash = c_password_hash c,
     iu_PasswordAlgorithm = c_password_algo c, iu_PasswordUpdatedAt = c_password_updated_at c,
     iu_CredentialCreated = c_created_at c, iu_CredentialUpdated = c_updated_at c\<rparr>)"

definition validateImportedControlUser ::
  "ImportedUserRecord \<Rightarrow> string \<Rightarrow> string \<Rightarrow> service_error option" where
  "validateImportedControlUser item provider subject =
     (let user = iu_User item in
      if TrimSpace (ur_UserID user) = '''' \<or> TrimSpace (ur_DisplayName user) = '''' \<or>
         TrimSpace (iu_IdentityID item) = '''' \<or> TrimSpace (iu_CredentialID item) = '''' \<or>
         TrimSpace (iu_PasswordHash item) = '''' then Some (Reason SourceUserIncomplete)
      else if normalizeUsername (ur_Username user) \<noteq> Inr (ur_Username user)
      then Some (Reason SourceUsername)
      else if ur_Status user \<noteq> ''active'' \<and> ur_Status user \<noteq> ''disabled''
      then Some (Reason SourceUserStatus)
      else if isl (normalizeRole (iu_Role item)) then Some (Reason SourceUserRole)
      else if iu_MembershipStatus item \<noteq> ''active'' \<and> iu_MembershipStatus item \<noteq> ''revoked''
      then Some (Reason SourceMembershipStatus)
      else if provider \<noteq> ''password'' \<or> subject \<noteq> ur_Username user \<or>
         iu_PasswordAlgorithm item \<noteq> ''argon2id'' then Some (Reason SourceIdentity)
      else None)"

definition checkAccount :: "account_row \<Rightarrow> ImportedUserRecord act" where
  "checkAccount x = (case validateImportedControlUser (importedUser x)
         (idn_provider (fst (snd x))) (idn_subject (fst (snd x))) of
       Some e \<Rightarrow> failA e | None \<Rightarrow> returnA (importedUser x))"

definition scanControlUsers :: "string \<Rightarrow> db \<Rightarrow> ImportedUserRecord list act" where
  "scanControlUsers dep s =
     (let count = length (users s) in
      if count = 0 \<or> length (identities s) \<noteq> count \<or> length (password_credentials s) \<noteq> count \<or>
         count_where (\<lambda>m. m_deployment_id m = dep) (deployment_memberships s) \<noteq> count
      then failA (Reason SourceAccountCounts) else
      bindA (mapA checkAccount (controlAccounts dep s)) (\<lambda>items.
      if length items \<noteq> count then failA (Reason SourceMembershipMismatch)
      else if list_ex (\<lambda>i. iu_Role i = ''owner'' \<and> iu_MembershipStatus i = ''active'') items
      then returnA items else failA (Reason SourceNoActiveOwner)))"

definition scanControlAgents :: "string \<Rightarrow> db \<Rightarrow> agent_row list" where
  "scanControlAgents dep s =
     sort_key ag_agent_id (filter (\<lambda>a. ag_deployment_id a = dep) (agents s))"

definition scanControlPlans :: "string \<Rightarrow> db \<Rightarrow> plan_row list act" where
  "scanControlPlans dep s =
     bindA (mapA (\<lambda>p. whenErr Wrapped (checkPlan p)) (repo_ListSubscriptionPlans dep s)) (\<lambda>plans.
     if plans = [] then failA (Reason SourceNoPlans) else returnA plans)"

definition scanControlEntitlements :: "string \<Rightarrow> db \<Rightarrow> ImportedEntitlementRecord list" where
  "scanControlEntitlements dep s = map (\<lambda>e. \<lparr>ie_UserID = e_user_id e, ie_PlanKey = e_plan_key e,
       ie_CreatedAt = e_created_at e, ie_UpdatedAt = e_updated_at e\<rparr>)
     (sort_key e_user_id (filter (\<lambda>e. e_deployment_id e = dep) (member_entitlements s)))"

text \<open>\<open>scanControlOrganizations\<close>: three queries, joined through the organizations of the deployment.\<close>

definition sourceOrganizations :: "string \<Rightarrow> db \<Rightarrow> organization_row list" where
  "sourceOrganizations dep s =
     sort_key o_organization_id (filter (\<lambda>x. o_deployment_id x = dep) (organizations s))"

definition inSource :: "string \<Rightarrow> db \<Rightarrow> string \<Rightarrow> bool" where
  "inSource dep s org \<longleftrightarrow> org \<in> set (map o_organization_id (filter (\<lambda>x. o_deployment_id x = dep) (organizations s)))"

definition scanControlOrganizations :: "string \<Rightarrow> db \<Rightarrow> ImportedDeploymentRecord \<Rightarrow> ImportedDeploymentRecord" where
  "scanControlOrganizations dep s r = r\<lparr>
     idp_Organizations := map (\<lambda>x. \<lparr>io_ID = o_organization_id x, io_Name = o_name x,
       io_Status = o_status x, io_CreatedAt = o_created_at x, io_UpdatedAt = o_updated_at x\<rparr>)
       (sourceOrganizations dep s),
     idp_OrganizationMemberships :=
       filter (\<lambda>x. inSource dep s (om_organization_id x)) (organization_memberships s),
     idp_Invitations := filter (\<lambda>i. inSource dep s (i_organization_id i)) (organization_invitations s)\<rparr>"

definition sourceDeployment :: "deployment_row \<Rightarrow> ImportedDeploymentRecord" where
  "sourceDeployment d = \<lparr>idp_Organizations = [], idp_OrganizationMemberships = [], idp_Invitations = [],
     idp_Invalidations = [], idp_DeploymentID = d_deployment_id d, idp_Name = d_name d,
     idp_Status = d_status d, idp_OrganizationID = '''', idp_OrganizationName = '''',
     idp_OrganizationStatus = '''', idp_CreatedAt = d_created_at d, idp_UpdatedAt = d_updated_at d\<rparr>"

type_synonym snapshot = "ImportedDeploymentRecord \<times> ImportedUserRecord list \<times> agent_row list \<times>
  plan_row list \<times> ImportedEntitlementRecord list"

definition scanControlSnapshot :: "control_source \<Rightarrow> snapshot act" where
  "scanControlSnapshot src =
     (if cs_version src \<noteq> controlSQLiteImportSchemaVersion then failA (Reason SourceSchemaVersion) else
      let s = cs_db src in
      case deployments s of
        [d] \<Rightarrow>
          let dep = d_deployment_id d in
          if TrimSpace dep = '''' \<or> TrimSpace (d_name d) = '''' \<or>
             (d_status d \<noteq> ''active'' \<and> d_status d \<noteq> ''disabled'')
          then failA (Reason SourceDeploymentInvalid) else
          bindA (scanControlUsers dep s) (\<lambda>items.
          bindA (scanControlPlans dep s) (\<lambda>plans.
          returnA (scanControlOrganizations dep s (sourceDeployment d), items,
            scanControlAgents dep s, plans, scanControlEntitlements dep s)))
      | _ \<Rightarrow> failA (Reason SourceDeploymentCount))"

definition sourceEvents :: "db \<Rightarrow> invalidation_row list" where
  "sourceEvents s = sort_key ev_event_id (identity_invalidations s)"

definition svc_ImportControlSQLite :: "(string \<Rightarrow> control_source option) \<Rightarrow> string \<Rightarrow> unit act" where
  "svc_ImportControlSQLite sourceAt path =
     bindA (openReadOnlySQLite sourceAt path) (\<lambda>src.
     bindA (scanControlSnapshot src) (\<lambda>(deployment, items, ags, plans, entitlements).
     whenErr (mapStoreError [(StoreErrAlreadySetup, ErrAlreadySetup)])
       (callA (repo_ImportControlDeployment
         (deployment\<lparr>idp_Invalidations := sourceEvents (cs_db src)\<rparr>) items ags plans entitlements))))"

end
