(* ===== verification/Svc_Start.thy ===== *)
theory Svc_Start
  imports Cfg_Database Svc_Import
begin

text \<open>
  The start of the program: \<open>LoadSigner\<close> of \<open>signing.go\<close>, \<open>NewService\<close> of \<open>service.go\<close> and
  \<open>cmd/nexus-control/main.go\<close>, from the configuration to a service that is ready to serve or a
  finished import.
\<close>

section \<open>The signing key\<close>

datatype signer_error = SignerIO io_error | SignerRandom | SignerKeyInvalid

text \<open>An Ed25519 private key is 64 bytes, the last half of which is the public key.\<close>

definition publicHalf :: "string \<Rightarrow> string" where
  "publicHalf key = drop 32 key"

definition decodeKey :: "string \<Rightarrow> signer_error + string" where
  "decodeKey encoded = (case b64Decode stdAlphabet encoded of None \<Rightarrow> Inl SignerKeyInvalid
     | Some key \<Rightarrow> if length key \<noteq> 64 then Inl SignerKeyInvalid else Inr key)"

text \<open>The key given, or in its file, or new: generated and written to the file.\<close>

definition findKey ::
  "string option \<Rightarrow> string \<Rightarrow> string \<Rightarrow> world \<Rightarrow> (signer_error + string) \<times> world" where
  "findKey generated encodedKey keyPath w =
     (let encoded = TrimSpace encodedKey in
      case (if encoded \<noteq> '''' then Inr encoded else
            case ReadFile keyPath w of FileData data \<Rightarrow> Inr (TrimSpace data)
            | FileMissing \<Rightarrow> Inr ''''
            | FileUnreadable \<Rightarrow> Inl (SignerIO (ReadFailed keyPath))) of
        Inl e \<Rightarrow> (Inl e, w)
      | Inr found \<Rightarrow>
        if found \<noteq> '''' then (Inr found, w) else
        (case generated of None \<Rightarrow> (Inl SignerRandom, w)
         | Some key \<Rightarrow>
           (case writeLine keyPath (b64Encode stdAlphabet key) w of
              (Some e, w') \<Rightarrow> (Inl (SignerIO e), w')
            | (None, w') \<Rightarrow> (Inr (b64Encode stdAlphabet key), w'))))"

definition LoadSigner ::
  "string option \<Rightarrow> string \<Rightarrow> string \<Rightarrow> string \<Rightarrow> world \<Rightarrow> (signer_error + Signer) \<times> world" where
  "LoadSigner generated encodedKey keyPath publicPath w =
     (case findKey generated encodedKey keyPath w of
        (Inl e, w') \<Rightarrow> (Inl e, w')
      | (Inr encoded, w') \<Rightarrow>
        (case decodeKey encoded of
           Inl e \<Rightarrow> (Inl e, w')
         | Inr key \<Rightarrow>
           if publicPath = '''' then (Inr \<lparr>sg_privateKey = key, sg_publicKey = publicHalf key\<rparr>, w') else
           (case writeLine publicPath (b64Encode stdAlphabet (publicHalf key)) w' of
              (Some e, w'') \<Rightarrow> (Inl (SignerIO e), w'')
            | (None, w'') \<Rightarrow> (Inr \<lparr>sg_privateKey = key, sg_publicKey = publicHalf key\<rparr>, w''))))"

section \<open>The service\<close>

definition NewService :: "runtime \<Rightarrow> Config \<Rightarrow> Signer \<Rightarrow> Service" where
  "NewService rt c signer = \<lparr>sv_signer = signer, sv_runtime = rt, sv_sessionTTL = cf_SessionTTL c,
     sv_principalTTL = cf_PrincipalTTL c,
     sv_audiences = [TrimSpace (cf_PrincipalAudience c), relayUserAudience],
     sv_setupEnabled = (TrimSpace (cf_SetupToken c) \<noteq> ''''),
     sv_registrationEnabled = cf_RegistrationEnabled c\<rparr>"

section \<open>Commands\<close>

text \<open>\<open>flag.Parse\<close> with string flags: what they are set to, or nothing on an error.\<close>

definition flagParts :: "string \<Rightarrow> string \<times> string option" where
  "flagParts name = (if CHR ''='' \<in> set (tl name)
     then (takeWhile (\<lambda>c. c \<noteq> CHR ''='') name, Some (tl (dropWhile (\<lambda>c. c \<noteq> CHR ''='') name)))
     else (name, None))"

fun parseFlags :: "string list \<Rightarrow> (string \<rightharpoonup> string) \<Rightarrow> string list \<Rightarrow> (string \<rightharpoonup> string) option" where
  "parseFlags known m [] = Some m"
| "parseFlags known m (s # args) =
     (if length s < 2 \<or> hd s \<noteq> CHR ''-'' then Some m
      else if s = ''--'' then Some m
      else let name = (if prefix ''--'' s then drop 2 s else drop 1 s) in
        if hd name = CHR ''-'' \<or> hd name = CHR ''='' then None
        else (case flagParts name of
            (n, v) \<Rightarrow> if n \<notin> set known then None else
              (case v of Some x \<Rightarrow> parseFlags known (m(n \<mapsto> x)) args
               | None \<Rightarrow> (case args of [] \<Rightarrow> None | x # rest \<Rightarrow> parseFlags known (m(n \<mapsto> x)) rest))))"

record sources =
  so_nexus :: "string \<Rightarrow> nexus_db option"
  so_control :: "string \<Rightarrow> control_source option"

datatype start_error =
    TokenFailed io_error | ConfigRejected config_error | ImportNeedsPostgres | OpenFailed
  | SignerFailed signer_error | CommandUnknown | FlagsInvalid | ServiceFailed service_error

datatype started = Serving Service | Finished

definition importNexus :: "sources \<Rightarrow> Service \<Rightarrow> string list \<Rightarrow> host \<Rightarrow> (start_error + unit) \<times> host" where
  "importNexus src sv args h =
     (case parseFlags [''source'', ''deployment-name''] [''source'' \<mapsto> '''', ''deployment-name'' \<mapsto> ''Nexus''] args of
        None \<Rightarrow> (Inl FlagsInvalid, h)
      | Some m \<Rightarrow> map_prod (map_sum ServiceFailed id) id
          (svc_ImportNexusSQLite sv (so_nexus src) (the (m ''source'')) (the (m ''deployment-name'')) h))"

definition importNexusSubscriptions ::
  "sources \<Rightarrow> Service \<Rightarrow> string list \<Rightarrow> host \<Rightarrow> (start_error + unit) \<times> host" where
  "importNexusSubscriptions src sv args h =
     (case parseFlags [''source''] [''source'' \<mapsto> ''''] args of
        None \<Rightarrow> (Inl FlagsInvalid, h)
      | Some m \<Rightarrow> map_prod (map_sum ServiceFailed id) id
          (svc_ImportNexusSubscriptionsSQLite sv (so_nexus src) (the (m ''source'')) h))"

definition importControlSQLite :: "sources \<Rightarrow> string list \<Rightarrow> host \<Rightarrow> (start_error + unit) \<times> host" where
  "importControlSQLite src args h =
     (case parseFlags [''source''] [''source'' \<mapsto> ''''] args of
        None \<Rightarrow> (Inl FlagsInvalid, h)
      | Some m \<Rightarrow> map_prod (map_sum ServiceFailed id) id
          (svc_ImportControlSQLite (so_control src) (the (m ''source'')) h))"

definition initialOwner :: "environment \<Rightarrow> SetupOwnerInput" where
  "initialOwner e = \<lparr>su_Username = env e ''AUTH_INIT_OWNER_USERNAME'' ''admin'',
     su_DisplayName = env e ''AUTH_INIT_OWNER_DISPLAY_NAME'' ''Admin'',
     su_Password = Getenv e ''AUTH_INIT_OWNER_PASSWORD'',
     su_DeploymentName = env e ''CONTROL_DEPLOYMENT_NAME'' ''Nexus'', su_OrganizationName = ''''\<rparr>"

definition initializeOwner :: "environment \<Rightarrow> Service \<Rightarrow> unit act" where
  "initializeOwner e sv =
     (if TrimSpace (Getenv e ''AUTH_INIT_OWNER_PASSWORD'') = '''' then returnA () else
      bindA (svc_State sv) (\<lambda>state.
      if \<not> st_SetupRequired state then returnA () else
      bindA (svc_SetupOwner sv (initialOwner e)) (\<lambda>_. returnA ())))"

text \<open>
  The commands, once the service is there; the database keeps what was done before a failure.
\<close>

definition serve :: "environment \<Rightarrow> Service \<Rightarrow> host \<Rightarrow> (start_error + started) \<times> host" where
  "serve e sv h = map_prod (map_sum ServiceFailed (\<lambda>_. Serving sv)) id (initializeOwner e sv h)"

definition dispatch ::
  "sources \<Rightarrow> environment \<Rightarrow> Service \<Rightarrow> string list \<Rightarrow> host \<Rightarrow> (start_error + started) \<times> host" where
  "dispatch src e sv args h =
     (let finish = map_prod (map_sum id (\<lambda>_. Finished)) id in
      case args of
        (c # rest) \<Rightarrow>
          if c = ''import-nexus'' then finish (importNexus src sv rest h)
          else if c = ''import-nexus-subscriptions'' then finish (importNexusSubscriptions src sv rest h)
          else if c = ''import-control-sqlite'' then finish (importControlSQLite src rest h)
          else if c \<noteq> ''serve'' then (Inl CommandUnknown, h)
          else serve e sv h
      | [] \<Rightarrow> serve e sv h)"

text \<open>
  What the start takes from outside: the two readings of the random source, the URL functions,
  the databases that an import reads, and the driver, which opens the database (migrated) or fails.
\<close>

record outside =
  ou_runtime :: runtime
  ou_tokenBytes :: "string option"
  ou_newKey :: "string option"
  ou_parseURL :: url_parser
  ou_searchPath :: "string \<Rightarrow> string"
  ou_sources :: sources
  ou_driver :: "string \<Rightarrow> string \<Rightarrow> host option"

text \<open>
  \<open>run\<close> in two halves: up to the signer, which needs the configuration, the database and the
  files, and the commands on the service that this gives.
\<close>

definition prepare :: "outside \<Rightarrow> string list \<Rightarrow> Config \<Rightarrow> world \<Rightarrow> (start_error + Service \<times> host) \<times> world" where
  "prepare ext args cfg w =
     (case PrepareServiceToken (ou_tokenBytes ext) cfg w of
        (Inl e, w1) \<Rightarrow> (Inl (TokenFailed e), w1)
      | (Inr c, w1) \<Rightarrow>
        (case Validate (ou_parseURL ext) c of Some e \<Rightarrow> (Inl (ConfigRejected e), w1)
         | None \<Rightarrow>
           if args \<noteq> [] \<and> hd args = ''import-control-sqlite'' \<and>
              IsSQLiteSQLDriver (NormalizeSQLDriver (cf_DatabaseDriver c))
           then (Inl ImportNeedsPostgres, w1) else
           (case connectionString (ou_parseURL ext) (ou_searchPath ext) c w1 of Inl e \<Rightarrow> (Inl OpenFailed, w1)
            | Inr dsn \<Rightarrow>
              (case ou_driver ext (NormalizeSQLDriver (cf_DatabaseDriver c)) dsn of None \<Rightarrow> (Inl OpenFailed, w1)
               | Some h \<Rightarrow>
                 (case LoadSigner (ou_newKey ext) (cf_SigningPrivateKey c) (cf_SigningKeyFile c)
                         (cf_SigningPublicKeyFile c) w1 of
                    (Inl e, w2) \<Rightarrow> (Inl (SignerFailed e), w2)
                  | (Inr signer, w2) \<Rightarrow> (Inr (NewService (ou_runtime ext) c signer, h), w2))))))"

definition run ::
  "outside \<Rightarrow> string list \<Rightarrow> Config \<Rightarrow> world \<Rightarrow> (start_error + started) \<times> host option \<times> world" where
  "run ext args cfg w =
     (case prepare ext args cfg w of
        (Inl e, w') \<Rightarrow> (Inl e, None, w')
      | (Inr (sv, h), w') \<Rightarrow>
        (case dispatch (ou_sources ext) (wd_env w') sv args h of (r, h') \<Rightarrow> (r, Some h', w')))"

definition main ::
  "outside \<Rightarrow> string list \<Rightarrow> world \<Rightarrow> (start_error + started) \<times> host option \<times> world" where
  "main ext args w = (case Load w of (cfg, w1) \<Rightarrow> run ext args cfg w1)"

end
