(* ===== verification/Svc_User.thy ===== *)
theory Svc_User
  imports Svc_Session
begin

text \<open>
  \<open>user.go\<close> of \<open>internal/service/auth\<close>: the change of a password under a request id, whose
  outcome is recorded once and answered again on every later request with the same id.
\<close>

record ChangePasswordInput =
  cp_UserID :: string
  cp_RequestID :: string
  cp_CurrentPassword :: string
  cp_NewPassword :: string

text \<open>The result of a call with its error as a value.\<close>

definition tryA :: "'a act \<Rightarrow> (service_error + 'a) act" where
  "tryA m = (\<lambda>h. (Inr (fst (m h)), snd (m h)))"

lemma tryA_Inr [simp]: "tryA m h = (Inr r, k) \<longleftrightarrow> m h = (r, k)"
  by (auto simp: tryA_def prod_eq_iff)

lemma tryA_Inl [simp]: "tryA m h \<noteq> (Inl e, k)"
  by (simp add: tryA_def)

definition svc_PasswordChangeOutcome :: "string \<Rightarrow> string \<Rightarrow> string act" where
  "svc_PasswordChangeOutcome userID requestID =
     bindA (checkA (invalid (normalizeRequestID requestID))) (\<lambda>requestID.
     bindA (readA (repo_PasswordChangeOutcome (TrimSpace userID) requestID)) (\<lambda>outcome.
     returnA (if outcome = '''' then ''unknown'' else outcome)))"

definition settlePasswordChange :: "Service \<Rightarrow> string \<Rightarrow> string \<Rightarrow> string \<Rightarrow> unit act" where
  "settlePasswordChange sv userID requestID outcome = bindA (nowA sv) (\<lambda>now.
     callA (repo_SettlePasswordChange userID requestID outcome now))"

definition resolvePasswordChange :: "string \<Rightarrow> string \<Rightarrow> User act" where
  "resolvePasswordChange userID requestID =
     bindA (svc_PasswordChangeOutcome userID requestID) (\<lambda>outcome.
     if outcome = ''committed'' then svc_UserByID userID
     else if outcome = ''not_applied'' then failA ErrRequestNotApplied
     else failA (Reason RequestNotSettled))"

definition rejectPasswordChange ::
  "Service \<Rightarrow> string \<Rightarrow> string \<Rightarrow> service_error \<Rightarrow> User act" where
  "rejectPasswordChange sv userID requestID rejection =
     bindA (settlePasswordChange sv userID requestID ''not_applied'') (\<lambda>_.
     whenErr (\<lambda>e. if errorIs e ErrRequestNotApplied then rejection else e)
       (resolvePasswordChange userID requestID))"

text \<open>The part of a change that runs when the request has no outcome yet.\<close>

definition attemptPasswordChange :: "Service \<Rightarrow> string \<Rightarrow> string \<Rightarrow> string \<Rightarrow> string \<Rightarrow> User act" where
  "attemptPasswordChange sv userID requestID current new =
     (if TrimSpace current = '''' \<or> validatePassword new \<noteq> None
      then rejectPasswordChange sv userID requestID ErrRequestInvalid else
      bindA (tryA (liftA (repo_PasswordCredential userID))) (\<lambda>credential. case credential of
          Inl e \<Rightarrow> if errorIs e (FromStore StoreErrNotFound)
            then rejectPasswordChange sv userID requestID ErrCurrentPassword else failA e
        | Inr (currentHash, status) \<Rightarrow>
          if verifyPassword sv current currentHash \<noteq> Inr True \<or> status \<noteq> ''active''
          then rejectPasswordChange sv userID requestID ErrCurrentPassword else
          bindA (tryA (hashPassword sv new)) (\<lambda>hashed. case hashed of
              Inl e \<Rightarrow> rejectPasswordChange sv userID requestID e
            | Inr nextHash \<Rightarrow>
              bindA (nowA sv) (\<lambda>now.
              bindA (callA (repo_TryCommitPasswordChange userID requestID currentHash nextHash now))
              (\<lambda>attempt. case attempt of
                  PasswordAttemptCommitted \<Rightarrow> svc_UserByID userID
                | PasswordAttemptExisting \<Rightarrow> resolvePasswordChange userID requestID
                | PasswordAttemptCredentialChanged \<Rightarrow>
                    rejectPasswordChange sv userID requestID ErrCurrentPassword)))))"

definition svc_ChangePassword :: "Service \<Rightarrow> ChangePasswordInput \<Rightarrow> User act" where
  "svc_ChangePassword sv input =
     (let userID = TrimSpace (cp_UserID input) in
      case normalizeRequestID (cp_RequestID input) of
        Inl e \<Rightarrow> failA (joinError ErrRequestInvalid (Some e))
      | Inr requestID \<Rightarrow>
        if userID = '''' then failA (joinError ErrRequestInvalid None) else
        bindA (svc_PasswordChangeOutcome userID requestID) (\<lambda>outcome.
        if outcome = ''committed'' then svc_UserByID userID
        else if outcome = ''not_applied'' then failA ErrRequestNotApplied
        else attemptPasswordChange sv userID requestID (cp_CurrentPassword input) (cp_NewPassword input)))"

definition svc_SettlePasswordChangeNotApplied :: "Service \<Rightarrow> string \<Rightarrow> string \<Rightarrow> string act" where
  "svc_SettlePasswordChangeNotApplied sv userID requestID =
     bindA (checkA (invalid (normalizeRequestID requestID))) (\<lambda>requestID.
     bindA (settlePasswordChange sv (TrimSpace userID) requestID ''not_applied'') (\<lambda>_.
     svc_PasswordChangeOutcome userID requestID))"

end
