(* ===== verification/Svc_Member.thy ===== *)
theory Svc_Member
  imports Svc_Session
begin

text \<open>
  \<open>member.go\<close> and \<open>deployment_member.go\<close> of \<open>internal/service/auth\<close>: lists and directories, the
  creation of accounts, and the guarded update of a member of the organization or of the
  deployment. Both updates check the caller's principal first and hand the state they saw to the
  repository, which checks again.
\<close>

record DeploymentMember =
  mb_DeploymentID :: string
  mb_UserID :: string
  mb_Username :: string
  mb_DisplayName :: string
  mb_Role :: string
  mb_MembershipStatus :: string
  mb_WebAccessDisabled :: bool
  mb_Avatar :: string
  mb_LastLoginAt :: "time option"
  mb_CreatedAt :: time
  mb_UpdatedAt :: time

record MemberDirectoryEntry =
  md_UserID :: string
  md_Username :: string
  md_DisplayName :: string
  md_Avatar :: string

record CreateMemberInput =
  cm_Username :: string
  cm_DisplayName :: string
  cm_Password :: string
  cm_Role :: string

record UpdateMemberInput =
  um_DisplayName :: "string option"
  um_ExpectedVersion :: "int option"
  um_Role :: "string option"
  um_Status :: "string option"

definition memberFromRecord :: "DeploymentMemberRecord \<Rightarrow> DeploymentMember" where
  "memberFromRecord r = \<lparr>mb_DeploymentID = dm_DeploymentID r, mb_UserID = dm_UserID r,
     mb_Username = dm_Username r, mb_DisplayName = dm_DisplayName r, mb_Role = dm_Role r,
     mb_MembershipStatus = dm_MembershipStatus r, mb_WebAccessDisabled = dm_WebAccessDisabled r,
     mb_Avatar = dm_Avatar r, mb_LastLoginAt = dm_LastLoginAt r, mb_CreatedAt = dm_CreatedAt r,
     mb_UpdatedAt = dm_UpdatedAt r\<rparr>"

definition directoryEntry :: "DeploymentMemberRecord \<Rightarrow> MemberDirectoryEntry" where
  "directoryEntry r = \<lparr>md_UserID = dm_UserID r, md_Username = dm_Username r,
     md_DisplayName = dm_DisplayName r, md_Avatar = dm_Avatar r\<rparr>"

section \<open>Lists\<close>

definition svc_ListMembers :: "Principal \<Rightarrow> DeploymentMember list act" where
  "svc_ListMembers actor =
     (if pn_OrganizationID actor = '''' then failA ErrForbidden else
      bindA (readA (repo_ListMembers (pn_DeploymentID actor) (pn_OrganizationID actor))) (\<lambda>records.
      returnA (map memberFromRecord records)))"

definition svc_ListMemberDirectory :: "Principal \<Rightarrow> MemberDirectoryEntry list act" where
  "svc_ListMemberDirectory actor =
     bindA (readA (repo_ListActiveMembers (pn_DeploymentID actor) (pn_OrganizationID actor))) (\<lambda>records.
     returnA (map directoryEntry records))"

definition svc_ListDeploymentMembers :: "Principal \<Rightarrow> DeploymentMember list act" where
  "svc_ListDeploymentMembers actor =
     (if \<not> isManager (pn_Role actor) then failA ErrForbidden else
      bindA (readA (repo_ListDeploymentMembers (pn_DeploymentID actor))) (\<lambda>records.
      returnA (map memberFromRecord records)))"

text \<open>The loop over the ids: the first id that fails decides.\<close>

fun allActive :: "string set \<Rightarrow> string list \<Rightarrow> unit act" where
  "allActive active [] = returnA ()"
| "allActive active (raw # ids) = (let userID = TrimSpace raw in
     if userID = '''' \<or> 128 < length userID then failA ErrRequestInvalid
     else if userID \<notin> active then failA ErrForbidden
     else allActive active ids)"

definition svc_VerifyOrganizationMembers :: "string \<Rightarrow> string \<Rightarrow> string list \<Rightarrow> unit act" where
  "svc_VerifyOrganizationMembers deploymentID organizationID userIDs =
     (let deploymentID = TrimSpace deploymentID; organizationID = TrimSpace organizationID in
      if deploymentID = '''' \<or> organizationID = '''' \<or> 100 < length userIDs then failA ErrRequestInvalid else
      bindA (readA (repo_ListActiveMembers deploymentID organizationID)) (\<lambda>records.
      allActive (set (map dm_UserID records)) userIDs))"

section \<open>Creation\<close>

definition newMemberRecord ::
  "string \<Rightarrow> string \<Rightarrow> string \<Rightarrow> string \<Rightarrow> string \<Rightarrow> string \<Rightarrow> string \<Rightarrow> string \<Rightarrow> time \<Rightarrow> NewMemberRecord" where
  "newMemberRecord dep uid idn cred username displayName hash role now =
     \<lparr>nm_DeploymentID = dep, nm_UserID = uid, nm_IdentityID = idn, nm_CredentialID = cred,
      nm_Username = username, nm_DisplayName = displayName, nm_PasswordHash = hash, nm_Role = role,
      nm_CreatedAt = now\<rparr>"

definition svc_CreateDeploymentMember ::
  "Service \<Rightarrow> Principal \<Rightarrow> CreateMemberInput \<Rightarrow> DeploymentMember act" where
  "svc_CreateDeploymentMember sv actor input =
     (if \<not> isManager (pn_Role actor) then failA ErrForbidden else
      bindA (checkA (invalid (normalizeUsername (cm_Username input)))) (\<lambda>username.
      bindA (checkPassword (cm_Password input)) (\<lambda>_.
      bindA (checkA (invalid (normalizeRole (cm_Role input)))) (\<lambda>role.
      if role = ''owner'' then failA (joinError ErrRequestInvalid None)
      else if pn_Role actor = ''admin'' \<and> role \<noteq> ''member'' then failA ErrForbidden
      else let displayName = trimOr (cm_DisplayName input) username in
      if 128 < length displayName then refuse DisplayNameTooLong else
      bindA (hashPassword sv (cm_Password input)) (\<lambda>hash.
      bindA (newID sv ''user'') (\<lambda>uid. bindA (newID sv ''idn'') (\<lambda>idn. bindA (newID sv ''cred'') (\<lambda>cred.
      bindA (nowA sv) (\<lambda>now.
      bindA (whenErr (mapStoreError
          [(StoreErrUsernameConflict, joinError ErrConflict (Some (Reason UsernameTaken)))])
        (callA (repo_CreateDeploymentMember (pn_UserID actor)
          (newMemberRecord (pn_DeploymentID actor) uid idn cred username displayName hash role now))))
      (\<lambda>record. returnA (memberFromRecord record)))))))))))"

section \<open>Updates\<close>

definition nextName :: "UpdateMemberInput \<Rightarrow> DeploymentMemberRecord \<Rightarrow> service_error + string" where
  "nextName input target = (case um_DisplayName input of None \<Rightarrow> Inr (dm_DisplayName target)
     | Some raw \<Rightarrow> let name = TrimSpace raw in
         if name = '''' \<or> 128 < length name then Inl ErrRequestInvalid else Inr name)"

definition nextStatus :: "UpdateMemberInput \<Rightarrow> DeploymentMemberRecord \<Rightarrow> service_error + string" where
  "nextStatus input target = (case um_Status input of None \<Rightarrow> Inr (dm_MembershipStatus target)
     | Some raw \<Rightarrow> let status = TrimSpace raw in
         if status \<noteq> ''active'' \<and> status \<noteq> ''revoked''
         then Inl (joinError ErrRequestInvalid (Some (Reason StatusUnsupported))) else Inr status)"

definition staleVersion :: "UpdateMemberInput \<Rightarrow> DeploymentMemberRecord \<Rightarrow> bool" where
  "staleVersion input target = (case um_ExpectedVersion input of None \<Rightarrow> False
     | Some v \<Rightarrow> v \<noteq> UnixMicro (dm_UpdatedAt target))"

definition emptyUpdate :: "UpdateMemberInput \<Rightarrow> bool" where
  "emptyUpdate input \<longleftrightarrow> um_Role input = None \<and> um_Status input = None \<and> um_DisplayName input = None"

text \<open>
  \<open>errors.Join(ErrConflict, err)\<close> for the repository's conflicts; the update of an organization
  member and of a deployment member share it.
\<close>

definition updateError :: "service_error \<Rightarrow> service_error" where
  "updateError e = (if errorIs e (FromStore StoreErrNotFound) then ErrNotFound
     else if errorIs e (FromStore StoreErrLastOwner) \<or> errorIs e (FromStore StoreErrStateConflict)
     then joinError ErrConflict (Some e) else e)"

definition organizationRoleFor :: "UpdateMemberInput \<Rightarrow> DeploymentMemberRecord \<Rightarrow> string act" where
  "organizationRoleFor input target = (case um_Role input of None \<Rightarrow> returnA (dm_Role target)
     | Some raw \<Rightarrow> bindA (checkA (invalid (normalizeRole raw))) (\<lambda>role.
         if role = ''owner'' \<or> dm_Role target = ''owner'' then failA ErrForbidden else returnA role))"

definition svc_UpdateMember ::
  "Service \<Rightarrow> Principal \<Rightarrow> string \<Rightarrow> UpdateMemberInput \<Rightarrow> DeploymentMember act" where
  "svc_UpdateMember sv actor rawID input =
     (if \<not> isManager (pn_OrganizationRole actor) then failA ErrForbidden else
      let userID = TrimSpace rawID in
      if userID = '''' \<or> emptyUpdate input then failA ErrRequestInvalid else
      bindA (whenErr (mapStoreError [(StoreErrNotFound, ErrNotFound)])
        (liftA (repo_MemberByID (pn_DeploymentID actor) (pn_OrganizationID actor) userID))) (\<lambda>target.
      if staleVersion input target then failA ErrConflict else
      bindA (checkA (nextName input target)) (\<lambda>name.
      if dm_MembershipStatus target \<noteq> ''active'' \<or> dm_Role target = ''owner'' then failA ErrForbidden else
      bindA (organizationRoleFor input target) (\<lambda>role.
      bindA (checkA (nextStatus input target)) (\<lambda>status.
      if pn_OrganizationRole actor = ''admin'' \<and> (dm_Role target \<noteq> ''member'' \<or> role \<noteq> ''member'')
      then failA ErrForbidden
      else if pn_UserID actor = dm_UserID target \<and> status = ''revoked''
      then failA (joinError ErrConflict (Some (Reason RevokesItself)))
      else bindA (nowA sv) (\<lambda>now.
      bindA (whenErr updateError
        (callA (repo_UpdateMember (pn_DeploymentID actor) (pn_OrganizationID actor) userID (pn_UserID actor)
          (dm_Role target) (dm_MembershipStatus target) (UnixMicro (dm_UpdatedAt target))
          role status name now))) (\<lambda>record.
      returnA (memberFromRecord record))))))))"

definition deploymentRoleFor :: "UpdateMemberInput \<Rightarrow> DeploymentMemberRecord \<Rightarrow> service_error + string" where
  "deploymentRoleFor input target = (case um_Role input of None \<Rightarrow> Inr (dm_Role target)
     | Some raw \<Rightarrow> (case normalizeRole raw of Inl _ \<Rightarrow> Inl ErrRequestInvalid
         | Inr role \<Rightarrow> if role = ''owner'' then Inl ErrRequestInvalid else Inr role))"

definition svc_UpdateDeploymentMember ::
  "Service \<Rightarrow> Principal \<Rightarrow> string \<Rightarrow> UpdateMemberInput \<Rightarrow> DeploymentMember act" where
  "svc_UpdateDeploymentMember sv actor rawID input =
     (if \<not> isManager (pn_Role actor) then failA ErrForbidden else
      let userID = TrimSpace rawID in
      if userID = '''' \<or> emptyUpdate input then failA ErrRequestInvalid else
      bindA (whenErr (mapStoreError [(StoreErrNotFound, ErrNotFound)])
        (liftA (repo_DeploymentMemberByID (pn_DeploymentID actor) userID))) (\<lambda>target.
      if staleVersion input target then failA ErrConflict else
      bindA (checkA (nextName input target)) (\<lambda>name.
      if dm_Role target = ''owner'' then failA ErrForbidden else
      bindA (checkA (deploymentRoleFor input target)) (\<lambda>role.
      bindA (checkA (nextStatus input target)) (\<lambda>status.
      if pn_Role actor = ''admin'' \<and> (dm_Role target \<noteq> ''member'' \<or> role \<noteq> ''member'')
      then failA ErrForbidden
      else if pn_UserID actor = dm_UserID target \<and> status = ''revoked''
      then failA (joinError ErrConflict (Some (Reason RevokesItself)))
      else bindA (nowA sv) (\<lambda>now.
      bindA (whenErr updateError
        (callA (repo_UpdateDeploymentMember (pn_DeploymentID actor) userID (pn_UserID actor)
          (dm_Role target) (dm_MembershipStatus target) (UnixMicro (dm_UpdatedAt target))
          role status name now))) (\<lambda>record.
      returnA (memberFromRecord record))))))))"

lemma allActive_Inr: "allActive active ids h = (Inr (), k) \<longleftrightarrow>
    k = h \<and> (\<forall>i \<in> set ids. TrimSpace i \<noteq> '''' \<and> length (TrimSpace i) \<le> 128 \<and> TrimSpace i \<in> active)"
  by (induction ids) (auto simp: Let_def)

end
