(* ===== verification/Svc_Organization.thy ===== *)
theory Svc_Organization
  imports Svc_Member
begin

text \<open>
  \<open>organization.go\<close> and \<open>invitation.go\<close> of \<open>internal/service/auth\<close>: the actions on an
  organization, public registration, and the life of an invitation from its creation to the
  account that accepts it.
\<close>

section \<open>Organizations\<close>

record OrganizationInput =
  oi_Name :: string
  oi_TargetUserID :: string

definition organizationError :: "service_error \<Rightarrow> service_error" where
  "organizationError e =
     (if errorIs e (FromStore StoreErrStateConflict) \<or> errorIs e (FromStore StoreErrLastOwner)
      then joinError ErrConflict (Some e)
      else if errorIs e (FromStore StoreErrInvitationInvalid) then ErrInvitationInvalid else e)"

definition organizationCommand ::
  "Principal \<Rightarrow> string \<Rightarrow> string \<Rightarrow> string \<Rightarrow> string \<Rightarrow> string \<Rightarrow> time \<Rightarrow> OrganizationCommand" where
  "organizationCommand actor action org name target tokenHash now =
     \<lparr>oc_Actor = principalRecord actor, oc_Action = action, oc_OrganizationID = org, oc_Name = name,
      oc_TargetUserID = target, oc_TokenHash = tokenHash, oc_Now = now\<rparr>"

definition svc_MutateOrganization ::
  "Service \<Rightarrow> Principal \<Rightarrow> string \<Rightarrow> OrganizationInput \<Rightarrow> unit act" where
  "svc_MutateOrganization sv actor action input =
     (let name = TrimSpace (oi_Name input); target = TrimSpace (oi_TargetUserID input) in
      if (action = ''create'' \<or> action = ''rename'') \<and> (name = '''' \<or> 128 < length name)
      then failA ErrRequestInvalid
      else if action = ''transfer'' \<and> (target = '''' \<or> 128 < length target) then failA ErrRequestInvalid
      else if action \<noteq> ''create'' \<and> action \<noteq> ''leave'' \<and> action \<noteq> ''transfer'' \<and>
         action \<noteq> ''rename'' \<and> action \<noteq> ''dissolve'' then failA ErrRequestInvalid
      else bindA (newID sv ''org'') (\<lambda>org. bindA (nowA sv) (\<lambda>now.
        whenErr organizationError
          (callA (repo_MutateOrganization (organizationCommand actor action org name target '''' now))))))"

definition svc_JoinOrganization :: "Service \<Rightarrow> Principal \<Rightarrow> string \<Rightarrow> unit act" where
  "svc_JoinOrganization sv actor token =
     (if length token \<noteq> 64 then failA ErrRequestInvalid else
      bindA (nowA sv) (\<lambda>now.
      whenErr organizationError (callA (repo_MutateOrganization
        (organizationCommand actor ''join'' '''' '''' '''' (hashToken sv token) now)))))"

definition svc_RegisterAccount :: "Service \<Rightarrow> LoginInput \<Rightarrow> unit act" where
  "svc_RegisterAccount sv input =
     (if \<not> sv_registrationEnabled sv then failA ErrForbidden else
      case normalizeUsername (li_Username input) of Inl _ \<Rightarrow> failA ErrRequestInvalid
      | Inr username \<Rightarrow>
        if validatePassword (li_Password input) \<noteq> None then failA ErrRequestInvalid else
        bindA (hashPassword sv (li_Password input)) (\<lambda>hash.
        bindA (newID sv ''user'') (\<lambda>uid. bindA (newID sv ''idn'') (\<lambda>idn. bindA (newID sv ''cred'') (\<lambda>cred.
        bindA (nowA sv) (\<lambda>now.
        whenErr (mapStoreError [(StoreErrUsernameConflict, ErrConflict), (StoreErrNotFound, ErrForbidden)])
          (callA (repo_RegisterAccount
            (newMemberRecord '''' uid idn cred username username hash '''' now)))))))))"

section \<open>Invitations\<close>

record OrganizationInvitation =
  iv_InvitationID :: string
  iv_OrganizationID :: string
  iv_OrganizationName :: string
  iv_Role :: string
  iv_CreatedByUserID :: string
  iv_AcceptedByUserID :: string
  iv_ExpiresAt :: time
  iv_AcceptedAt :: "time option"
  iv_RevokedAt :: "time option"
  iv_CreatedAt :: time
  iv_UpdatedAt :: time

record CreateOrganizationInvitationInput =
  ci_Role :: string
  ci_ExpiresInHours :: int

record CreatedOrganizationInvitation =
  cr_Invitation :: OrganizationInvitation
  cr_Token :: string
  cr_JoinURL :: string

record OrganizationInvitationPreview =
  ip_OrganizationName :: string
  ip_Role :: string
  ip_ExpiresAt :: time

record AcceptOrganizationInvitationInput =
  ac_Token :: string
  ac_Username :: string
  ac_DisplayName :: string
  ac_Password :: string

definition defaultInvitationHours :: int where "defaultInvitationHours = 7 * 24"
definition maxInvitationHours :: int where "maxInvitationHours = 30 * 24"

definition invitationFromRecord :: "OrganizationInvitationRecord \<Rightarrow> OrganizationInvitation" where
  "invitationFromRecord r = \<lparr>iv_InvitationID = ir_InvitationID r, iv_OrganizationID = ir_OrganizationID r,
     iv_OrganizationName = ir_OrganizationName r, iv_Role = ir_Role r,
     iv_CreatedByUserID = ir_CreatedByUserID r, iv_AcceptedByUserID = ir_AcceptedByUserID r,
     iv_ExpiresAt = ir_ExpiresAt r, iv_AcceptedAt = ir_AcceptedAt r, iv_RevokedAt = ir_RevokedAt r,
     iv_CreatedAt = ir_CreatedAt r, iv_UpdatedAt = ir_UpdatedAt r\<rparr>"

definition newInvitation ::
  "Service \<Rightarrow> Principal \<Rightarrow> string \<Rightarrow> string \<Rightarrow> string \<Rightarrow> int \<Rightarrow> time \<Rightarrow> OrganizationInvitationRecord" where
  "newInvitation sv actor ivid token role hours now =
     \<lparr>ir_InvitationID = ivid, ir_DeploymentID = '''', ir_OrganizationID = pn_OrganizationID actor,
      ir_OrganizationName = pn_OrganizationName actor, ir_TokenHash = hashToken sv token, ir_Role = role,
      ir_CreatedByUserID = pn_UserID actor, ir_AcceptedByUserID = '''',
      ir_ExpiresAt = now + hours * hour, ir_AcceptedAt = None, ir_RevokedAt = None,
      ir_CreatedAt = now, ir_UpdatedAt = now\<rparr>"

definition svc_CreateOrganizationInvitation ::
  "Service \<Rightarrow> Principal \<Rightarrow> CreateOrganizationInvitationInput \<Rightarrow> CreatedOrganizationInvitation act" where
  "svc_CreateOrganizationInvitation sv actor input =
     (if \<not> isManager (pn_OrganizationRole actor) then failA ErrForbidden else
      case normalizeRole (ci_Role input) of Inl _ \<Rightarrow> failA ErrRequestInvalid
      | Inr role \<Rightarrow>
        if role = ''owner'' then failA ErrRequestInvalid
        else if pn_OrganizationRole actor = ''admin'' \<and> role \<noteq> ''member'' then failA ErrForbidden
        else let hours = (if ci_ExpiresInHours input = 0 then defaultInvitationHours
                          else ci_ExpiresInHours input) in
        if hours < 1 \<or> maxInvitationHours < hours then failA ErrRequestInvalid else
        bindA (newToken sv) (\<lambda>token. bindA (nowA sv) (\<lambda>now. bindA (newID sv ''invite'') (\<lambda>ivid.
        bindA (whenErr organizationError (callA (repo_CreateOrganizationInvitation
          (newInvitation sv actor ivid token role hours now)))) (\<lambda>record.
        returnA \<lparr>cr_Invitation = invitationFromRecord record, cr_Token = token, cr_JoinURL = ''''\<rparr>)))))"

definition svc_ListOrganizationInvitations :: "Principal \<Rightarrow> OrganizationInvitation list act" where
  "svc_ListOrganizationInvitations actor =
     (if \<not> isManager (pn_OrganizationRole actor) then failA ErrForbidden else
      bindA (readA (repo_ListOrganizationInvitations (pn_OrganizationID actor))) (\<lambda>records.
      returnA (map invitationFromRecord records)))"

definition invitationError :: "service_error \<Rightarrow> service_error" where
  "invitationError e = (if errorIs e (FromStore StoreErrInvitationInvalid) then ErrInvitationInvalid
     else organizationError e)"

text \<open>An administrator may act on the invitations of members only.\<close>

definition invitationForAdmin :: "Principal \<Rightarrow> string \<Rightarrow> unit act" where
  "invitationForAdmin actor invitationID =
     (if pn_OrganizationRole actor \<noteq> ''admin'' then returnA () else
      bindA (whenErr (mapStoreError [(StoreErrInvitationInvalid, ErrInvitationInvalid)])
        (liftA (repo_OrganizationInvitationByID (pn_OrganizationID actor) invitationID))) (\<lambda>record.
      if ir_Role record \<noteq> ''member'' then failA ErrForbidden else returnA ()))"

definition mutateOrganizationInvitation :: "Service \<Rightarrow> Principal \<Rightarrow> string \<Rightarrow> bool \<Rightarrow> unit act" where
  "mutateOrganizationInvitation sv actor rawID remove =
     (if \<not> isManager (pn_OrganizationRole actor) then failA ErrForbidden else
      let invitationID = TrimSpace rawID in
      if invitationID = '''' \<or> 128 < length invitationID then failA ErrRequestInvalid else
      bindA (invitationForAdmin actor invitationID) (\<lambda>_.
      bindA (nowA sv) (\<lambda>now.
      whenErr invitationError (callA (
        (if remove then repo_DeleteOrganizationInvitation else repo_RevokeOrganizationInvitation)
          (pn_OrganizationID actor) invitationID (pn_UserID actor) now)))))"

definition svc_RevokeOrganizationInvitation :: "Service \<Rightarrow> Principal \<Rightarrow> string \<Rightarrow> unit act" where
  "svc_RevokeOrganizationInvitation sv actor invitationID =
     mutateOrganizationInvitation sv actor invitationID False"

definition svc_DeleteOrganizationInvitation :: "Service \<Rightarrow> Principal \<Rightarrow> string \<Rightarrow> unit act" where
  "svc_DeleteOrganizationInvitation sv actor invitationID =
     mutateOrganizationInvitation sv actor invitationID True"

definition activeInvitation :: "Service \<Rightarrow> string \<Rightarrow> OrganizationInvitationRecord act" where
  "activeInvitation sv token =
     (if length token \<noteq> 64 then failA ErrInvitationInvalid else
      bindA (whenErr (mapStoreError [(StoreErrInvitationInvalid, ErrInvitationInvalid)])
        (liftA (repo_OrganizationInvitationByToken (hashToken sv token)))) (\<lambda>record.
      if ir_AcceptedAt record \<noteq> None \<or> ir_RevokedAt record \<noteq> None then failA ErrInvitationInvalid else
      bindA (nowA sv) (\<lambda>now.
      if \<not> After (ir_ExpiresAt record) now then failA ErrInvitationInvalid else returnA record)))"

definition svc_PreviewOrganizationInvitation :: "Service \<Rightarrow> string \<Rightarrow> OrganizationInvitationPreview act" where
  "svc_PreviewOrganizationInvitation sv token = bindA (activeInvitation sv token) (\<lambda>record.
     returnA \<lparr>ip_OrganizationName = ir_OrganizationName record, ip_Role = ir_Role record,
       ip_ExpiresAt = ir_ExpiresAt record\<rparr>)"

definition acceptRecord ::
  "Service \<Rightarrow> string \<Rightarrow> string \<Rightarrow> string \<Rightarrow> string \<Rightarrow> string \<Rightarrow> string \<Rightarrow> string \<Rightarrow> time \<Rightarrow>
     AcceptOrganizationInvitationRecord" where
  "acceptRecord sv token uid idn cred username displayName hash now =
     \<lparr>ai_TokenHash = hashToken sv token, ai_UserID = uid, ai_IdentityID = idn, ai_CredentialID = cred,
      ai_Username = username, ai_DisplayName = displayName, ai_PasswordHash = hash,
      ai_AcceptedAt = now\<rparr>"

definition svc_AcceptOrganizationInvitation ::
  "Service \<Rightarrow> AcceptOrganizationInvitationInput \<Rightarrow> DeploymentMember act" where
  "svc_AcceptOrganizationInvitation sv input =
     (let token = TrimSpace (ac_Token input) in
      bindA (activeInvitation sv token) (\<lambda>_.
      bindA (checkA (invalid (normalizeUsername (ac_Username input)))) (\<lambda>username.
      bindA (checkPassword (ac_Password input)) (\<lambda>_.
      let displayName = trimOr (ac_DisplayName input) username in
      if 128 < length displayName then failA ErrRequestInvalid else
      bindA (hashPassword sv (ac_Password input)) (\<lambda>hash.
      bindA (newID sv ''user'') (\<lambda>uid. bindA (newID sv ''idn'') (\<lambda>idn. bindA (newID sv ''cred'') (\<lambda>cred.
      bindA (nowA sv) (\<lambda>now.
      bindA (whenErr (mapStoreError [(StoreErrUsernameConflict, ErrConflict),
          (StoreErrInvitationInvalid, ErrInvitationInvalid)])
        (callA (repo_AcceptOrganizationInvitation
          (acceptRecord sv token uid idn cred username displayName hash now)))) (\<lambda>record.
      returnA (memberFromRecord record)))))))))))"

end
