(* ===== verification/Svc_Agent.thy ===== *)
theory Svc_Agent
  imports Svc_Session
begin

text \<open>
  \<open>agent.go\<close> and \<open>node.go\<close> of \<open>internal/service/auth\<close>: the online identities of agents, and the
  execution nodes that act for them with a credential of their own.
\<close>

section \<open>Agents\<close>

record Agent =
  an_AgentID :: string
  an_OwnerUserID :: string
  an_SourceAgentID :: string
  an_Name :: string
  an_Avatar :: string
  an_Status :: string
  an_CreatedAt :: time
  an_UpdatedAt :: time

record AgentDirectoryEntry =
  ad_AgentID :: string
  ad_OwnerUserID :: string
  ad_Name :: string
  ad_Avatar :: string

record PublishAgentInput =
  pa_SourceAgentID :: string
  pa_Name :: string
  pa_Avatar :: string

definition agentFromRecord :: "AgentRecord \<Rightarrow> Agent" where
  "agentFromRecord r = \<lparr>an_AgentID = ar_AgentID r, an_OwnerUserID = ar_OwnerUserID r,
     an_SourceAgentID = ar_SourceAgentID r, an_Name = ar_Name r, an_Avatar = ar_Avatar r,
     an_Status = ar_Status r, an_CreatedAt = ar_CreatedAt r, an_UpdatedAt = ar_UpdatedAt r\<rparr>"

definition agentEntry :: "AgentRecord \<Rightarrow> AgentDirectoryEntry" where
  "agentEntry r = \<lparr>ad_AgentID = ar_AgentID r, ad_OwnerUserID = ar_OwnerUserID r, ad_Name = ar_Name r,
     ad_Avatar = ar_Avatar r\<rparr>"

definition svc_ListOwnedAgents :: "Principal \<Rightarrow> Agent list act" where
  "svc_ListOwnedAgents actor = bindA (readA (repo_ListOwnedAgents (pn_DeploymentID actor)
       (pn_OrganizationID actor) (pn_UserID actor))) (\<lambda>records.
     returnA (map agentFromRecord records))"

definition svc_ListOrganizationAgents :: "Principal \<Rightarrow> AgentDirectoryEntry list act" where
  "svc_ListOrganizationAgents actor = bindA (readA (repo_ListOrganizationAgents
       (pn_DeploymentID actor) (pn_OrganizationID actor))) (\<lambda>records.
     returnA (map agentEntry records))"

definition publishedAgent :: "Principal \<Rightarrow> string \<Rightarrow> PublishAgentInput \<Rightarrow> AgentRecord" where
  "publishedAgent actor agentID input =
     \<lparr>ar_AgentID = agentID, ar_DeploymentID = pn_DeploymentID actor,
      ar_OrganizationID = pn_OrganizationID actor, ar_OwnerUserID = pn_UserID actor,
      ar_SourceAgentID = TrimSpace (pa_SourceAgentID input), ar_Name = TrimSpace (pa_Name input),
      ar_Avatar = TrimSpace (pa_Avatar input), ar_Status = '''', ar_CreatedAt = zeroTime,
      ar_UpdatedAt = zeroTime\<rparr>"

definition svc_PublishAgent :: "Service \<Rightarrow> Principal \<Rightarrow> PublishAgentInput \<Rightarrow> Agent act" where
  "svc_PublishAgent sv actor input =
     (let source = TrimSpace (pa_SourceAgentID input); name = TrimSpace (pa_Name input);
          avatar = TrimSpace (pa_Avatar input)
      in if source = '''' \<or> 128 < length source \<or> name = '''' \<or> 128 < length name \<or> 2048 < length avatar
      then failA ErrRequestInvalid else
      bindA (newID sv ''agent'') (\<lambda>agentID. bindA (nowA sv) (\<lambda>now.
      bindA (whenErr (mapStoreError [(StoreErrNotFound, ErrForbidden)])
        (callA (repo_UpsertOwnedAgent (publishedAgent actor agentID input) now))) (\<lambda>record.
      returnA (agentFromRecord record)))))"

text \<open>The loop of \<open>VerifyOwnedAgents\<close>: trimmed ids in order, each once.\<close>

fun normalizeAgentIDs :: "string set \<Rightarrow> string list \<Rightarrow> service_error + string list" where
  "normalizeAgentIDs seen [] = Inr []"
| "normalizeAgentIDs seen (raw # ids) = (let agentID = TrimSpace raw in
     if agentID = '''' \<or> 128 < length agentID then Inl ErrRequestInvalid
     else if agentID \<in> seen then normalizeAgentIDs seen ids
     else map_sum id ((#) agentID) (normalizeAgentIDs (insert agentID seen) ids))"

definition svc_VerifyOwnedAgents :: "string \<Rightarrow> string \<Rightarrow> string \<Rightarrow> string list \<Rightarrow> Agent list act" where
  "svc_VerifyOwnedAgents rawDep rawOrg rawOwner agentIDs =
     (let dep = TrimSpace rawDep; org = TrimSpace rawOrg; owner = TrimSpace rawOwner in
      if dep = '''' \<or> org = '''' \<or> owner = '''' \<or> agentIDs = [] \<or> 100 < length agentIDs
      then failA ErrRequestInvalid else
      bindA (checkA (normalizeAgentIDs {} agentIDs)) (\<lambda>ids.
      bindA (whenErr (mapStoreError [(StoreErrNotFound, ErrForbidden)])
        (liftA (repo_ListVerifiedAgents dep org owner ids))) (\<lambda>records.
      returnA (map agentFromRecord records))))"

section \<open>Nodes\<close>

definition relayNodeAudience :: string where
  "relayNodeAudience = ''nexus-relay-node''"

definition nodeTokenTTL :: time where
  "nodeTokenTTL = 15 * minute"

record ExecutionNode =
  ex_NodeID :: string
  ex_Name :: string
  ex_AgentIDs :: "string list"
  ex_CreatedAt :: time
  ex_RevokedAt :: "time option"

record RegisterNodeInput =
  rn_NodeID :: string
  rn_Name :: string
  rn_Credential :: string
  rn_AgentIDs :: "string list"

record NodeTokenResult =
  nt_Token :: string
  nt_ExpiresAt :: time
  nt_Agents :: "Agent list"
  nt_Directory :: "AgentDirectoryEntry list"

definition nodeCredentialHash :: "Service \<Rightarrow> string \<Rightarrow> service_error + string" where
  "nodeCredentialHash sv credential = (case b64Decode urlAlphabet credential of
       None \<Rightarrow> Inl ErrRequestInvalid
     | Some decoded \<Rightarrow> if length decoded \<noteq> 32 then Inl ErrRequestInvalid
         else Inr (HexEncode (rt_sha256 (sv_runtime sv) decoded)))"

definition executionNode :: "node_row \<Rightarrow> ExecutionNode" where
  "executionNode r = \<lparr>ex_NodeID = n_node_id r, ex_Name = n_name r, ex_AgentIDs = n_agent_ids_json r,
     ex_CreatedAt = n_created_at r, ex_RevokedAt = n_revoked_at r\<rparr>"

text \<open>
  \<open>unicode.IsSpace\<close> or \<open>unicode.IsControl\<close> at some code point. The encodings looked for start
  with a byte that is no continuation byte, so a match at any byte is a match at a code point.
\<close>

fun spaceOrControl :: "string \<Rightarrow> bool" where
  "spaceOrControl [] = False"
| "spaceOrControl (c # s) \<longleftrightarrow> space_len space1 space2 space3 (c # s) \<noteq> 0 \<or> byte c < 32 \<or> byte c = 127 \<or>
     (byte c = 194 \<and> (case s of [] \<Rightarrow> False | d # _ \<Rightarrow> 128 \<le> byte d \<and> byte d \<le> 159)) \<or> spaceOrControl s"

definition validNodeID :: "string \<Rightarrow> bool" where
  "validNodeID i \<longleftrightarrow> i \<noteq> '''' \<and> length i \<le> 128 \<and> CHR '':'' \<notin> set i \<and> CHR ''/'' \<notin> set i \<and>
     \<not> spaceOrControl i"

definition newNode ::
  "Principal \<Rightarrow> string \<Rightarrow> string \<Rightarrow> string \<Rightarrow> string list \<Rightarrow> time \<Rightarrow> node_row" where
  "newNode actor nodeID name hash ids now =
     \<lparr>n_node_id = nodeID, n_deployment_id = pn_DeploymentID actor,
      n_organization_id = pn_OrganizationID actor, n_owner_user_id = pn_UserID actor,
      n_parent_session_id = pn_SessionID actor, n_credential_hash = hash, n_name = name,
      n_agent_ids_json = ids, n_created_at = now, n_revoked_at = None\<rparr>"

text \<open>\<open>slices.Sort\<close> and \<open>slices.Compact\<close>.\<close>

definition sortedIDs :: "string list \<Rightarrow> string list" where
  "sortedIDs ids = remdups_adj (sort ids)"

definition svc_RegisterNode :: "Service \<Rightarrow> Principal \<Rightarrow> RegisterNodeInput \<Rightarrow> ExecutionNode act" where
  "svc_RegisterNode sv actor input =
     (let name = TrimSpace (rn_Name input) in
      if \<not> validNodeID (rn_NodeID input) \<or> name = '''' \<or> 128 < length name \<or>
         rn_AgentIDs input = [] \<or> 32 < length (rn_AgentIDs input) then failA ErrRequestInvalid else
      bindA (checkA (nodeCredentialHash sv (rn_Credential input))) (\<lambda>hash.
      let ids = sortedIDs (rn_AgentIDs input) in
      if list_ex (\<lambda>i. i = '''' \<or> 128 < length i) ids then failA ErrRequestInvalid else
      bindA (nowA sv) (\<lambda>now.
      bindA (whenErr (mapStoreError [(StoreErrNotFound, ErrForbidden), (StoreErrStateConflict, ErrConflict)])
        (callA (repo_RegisterNode (newNode actor (rn_NodeID input) name hash ids now)))) (\<lambda>record.
      returnA (executionNode record)))))"

definition svc_ListNodes :: "Principal \<Rightarrow> ExecutionNode list act" where
  "svc_ListNodes actor = bindA (readA (repo_ListNodes (pn_DeploymentID actor) (pn_OrganizationID actor)
       (pn_UserID actor))) (\<lambda>records.
     returnA (map executionNode records))"

definition svc_RevokeNode :: "Service \<Rightarrow> Principal \<Rightarrow> string \<Rightarrow> unit act" where
  "svc_RevokeNode sv actor nodeID =
     (if \<not> validNodeID nodeID then failA ErrRequestInvalid else
      bindA (nowA sv) (\<lambda>now.
      whenErr (mapStoreError [(StoreErrNotFound, ErrNotFound)])
        (callA (repo_RevokeNode (pn_DeploymentID actor) (pn_OrganizationID actor) (pn_UserID actor)
          (pn_SessionID actor) nodeID now))))"

definition svc_Node :: "Principal \<Rightarrow> string \<Rightarrow> ExecutionNode act" where
  "svc_Node actor nodeID = bindA (whenErr (mapStoreError [(StoreErrNotFound, ErrNotFound)])
       (liftA (repo_Node (pn_DeploymentID actor) (pn_OrganizationID actor) (pn_UserID actor) nodeID)))
     (\<lambda>record. returnA (executionNode record))"

text \<open>The principal of a node's token: its owner's, marked as the node.\<close>

definition nodePrincipal :: "Principal \<Rightarrow> node_row \<Rightarrow> Principal" where
  "nodePrincipal actor node = actor\<lparr>pn_ParentSessionID := pn_SessionID actor,
     pn_SessionID := ''node:'' @ n_node_id node, pn_NodeID := n_node_id node, pn_Role := ''node'',
     pn_AuthMethod := ''node'', pn_AgentIDs := n_agent_ids_json node\<rparr>"

definition nodeDirectory :: "Principal \<Rightarrow> string list \<Rightarrow> AgentDirectoryEntry list act" where
  "nodeDirectory actor agentIDs =
     (if agentIDs = [] then returnA [] else
      bindA (svc_ListOrganizationAgents actor) (\<lambda>entries.
      returnA (filter (\<lambda>e. ad_AgentID e \<in> set agentIDs) entries)))"

definition svc_ExchangeNodeTokenWithDirectory :: "Service \<Rightarrow> string \<Rightarrow> string list \<Rightarrow> NodeTokenResult act" where
  "svc_ExchangeNodeTokenWithDirectory sv credential agentIDs =
     (if 100 < length agentIDs then failA ErrRequestInvalid else
      bindA (nowA sv) (\<lambda>now.
      case nodeCredentialHash sv credential of Inl _ \<Rightarrow> failA ErrUnauthenticated
      | Inr hash \<Rightarrow>
        bindA (whenErr (mapStoreError [(StoreErrNotFound, ErrUnauthenticated)])
          (liftA (repo_NodeByCredential hash))) (\<lambda>node.
        bindA (readA (repo_ResolveNodeOwner node)) (\<lambda>found. case found of
            None \<Rightarrow> failA ErrUnauthenticated
          | Some record \<Rightarrow>
            let actor = principalFromRecord record in
            if pn_DeploymentID actor \<noteq> n_deployment_id node \<or> pn_OrganizationID actor \<noteq> n_organization_id node
            then failA ErrForbidden else
            bindA (svc_VerifyOwnedAgents (n_deployment_id node) (n_organization_id node)
              (n_owner_user_id node) (n_agent_ids_json node)) (\<lambda>ags.
            bindA (nodeDirectory actor agentIDs) (\<lambda>directory.
            bindA (checkA (Sign sv (nodePrincipal actor node) relayNodeAudience now nodeTokenTTL)) (\<lambda>token.
            returnA \<lparr>nt_Token = token, nt_ExpiresAt = now + nodeTokenTTL, nt_Agents = ags,
              nt_Directory = directory\<rparr>)))))))"

definition svc_ExchangeNodeToken :: "Service \<Rightarrow> string \<Rightarrow> NodeTokenResult act" where
  "svc_ExchangeNodeToken sv credential = svc_ExchangeNodeTokenWithDirectory sv credential []"

end
