(* ===== verification/Svc_System.thy ===== *)
theory Svc_System
  imports Svc_Import Svc_User Svc_Organization Svc_Agent Org_Ownership
begin

text \<open>
  The service as a state machine over the host, and its refinement to the repository: whatever a
  request does to the database is a run of repository operations, each in the normal form that
  the service's checks establish. The calculus \<open>performs\<close> follows the structure of the actions.
\<close>

section \<open>Requests\<close>

datatype request =
    ReqSetupOwner SetupOwnerInput
  | ReqLogin LoginInput
  | ReqLogout string
  | ReqResolveSession string
  | ReqExchangeBoundHuman string string string
  | ReqExchangePrincipal string string
  | ReqUpdateAvatar string string
  | ReqChangePassword ChangePasswordInput
  | ReqSettlePasswordChange string string
  | ReqUpsertSubscriptionPlan Principal UpsertSubscriptionPlanInput
  | ReqUpdateMemberEntitlement Principal string string
  | ReqUpdateMember Principal string UpdateMemberInput
  | ReqCreateDeploymentMember Principal CreateMemberInput
  | ReqUpdateDeploymentMember Principal string UpdateMemberInput
  | ReqMutateOrganization Principal string OrganizationInput
  | ReqJoinOrganization Principal string
  | ReqRegisterAccount LoginInput
  | ReqCreateInvitation Principal CreateOrganizationInvitationInput
  | ReqRevokeInvitation Principal string
  | ReqDeleteInvitation Principal string
  | ReqAcceptInvitation AcceptOrganizationInvitationInput
  | ReqPublishAgent Principal PublishAgentInput
  | ReqRegisterNode Principal RegisterNodeInput
  | ReqRevokeNode Principal string
  | ReqExchangeNodeToken string "string list"

fun run_request :: "Service \<Rightarrow> request \<Rightarrow> host \<Rightarrow> host" where
  "run_request sv (ReqSetupOwner i) h = snd (svc_SetupOwner sv i h)"
| "run_request sv (ReqLogin i) h = snd (svc_Login sv i h)"
| "run_request sv (ReqLogout t) h = snd (svc_Logout sv t h)"
| "run_request sv (ReqResolveSession t) h = snd (svc_ResolveSession sv t h)"
| "run_request sv (ReqExchangeBoundHuman u i a) h = snd (svc_ExchangeBoundHuman sv u i a h)"
| "run_request sv (ReqExchangePrincipal t a) h = snd (svc_ExchangePrincipal sv t a h)"
| "run_request sv (ReqUpdateAvatar u a) h = snd (svc_UpdateAvatar sv u a h)"
| "run_request sv (ReqChangePassword i) h = snd (svc_ChangePassword sv i h)"
| "run_request sv (ReqSettlePasswordChange u r) h = snd (svc_SettlePasswordChangeNotApplied sv u r h)"
| "run_request sv (ReqUpsertSubscriptionPlan p i) h = snd (svc_UpsertSubscriptionPlan sv p i h)"
| "run_request sv (ReqUpdateMemberEntitlement p u k) h = snd (svc_UpdateMemberEntitlement sv p u k h)"
| "run_request sv (ReqUpdateMember p u i) h = snd (svc_UpdateMember sv p u i h)"
| "run_request sv (ReqCreateDeploymentMember p i) h = snd (svc_CreateDeploymentMember sv p i h)"
| "run_request sv (ReqUpdateDeploymentMember p u i) h = snd (svc_UpdateDeploymentMember sv p u i h)"
| "run_request sv (ReqMutateOrganization p a i) h = snd (svc_MutateOrganization sv p a i h)"
| "run_request sv (ReqJoinOrganization p t) h = snd (svc_JoinOrganization sv p t h)"
| "run_request sv (ReqRegisterAccount i) h = snd (svc_RegisterAccount sv i h)"
| "run_request sv (ReqCreateInvitation p i) h = snd (svc_CreateOrganizationInvitation sv p i h)"
| "run_request sv (ReqRevokeInvitation p i) h = snd (svc_RevokeOrganizationInvitation sv p i h)"
| "run_request sv (ReqDeleteInvitation p i) h = snd (svc_DeleteOrganizationInvitation sv p i h)"
| "run_request sv (ReqAcceptInvitation i) h = snd (svc_AcceptOrganizationInvitation sv i h)"
| "run_request sv (ReqPublishAgent p i) h = snd (svc_PublishAgent sv p i h)"
| "run_request sv (ReqRegisterNode p i) h = snd (svc_RegisterNode sv p i h)"
| "run_request sv (ReqRevokeNode p n) h = snd (svc_RevokeNode sv p n h)"
| "run_request sv (ReqExchangeNodeToken c ids) h = snd (svc_ExchangeNodeTokenWithDirectory sv c ids h)"

definition run_requests :: "Service \<Rightarrow> request list \<Rightarrow> host \<Rightarrow> host" where
  "run_requests sv reqs h = fold (run_request sv) reqs h"

section \<open>The operations an action performs\<close>

definition performs :: "(operation \<Rightarrow> bool) \<Rightarrow> 'a act \<Rightarrow> bool" where
  "performs ok m \<longleftrightarrow> (\<forall>h. \<exists>ops. list_all ok ops \<and> h_db (snd (m h)) = run_all ops (h_db h))"

text \<open>A value that an action may return.\<close>

definition yields :: "'a act \<Rightarrow> 'a \<Rightarrow> bool" where
  "yields m a \<longleftrightarrow> (\<exists>h k. m h = (Inr a, k))"

named_theorems performs_rules \<open>actions whose operations are known\<close>

lemma performs_still: "(\<And>h. h_db (snd (m h)) = h_db h) \<Longrightarrow> performs ok m"
  unfolding performs_def by (intro allI exI [of _ "[]"]) simp

lemma performs_return [performs_rules]: "performs ok (returnA a)"
  by (rule performs_still) simp

lemma performs_fail [performs_rules]: "performs ok (failA e)"
  by (rule performs_still) simp

lemma performs_check [performs_rules]: "performs ok (checkA r)"
  by (rule performs_still) simp

lemma performs_read [performs_rules]: "performs ok (readA q)"
  by (rule performs_still) simp

lemma performs_lift [performs_rules]: "performs ok (liftA q)"
  by (rule performs_still) (simp add: liftA_def)

lemma performs_now [performs_rules]: "performs ok (nowA sv)"
  by (rule performs_still) (simp add: nowA_def)

lemma performs_rand [performs_rules]: "performs ok (randA sv n)"
  by (rule performs_still) (simp add: randA_def)

lemma performs_bind [performs_rules]:
  assumes "performs ok m" and "\<And>a. yields m a \<Longrightarrow> performs ok (f a)"
  shows "performs ok (bindA m f)"
  unfolding performs_def
proof
  fix h
  obtain ops where ops: "list_all ok ops" "h_db (snd (m h)) = run_all ops (h_db h)"
    using assms(1) unfolding performs_def by blast
  show "\<exists>ops. list_all ok ops \<and> h_db (snd (bindA m f h)) = run_all ops (h_db h)"
  proof (cases "m h")
    case (Pair r k)
    show ?thesis
    proof (cases r)
      case (Inl e)
      with Pair ops show ?thesis by (auto simp: bindA_def)
    next
      case (Inr a)
      with Pair have "yields m a" unfolding yields_def by blast
      then obtain more where "list_all ok more" "h_db (snd (f a k)) = run_all more (h_db k)"
        using assms(2) unfolding performs_def by blast
      with Pair Inr ops show ?thesis
        by (intro exI [of _ "ops @ more"]) (simp add: bindA_def)
    qed
  qed
qed

lemma performs_catch [performs_rules]:
  assumes "performs ok m" and "\<And>e. performs ok (f e)" shows "performs ok (catchA m f)"
  unfolding performs_def
proof
  fix h
  obtain ops where ops: "list_all ok ops" "h_db (snd (m h)) = run_all ops (h_db h)"
    using assms(1) unfolding performs_def by blast
  show "\<exists>ops. list_all ok ops \<and> h_db (snd (catchA m f h)) = run_all ops (h_db h)"
  proof (cases "m h")
    case (Pair r k)
    show ?thesis
    proof (cases r)
      case (Inl e)
      obtain more where "list_all ok more" "h_db (snd (f e k)) = run_all more (h_db k)"
        using assms(2) unfolding performs_def by blast
      with Pair Inl ops show ?thesis
        by (intro exI [of _ "ops @ more"]) (simp add: catchA_def)
    next
      case (Inr a)
      with Pair ops show ?thesis by (auto simp: catchA_def)
    qed
  qed
qed

lemma performs_whenErr [performs_rules]: "performs ok m \<Longrightarrow> performs ok (whenErr f m)"
  unfolding whenErr_def by (intro performs_catch performs_fail)

lemma performs_try [performs_rules]: "performs ok m \<Longrightarrow> performs ok (tryA m)"
  by (simp add: performs_def tryA_def)

lemma performs_if [performs_rules]:
  "(b \<Longrightarrow> performs ok m) \<Longrightarrow> (\<not> b \<Longrightarrow> performs ok n) \<Longrightarrow> performs ok (if b then m else n)"
  by simp

lemma performs_option [performs_rules]:
  "(x = None \<Longrightarrow> performs ok m) \<Longrightarrow> (\<And>a. x = Some a \<Longrightarrow> performs ok (f a)) \<Longrightarrow>
     performs ok (case x of None \<Rightarrow> m | Some a \<Rightarrow> f a)"
  by (cases x) simp_all

lemma performs_sum [performs_rules]:
  "(\<And>e. x = Inl e \<Longrightarrow> performs ok (m e)) \<Longrightarrow> (\<And>a. x = Inr a \<Longrightarrow> performs ok (f a)) \<Longrightarrow>
     performs ok (case x of Inl e \<Rightarrow> m e | Inr a \<Rightarrow> f a)"
  by (cases x) simp_all

lemma performs_prod [performs_rules]:
  "(\<And>a b. x = (a, b) \<Longrightarrow> performs ok (f a b)) \<Longrightarrow> performs ok (case x of (a, b) \<Rightarrow> f a b)"
  by (cases x) simp

lemma performs_attempt [performs_rules]:
  "performs ok m1 \<Longrightarrow> performs ok m2 \<Longrightarrow> performs ok m3 \<Longrightarrow>
     performs ok (case x of PasswordAttemptCommitted \<Rightarrow> m1 | PasswordAttemptExisting \<Rightarrow> m2
       | PasswordAttemptCredentialChanged \<Rightarrow> m3)"
  by (cases x) simp_all

lemma performs_call:
  assumes "\<And>s. snd (op s) = run_op x s" and "ok x" shows "performs ok (callA op)"
  unfolding performs_def
proof
  fix h
  show "\<exists>ops. list_all ok ops \<and> h_db (snd (callA op h)) = run_all ops (h_db h)"
    using assms by (intro exI [of _ "[x]"]) (simp add: callA_def)
qed

lemma performs_mono: "performs ok m \<Longrightarrow> (\<And>x. ok x \<Longrightarrow> ok' x) \<Longrightarrow> performs ok' m"
  unfolding performs_def by (metis (mono_tags, lifting) list.pred_mono_strong)

text \<open>A call of the repository is its operation.\<close>

lemma performs_calls [performs_rules]:
  "ok (OpCreateOwner r) \<Longrightarrow> performs ok (callA (repo_CreateOwner r))"
  "ok (OpUpdateAvatar u a now) \<Longrightarrow> performs ok (callA (repo_UpdateAvatar u a now))"
  "ok (OpUpsertSubscriptionPlan p now) \<Longrightarrow> performs ok (callA (repo_UpsertSubscriptionPlan p now))"
  "ok (OpSetMemberEntitlement d u k now) \<Longrightarrow> performs ok (callA (repo_SetMemberEntitlement d u k now))"
  "ok (OpMutateOrganization c) \<Longrightarrow> performs ok (callA (repo_MutateOrganization c))"
  "ok (OpRegisterAccount m) \<Longrightarrow> performs ok (callA (repo_RegisterAccount m))"
  "ok (OpUpdateMember d g u b er es v nr ns nn now) \<Longrightarrow>
     performs ok (callA (repo_UpdateMember d g u b er es v nr ns nn now))"
  "ok (OpCreateDeploymentMember u m) \<Longrightarrow> performs ok (callA (repo_CreateDeploymentMember u m))"
  "ok (OpUpdateDeploymentMember d u b er es v nr ns nn now) \<Longrightarrow>
     performs ok (callA (repo_UpdateDeploymentMember d u b er es v nr ns nn now))"
  "ok (OpCreateOrganizationInvitation i) \<Longrightarrow> performs ok (callA (repo_CreateOrganizationInvitation i))"
  "ok (OpRevokeOrganizationInvitation g j b now) \<Longrightarrow>
     performs ok (callA (repo_RevokeOrganizationInvitation g j b now))"
  "ok (OpDeleteOrganizationInvitation g j b now) \<Longrightarrow>
     performs ok (callA (repo_DeleteOrganizationInvitation g j b now))"
  "ok (OpAcceptOrganizationInvitation x) \<Longrightarrow> performs ok (callA (repo_AcceptOrganizationInvitation x))"
  "ok (OpCreateSession y) \<Longrightarrow> performs ok (callA (repo_CreateSession y))"
  "ok (OpRevokeSession k now) \<Longrightarrow> performs ok (callA (repo_RevokeSession k now))"
  "ok (OpTouchSession k now) \<Longrightarrow> performs ok (callA (repo_TouchSession k now))"
  "ok (OpUpsertOwnedAgent z now) \<Longrightarrow> performs ok (callA (repo_UpsertOwnedAgent z now))"
  "ok (OpRegisterNode n) \<Longrightarrow> performs ok (callA (repo_RegisterNode n))"
  "ok (OpRevokeNode d g u j k now) \<Longrightarrow> performs ok (callA (repo_RevokeNode d g u j k now))"
  "ok (OpTryCommitPasswordChange u k a nn now) \<Longrightarrow>
     performs ok (callA (repo_TryCommitPasswordChange u k a nn now))"
  "ok (OpSettlePasswordChange u k a now) \<Longrightarrow> performs ok (callA (repo_SettlePasswordChange u k a now))"
  by (erule performs_call [rotated], simp)+

section \<open>Normal forms of operations\<close>

definition validName :: "string \<Rightarrow> bool" where
  "validName n \<longleftrightarrow> n \<noteq> '''' \<and> length n \<le> 128"

definition organizationActions :: "string list" where
  "organizationActions = [''create'', ''join'', ''leave'', ''transfer'', ''rename'', ''dissolve'']"

fun wellFormed :: "operation \<Rightarrow> bool" where
  "wellFormed (OpCreateOwner r) \<longleftrightarrow> validUsername (ow_Username r) \<and> validName (ow_DisplayName r) \<and>
     validName (ow_DeploymentName r) \<and> validName (ow_OrganizationName r) \<and> ow_OrganizationID r \<noteq> ''''"
| "wellFormed (OpUpdateAvatar u a now) \<longleftrightarrow> length a \<le> 255"
| "wellFormed (OpUpsertSubscriptionPlan p now) \<longleftrightarrow> normalPlan (planInput p)"
| "wellFormed (OpSetMemberEntitlement d u k now) \<longleftrightarrow> u \<noteq> '''' \<and> planKeyPattern k"
| "wellFormed (OpMutateOrganization c) \<longleftrightarrow> oc_Action c \<in> set organizationActions \<and>
     (oc_Action c \<in> {''create'', ''rename''} \<longrightarrow> validName (oc_Name c)) \<and>
     (oc_Action c = ''transfer'' \<longrightarrow> validName (oc_TargetUserID c)) \<and>
     (oc_Action c = ''create'' \<longrightarrow> oc_OrganizationID c \<noteq> '''')"
| "wellFormed (OpRegisterAccount r) \<longleftrightarrow> validUsername (nm_Username r)"
| "wellFormed (OpUpdateMember d g u a er es v nr ns nn now) \<longleftrightarrow> u \<noteq> '''' \<and> er \<noteq> ''owner'' \<and>
     nr \<noteq> ''owner'' \<and> es = ''active'' \<and> (ns = ''active'' \<or> ns = ''revoked'')"
| "wellFormed (OpCreateDeploymentMember a r) \<longleftrightarrow> validUsername (nm_Username r) \<and>
     validName (nm_DisplayName r) \<and> (nm_Role r = ''admin'' \<or> nm_Role r = ''member'')"
| "wellFormed (OpUpdateDeploymentMember d u a er es v nr ns nn now) \<longleftrightarrow> u \<noteq> '''' \<and> er \<noteq> ''owner'' \<and>
     nr \<noteq> ''owner'' \<and> (ns = es \<or> ns = ''active'' \<or> ns = ''revoked'')"
| "wellFormed (OpCreateOrganizationInvitation r) \<longleftrightarrow> (ir_Role r = ''admin'' \<or> ir_Role r = ''member'') \<and>
     ir_CreatedAt r + hour \<le> ir_ExpiresAt r \<and> ir_ExpiresAt r \<le> ir_CreatedAt r + 720 * hour"
| "wellFormed (OpRevokeOrganizationInvitation g i a now) \<longleftrightarrow> validName i"
| "wellFormed (OpDeleteOrganizationInvitation g i a now) \<longleftrightarrow> validName i"
| "wellFormed (OpAcceptOrganizationInvitation r) \<longleftrightarrow> validUsername (ai_Username r) \<and>
     validName (ai_DisplayName r)"
| "wellFormed (OpCreateSession r) \<longleftrightarrow> pr_AuthMethod (sr_Principal r) = ''password''"
| "wellFormed (OpUpsertOwnedAgent r now) \<longleftrightarrow> validName (ar_SourceAgentID r) \<and> validName (ar_Name r) \<and>
     length (ar_Avatar r) \<le> 2048"
| "wellFormed (OpRegisterNode n) \<longleftrightarrow> validNodeID (n_node_id n) \<and> validName (n_name n) \<and>
     n_agent_ids_json n \<noteq> [] \<and> length (n_agent_ids_json n) \<le> 32 \<and> sorted (n_agent_ids_json n) \<and>
     distinct (n_agent_ids_json n) \<and> list_all validName (n_agent_ids_json n)"
| "wellFormed (OpRevokeNode d g u i n now) \<longleftrightarrow> validNodeID n"
| "wellFormed (OpTryCommitPasswordChange u r c n now) \<longleftrightarrow> normalizeRequestID r = Inr r"
| "wellFormed (OpSettlePasswordChange u r e now) \<longleftrightarrow> normalizeRequestID r = Inr r \<and> e = ''not_applied''"
| "wellFormed (OpRevokeSession k now) \<longleftrightarrow> True"
| "wellFormed (OpTouchSession k now) \<longleftrightarrow> True"
| "wellFormed (OpImportSubscriptions ps es now) \<longleftrightarrow> False"

lemma wellFormed_namesOrg: "wellFormed x \<Longrightarrow> namesOrg x"
  by (cases x) (simp_all add: namesOrg_def)

text \<open>What the values of the checks are.\<close>

lemma yields_check [simp]: "yields (checkA r) a \<longleftrightarrow> r = Inr a"
  by (simp add: yields_def)

lemma yields_bind: "yields (bindA m f) b \<Longrightarrow> \<exists>a. yields m a \<and> yields (f a) b"
  unfolding yields_def by (metis bindA_Inr)

lemma yields_return [simp]: "yields (returnA a) b \<longleftrightarrow> b = a"
  by (auto simp: yields_def)

lemma yields_fail [simp]: "\<not> yields (failA e) b"
  by (simp add: yields_def)

lemma yields_newID: "yields (newID sv p) i \<Longrightarrow> i \<noteq> ''''"
  by (auto simp: yields_def newID_def split: option.splits)

lemma invalid_Inr [simp]: "invalid r = Inr a \<longleftrightarrow> r = Inr a"
  by (cases r) (simp_all add: invalid_def)

lemma validUsername_name [simp]: "validUsername u \<Longrightarrow> validName u"
  by (auto simp: validUsername_def validName_def)

lemma trimOr_name [simp]: "validName d \<Longrightarrow> validName (trimOr v d) \<longleftrightarrow> length (trimOr v d) \<le> 128"
  by (auto simp: trimOr_def validName_def)

lemma validName_Nexus [simp]: "validName ''Nexus''"
  by (simp add: validName_def)

lemma performs_newID [performs_rules]: "performs ok (newID sv p)"
  unfolding newID_def by (intro performs_rules)

lemma performs_newToken [performs_rules]: "performs ok (newToken sv)"
  unfolding newToken_def by (intro performs_rules)

lemma performs_hash [performs_rules]: "performs ok (hashPassword sv p)"
  unfolding hashPassword_def by (intro performs_rules)

lemma performs_checkPassword [performs_rules]: "performs ok (checkPassword p)"
  unfolding checkPassword_def by (intro performs_rules)

lemma performs_refuse [performs_rules]: "performs ok (refuse r)"
  unfolding refuse_def by (intro performs_rules)

lemma performs_attach [performs_rules]: "performs ok (attachEntitlement p)"
  unfolding attachEntitlement_def svc_EffectiveEntitlement_def Let_def by (intro performs_rules)

lemma performs_overview [performs_rules]: "performs ok (svc_SubscriptionOverview sv p)"
  unfolding svc_SubscriptionOverview_def by (intro performs_rules)

lemma performs_sign [performs_rules]: "performs ok (signPrincipal sv p a)"
  unfolding signPrincipal_def Let_def by (intro performs_rules)

lemma performs_touched [performs_rules]: "performs wellFormed (touched r now)"
  unfolding touched_def by (intro performs_rules) simp

lemma performs_user [performs_rules]: "performs ok (svc_UserByID u)"
  unfolding svc_UserByID_def by (intro performs_rules)

section \<open>Every request\<close>

lemma performs_SetupOwner: "performs wellFormed (svc_SetupOwner sv i)"
  unfolding svc_SetupOwner_def Let_def
  by (intro performs_rules)
     (auto simp: normalizeUsername_Inr ownerRecord_def ownerPrincipal_def
       dest: yields_newID)

lemma performs_Login: "performs wellFormed (svc_Login sv i)"
  unfolding svc_Login_def
  by (intro performs_rules)
     (auto simp: loginSession_def principalRecord_def attachEntitlement_Inr yields_def)

lemma performs_Logout: "performs wellFormed (svc_Logout sv t)"
  unfolding svc_Logout_def by (intro performs_rules) simp

lemma performs_Resolve [performs_rules]: "performs wellFormed (svc_ResolveSession sv t)"
  unfolding svc_ResolveSession_def by (intro performs_rules)

lemma performs_VerifyBound [performs_rules]: "performs wellFormed (svc_VerifyBoundHuman sv u i)"
  unfolding svc_VerifyBoundHuman_def by (intro performs_rules)

lemma performs_ExchangeBound: "performs wellFormed (svc_ExchangeBoundHuman sv u i a)"
  unfolding svc_ExchangeBoundHuman_def by (intro performs_rules)

lemma performs_Exchange: "performs wellFormed (svc_ExchangePrincipal sv t a)"
  unfolding svc_ExchangePrincipal_def by (intro performs_rules)

lemma performs_UpdateAvatar: "performs wellFormed (svc_UpdateAvatar sv u a)"
  unfolding svc_UpdateAvatar_def Let_def by (intro performs_rules) simp

lemma performs_Outcome [performs_rules]: "performs ok (svc_PasswordChangeOutcome u r)"
  unfolding svc_PasswordChangeOutcome_def by (intro performs_rules)

lemma performs_resolvePassword [performs_rules]: "performs ok (resolvePasswordChange u r)"
  unfolding resolvePasswordChange_def by (intro performs_rules)

lemma performs_settle:
  "normalizeRequestID r = Inr r \<Longrightarrow> performs wellFormed (settlePasswordChange sv u r ''not_applied'')"
  unfolding settlePasswordChange_def by (intro performs_rules) simp

lemma performs_reject:
  "normalizeRequestID r = Inr r \<Longrightarrow> performs wellFormed (rejectPasswordChange sv u r e)"
  unfolding rejectPasswordChange_def by (intro performs_rules performs_settle)

lemma performs_attemptPassword:
  "normalizeRequestID r = Inr r \<Longrightarrow> performs wellFormed (attemptPasswordChange sv u r c n)"
  unfolding attemptPasswordChange_def by (intro performs_rules performs_reject) simp_all

lemma performs_ChangePassword: "performs wellFormed (svc_ChangePassword sv i)"
  unfolding svc_ChangePassword_def Let_def
  by (intro performs_rules performs_attemptPassword) (rule normalizeRequestID_fixed)

lemma performs_Settle: "performs wellFormed (svc_SettlePasswordChangeNotApplied sv u r)"
  unfolding svc_SettlePasswordChangeNotApplied_def
  by (intro performs_rules performs_settle) (simp add: normalizeRequestID_fixed)

lemma planInput_row [simp]: "planInput (planRow d p) = p"
  by (simp add: planInput_def planRow_def)

lemma performs_UpsertPlan: "performs wellFormed (svc_UpsertSubscriptionPlan sv p i)"
  unfolding svc_UpsertSubscriptionPlan_def
  by (intro performs_rules) (simp add: normalizeSubscriptionPlan_Inr)

lemma performs_UpdateEntitlement: "performs wellFormed (svc_UpdateMemberEntitlement sv p u k)"
  unfolding svc_UpdateMemberEntitlement_def Let_def by (intro performs_rules) simp

lemma performs_organizationRole [performs_rules]: "performs ok (organizationRoleFor i t)"
  unfolding organizationRoleFor_def by (intro performs_rules)

lemma yields_organizationRole:
  "yields (organizationRoleFor i t) r \<Longrightarrow> dm_Role t \<noteq> ''owner'' \<Longrightarrow> r \<noteq> ''owner''"
  by (auto simp: organizationRoleFor_def dest!: yields_bind split: option.splits if_splits)

lemma nextStatus_Inr:
  "nextStatus i t = Inr s \<Longrightarrow> s = dm_MembershipStatus t \<or> s = ''active'' \<or> s = ''revoked''"
  by (auto simp: nextStatus_def Let_def split: option.splits if_splits)

lemma deploymentRoleFor_Inr:
  "deploymentRoleFor i t = Inr r \<Longrightarrow> dm_Role t \<noteq> ''owner'' \<Longrightarrow> r \<noteq> ''owner''"
  by (auto simp: deploymentRoleFor_def split: option.splits sum.splits if_splits)

lemma performs_UpdateMember: "performs wellFormed (svc_UpdateMember sv p u i)"
  unfolding svc_UpdateMember_def Let_def
  by (intro performs_rules) (auto dest: yields_organizationRole nextStatus_Inr)

lemma performs_UpdateDeploymentMember: "performs wellFormed (svc_UpdateDeploymentMember sv p u i)"
  unfolding svc_UpdateDeploymentMember_def Let_def
  by (intro performs_rules) (auto dest: deploymentRoleFor_Inr nextStatus_Inr)

lemma performs_CreateMember: "performs wellFormed (svc_CreateDeploymentMember sv p i)"
  unfolding svc_CreateDeploymentMember_def Let_def
  by (intro performs_rules) (auto simp: normalizeUsername_Inr newMemberRecord_def dest: normalizeRole_Inr)

lemma performs_MutateOrganization: "performs wellFormed (svc_MutateOrganization sv p a i)"
  unfolding svc_MutateOrganization_def Let_def
  by (intro performs_rules)
     (auto simp: organizationCommand_def organizationActions_def validName_def dest: yields_newID)

lemma performs_JoinOrganization: "performs wellFormed (svc_JoinOrganization sv p t)"
  unfolding svc_JoinOrganization_def
  by (intro performs_rules) (simp add: organizationCommand_def organizationActions_def)

lemma performs_RegisterAccount: "performs wellFormed (svc_RegisterAccount sv i)"
  unfolding svc_RegisterAccount_def
  by (intro performs_rules) (simp add: normalizeUsername_Inr newMemberRecord_def)

lemma performs_CreateInvitation: "performs wellFormed (svc_CreateOrganizationInvitation sv p i)"
  unfolding svc_CreateOrganizationInvitation_def Let_def
  by (intro performs_rules)
     (auto simp: newInvitation_def hour_def minute_def second_def maxInvitationHours_def
       defaultInvitationHours_def dest: normalizeRole_Inr)

lemma performs_invitationForAdmin [performs_rules]: "performs ok (invitationForAdmin p i)"
  unfolding invitationForAdmin_def by (intro performs_rules)

lemma performs_mutateInvitation: "performs wellFormed (mutateOrganizationInvitation sv p i remove)"
  unfolding mutateOrganizationInvitation_def Let_def
  by (cases remove; simp only: if_True if_False; intro performs_rules) (simp_all add: validName_def)

lemma performs_activeInvitation [performs_rules]: "performs ok (activeInvitation sv t)"
  unfolding activeInvitation_def by (intro performs_rules)

lemma performs_AcceptInvitation: "performs wellFormed (svc_AcceptOrganizationInvitation sv i)"
  unfolding svc_AcceptOrganizationInvitation_def Let_def
  by (intro performs_rules) (auto simp: normalizeUsername_Inr acceptRecord_def)

lemma performs_PublishAgent: "performs wellFormed (svc_PublishAgent sv p i)"
  unfolding svc_PublishAgent_def Let_def
  by (intro performs_rules) (simp add: publishedAgent_def validName_def)

lemma sorted_remdups_adj: "sorted (xs :: string list) \<Longrightarrow> sorted (remdups_adj xs) \<and> distinct (remdups_adj xs)"
  by (induction xs rule: remdups_adj.induct) (auto simp: less_le)

lemma sortedIDs_normal: "sorted (sortedIDs ids)" "distinct (sortedIDs ids)"
  "sortedIDs ids = [] \<longleftrightarrow> ids = []" "length (sortedIDs ids) \<le> length ids" "set (sortedIDs ids) = set ids"
proof -
  have "sort ids = [] \<longleftrightarrow> ids = []" by (metis length_0_conv length_sort)
  then show "sorted (sortedIDs ids)" "distinct (sortedIDs ids)" "sortedIDs ids = [] \<longleftrightarrow> ids = []"
    "length (sortedIDs ids) \<le> length ids" "set (sortedIDs ids) = set ids"
    using sorted_remdups_adj [of "sort ids"] remdups_adj_length [of "sort ids"]
    by (simp_all add: sortedIDs_def)
qed

lemma performs_RegisterNode: "performs wellFormed (svc_RegisterNode sv p i)"
  unfolding svc_RegisterNode_def Let_def
proof (intro performs_rules, goal_cases)
  case (1 hash now)
  then show ?case
    using sortedIDs_normal [of "rn_AgentIDs i"]
    by (auto simp: newNode_def validName_def list_ex_iff list_all_iff)
qed

lemma performs_RevokeNode: "performs wellFormed (svc_RevokeNode sv p n)"
  unfolding svc_RevokeNode_def by (intro performs_rules) simp

lemma performs_VerifyAgents [performs_rules]: "performs ok (svc_VerifyOwnedAgents d g u ids)"
  unfolding svc_VerifyOwnedAgents_def Let_def by (intro performs_rules)

lemma performs_nodeDirectory [performs_rules]: "performs ok (nodeDirectory p ids)"
  unfolding nodeDirectory_def svc_ListOrganizationAgents_def by (intro performs_rules)

lemma performs_ExchangeNode: "performs ok (svc_ExchangeNodeTokenWithDirectory sv c ids)"
  unfolding svc_ExchangeNodeTokenWithDirectory_def Let_def by (intro performs_rules)

lemmas performs_requests = performs_SetupOwner performs_Login performs_Logout performs_Resolve
  performs_ExchangeBound performs_Exchange performs_UpdateAvatar performs_ChangePassword
  performs_Settle performs_UpsertPlan performs_UpdateEntitlement performs_UpdateMember
  performs_CreateMember performs_UpdateDeploymentMember performs_MutateOrganization
  performs_JoinOrganization performs_RegisterAccount performs_CreateInvitation
  performs_mutateInvitation performs_AcceptInvitation performs_PublishAgent performs_RegisterNode
  performs_RevokeNode performs_ExchangeNode

text \<open>The refinement: one request, and a sequence of them.\<close>

lemma request_operations:
  "\<exists>ops. list_all wellFormed ops \<and> h_db (run_request sv req h) = run_all ops (h_db h)"
proof (cases req)
qed (simp_all only: run_request.simps svc_RevokeOrganizationInvitation_def
    svc_DeleteOrganizationInvitation_def performs_requests [unfolded performs_def, rule_format])

lemma run_requests_simps [simp]:
  "run_requests sv [] h = h"
  "run_requests sv (r # rs) h = run_requests sv rs (run_request sv r h)"
  "run_requests sv (rs @ qs) h = run_requests sv qs (run_requests sv rs h)"
  by (simp_all add: run_requests_def)

lemma requests_operations:
  "\<exists>ops. list_all wellFormed ops \<and> h_db (run_requests sv reqs h) = run_all ops (h_db h)"
proof (induction reqs arbitrary: h)
  case Nil
  then show ?case by (intro exI [of _ "[]"]) simp
next
  case (Cons r rs)
  obtain ops where "list_all wellFormed ops" "h_db (run_request sv r h) = run_all ops (h_db h)"
    using request_operations by blast
  moreover obtain more where "list_all wellFormed more"
    "h_db (run_requests sv rs (run_request sv r h)) = run_all more (h_db (run_request sv r h))"
    using Cons.IH by blast
  ultimately show ?case by (intro exI [of _ "ops @ more"]) simp
qed

end
