(* ===== verification/Svc_Life.thy ===== *)
theory Svc_Life
  imports Svc_System Credential_Life
begin

text \<open>
  What requests leave behind for later requests: the session that a login creates, and the
  outcome that a password change records. The lemmas lift the life cycles of the repository's rows
  to the service.
\<close>

section \<open>Documented behaviour of the runtime\<close>

text \<open>
  \<open>rand.Read\<close> fills the whole buffer or fails, \<open>argon2.IDKey\<close> returns a key of the length asked
  for, and \<open>argon2.Version\<close> is a small constant.
\<close>

definition documentedRuntime :: "runtime \<Rightarrow> bool" where
  "documentedRuntime rt \<longleftrightarrow>
     (\<forall>k n bs. rt_rand rt k n = Some bs \<longrightarrow> length bs = n) \<and>
     (\<forall>pw salt t m p n. 0 \<le> n \<longrightarrow> int (length (rt_argon2 rt pw salt t m p n)) = n) \<and>
     0 \<le> rt_argon2_version rt \<and> rt_argon2_version rt < 2 ^ 63"

lemma hashPassword_Inr:
  "hashPassword sv pw h = (Inr enc, k) \<longleftrightarrow>
     (\<exists>salt. rt_rand (sv_runtime sv) (h_draws h) 16 = Some salt \<and> k = h\<lparr>h_draws := Suc (h_draws h)\<rparr> \<and>
        enc = encodeHash sv salt (rt_argon2 (sv_runtime sv) pw salt passwordIterations passwordMemory
          passwordParallelism passwordKeyLength))"
  by (auto simp: hashPassword_def split: option.splits)

lemma written_hash:
  assumes "hashPassword sv pw h = (Inr enc, k)" and "documentedRuntime (sv_runtime sv)"
  obtains salt where "length salt = 16"
    and "\<And>other. verifyPassword sv other enc =
      Inr (rt_argon2 (sv_runtime sv) other salt passwordIterations passwordMemory passwordParallelism passwordKeyLength =
           rt_argon2 (sv_runtime sv) pw salt passwordIterations passwordMemory passwordParallelism passwordKeyLength)"
proof -
  from assms(1) obtain salt where salt: "rt_rand (sv_runtime sv) (h_draws h) 16 = Some salt"
    and enc: "enc = encodeHash sv salt (rt_argon2 (sv_runtime sv) pw salt passwordIterations passwordMemory
          passwordParallelism passwordKeyLength)"
    by (auto simp only: hashPassword_Inr)
  from salt assms(2) have len: "length salt = 16" by (auto simp: documentedRuntime_def)
  then have "salt \<noteq> []" by auto
  with assms(2) show thesis
    by (intro that [OF len]) (simp add: enc verify_hash documentedRuntime_def passwordKeyLength_def)
qed

lemma newToken_Inr:
  "newToken sv h = (Inr token, k) \<longleftrightarrow> (\<exists>bs. rt_rand (sv_runtime sv) (h_draws h) 32 = Some bs \<and>
     token = HexEncode bs \<and> k = h\<lparr>h_draws := Suc (h_draws h)\<rparr>)"
  by (auto simp: newToken_def split: option.splits)

lemma newID_host: "newID sv pfx h = (Inr i, k) \<Longrightarrow> h_db k = h_db h"
  by (auto simp: newID_def split: option.splits)

section \<open>Sessions\<close>

lemma touch_schema [simp]: "schema_ok (sql_touch_session now i s) = schema_ok s"
  by (simp add: schema_ok_def schema_defs sql_touch_session_def map_update_where ball_update_where
      del: set_map list.set_map cong: option.case_cong)

lemma TouchSession_Inr:
  "schema_ok s \<Longrightarrow> repo_TouchSession i now s = (Inr (), sql_touch_session now i s)"
  by (simp add: repo_TouchSession_def run_tx_Inr)

text \<open>The tables behind a principal that a login and a touch leave alone.\<close>

definition sameAccess :: "db \<Rightarrow> db \<Rightarrow> bool" where
  "sameAccess s t \<longleftrightarrow> deployments t = deployments s \<and> deployment_memberships t = deployment_memberships s \<and>
     organizations t = organizations s \<and> organization_memberships t = organization_memberships s \<and>
     subscription_plans t = subscription_plans s \<and> member_entitlements t = member_entitlements s"

lemma sameAccess_statements:
  "sameAccess s t \<Longrightarrow> sameAccess s (sql_touch_session now i t)"
  "sameAccess s t \<Longrightarrow> sameAccess s (sql_purge_sessions now t)"
  "sameAccess s t \<Longrightarrow> sameAccess s (sql_insert_session r t)"
  "sameAccess s t \<Longrightarrow> sameAccess s (sql_update_last_login now u t)"
  "sameAccess s s"
  by (simp_all add: sameAccess_def session_statements sql_update_last_login_def)

lemma sameAccess_CreateSession:
  "repo_CreateSession r s = (Inr x, t) \<Longrightarrow> sameAccess s t"
  unfolding CreateSession_Inr by (auto intro: sameAccess_statements)

lemma sameAccess_reads:
  assumes "sameAccess s t"
  shows "repo_EffectiveEntitlement d u t = repo_EffectiveEntitlement d u s"
    and "findMembership t d u = findMembership s d u" and "deploymentActive t d = deploymentActive s d"
    and "joinedOrganization t d u = joinedOrganization s d u"
    and "activeOrgMembership t u = activeOrgMembership s u"
  using assms
  by (simp_all add: sameAccess_def repo_EffectiveEntitlement_def findMembership_def boundPlanKey_def
      findEntitlement_def findPlan_def deploymentActive_def findDeployment_def joinedOrganization_def
      activeOrgMembership_def cong: option.case_cong)

lemma sameAccess_attach:
  assumes "attachEntitlement p h = (Inr q, k)" and "sameAccess (h_db h) (h_db j)"
  shows "attachEntitlement p j = (Inr q, j)"
  using assms by (auto simp: attachEntitlement_Inr sameAccess_reads(1))

text \<open>The principal of a login record, read again through the session it opened.\<close>

lemma loginRecord_rows:
  assumes "repo_LoginRecord username s = Some r"
  obtains u m where "u \<in> set (users s)" and "m \<in> set (deployment_memberships s)"
    and "u_user_id u = m_user_id m" and "deploymentActive s (m_deployment_id m)"
    and "lr_Principal r = principalOf s u m '''' ''''"
    and "lr_UserStatus r = u_status u" and "lr_MembershipState r = m_status m"
  using assms that
  by (auto simp: repo_LoginRecord_def split: option.splits dest!: find_Some_set sql_first_Some)

lemma principalOf_login:
  "sameAccess s t \<Longrightarrow> u_user_id v = u_user_id u \<Longrightarrow> u_username v = u_username u \<Longrightarrow>
     u_display_name v = u_display_name u \<Longrightarrow> u_avatar v = u_avatar u \<Longrightarrow>
     principalOf t v m auth sid = (principalOf s u m '''' '''')\<lparr>pr_AuthMethod := auth, pr_SessionID := sid\<rparr>"
  by (simp add: principalOf_def sameAccess_reads)

lemma login_session:
  assumes login: "repo_LoginRecord username s = Some r" "lr_UserStatus r = ''active''"
      "lr_MembershipState r = ''active''"
    and ok: "schema_ok s" and create: "repo_CreateSession x s = (Inr (), t)" and now: "now < sr_ExpiresAt x"
    and who: "sr_Principal x = (lr_Principal r)\<lparr>pr_AuthMethod := auth, pr_SessionID := sr_SessionID x\<rparr>"
  shows "repo_ResolveSessionByTokenHash (sr_TokenHash x) now t = Some (sr_Principal x)"
proof -
  obtain u m where u: "u \<in> set (users s)" "u_user_id u = m_user_id m" "u_status u = ''active''"
    and m: "m \<in> set (deployment_memberships s)" "deploymentActive s (m_deployment_id m)" "m_status m = ''active''"
    and r: "lr_Principal r = principalOf s u m '''' ''''"
    using login by (metis loginRecord_rows)
  let ?row = "newSessionRow x"
  have row: "s_user_id ?row = m_user_id m" "s_deployment_id ?row = m_deployment_id m"
    "s_session_id ?row = sr_SessionID x" "s_auth_method ?row = auth" "s_revoked_at ?row = None"
    "s_expires_at ?row = sr_ExpiresAt x" "s_session_token_hash ?row = sr_TokenHash x"
    by (simp_all add: newSessionRow_def who r principalOf_def u(2))
  note same = sameAccess_CreateSession [OF create]
  have t: "users t = update_where (\<lambda>w. u_user_id w = m_user_id m)
      (\<lambda>w. w\<lparr>u_last_login_at := Some (sr_CreatedAt x), u_updated_at := sr_CreatedAt x\<rparr>) (users s)"
    using create by (simp add: CreateSession_Inr sql_update_last_login_def sql_insert_session_def
        sql_purge_sessions_def who r principalOf_def u(2))
  have "findUser s (m_user_id m) = Some u"
    using find_key [of u_user_id "users s" u] ok u by (simp add: findUser_def schema_ok_def schema_users_def)
  then have fu: "findUser t (m_user_id m) =
      Some (u\<lparr>u_last_login_at := Some (sr_CreatedAt x), u_updated_at := sr_CreatedAt x\<rparr>)"
    by (simp add: findUser_def t find_update_where u(2))
  have fm: "findMembership t (m_deployment_id m) (m_user_id m) = Some m"
    using find_key [of "\<lambda>m. (m_deployment_id m, m_user_id m)" "deployment_memberships s" m] ok m(1) same
    by (simp add: findMembership_def sameAccess_def schema_ok_def schema_memberships_def)
  have "sessionPrincipal t ?row = Some (sr_Principal x)"
    using fu fm m u same
    by (simp add: sessionPrincipal_def row sameAccess_reads(3) who r principalOf_login [of s t])
  then show ?thesis
    using ResolveByTokenHash_row [OF CreateSession_schema [OF create], of ?row now] now
      CreateSession_sessions [OF create] by (simp add: row)
qed

lemma HexEncode_visible: "list_all visible (HexEncode bs)"
proof -
  have "list_all visible hexDigits" by code_simp
  moreover have "length hexDigits = 16" by (simp add: hexDigits_def)
  then have "hexDigits ! (byte c div 16) \<in> set hexDigits" "hexDigits ! (byte c mod 16) \<in> set hexDigits"
    for c using nat_of_char_less_256 [of c] by (intro nth_mem; linarith)+
  ultimately show ?thesis unfolding HexEncode_def list_all_iff by fastforce
qed

lemma token_not_blank: "bs \<noteq> [] \<Longrightarrow> TrimSpace (HexEncode bs) \<noteq> ''''"
  using length_HexEncode [of bs] TrimSpace_all_visible [OF HexEncode_visible, of bs] by auto

lemma Login_Inr:
  assumes "svc_Login sv input h = (Inr res, k)"
  obtains username r sid j bs where "normalizeUsername (li_Username input) = Inr username"
    and "repo_LoginRecord username (h_db h) = Some r" and "acceptedLogin sv (li_Password input) r"
    and "h_db j = h_db h"
    and "attachEntitlement ((principalFromRecord (lr_Principal r))\<lparr>pn_AuthMethod := ''password'', pn_SessionID := sid\<rparr>) j
          = (Inr (lo_Principal res), j)"
    and "rt_rand (sv_runtime sv) (h_draws j) 32 = Some bs" and "lo_SessionToken res = HexEncode bs"
    and "repo_CreateSession (loginSession sv input (lo_Principal res) (HexEncode bs)
          (rt_now (sv_runtime sv) (h_ticks j))) (h_db h) = (Inr (), h_db k)"
    and "h_ticks k = Suc (h_ticks j)"
proof -
  from assms obtain username r where u: "normalizeUsername (li_Username input) = Inr username"
    and r: "repo_LoginRecord username (h_db h) = Some r" and acc: "acceptedLogin sv (li_Password input) r"
    and rest: "bindA (newID sv ''sess'') (\<lambda>sid.
          bindA (attachEntitlement ((principalFromRecord (lr_Principal r))
            \<lparr>pn_AuthMethod := ''password'', pn_SessionID := sid\<rparr>)) (\<lambda>p.
          bindA (newToken sv) (\<lambda>token.
          bindA (nowA sv) (\<lambda>now.
          bindA (callA (repo_CreateSession (loginSession sv input p token now))) (\<lambda>_.
          returnA \<lparr>lo_SessionToken = token, lo_Principal = p\<rparr>))))) h = (Inr res, k)"
    unfolding svc_Login_def by (auto split: sum.splits if_splits option.splits simp del: bindA_Inr)
       (auto split: option.splits if_splits)
  then obtain sid j p j' bs where j: "newID sv ''sess'' h = (Inr sid, j)"
    and p: "attachEntitlement ((principalFromRecord (lr_Principal r))
            \<lparr>pn_AuthMethod := ''password'', pn_SessionID := sid\<rparr>) j = (Inr p, j')"
    and bs: "rt_rand (sv_runtime sv) (h_draws j') 32 = Some bs" "res = \<lparr>lo_SessionToken = HexEncode bs, lo_Principal = p\<rparr>"
    and create: "repo_CreateSession (loginSession sv input p (HexEncode bs) (rt_now (sv_runtime sv) (h_ticks j')))
      (h_db j') = (Inr (), h_db k)" "h_ticks k = Suc (h_ticks j')"
    by (auto simp: newToken_Inr)
  have "j' = j" "h_db j = h_db h" using p newID_host [OF j] by (simp_all add: attachEntitlement_Inr)
  with p bs create show thesis by (intro that [OF u r acc, of j sid bs]) simp_all
qed

lemma principal_again:
  "attachEntitlement ((principalFromRecord r)\<lparr>pn_AuthMethod := auth, pn_SessionID := sid\<rparr>) h = (Inr p, k) \<Longrightarrow>
     principalFromRecord (principalRecord p) = (principalFromRecord r)\<lparr>pn_AuthMethod := auth, pn_SessionID := sid\<rparr> \<and>
     principalRecord p = r\<lparr>pr_AuthMethod := auth, pr_SessionID := sid\<rparr> \<and> pn_SessionID p = sid"
  by (auto simp: attachEntitlement_Inr principalFromRecord_def principalRecord_def)

text \<open>A login, and the request that comes with its token at once.\<close>

lemma login_then_resolve:
  assumes login: "svc_Login sv input h = (Inr res, k)" and ok: "schema_ok (h_db h)"
    and runtime: "documentedRuntime (sv_runtime sv)" and n: "h_ticks k = Suc n"
    and fresh: "rt_now (sv_runtime sv) (Suc n) < rt_now (sv_runtime sv) n + sv_sessionTTL sv"
  shows "fst (svc_ResolveSession sv (lo_SessionToken res) k) = Inr (Some (lo_Principal res))"
proof -
  obtain username r sid j bs where r: "repo_LoginRecord username (h_db h) = Some r"
    "acceptedLogin sv (li_Password input) r"
    and p: "h_db j = h_db h" "attachEntitlement ((principalFromRecord (lr_Principal r))
            \<lparr>pn_AuthMethod := ''password'', pn_SessionID := sid\<rparr>) j = (Inr (lo_Principal res), j)"
    and token: "rt_rand (sv_runtime sv) (h_draws j) 32 = Some bs" "lo_SessionToken res = HexEncode bs"
    and create: "repo_CreateSession (loginSession sv input (lo_Principal res) (HexEncode bs)
          (rt_now (sv_runtime sv) (h_ticks j))) (h_db h) = (Inr (), h_db k)"
    and ticks: "h_ticks k = Suc (h_ticks j)"
    by (rule Login_Inr [OF login])
  let ?x = "loginSession sv input (lo_Principal res) (HexEncode bs) (rt_now (sv_runtime sv) n)"
  have x: "sr_TokenHash ?x = hashToken sv (HexEncode bs)" "sr_Principal ?x = principalRecord (lo_Principal res)"
    "sr_SessionID ?x = pn_SessionID (lo_Principal res)"
    "sr_ExpiresAt ?x = rt_now (sv_runtime sv) n + sv_sessionTTL sv"
    by (simp_all add: loginSession_def)
  have jn: "h_ticks j = n" using ticks n by simp
  note again = principal_again [OF p(2)]
  have found: "repo_ResolveSessionByTokenHash (hashToken sv (HexEncode bs)) (rt_now (sv_runtime sv) (Suc n))
      (h_db k) = Some (principalRecord (lo_Principal res))"
  proof -
    have "sr_Principal ?x = (lr_Principal r)\<lparr>pr_AuthMethod := ''password'', pr_SessionID := sr_SessionID ?x\<rparr>"
      using again by (simp only: x)
    moreover have "rt_now (sv_runtime sv) (Suc n) < sr_ExpiresAt ?x" using fresh by (simp only: x)
    moreover have "lr_UserStatus r = ''active''" "lr_MembershipState r = ''active''"
      using r(2) by (simp_all add: acceptedLogin_def)
    ultimately show ?thesis
      using login_session [OF r(1) _ _ ok create [unfolded jn]] by (simp only: x)
  qed
  have okk: "schema_ok (h_db k)" using create by (rule CreateSession_schema)
  have "length bs = 32" using token(1) runtime by (auto simp: documentedRuntime_def)
  then have blank: "TrimSpace (HexEncode bs) \<noteq> ''''" by (intro token_not_blank) auto
  let ?now = "rt_now (sv_runtime sv) (Suc n)"
  let ?k = "k\<lparr>h_ticks := Suc (Suc n), h_db := sql_touch_session ?now (pn_SessionID (lo_Principal res)) (h_db k)\<rparr>"
  have "sameAccess (h_db j) (h_db ?k)"
    using sameAccess_CreateSession [OF create] p(1) by (simp add: sameAccess_statements)
  from sameAccess_attach [OF p(2) this]
  have attached: "attachEntitlement (principalFromRecord (principalRecord (lo_Principal res))) ?k =
      (Inr (lo_Principal res), ?k)"
    by (simp only: again [THEN conjunct1])
  have "pr_SessionID (principalRecord (lo_Principal res)) = pn_SessionID (lo_Principal res)"
    by (simp add: principalRecord_def)
  with attached have "touched (principalRecord (lo_Principal res)) ?now (k\<lparr>h_ticks := Suc (Suc n)\<rparr>) =
      (Inr (lo_Principal res), ?k)"
    using okk by (simp add: touched_def TouchSession_Inr)
  then have "svc_ResolveSession sv (lo_SessionToken res) k = (Inr (Some (lo_Principal res)), ?k)"
    using found blank n by (simp add: svc_ResolveSession_def token(2))
  then show ?thesis by simp
qed

section \<open>Password changes\<close>

lemma outcome_open:
  "schema_ok s \<Longrightarrow> repo_PasswordChangeOutcome u rid s = '''' \<longleftrightarrow> findReceipt u rid s = None"
  by (auto simp: outcome_receipt findReceipt_def schema_ok_def schema_receipts_def
      split: option.splits dest!: find_Some_set)

lemma outcome_effect:
  assumes "schema_ok s" and "findReceipt u rid s = Some r"
  shows "r_effect r = ''committed'' \<or> r_effect r = ''not_applied''"
  using assms by (auto simp: findReceipt_def schema_ok_def schema_receipts_def dest!: find_Some_set)

lemma service_outcome:
  "normalizeRequestID rid = Inr rid \<Longrightarrow> svc_PasswordChangeOutcome u rid h =
     (Inr (if repo_PasswordChangeOutcome (TrimSpace u) rid (h_db h) = '''' then ''unknown''
           else repo_PasswordChangeOutcome (TrimSpace u) rid (h_db h)), h)"
  by (simp add: svc_PasswordChangeOutcome_def bindA_def invalid_def)

text \<open>Settling an open request records that it was not applied.\<close>

lemma settle_open:
  assumes "settlePasswordChange sv u rid ''not_applied'' h = (Inr x, k)"
    and "findReceipt u rid (h_db h) = None"
  shows "repo_PasswordChangeOutcome u rid (h_db k) = ''not_applied''"
proof -
  have "find P (xs @ [x]) = Some x" if "find P xs = None" "P x" for P and xs :: "receipt_row list" and x
    using that by (induction xs) (auto split: if_splits)
  with assms show ?thesis
    by (auto simp: settlePasswordChange_def repo_SettlePasswordChange_def run_tx_Inr insertReceipt_Inr
        outcome_receipt findReceipt_def sql_insert_receipt_def)
qed

lemma reject_open:
  assumes "findReceipt u rid (h_db h) = None" and "normalizeRequestID rid = Inr rid" and "TrimSpace u = u"
  shows "rejectPasswordChange sv u rid e h \<noteq> (Inr x, k)"
proof
  assume "rejectPasswordChange sv u rid e h = (Inr x, k)"
  then obtain j y where j: "settlePasswordChange sv u rid ''not_applied'' h = (Inr y, j)"
    and r: "resolvePasswordChange u rid j = (Inr x, k)"
    by (auto simp: rejectPasswordChange_def)
  from settle_open [OF j assms(1)] r assms(2,3) show False
    by (auto simp: resolvePasswordChange_def service_outcome)
qed

lemma TryCommit_open:
  assumes "repo_TryCommitPasswordChange u rid cur nxt now s = (Inr a, t)" and "findReceipt u rid s = None"
  shows "a = PasswordAttemptCommitted \<or> a = PasswordAttemptCredentialChanged \<and> t = s"
  using assms unfolding repo_TryCommitPasswordChange_def run_tx_Inr
  by (auto simp: insertReceipt_Inr split: if_splits)

lemma service_user [simp]: "snd (svc_UserByID u h) = h"
  by (cases "repo_UserByID u (h_db h)")
     (simp_all add: svc_UserByID_def bindA_def whenErr_def catchA_def liftA_def)

text \<open>An attempt on an open request that succeeds has committed.\<close>

lemma attempt_Inr:
  assumes "attemptPasswordChange sv u rid cur new h = (Inr x, k)"
    and "findReceipt u rid (h_db h) = None" and "normalizeRequestID rid = Inr rid" and "TrimSpace u = u"
  obtains hash nxt now j where "repo_PasswordCredential u (h_db h) = Inr (hash, ''active'')"
    and "verifyPassword sv cur hash = Inr True" and "hashPassword sv new h = (Inr nxt, j)"
    and "repo_TryCommitPasswordChange u rid hash nxt now (h_db h) = (Inr PasswordAttemptCommitted, h_db k)"
proof -
  note reject = reject_open [OF _ assms(3,4)]
  from assms(1) reject [OF assms(2)] obtain hash where
    cred: "repo_PasswordCredential u (h_db h) = Inr (hash, ''active'')" and ver: "verifyPassword sv cur hash = Inr True"
    and rest: "bindA (tryA (hashPassword sv new)) (\<lambda>hashed. case hashed of
              Inl e \<Rightarrow> rejectPasswordChange sv u rid e
            | Inr nextHash \<Rightarrow>
              bindA (nowA sv) (\<lambda>now.
              bindA (callA (repo_TryCommitPasswordChange u rid hash nextHash now))
              (\<lambda>attempt. case attempt of
                  PasswordAttemptCommitted \<Rightarrow> svc_UserByID u
                | PasswordAttemptExisting \<Rightarrow> resolvePasswordChange u rid
                | PasswordAttemptCredentialChanged \<Rightarrow>
                    rejectPasswordChange sv u rid ErrCurrentPassword))) h = (Inr x, k)"
    unfolding attemptPasswordChange_def
    by (cases "repo_PasswordCredential u (h_db h)")
       (auto simp: bindA_def [of "tryA (liftA _)"] tryA_def [of "liftA _"] liftA_def split: if_splits)
  obtain r j where j: "hashPassword sv new h = (r, j)" by (cases "hashPassword sv new h")
  then have db: "h_db j = h_db h"
    by (auto simp: hashPassword_def bindA_def randA_def split: option.splits)
  show thesis
  proof (cases r)
    case (Inl e)
    with rest j reject [of j] db assms(2) show ?thesis by simp
  next
    case (Inr nxt)
    with rest j db obtain a t where "repo_TryCommitPasswordChange u rid hash nxt
        (rt_now (sv_runtime sv) (h_ticks j)) (h_db h) = (Inr a, t)"
      and after: "(case a of PasswordAttemptCommitted \<Rightarrow> svc_UserByID u
          | PasswordAttemptExisting \<Rightarrow> resolvePasswordChange u rid
          | PasswordAttemptCredentialChanged \<Rightarrow> rejectPasswordChange sv u rid ErrCurrentPassword)
            (j\<lparr>h_ticks := Suc (h_ticks j), h_db := t\<rparr>) = (Inr x, k)"
      by auto
    moreover from TryCommit_open [OF this(1) assms(2)] after reject assms(2)
    have "a = PasswordAttemptCommitted" by auto
    moreover from this after have "t = h_db k"
      using service_user [of u "j\<lparr>h_ticks := Suc (h_ticks j), h_db := t\<rparr>"] by simp
    ultimately show ?thesis using that [OF cred ver] j Inr by blast
  qed
qed

lemma ChangePassword_attempt:
  assumes "svc_ChangePassword sv input h = (Inr x, k)" and "normalizeRequestID (cp_RequestID input) = Inr rid"
    and "findReceipt (TrimSpace (cp_UserID input)) rid (h_db h) = None"
  shows "attemptPasswordChange sv (TrimSpace (cp_UserID input)) rid (cp_CurrentPassword input)
     (cp_NewPassword input) h = (Inr x, k)"
proof -
  have "normalizeRequestID rid = Inr rid" using assms(2) by (rule normalizeRequestID_fixed)
  moreover have "repo_PasswordChangeOutcome (TrimSpace (cp_UserID input)) rid (h_db h) = ''''"
    by (simp add: outcome_receipt assms(3))
  ultimately show ?thesis
    using assms(1,2) by (auto simp: svc_ChangePassword_def Let_def service_outcome split: if_splits)
qed

text \<open>Once an outcome is recorded, a request only reports it.\<close>

lemma ChangePassword_settled:
  assumes "normalizeRequestID (cp_RequestID input) = Inr rid" and "TrimSpace (cp_UserID input) \<noteq> ''''"
    and "repo_PasswordChangeOutcome (TrimSpace (cp_UserID input)) rid (h_db h) = effect" and "effect \<noteq> ''''"
    and "schema_ok (h_db h)"
  shows "svc_ChangePassword sv input h =
     (if effect = ''committed'' then svc_UserByID (TrimSpace (cp_UserID input)) h
      else (Inl ErrRequestNotApplied, h))"
proof -
  have "normalizeRequestID rid = Inr rid" using assms(1) by (rule normalizeRequestID_fixed)
  moreover from assms(3-5) have "effect = ''committed'' \<or> effect = ''not_applied''"
    by (auto simp: outcome_receipt split: option.splits dest: outcome_effect)
  ultimately show ?thesis
    using assms(1-3)
    by (auto simp: svc_ChangePassword_def Let_def service_outcome bindA_def)
qed

lemma outcome_requests:
  assumes "repo_PasswordChangeOutcome u rid (h_db h) = effect" and "effect \<noteq> ''''"
  shows "repo_PasswordChangeOutcome u rid (h_db (run_requests sv reqs h)) = effect"
proof -
  obtain ops where "h_db (run_requests sv reqs h) = run_all ops (h_db h)"
    using requests_operations by blast
  moreover obtain r where "findReceipt u rid (h_db h) = Some r" "r_effect r = effect"
    using assms by (auto simp: outcome_receipt split: option.splits)
  ultimately show ?thesis using receipt_runs [of u rid "h_db h" r ops] by (simp add: outcome_receipt)
qed

lemma schema_requests: "schema_ok (h_db h) \<Longrightarrow> schema_ok (h_db (run_requests sv reqs h))"
proof -
  obtain ops where "h_db (run_requests sv reqs h) = run_all ops (h_db h)"
    using requests_operations by blast
  then show "schema_ok (h_db h) \<Longrightarrow> ?thesis"
    using schema.run_stable [of "h_db h" ops "run_all ops (h_db h)"] by (simp add: runs_run_all)
qed

section \<open>Tokens\<close>

lemma signPrincipal_Inr:
  "signPrincipal sv p aud h = (Inr t, k) \<longleftrightarrow> TrimSpace aud \<noteq> '''' \<and> TrimSpace aud \<in> set (sv_audiences sv) \<and>
     (TrimSpace aud = relayUserAudience \<longrightarrow> pn_OrganizationID p \<noteq> '''' \<and> pn_OrganizationRole p \<noteq> '''') \<and>
     Sign sv p (TrimSpace aud) (rt_now (sv_runtime sv) (h_ticks h)) (sv_principalTTL sv) = Inr t \<and>
     k = h\<lparr>h_ticks := Suc (h_ticks h)\<rparr>"
  by (auto simp: signPrincipal_def Let_def refuse_def)

lemma touched_Inr:
  "touched r now h = (Inr p, k) \<Longrightarrow> pn_SessionID p = pr_SessionID r \<and> pn_UserID p = pr_UserID r \<and>
     pn_DeploymentID p = pr_DeploymentID r \<and> pn_Role p = pr_Role r"
  by (auto simp: touched_def attachEntitlement_Inr principalFromRecord_def)

text \<open>The session row behind a resolved principal.\<close>

definition backedBy :: "Service \<Rightarrow> string \<Rightarrow> time \<Rightarrow> db \<Rightarrow> Principal \<Rightarrow> session_row \<Rightarrow> bool" where
  "backedBy sv token now s p x \<longleftrightarrow> x \<in> set (sessions s) \<and> s_session_token_hash x = hashToken sv token \<and>
     s_revoked_at x = None \<and> now < s_expires_at x \<and> deploymentActive s (s_deployment_id x) \<and>
     userActive s (s_user_id x) \<and> membershipActive s (s_deployment_id x) (s_user_id x) \<and>
     pn_SessionID p = s_session_id x \<and> pn_UserID p = s_user_id x \<and> pn_DeploymentID p = s_deployment_id x"

lemma ResolveSession_Inr:
  assumes "svc_ResolveSession sv token h = (Inr (Some p), k)"
  shows "\<exists>x. backedBy sv token (rt_now (sv_runtime sv) (h_ticks h)) (h_db h) p x"
proof -
  from assms obtain r j where "repo_ResolveSessionByTokenHash (hashToken sv token)
      (rt_now (sv_runtime sv) (h_ticks h)) (h_db h) = Some r"
    and p: "touched r (rt_now (sv_runtime sv) (h_ticks h)) j = (Inr p, k)"
    by (auto simp: svc_ResolveSession_def split: if_splits option.splits)
  then obtain x where "s_session_token_hash x = hashToken sv token" "rt_now (sv_runtime sv) (h_ticks h) < s_expires_at x"
    and "grants (h_db h) x r"
    unfolding repo_ResolveSessionByTokenHash_def by (auto dest!: resolveSession_grants)
  with touched_Inr [OF p] show ?thesis by (auto simp: backedBy_def grants_def)
qed

lemma ResolveSession_ticks:
  "svc_ResolveSession sv token h = (Inr (Some p), k) \<Longrightarrow> h_ticks k = Suc (h_ticks h)"
  by (auto simp: svc_ResolveSession_def touched_def attachEntitlement_Inr split: if_splits option.splits)

lemma ExchangePrincipal_Inr:
  assumes "svc_ExchangePrincipal sv token audience h = (Inr (t, Some p), k)"
  obtains j where "svc_ResolveSession sv token h = (Inr (Some p), j)" and "signPrincipal sv p audience j = (Inr t, k)"
    and "h_ticks j = Suc (h_ticks h)"
  using assms ResolveSession_ticks by (auto simp: svc_ExchangePrincipal_def split: option.splits)

lemma ResolveNodeOwner_row:
  assumes "repo_ResolveNodeOwner node s = Some r"
  obtains x n where "x \<in> set (sessions s)" and "sessionPrincipal s x = Some r"
    and "s_session_id x = n_parent_session_id node" and "n \<in> set (execution_nodes s)"
    and "n_node_id n = n_node_id node" and "n_owner_user_id n = s_user_id x" and "n_revoked_at n = None"
    and "n_deployment_id n = s_deployment_id x"
  using assms unfolding repo_ResolveNodeOwner_def resolveSession_def by (auto dest!: sql_first_map_filter)

lemma VerifyOwnedAgents_host: "svc_VerifyOwnedAgents d g u ids h = (Inr ags, k) \<Longrightarrow> k = h"
  by (auto simp: svc_VerifyOwnedAgents_def Let_def split: if_splits)

lemma nodeDirectory_Inr: "nodeDirectory p ids h = (Inr es, k) \<Longrightarrow>
    k = h \<and> (\<forall>e \<in> set es. ad_AgentID e \<in> set ids)"
  by (auto simp: nodeDirectory_def svc_ListOrganizationAgents_def split: if_splits)

text \<open>What a node's token rests on.\<close>

lemma ExchangeNodeToken_Inr:
  assumes "svc_ExchangeNodeTokenWithDirectory sv credential ids h = (Inr res, k)"
  obtains hash node own now where "nodeCredentialHash sv credential = Inr hash"
    and "now = rt_now (sv_runtime sv) (h_ticks h)"
    and "repo_NodeByCredential hash (h_db h) = Inr node" and "repo_ResolveNodeOwner node (h_db h) = Some own"
    and "pr_DeploymentID own = n_deployment_id node" and "pr_OrganizationID own = n_organization_id node"
    and "Sign sv (nodePrincipal (principalFromRecord own) node) relayNodeAudience now nodeTokenTTL =
           Inr (nt_Token res)"
    and "nt_ExpiresAt res = now + nodeTokenTTL" and "h_db k = h_db h"
    and "\<forall>e \<in> set (nt_Directory res). ad_AgentID e \<in> set ids"
proof -
  let ?now = "rt_now (sv_runtime sv) (h_ticks h)"
  let ?h = "h\<lparr>h_ticks := Suc (h_ticks h)\<rparr>"
  from assms obtain hash node own where hash: "nodeCredentialHash sv credential = Inr hash"
    and node: "repo_NodeByCredential hash (h_db h) = Inr node"
    and own: "repo_ResolveNodeOwner node (h_db h) = Some own"
    "pr_DeploymentID own = n_deployment_id node" "pr_OrganizationID own = n_organization_id node"
    and rest: "bindA (svc_VerifyOwnedAgents (n_deployment_id node) (n_organization_id node)
              (n_owner_user_id node) (n_agent_ids_json node)) (\<lambda>ags.
            bindA (nodeDirectory (principalFromRecord own) ids) (\<lambda>directory.
            bindA (checkA (Sign sv (nodePrincipal (principalFromRecord own) node) relayNodeAudience ?now nodeTokenTTL))
            (\<lambda>token. returnA \<lparr>nt_Token = token, nt_ExpiresAt = ?now + nodeTokenTTL, nt_Agents = ags,
              nt_Directory = directory\<rparr>))) ?h = (Inr res, k)"
    unfolding svc_ExchangeNodeTokenWithDirectory_def
    by (auto simp: Let_def principalFromRecord_def split: sum.splits if_splits option.splits)
  from rest VerifyOwnedAgents_host nodeDirectory_Inr show thesis
    by (intro that [OF hash refl node own]) fastforce+
qed

lemma NodeByCredential_Inr:
  "repo_NodeByCredential hash s = Inr n \<Longrightarrow>
     n \<in> set (execution_nodes s) \<and> n_credential_hash n = hash \<and> n_revoked_at n = None"
  by (auto simp: repo_NodeByCredential_def split: option.splits dest!: find_Some_set)

end
