(* ===== verification/Cfg_Life.thy ===== *)
theory Cfg_Life
  imports Svc_Start Svc_Life
begin

text \<open>
  Lemmas on the start of the program: the queries of connection strings as a text format, files
  that are written on the first start and read on the next, and what the validation promises the
  service that is started.
\<close>

section \<open>Query strings\<close>

lemma hexValue_upper: "n < 16 \<Longrightarrow> hexValue (upperHex ! n) = Some n"
proof -
  have "\<forall>n \<in> set [0..<16]. hexValue (upperHex ! n) = Some n" by code_simp
  then show "n < 16 \<Longrightarrow> ?thesis" by simp
qed

lemma upperHex_unreserved: "n < 16 \<Longrightarrow> unreserved (upperHex ! n)"
proof -
  have "\<forall>n \<in> set [0..<16]. unreserved (upperHex ! n)" by code_simp
  then show "n < 16 \<Longrightarrow> ?thesis" by simp
qed

definition queryChar :: "char \<Rightarrow> bool" where
  "queryChar c \<longleftrightarrow> unreserved c \<or> c = CHR ''+'' \<or> c = CHR ''%''"

lemma queryChar_plain: "queryChar c \<Longrightarrow> c \<noteq> CHR ''&'' \<and> c \<noteq> CHR ''='' \<and> c \<noteq> CHR '';'' \<and> c \<noteq> CHR ''?''"
  by (auto simp: queryChar_def unreserved_def isDigit_def)

lemma unreserved_plain: "unreserved c \<Longrightarrow> c \<noteq> CHR ''%'' \<and> c \<noteq> CHR ''+''"
  by (auto simp: unreserved_def isDigit_def)

lemma QueryEscape_chars: "list_all queryChar (QueryEscape s)"
proof (induction s)
  case (Cons c s)
  have "byte c div 16 < 16" by (simp add: less_mult_imp_div_less)
  with Cons show ?case
    by (auto simp: QueryEscape_def escapeChar_def queryChar_def upperHex_unreserved)
qed (simp add: QueryEscape_def)

lemma QueryUnescape_escapeChar: "QueryUnescape (escapeChar c @ s) = map_option ((#) c) (QueryUnescape s)"
proof (cases "unreserved c \<or> c = CHR '' ''")
  case True
  then show ?thesis using unreserved_plain [of c] by (auto simp: escapeChar_def)
next
  case False
  have "byte c div 16 < 16" by (simp add: less_mult_imp_div_less)
  then have "hexValue (upperHex ! (byte c div 16)) = Some (byte c div 16)"
    and "hexValue (upperHex ! (byte c mod 16)) = Some (byte c mod 16)"
    by (simp_all add: hexValue_upper)
  moreover have "char_of (16 * (byte c div 16) + byte c mod 16) = c" by simp
  ultimately show ?thesis using False by (simp add: escapeChar_def)
qed

lemma QueryUnescape_QueryEscape: "QueryUnescape (QueryEscape s) = Some s"
  by (induction s) (simp_all add: QueryEscape_def QueryUnescape_escapeChar [unfolded QueryEscape_def])

lemma cutAt_append: "c \<notin> set x \<Longrightarrow> cutAt c (x @ c # s) = (x, s)"
  by (induction x) (auto simp: cutAt_def)

lemma QueryEscape_free: "c \<in> {CHR ''&'', CHR ''='', CHR '';'', CHR ''?''} \<Longrightarrow> c \<notin> set (QueryEscape s)"
  using QueryEscape_chars [of s] queryChar_plain by (auto simp: list_all_iff)

abbreviation writtenPair :: "string \<times> string \<Rightarrow> string" where
  "writtenPair p \<equiv> QueryEscape (fst p) @ ''='' @ QueryEscape (snd p)"

lemma parsePair_written: "parsePair (writtenPair p) = Some p"
  by (simp add: parsePair_def QueryEscape_free cutAt_append QueryUnescape_QueryEscape)

lemma SplitOn_joined:
  assumes "xs \<noteq> []" and "\<And>x. x \<in> set xs \<Longrightarrow> d \<notin> set x" shows "SplitOn d (joinWith [d] xs) = xs"
  using assms
  by (induction "[d]" xs rule: joinWith.induct) (simp_all add: SplitOn_end SplitOn_append)

lemma ParseQuery_EncodeQuery: "ParseQuery (EncodeQuery ps) = Some (sort_key fst ps)"
proof (cases "ps = []")
  case True
  then show ?thesis by (simp add: ParseQuery_def EncodeQuery_def)
next
  case False
  let ?xs = "map writtenPair (sort_key fst ps)"
  have "SplitOn (CHR ''&'') (joinWith ''&'' ?xs) = ?xs"
    using False by (intro SplitOn_joined) (auto simp: QueryEscape_free dest: arg_cong [of _ _ length])
  moreover have "filter (\<lambda>p. p \<noteq> '''') ?xs = ?xs" by (simp add: filter_id_conv)
  moreover have "those (map parsePair ?xs) = Some (map id (sort_key fst ps))"
    unfolding map_map by (rule those_Some_map) (simp add: parsePair_written [simplified])
  ultimately show ?thesis
    by (simp add: ParseQuery_def EncodeQuery_def case_prod_unfold)
qed

lemma valuesOf_sort: "valuesOf k (sort_key fst ps) = valuesOf k ps"
  unfolding valuesOf_def by (simp add: filter_sort [symmetric] sort_key_stable)

lemma EncodeQuery_free: "CHR ''?'' \<notin> set (EncodeQuery ps)"
proof -
  have "c \<in> set (joinWith sep xs) \<Longrightarrow> c \<in> set sep \<or> (\<exists>x \<in> set xs. c \<in> set x)" for c sep xs
    by (induction sep xs rule: joinWith.induct) auto
  then show ?thesis
    unfolding EncodeQuery_def by (fastforce simp: QueryEscape_free)
qed

section \<open>Files across starts\<close>

lemma TrimSpace_line:
  assumes "s \<noteq> []" and "list_all visible s" shows "TrimSpace (s @ [newline]) = s"
proof -
  obtain c r where s: "s = c # r" using assms(1) by (cases s) auto
  obtain d t where rev: "rev s = d # t" using assms(1) by (cases "rev s") auto
  then have "last s = d" by (metis hd_rev list.sel(1))
  with assms have d: "visible d" by (metis last_in_set list_all_iff)
  from assms have c: "visible c" by (simp add: s)
  from c have "trimLeft (s @ [newline]) = s @ [newline]"
    by (simp add: s trimLeft_def trim_start_id space_len_visible)
  moreover have "trimRight (s @ [newline]) = rev (d # t)"
  proof -
    have "space_len space1 (\<lambda>a b. space2 b a) (\<lambda>a b c. space3 c b a) (newline # d # t) = 1"
      by (cases t) (simp_all add: space1_def)
    then show ?thesis
      using d by (simp add: trimRight_def rev trim_start.simps [of _ _ _ "newline # d # t"]
          trim_start_id space_len_visible)
  qed
  ultimately show ?thesis using rev by (metis TrimSpace_def rev_rev_ident)
qed

lemma stdAlphabet_visible: "list_all visible stdAlphabet"
  by code_simp

lemma stdEncode_visible: "list_all visible (b64Encode stdAlphabet bs)"
  using b64_chars [OF alphabets(1), of bs] stdAlphabet_visible by (auto simp: list_all_iff)

text \<open>What a start leaves alone: everything but the files it writes.\<close>

definition sameOutside :: "world \<Rightarrow> world \<Rightarrow> bool" where
  "sameOutside w w' \<longleftrightarrow> wd_env w' = wd_env w \<and> wd_unreadable w' = wd_unreadable w \<and>
     wd_unwritable w' = wd_unwritable w \<and> wd_nodir w' = wd_nodir w"

lemma writeLine_outside:
  "writeLine path value w = (r, w') \<Longrightarrow> sameOutside w w' \<and> (\<forall>p. p \<noteq> path \<longrightarrow> wd_files w' p = wd_files w p)"
  by (auto simp: writeLine_def sameOutside_def split: if_splits)

lemma writeLine_again:
  "writeLine path value w = (None, w') \<Longrightarrow> sameOutside w' v \<Longrightarrow> wd_files v path = wd_files w' path \<Longrightarrow>
     writeLine path value v = (None, v)"
  by (cases v) (auto simp: writeLine_def sameOutside_def fun_upd_idem split: if_splits)

lemma PrepareServiceToken_outside:
  "PrepareServiceToken b c w = (r, w') \<Longrightarrow>
     sameOutside w w' \<and> (\<forall>p. p \<noteq> cf_ServiceTokenFile c \<longrightarrow> wd_files w' p = wd_files w p)"
  by (auto simp: PrepareServiceToken_def sameOutside_def dest!: writeLine_outside
      split: if_splits read_result.splits option.splits prod.splits)

lemma PrepareServiceToken_again:
  assumes "PrepareServiceToken b cfg w = (Inr c, w')" and "sameOutside w' v" and "cf_ServiceToken c \<noteq> ''''"
    and "wd_files v (cf_ServiceTokenFile cfg) = wd_files w' (cf_ServiceTokenFile cfg)"
  shows "PrepareServiceToken b' cfg v = (Inr c, v)"
proof (cases "TrimSpace (cf_ServiceToken cfg) = ''''")
  case True
  show ?thesis
  proof (cases "ReadFile (cf_ServiceTokenFile cfg) w")
    case (FileData data)
    with True assms have "c = cfg\<lparr>cf_ServiceToken := TrimSpace data\<rparr>" and "w' = w"
      by (simp_all add: PrepareServiceToken_def)
    moreover from this FileData assms(2,4) have "ReadFile (cf_ServiceTokenFile cfg) v = FileData data"
      by (simp add: ReadFile_def sameOutside_def split: if_splits option.splits)
    ultimately show ?thesis using True by (simp add: PrepareServiceToken_def)
  next
    case FileMissing
    with True assms(1) obtain bytes where c: "c = cfg\<lparr>cf_ServiceToken := HexEncode bytes\<rparr>"
      and "writeLine (cf_ServiceTokenFile cfg) (HexEncode bytes) w = (None, w')"
      by (auto simp: PrepareServiceToken_def split: option.splits prod.splits)
    with FileMissing assms(2,4) have "ReadFile (cf_ServiceTokenFile cfg) v = FileData (HexEncode bytes @ [newline])"
      by (auto simp: ReadFile_def sameOutside_def dest!: writeLine_None split: if_splits option.splits)
    with True c assms(3) show ?thesis
      by (simp add: PrepareServiceToken_def TrimSpace_line HexEncode_visible)
  next
    case FileUnreadable
    with True assms(1) show ?thesis by (simp add: PrepareServiceToken_def)
  qed
next
  case False
  with assms(1) show ?thesis by (simp add: PrepareServiceToken_def)
qed

lemma decodeKey_Inr:
  "decodeKey e = Inr key \<longleftrightarrow> b64Decode stdAlphabet e = Some key \<and> length key = 64"
  by (auto simp: decodeKey_def split: option.splits if_splits)

lemma findKey_outside:
  "findKey g e path w = (r, w') \<Longrightarrow> sameOutside w w' \<and> (\<forall>p. p \<noteq> path \<longrightarrow> wd_files w' p = wd_files w p)"
  by (auto simp: findKey_def Let_def sameOutside_def dest!: writeLine_outside
      split: if_splits read_result.splits option.splits prod.splits sum.splits)

lemma findKey_again:
  assumes "findKey g e path w = (Inr found, w')" and "sameOutside w' v" and "decodeKey found = Inr key"
    and "wd_files v path = wd_files w' path"
  shows "findKey g' e path v = (Inr found, v)"
proof (cases "TrimSpace e = ''''")
  case True
  have read: "ReadFile path v = ReadFile path w'"
    using assms(2,4) by (simp add: ReadFile_def sameOutside_def)
  consider (stored) data where "ReadFile path w = FileData data" "TrimSpace data \<noteq> ''''"
    | (fresh) "ReadFile path w \<noteq> FileUnreadable" "\<forall>data. ReadFile path w = FileData data \<longrightarrow> TrimSpace data = ''''"
    using True assms(1) by (cases "ReadFile path w") (auto simp: findKey_def)
  then show ?thesis
  proof cases
    case stored
    with True assms(1) have "found = TrimSpace data" and "w' = w" by (simp_all add: findKey_def)
    with stored True read show ?thesis by (simp add: findKey_def)
  next
    case fresh
    then obtain k where found: "found = b64Encode stdAlphabet k"
      and wr: "writeLine path (b64Encode stdAlphabet k) w = (None, w')"
      using True assms(1)
      by (auto simp: findKey_def split: read_result.splits option.splits prod.splits)
    from fresh(1) writeLine_None [OF wr] read
    have data: "ReadFile path v = FileData (found @ [newline])"
      by (auto simp: ReadFile_def found split: if_splits option.splits)
    have "k \<noteq> []" using assms(3) by (auto simp: found decodeKey_Inr b64_roundtrip alphabets)
    then have "found \<noteq> []" by (simp add: found b64_Nil)
    moreover from this have "TrimSpace (found @ [newline]) = found"
      by (rule TrimSpace_line) (simp add: found stdEncode_visible)
    ultimately show ?thesis using True data by (simp add: findKey_def)
  qed
next
  case False
  with assms(1) show ?thesis by (simp add: findKey_def)
qed

lemma LoadSigner_outside:
  "LoadSigner g e path pub w = (r, w') \<Longrightarrow>
     sameOutside w w' \<and> (\<forall>p. p \<noteq> path \<longrightarrow> pub = '''' \<or> p \<noteq> pub \<longrightarrow> wd_files w' p = wd_files w p)"
  by (auto simp: LoadSigner_def sameOutside_def dest!: writeLine_outside findKey_outside
      split: if_splits option.splits prod.splits sum.splits)

lemma LoadSigner_again:
  assumes "LoadSigner g e path pub w = (Inr signer, w')" and "path \<noteq> pub"
  shows "LoadSigner g' e path pub w' = (Inr signer, w')"
proof -
  obtain found w1 key where find: "findKey g e path w = (Inr found, w1)" and key: "decodeKey found = Inr key"
    using assms(1) by (auto simp: LoadSigner_def split: sum.splits prod.splits)
  show ?thesis
  proof (cases "pub = ''''")
    case True
    with assms(1) find key have "w' = w1" by (simp add: LoadSigner_def)
    moreover from this have "findKey g' e path w' = (Inr found, w')"
      by (intro findKey_again [OF find]) (simp_all add: key sameOutside_def)
    ultimately show ?thesis using assms(1) find key True by (simp add: LoadSigner_def)
  next
    case False
    with assms(1) find key have wr: "writeLine pub (b64Encode stdAlphabet (publicHalf key)) w1 = (None, w')"
      by (auto simp: LoadSigner_def split: prod.splits option.splits)
    then have "sameOutside w1 w'" and "wd_files w' path = wd_files w1 path"
      using writeLine_outside [OF wr] assms(2) by simp_all
    then have "findKey g' e path w' = (Inr found, w')"
      by (intro findKey_again [OF find]) (simp_all add: key)
    moreover have "writeLine pub (b64Encode stdAlphabet (publicHalf key)) w' = (None, w')"
      by (rule writeLine_again [OF wr]) (simp_all add: sameOutside_def)
    ultimately show ?thesis using assms(1) find key wr False by (simp add: LoadSigner_def)
  qed
qed

text \<open>A start that gets as far as the service.\<close>

lemma prepare_Inr:
  "prepare ext args cfg w = (Inr (sv, h), w') \<longleftrightarrow>
     (\<exists>c w1 dsn signer. PrepareServiceToken (ou_tokenBytes ext) cfg w = (Inr c, w1) \<and>
        Validate (ou_parseURL ext) c = None \<and>
        \<not> (args \<noteq> [] \<and> hd args = ''import-control-sqlite'' \<and>
           IsSQLiteSQLDriver (NormalizeSQLDriver (cf_DatabaseDriver c))) \<and>
        connectionString (ou_parseURL ext) (ou_searchPath ext) c w1 = Inr dsn \<and>
        ou_driver ext (NormalizeSQLDriver (cf_DatabaseDriver c)) dsn = Some h \<and>
        LoadSigner (ou_newKey ext) (cf_SigningPrivateKey c) (cf_SigningKeyFile c)
          (cf_SigningPublicKeyFile c) w1 = (Inr signer, w') \<and>
        sv = NewService (ou_runtime ext) c signer)"
  unfolding prepare_def
  by (auto split: prod.splits sum.splits option.splits if_splits)

lemma PrepareServiceToken_Inr:
  "PrepareServiceToken b cfg w = (Inr c, w') \<Longrightarrow> c = cfg\<lparr>cf_ServiceToken := cf_ServiceToken c\<rparr>"
  by (auto simp: PrepareServiceToken_def split: if_splits read_result.splits option.splits prod.splits)

lemma connectionString_outside:
  "sameOutside w w' \<Longrightarrow> connectionString parse search c w' = connectionString parse search c w"
proof -
  assume same: "sameOutside w w'"
  then have "ensureSQLiteParent dsn w' = ensureSQLiteParent dsn w" for dsn
    by (simp add: ensureSQLiteParent_def sameOutside_def Let_def)
  with same show ?thesis by (simp add: connectionString_def sameOutside_def Let_def split: sum.split)
qed

section \<open>The loop of the parser\<close>

text \<open>The loop of \<open>Parse\<close> with a bound on the number of its turns.\<close>

fun parseLoop :: "nat \<Rightarrow> environment \<Rightarrow> environment \<Rightarrow> string \<Rightarrow> (dotenv_error + environment) option" where
  "parseLoop 0 sys out src = None"
| "parseLoop (Suc n) sys out src =
     (case findStatementStart src of None \<Rightarrow> Some (Inr out)
      | Some s \<Rightarrow>
        (case locateKeyName s of Inl e \<Rightarrow> Some (Inl e)
         | Inr (key, left) \<Rightarrow>
           (case extractVarValue sys out left of Inl e \<Rightarrow> Some (Inl e)
            | Inr (v, rest) \<Rightarrow> parseLoop n sys (out(key \<mapsto> v)) rest)))"

lemma parseLoop_enough: "length src < n \<Longrightarrow> parseLoop n sys out src = Some (parseStatements sys out src)"
proof (induction n arbitrary: out src)
  case (Suc n)
  show ?case
  proof (cases "findStatementStart src")
    case (Some s)
    show ?thesis
    proof (cases "locateKeyName s")
      case (Inr kl)
      obtain key left where kl: "kl = (key, left)" by (cases kl)
      show ?thesis
      proof (cases "extractVarValue sys out left")
        case (Inr vr)
        obtain v rest where vr: "vr = (v, rest)" by (cases vr)
        have "length rest < length src"
          using findStatementStart_length [OF Some] locateKeyName_length [of s key left]
            extractVarValue_length [of sys out left v rest] \<open>locateKeyName s = Inr kl\<close> Inr kl vr by simp
        with Suc Some Inr \<open>locateKeyName s = Inr kl\<close> kl vr show ?thesis
          by (simp add: parseStatements.simps [of sys out src] fun_upd_def)
      qed (use Some Inr kl in \<open>simp add: parseStatements.simps [of sys out src]\<close>)
    qed (use Some in \<open>simp add: parseStatements.simps [of sys out src]\<close>)
  qed (simp add: parseStatements.simps [of sys out src])
qed simp

end
