(* ===== verification/Svc_Examples.thy ===== *)
theory Svc_Examples
  imports Svc_System Control_Examples
begin

text \<open>
  A service to evaluate the model on: a runtime with simple stand-ins for the random source, the
  clock and the primitives, of the sizes that the real ones have, and the requests that set a
  deployment up and log its owner in.
\<close>

definition exampleRuntime :: runtime where
  "exampleRuntime = \<lparr>rt_now = (\<lambda>k. if k < 50 then 100 + int k else 200),
     rt_rand = (\<lambda>k n. if k < 26 then Some (replicate n (''abcdefghijklmnopqrstuvwxyz'' ! k)) else None),
     rt_argon2 = (\<lambda>password salt t m p n. take (nat n) (password @ replicate (nat n) CHR ''#'')),
     rt_argon2_version = 19,
     rt_sha256 = (\<lambda>s. take 32 (s @ replicate 32 CHR ''.'')),
     rt_ed25519 = (\<lambda>key s. take 64 (key @ s @ replicate 64 CHR ''='')),
     rt_marshal = (\<lambda>c. Some (cl_UserID c))\<rparr>"

definition exampleService :: Service where
  "exampleService = \<lparr>sv_signer = \<lparr>sg_privateKey = ''private'', sg_publicKey = ''public''\<rparr>,
     sv_runtime = exampleRuntime, sv_sessionTTL = 1000, sv_principalTTL = 5 * minute,
     sv_audiences = [''nexus'', relayUserAudience], sv_setupEnabled = True,
     sv_registrationEnabled = True\<rparr>"

definition exampleSetupInput :: SetupOwnerInput where
  "exampleSetupInput = \<lparr>su_Username = '' Ann '', su_DisplayName = '''', su_Password = ''password-1'',
     su_DeploymentName = '''', su_OrganizationName = ''Lab''\<rparr>"

definition exampleLogin :: LoginInput where
  "exampleLogin = \<lparr>li_Username = ''ANN'', li_Password = ''password-1'', li_ClientIP = '''', li_UserAgent = ''''\<rparr>"

definition exampleHost :: host where
  "exampleHost = \<lparr>h_db = migrated_db, h_ticks = 0, h_draws = 0\<rparr>"

text \<open>The host after the set-up, and after the owner's login, written out.\<close>

definition exampleOwned :: host where
  "exampleOwned =
     \<lparr>h_db = DB \<lparr>t_control_state = [1], t_deployments = [\<lparr>d_deployment_id =
     ''dep_626262626262626262626262'', d_name = ''Nexus'', d_status = ''active'', d_created_at = 100,
     d_updated_at = 100\<rparr>], t_users = [\<lparr>u_user_id = ''user_646464646464646464646464'',
     u_username = ''ann'', u_display_name = ''ann'', u_status = ''active'', u_avatar = None,
     u_last_login_at = None, u_created_at = 100, u_updated_at = 100\<rparr>], t_identities =
     [\<lparr>idn_identity_id = ''idn_656565656565656565656565'', idn_user_id =
     ''user_646464646464646464646464'', idn_provider = ''password'', idn_subject = ''ann'',
     idn_created_at = 100, idn_updated_at = 100\<rparr>], t_password_credentials =
     [\<lparr>c_credential_id = ''cred_666666666666666666666666'', c_user_id =
     ''user_646464646464646464646464'', c_password_hash =
     ''$argon2id$v=19$m=65536,t=3,p=2$YWFhYWFhYWFhYWFhYWFhYQ$cGFzc3dvcmQtMSMjIyMjIyMjIyMjIyMjIyMjIyMjIyM'',
     c_password_algo = ''argon2id'', c_password_updated_at = 100, c_created_at = 100, c_updated_at =
     100\<rparr>], t_deployment_memberships = [\<lparr>m_deployment_id =
     ''dep_626262626262626262626262'', m_user_id = ''user_646464646464646464646464'', m_role = ''owner'',
     m_status = ''active'', m_created_at = 100, m_updated_at = 100, m_web_access_disabled =
     False\<rparr>], t_sessions = [], t_password_change_receipts = [], t_identity_invalidations = [],
     t_next_event_id = 1, t_subscription_plans = [\<lparr>p_deployment_id =
     ''dep_626262626262626262626262'', p_plan_key = ''free'', p_display_name = ''Free'', p_status =
     ''active'', p_monthly_token_limit = Some 200000, p_notes = [CHR 0xE9, CHR 0xBB, CHR 0x98, CHR 0xE8,
     CHR 0xAE, CHR 0xA4, CHR 0xE5, CHR 0x85, CHR 0x8D, CHR 0xE8, CHR 0xB4, CHR 0xB9, CHR 0xE9, CHR 0xA2,
     CHR 0x9D, CHR 0xE5, CHR 0xBA, CHR 0xA6], p_sort_order = 10, p_created_at = 100, p_updated_at =
     100\<rparr>, \<lparr>p_deployment_id = ''dep_626262626262626262626262'', p_plan_key = ''admin'',
     p_display_name = ''Admin'', p_status = ''active'', p_monthly_token_limit = None, p_notes = [CHR
     0xE6, CHR 0x97, CHR 0xA0, CHR 0xE9, CHR 0x99, CHR 0x90, CHR 0xE9, CHR 0xA2, CHR 0x9D, CHR 0xE5, CHR
     0xBA, CHR 0xA6, CHR 0xE7, CHR 0xAE, CHR 0xA1, CHR 0xE7, CHR 0x90, CHR 0x86, CHR 0xE5, CHR 0xA5, CHR
     0x97, CHR 0xE9, CHR 0xA4, CHR 0x90], p_sort_order = 90, p_created_at = 100, p_updated_at =
     100\<rparr>], t_member_entitlements = [], t_organizations = [\<lparr>o_organization_id =
     ''org_636363636363636363636363'', o_deployment_id = ''dep_626262626262626262626262'', o_name =
     ''Lab'', o_status = ''active'', o_created_at = 100, o_updated_at = 100\<rparr>],
     t_organization_memberships = [\<lparr>om_organization_id = ''org_636363636363636363636363'',
     om_user_id = ''user_646464646464646464646464'', om_role = ''owner'', om_status = ''active'',
     om_created_at = 100, om_updated_at = 100\<rparr>], t_organization_invitations = [], t_agents = [],
     t_execution_nodes = []\<rparr>, h_ticks = 1, h_draws = 6\<rparr>"

definition exampleAnn :: Principal where
  "exampleAnn = \<lparr>pn_WebAccessDisabled = False, pn_OrganizationRole = ''owner'', pn_NodeID = '''',
     pn_ParentSessionID = '''', pn_AgentIDs = [], pn_DeploymentID = ''dep_626262626262626262626262'',
     pn_OrganizationID = ''org_636363636363636363636363'', pn_OrganizationName = ''Lab'',
     pn_UserID = ''user_646464646464646464646464'', pn_Username = ''ann'', pn_DisplayName = ''ann'',
     pn_Role = ''owner'', pn_Avatar = '''', pn_AuthMethod = ''password'',
     pn_SessionID = ''sess_676767676767676767676767'',
     pn_Entitlement = \<lparr>en_PlanKey = ''free'', en_PlanName = ''Free'', en_MonthlyTokenLimit = Some 200000,
       en_UpdatedAt = 100\<rparr>\<rparr>"

lemma exampleOwned_reached:
  "svc_SetupOwner exampleService exampleSetupInput exampleHost =
     (Inr (exampleAnn\<lparr>pn_SessionID := ''''\<rparr>), exampleOwned)"
  by code_simp

definition exampleToken :: string where
  "exampleToken = ''6868686868686868686868686868686868686868686868686868686868686868''"

definition exampleLoggedIn :: host where
  "exampleLoggedIn = \<lparr>h_db = DB (tables (h_db exampleOwned)
     \<lparr>t_users := [\<lparr>u_user_id = ''user_646464646464646464646464'', u_username = ''ann'',
        u_display_name = ''ann'', u_status = ''active'', u_avatar = None, u_last_login_at = Some 101,
        u_created_at = 100, u_updated_at = 101\<rparr>],
      t_sessions := [\<lparr>s_session_id = ''sess_676767676767676767676767'',
        s_deployment_id = ''dep_626262626262626262626262'', s_user_id = ''user_646464646464646464646464'',
        s_session_token_hash = ''3638363836383638363836383638363836383638363836383638363836383638'',
        s_auth_method = ''password'', s_expires_at = 1101, s_last_seen_at = 101, s_client_ip = None,
        s_user_agent = None, s_revoked_at = None, s_created_at = 101, s_updated_at = 101\<rparr>]\<rparr>),
     h_ticks = 2, h_draws = 8\<rparr>"

lemma exampleLoggedIn_reached:
  "svc_Login exampleService exampleLogin exampleOwned =
     (Inr \<lparr>lo_SessionToken = exampleToken, lo_Principal = exampleAnn\<rparr>, exampleLoggedIn)"
  by code_simp

text \<open>The owner changes the password.\<close>

definition exampleChange :: ChangePasswordInput where
  "exampleChange = \<lparr>cp_UserID = ''user_646464646464646464646464'', cp_RequestID = ''change-1'',
     cp_CurrentPassword = ''password-1'', cp_NewPassword = ''password-2''\<rparr>"

definition exampleUser :: User where
  "exampleUser = \<lparr>us_UserID = ''user_646464646464646464646464'', us_Username = ''ann'',
     us_DisplayName = ''ann'', us_Status = ''active'', us_Avatar = '''', us_LastLoginAt = Some 101,
     us_CreatedAt = 100, us_UpdatedAt = 101\<rparr>"

definition exampleChanged :: host where
  "exampleChanged = \<lparr>h_db = DB (tables (h_db exampleLoggedIn)
     \<lparr>t_password_credentials := [\<lparr>c_credential_id = ''cred_666666666666666666666666'',
        c_user_id = ''user_646464646464646464646464'', c_password_hash =
          ''$argon2id$v=19$m=65536,t=3,p=2$aWlpaWlpaWlpaWlpaWlpaQ$cGFzc3dvcmQtMiMjIyMjIyMjIyMjIyMjIyMjIyMjIyM'',
        c_password_algo = ''argon2id'', c_password_updated_at = 102, c_created_at = 100,
        c_updated_at = 102\<rparr>],
      t_password_change_receipts := [\<lparr>r_user_id = ''user_646464646464646464646464'',
        r_request_id = ''change-1'', r_effect = ''committed'', r_resolved_at = 102,
        r_created_at = 102\<rparr>]\<rparr>), h_ticks = 3, h_draws = 9\<rparr>"

lemma exampleChanged_reached:
  "svc_ChangePassword exampleService exampleChange exampleLoggedIn = (Inr exampleUser, exampleChanged)"
  by code_simp

text \<open>The owner publishes an agent and registers a node for it.\<close>

definition exampleCredential :: string where
  "exampleCredential = ''YWFhYWFhYWFhYWFhYWFhYWFhYWFhYWFhYWFhYWFhYWE''"

definition exampleNoded :: host where
  "exampleNoded = \<lparr>h_db = DB (tables (h_db exampleLoggedIn)
     \<lparr>t_agents := [\<lparr>ag_agent_id = ''agent_696969696969696969696969'',
        ag_deployment_id = ''dep_626262626262626262626262'',
        ag_organization_id = ''org_636363636363636363636363'',
        ag_owner_user_id = ''user_646464646464646464646464'', ag_source_agent_id = ''src'', ag_name = ''Bot'',
        ag_avatar = None, ag_status = ''active'', ag_created_at = 102, ag_updated_at = 102\<rparr>],
      t_execution_nodes := [\<lparr>n_node_id = ''box'', n_deployment_id = ''dep_626262626262626262626262'',
        n_organization_id = ''org_636363636363636363636363'',
        n_owner_user_id = ''user_646464646464646464646464'',
        n_parent_session_id = ''sess_676767676767676767676767'', n_credential_hash =
          ''6161616161616161616161616161616161616161616161616161616161616161'',
        n_name = ''Box'', n_agent_ids_json = [''agent_696969696969696969696969''], n_created_at = 103,
        n_revoked_at = None\<rparr>]\<rparr>), h_ticks = 4, h_draws = 9\<rparr>"

lemma exampleNoded_reached:
  "snd (svc_RegisterNode exampleService exampleAnn \<lparr>rn_NodeID = ''box'', rn_Name = ''Box'',
     rn_Credential = exampleCredential, rn_AgentIDs = [''agent_696969696969696969696969'']\<rparr>
     (snd (svc_PublishAgent exampleService exampleAnn
       \<lparr>pa_SourceAgentID = ''src'', pa_Name = ''Bot'', pa_Avatar = ''''\<rparr> exampleLoggedIn))) = exampleNoded"
  by code_simp

end
