(* ===== verification/Service_Theorems.thy ===== *)
theory Service_Theorems
  imports Svc_Examples Svc_Life Node_Life
begin

text \<open>
  The properties of the service, each with an application to the example deployment: what its
  requests do to the database, its credentials, its sessions and tokens, and its password changes.
\<close>

section \<open>Requests\<close>

text \<open>Whatever a request does to the database is a sequence of repository operations in the
  normal form of the service's checks (trimmed, bounded and known values), failed requests
  included; so every property of runs of operations holds of runs of requests.\<close>

theorem requests_refine_operations:
  "\<exists>ops. list_all wellFormed ops \<and> h_db (run_requests sv reqs h) = run_all ops (h_db h)"
  by (rule requests_operations)

text \<open>In every state that requests reach from the migrated database, an active organization has
  exactly one active owner.\<close>

theorem requests_keep_one_owner:
  assumes "h_db h = migrated_db" and "x \<in> set (organizations (h_db (run_requests sv reqs h)))"
    and "o_status x = ''active''"
  shows "activeOwners (o_organization_id x) (h_db (run_requests sv reqs h)) = 1"
proof -
  obtain ops where ops: "list_all wellFormed ops" "h_db (run_requests sv reqs h) = run_all ops (h_db h)"
    using requests_operations by blast
  have "wellOwned (run_all ops migrated_db)"
    using own_runs [OF _ _ own_start, of ops] ops(1) wellFormed_namesOrg
    by (auto simp: runs_run_all list_all_iff)
  then show ?thesis using assms ops(2) exactly_one_owner by simp
qed

theorem requests_keep_one_owner_witness:
  "activeOwners ''org_636363636363636363636363'' (h_db (run_requests exampleService
     [ReqSetupOwner exampleSetupInput, ReqLogin exampleLogin] exampleHost)) = 1"
proof -
  have run: "run_requests exampleService [ReqSetupOwner exampleSetupInput, ReqLogin exampleLogin] exampleHost =
      exampleLoggedIn"
    by (simp add: exampleOwned_reached exampleLoggedIn_reached)
  show ?thesis
    using requests_keep_one_owner [of exampleHost "hd (organizations (h_db exampleLoggedIn))" exampleService
        "[ReqSetupOwner exampleSetupInput, ReqLogin exampleLogin]"]
    unfolding run by code_simp
qed

text \<open>C29: the checks return normal forms: a user name, a request id or a plan that one of them
  accepted is accepted again and left as it is, and a user name has its length and alphabet.\<close>

theorem checks_return_normal_forms:
  "(case normalizeUsername v of Inl e \<Rightarrow> True
     | Inr u \<Rightarrow> validUsername u \<and> normalizeUsername u = Inr u) \<and>
   (case normalizeRequestID v of Inl e \<Rightarrow> True | Inr r \<Rightarrow> normalizeRequestID r = Inr r) \<and>
   (case normalizeSubscriptionPlan p of Inl e \<Rightarrow> True
     | Inr q \<Rightarrow> normalPlan q \<and> normalizeSubscriptionPlan q = Inr q)"
  using normalizeUsername_fixed normalizeRequestID_fixed normalizeSubscriptionPlan_Inr normalPlan_fixed
  by (auto simp: normalizeUsername_Inr split: sum.splits)

section \<open>Passwords\<close>

text \<open>C30: a hash that the service wrote is read back by its verification: the password it was made
  of is accepted, and another password is accepted only if Argon2 gives both the same key.\<close>

theorem written_hash_verifies:
  assumes "hashPassword sv password h = (Inr encoded, k)" and "documentedRuntime (sv_runtime sv)"
  shows "verifyPassword sv password encoded = Inr True \<and>
     (\<exists>salt. length salt = 16 \<and> (\<forall>other. verifyPassword sv other encoded = Inr
        (rt_argon2 (sv_runtime sv) other salt passwordIterations passwordMemory passwordParallelism passwordKeyLength =
         rt_argon2 (sv_runtime sv) password salt passwordIterations passwordMemory passwordParallelism passwordKeyLength)))"
  using written_hash [OF assms] by metis

lemma example_documented: "documentedRuntime (sv_runtime exampleService)"
  by (auto simp: documentedRuntime_def exampleService_def exampleRuntime_def min_def)

theorem written_hash_verifies_witness:
  "verifyPassword exampleService ''password-1''
     (projr (fst (hashPassword exampleService ''password-1'' exampleHost))) = Inr True"
  by (rule written_hash_verifies [OF success example_documented, THEN conjunct1]) code_simp

section \<open>Sessions\<close>

text \<open>C31: the token of a login resolves, on the next request before the session expires, to the
  principal that the login returned: the same account, organization, roles and entitlement.\<close>

theorem login_token_resolves:
  assumes "svc_Login sv input h = (Inr res, k)" and "schema_ok (h_db h)"
    and "documentedRuntime (sv_runtime sv)" and "h_ticks k = Suc n"
    and "rt_now (sv_runtime sv) (Suc n) < rt_now (sv_runtime sv) n + sv_sessionTTL sv"
  shows "fst (svc_ResolveSession sv (lo_SessionToken res) k) = Inr (Some (lo_Principal res))"
  using assms by (rule login_then_resolve)

lemma exampleHost_ok: "schema_ok (h_db exampleHost)"
  by (simp add: exampleHost_def migrated_db_ok)

lemma exampleOwned_ok: "schema_ok (h_db exampleOwned)"
  using schema_requests [OF exampleHost_ok, of exampleService "[ReqSetupOwner exampleSetupInput]"]
  by (simp add: exampleOwned_reached)

lemma exampleLoggedIn_ok: "schema_ok (h_db exampleLoggedIn)"
  using schema_requests [OF exampleOwned_ok, of exampleService "[ReqLogin exampleLogin]"]
  by (simp add: exampleLoggedIn_reached)

theorem login_token_resolves_witness:
  "fst (svc_ResolveSession exampleService exampleToken exampleLoggedIn) = Inr (Some exampleAnn)"
  using login_token_resolves [OF exampleLoggedIn_reached exampleOwned_ok example_documented, of 1]
  by (simp add: exampleLoggedIn_def exampleService_def exampleRuntime_def)

section \<open>Password changes\<close>

text \<open>C32: a password change that succeeds under a new request id was asked for with the stored
  password; it leaves a hash that accepts the new one, records the request as committed, revokes
  the nodes of the account and leaves its sessions and every other credential.\<close>

theorem changed_password_is_accepted:
  assumes "svc_ChangePassword sv input h = (Inr user, k)"
    and "normalizeRequestID (cp_RequestID input) = Inr rid" and "u = TrimSpace (cp_UserID input)"
    and "repo_PasswordChangeOutcome u rid (h_db h) = ''''" and "schema_ok (h_db h)"
    and "documentedRuntime (sv_runtime sv)"
  shows "\<exists>c d. findCredential (h_db h) u = Some c \<and>
     verifyPassword sv (cp_CurrentPassword input) (c_password_hash c) = Inr True \<and>
     findCredential (h_db k) u = Some d \<and>
     verifyPassword sv (cp_NewPassword input) (c_password_hash d) = Inr True \<and>
     repo_PasswordChangeOutcome u rid (h_db k) = ''committed'' \<and>
     list_all (\<lambda>n. n_owner_user_id n = u \<longrightarrow> n_revoked_at n \<noteq> None) (execution_nodes (h_db k)) \<and>
     sessions (h_db k) = sessions (h_db h) \<and>
     (\<forall>v. v \<noteq> u \<longrightarrow> findCredential (h_db k) v = findCredential (h_db h) v)"
proof -
  have new: "findReceipt u rid (h_db h) = None" using assms(4,5) outcome_open by blast
  have attempt: "attemptPasswordChange sv u rid (cp_CurrentPassword input) (cp_NewPassword input) h = (Inr user, k)"
    using ChangePassword_attempt [OF assms(1,2)] new by (simp add: assms(3))
  have fixed: "normalizeRequestID rid = Inr rid" "TrimSpace u = u"
    using assms(2,3) normalizeRequestID_fixed by simp_all
  obtain hash nxt now j where hash: "repo_PasswordCredential u (h_db h) = Inr (hash, ''active'')"
    "verifyPassword sv (cp_CurrentPassword input) hash = Inr True"
    and nxt: "hashPassword sv (cp_NewPassword input) h = (Inr nxt, j)"
    and commit: "repo_TryCommitPasswordChange u rid hash nxt now (h_db h) = (Inr PasswordAttemptCommitted, h_db k)"
    by (rule attempt_Inr [OF attempt new fixed])
  have "verifyPassword sv (cp_NewPassword input) nxt = Inr True"
    using written_hash [OF nxt assms(6)] by metis
  with committed_effects [OF commit assms(5)] hash(2) show ?thesis
    by (auto simp: nodesDead_def list_all_iff)
qed

lemma exampleChange_id:
  "normalizeRequestID (cp_RequestID exampleChange) = Inr ''change-1''"
  "''user_646464646464646464646464'' = TrimSpace (cp_UserID exampleChange)"
  by code_simp+

theorem changed_password_is_accepted_witness:
  "\<exists>c d. findCredential (h_db exampleLoggedIn) ''user_646464646464646464646464'' = Some c \<and>
     verifyPassword exampleService ''password-1'' (c_password_hash c) = Inr True \<and>
     findCredential (h_db exampleChanged) ''user_646464646464646464646464'' = Some d \<and>
     verifyPassword exampleService ''password-2'' (c_password_hash d) = Inr True"
proof -
  have input: "cp_CurrentPassword exampleChange = ''password-1''" "cp_NewPassword exampleChange = ''password-2''"
    by (simp_all add: exampleChange_def)
  have "repo_PasswordChangeOutcome ''user_646464646464646464646464'' ''change-1'' (h_db exampleLoggedIn) = ''''"
    by code_simp
  from changed_password_is_accepted [OF exampleChanged_reached exampleChange_id this exampleLoggedIn_ok
      example_documented, unfolded input] show ?thesis by blast
qed

text \<open>C33: a password request that has an outcome in a well-formed database keeps it whatever requests
  follow, and asking again under the same id, with any passwords, answers by that outcome (the account
  when it was committed, a refusal otherwise) and changes nothing, neither the database nor the
  positions in the clock and the random source.\<close>

theorem settled_password_change_is_repeatable:
  assumes "normalizeRequestID (cp_RequestID input) = Inr rid" and "u = TrimSpace (cp_UserID input)"
    and "u \<noteq> ''''" and "repo_PasswordChangeOutcome u rid (h_db h) = effect" and "effect \<noteq> ''''"
    and "schema_ok (h_db h)"
  shows "svc_ChangePassword sv input (run_requests sv reqs h) =
     (if effect = ''committed'' then fst (svc_UserByID u (run_requests sv reqs h))
      else Inl ErrRequestNotApplied, run_requests sv reqs h)"
  using ChangePassword_settled [OF assms(1) assms(3) [unfolded assms(2)]
      outcome_requests [OF assms(4) [unfolded assms(2)] assms(5)] assms(5) schema_requests [OF assms(6)], of sv sv reqs]
  by (simp add: assms(2) prod_eq_iff)

lemma exampleChanged_ok: "schema_ok (h_db exampleChanged)"
  using schema_requests [OF exampleLoggedIn_ok, of exampleService "[ReqChangePassword exampleChange]"]
  by (simp add: exampleChanged_reached)

theorem settled_password_change_is_repeatable_witness:
  "svc_ChangePassword exampleService exampleChange (run_requests exampleService [ReqLogout exampleToken] exampleChanged) =
     (fst (svc_UserByID ''user_646464646464646464646464'' (run_requests exampleService [ReqLogout exampleToken] exampleChanged)),
      run_requests exampleService [ReqLogout exampleToken] exampleChanged)"
proof -
  have "repo_PasswordChangeOutcome ''user_646464646464646464646464'' ''change-1'' (h_db exampleChanged) = ''committed''"
    by code_simp
  from settled_password_change_is_repeatable [OF exampleChange_id _ this _ exampleChanged_ok,
      where sv = exampleService and reqs = "[ReqLogout exampleToken]"] show ?thesis by simp
qed

section \<open>Tokens\<close>

text \<open>C34: a token that a browser obtains is the token of the principal answered, for the audience asked
  for without the spaces around it and the configured lifetime from the clock on. The audience is a
  configured one (with an organization and a role in it for the relay), and the principal is backed by a
  session that is neither revoked nor expired, of an active member of an active deployment.\<close>

theorem exchanged_token_is_backed:
  assumes "svc_ExchangePrincipal sv token audience h = (Inr (t, Some p), k)"
  shows "Sign sv p (TrimSpace audience) (rt_now (sv_runtime sv) (Suc (h_ticks h))) (sv_principalTTL sv) = Inr t \<and>
     TrimSpace audience \<in> set (sv_audiences sv) \<and>
     (TrimSpace audience = relayUserAudience \<longrightarrow> pn_OrganizationID p \<noteq> '''' \<and> pn_OrganizationRole p \<noteq> '''') \<and>
     (\<exists>x. backedBy sv token (rt_now (sv_runtime sv) (h_ticks h)) (h_db h) p x)"
proof -
  obtain j where "svc_ResolveSession sv token h = (Inr (Some p), j)" "signPrincipal sv p audience j = (Inr t, k)"
    and "h_ticks j = Suc (h_ticks h)"
    by (rule ExchangePrincipal_Inr [OF assms])
  then show ?thesis
    using ResolveSession_Inr unfolding signPrincipal_Inr by auto
qed

lemma exampleExchange:
  "\<exists>t k. svc_ExchangePrincipal exampleService exampleToken '' nexus '' exampleLoggedIn = (Inr (t, Some exampleAnn), k)"
proof -
  have "fst (svc_ResolveSession exampleService exampleToken exampleLoggedIn) = Inr (Some exampleAnn)"
    using login_then_resolve [OF exampleLoggedIn_reached exampleOwned_ok example_documented, of 1]
    by (simp add: exampleLoggedIn_def exampleService_def exampleRuntime_def)
  then obtain j where j: "svc_ResolveSession exampleService exampleToken exampleLoggedIn = (Inr (Some exampleAnn), j)"
    by (cases "svc_ResolveSession exampleService exampleToken exampleLoggedIn") simp
  have audience: "TrimSpace '' nexus '' = ''nexus''" "''nexus'' \<in> set (sv_audiences exampleService)"
    "''nexus'' \<noteq> relayUserAudience"
    by code_simp+
  have "rt_marshal (sv_runtime exampleService) c = Some (cl_UserID c)" for c
    by (simp add: exampleService_def exampleRuntime_def)
  then obtain t where "Sign exampleService exampleAnn ''nexus'' (rt_now (sv_runtime exampleService) (h_ticks j))
      (sv_principalTTL exampleService) = Inr t"
    by (auto simp: Sign_def Let_def)
  with audience have "signPrincipal exampleService exampleAnn '' nexus '' j = (Inr t, j\<lparr>h_ticks := Suc (h_ticks j)\<rparr>)"
    by (simp add: signPrincipal_Inr)
  with j show ?thesis by (auto simp: svc_ExchangePrincipal_def)
qed

theorem exchanged_token_is_backed_witness:
  "\<exists>t x. Sign exampleService exampleAnn ''nexus'' 103 (5 * minute) = Inr t \<and>
     backedBy exampleService exampleToken 102 (h_db exampleLoggedIn) exampleAnn x"
proof -
  have now: "rt_now (sv_runtime exampleService) (h_ticks exampleLoggedIn) = 102"
    "rt_now (sv_runtime exampleService) (Suc (h_ticks exampleLoggedIn)) = 103"
    "sv_principalTTL exampleService = 5 * minute"
    by (simp_all add: exampleService_def exampleRuntime_def exampleLoggedIn_def)
  have audience: "TrimSpace '' nexus '' = ''nexus''" by code_simp
  obtain t k where "svc_ExchangePrincipal exampleService exampleToken '' nexus '' exampleLoggedIn =
      (Inr (t, Some exampleAnn), k)"
    using exampleExchange by blast
  from exchanged_token_is_backed [OF this, unfolded now audience] show ?thesis by blast
qed

text \<open>C35: a token carries its claims: its three parts decode to the fixed header, to the encoded
  claims of the principal for this audience and lifetime, and to the signature of the first two.\<close>

theorem token_carries_its_claims:
  assumes "Sign sv who audience now ttl = Inr token"
  shows "\<exists>payload. rt_marshal (sv_runtime sv) (principalClaims who audience now ttl) = Some payload \<and>
     map (b64Decode urlAlphabet) (SplitOn (CHR ''.'') token) =
       [Some principalTokenHeader, Some payload,
        Some (rt_ed25519 (sv_runtime sv) (sg_privateKey (sv_signer sv))
          (b64Encode urlAlphabet principalTokenHeader @ ''.'' @ b64Encode urlAlphabet payload))]"
  by (rule token_parts [OF assms]) (intro exI conjI)

theorem token_carries_its_claims_witness:
  "\<exists>payload. rt_marshal (sv_runtime exampleService) (principalClaims exampleAnn ''nexus'' 5 9) = Some payload \<and>
     map (b64Decode urlAlphabet) (SplitOn (CHR ''.'') (projr (Sign exampleService exampleAnn ''nexus'' 5 9))) =
       [Some principalTokenHeader, Some payload,
        Some (rt_ed25519 (sv_runtime exampleService) (sg_privateKey (sv_signer exampleService))
          (b64Encode urlAlphabet principalTokenHeader @ ''.'' @ b64Encode urlAlphabet payload))]"
proof (rule token_carries_its_claims)
  have "rt_marshal (sv_runtime exampleService) c = Some (cl_UserID c)" for c
    by (simp add: exampleService_def exampleRuntime_def)
  then show "Sign exampleService exampleAnn ''nexus'' 5 9 = Inr (projr (Sign exampleService exampleAnn ''nexus'' 5 9))"
    by (simp add: Sign_def Let_def)
qed

text \<open>C36: a node's token is issued against the credential of a node that is not revoked. Its parent
  session is not revoked and belongs to the node's owner, who is an active member of the node's deployment,
  itself active, and whose current organization is the node's; the token is for the relay's node audience
  and for this owner in the role of the node, expires after fifteen minutes, and issuing it changes
  nothing in the database.\<close>

theorem node_token_is_backed:
  assumes "svc_ExchangeNodeTokenWithDirectory sv credential ids h = (Inr res, k)"
    and "now = rt_now (sv_runtime sv) (h_ticks h)" and "schema_ok (h_db h)"
  shows "\<exists>n own x. nodeCredentialHash sv credential = Inr (n_credential_hash n) \<and>
     n \<in> set (execution_nodes (h_db h)) \<and> n_revoked_at n = None \<and>
     x \<in> set (sessions (h_db h)) \<and> s_session_id x = n_parent_session_id n \<and> s_revoked_at x = None \<and>
     sessionPrincipal (h_db h) x = Some own \<and> s_user_id x = n_owner_user_id n \<and> s_deployment_id x = n_deployment_id n \<and>
     deploymentActive (h_db h) (n_deployment_id n) \<and> userActive (h_db h) (n_owner_user_id n) \<and>
     membershipActive (h_db h) (n_deployment_id n) (n_owner_user_id n) \<and>
     pr_UserID own = n_owner_user_id n \<and>
     pr_DeploymentID own = n_deployment_id n \<and> pr_OrganizationID own = n_organization_id n \<and>
     Sign sv (nodePrincipal (principalFromRecord own) n) relayNodeAudience now (15 * minute) = Inr (nt_Token res) \<and>
     pn_Role (nodePrincipal (principalFromRecord own) n) = ''node'' \<and>
     nt_ExpiresAt res = now + 15 * minute \<and> h_db k = h_db h \<and>
     list_all (\<lambda>e. ad_AgentID e \<in> set ids) (nt_Directory res)"
proof -
  obtain hash n own where hash: "nodeCredentialHash sv credential = Inr hash"
    and n: "repo_NodeByCredential hash (h_db h) = Inr n" and own: "repo_ResolveNodeOwner n (h_db h) = Some own"
    and rest: "pr_DeploymentID own = n_deployment_id n" "pr_OrganizationID own = n_organization_id n"
    "Sign sv (nodePrincipal (principalFromRecord own) n) relayNodeAudience now nodeTokenTTL = Inr (nt_Token res)"
    "nt_ExpiresAt res = now + nodeTokenTTL" "h_db k = h_db h"
    "\<forall>e \<in> set (nt_Directory res). ad_AgentID e \<in> set ids"
    by (rule ExchangeNodeToken_Inr [OF assms(1)]) (use assms(2) in blast)
  note node = NodeByCredential_Inr [OF n]
  obtain x m where x: "x \<in> set (sessions (h_db h))" "sessionPrincipal (h_db h) x = Some own"
      "s_session_id x = n_parent_session_id n"
    and m: "m \<in> set (execution_nodes (h_db h))" "n_node_id m = n_node_id n" "n_owner_user_id m = s_user_id x"
      "n_deployment_id m = s_deployment_id x"
    by (rule ResolveNodeOwner_row [OF own]) blast
  note granted = sessionPrincipal_grants [OF x(1,2)]
  have "m = n" using key_unique [OF nodes_distinct [OF assms(3)] m(1)] node m(2) by blast
  then have "s_user_id x = n_owner_user_id n" "s_deployment_id x = n_deployment_id n" using m(3,4) by simp_all
  moreover from this granted have "s_revoked_at x = None" "deploymentActive (h_db h) (n_deployment_id n)" "userActive (h_db h) (n_owner_user_id n)"
    "membershipActive (h_db h) (n_deployment_id n) (n_owner_user_id n)" "pr_UserID own = n_owner_user_id n"
    by (simp_all add: grants_def)
  moreover have "pn_Role (nodePrincipal (principalFromRecord own) n) = ''node''"
    by (simp add: nodePrincipal_def)
  ultimately show ?thesis
    using hash node x rest unfolding nodeTokenTTL_def list_all_iff by blast
qed

lemma exampleNoded_ok: "schema_ok (h_db exampleNoded)"
  by code_simp

definition exampleNodeToken :: NodeTokenResult where
  "exampleNodeToken =
     projr (fst (svc_ExchangeNodeTokenWithDirectory exampleService exampleCredential [] exampleNoded))"

theorem node_token_is_backed_witness:
  "\<exists>n own x. nodeCredentialHash exampleService exampleCredential = Inr (n_credential_hash n) \<and>
     n \<in> set (execution_nodes (h_db exampleNoded)) \<and> n_revoked_at n = None \<and>
     x \<in> set (sessions (h_db exampleNoded)) \<and> s_session_id x = n_parent_session_id n \<and> s_revoked_at x = None \<and>
     sessionPrincipal (h_db exampleNoded) x = Some own \<and> s_user_id x = n_owner_user_id n \<and> s_deployment_id x = n_deployment_id n \<and>
     deploymentActive (h_db exampleNoded) (n_deployment_id n) \<and> userActive (h_db exampleNoded) (n_owner_user_id n) \<and>
     membershipActive (h_db exampleNoded) (n_deployment_id n) (n_owner_user_id n) \<and>
     pr_UserID own = n_owner_user_id n \<and>
     pr_DeploymentID own = n_deployment_id n \<and> pr_OrganizationID own = n_organization_id n \<and>
     Sign exampleService (nodePrincipal (principalFromRecord own) n) relayNodeAudience 104 (15 * minute) =
       Inr (nt_Token exampleNodeToken) \<and>
     pn_Role (nodePrincipal (principalFromRecord own) n) = ''node'' \<and>
     nt_ExpiresAt exampleNodeToken = 104 + 15 * minute \<and>
     h_db (snd (svc_ExchangeNodeTokenWithDirectory exampleService exampleCredential [] exampleNoded)) = h_db exampleNoded \<and>
     list_all (\<lambda>e. ad_AgentID e \<in> set []) (nt_Directory exampleNodeToken)"
  unfolding exampleNodeToken_def
proof (rule node_token_is_backed [OF success])
  show "104 = rt_now (sv_runtime exampleService) (h_ticks exampleNoded)"
    by (simp add: exampleService_def exampleRuntime_def exampleNoded_def)
  show "schema_ok (h_db exampleNoded)" by (rule exampleNoded_ok)
qed code_simp

end
