(* ===== verification/Config_Theorems.thy ===== *)
theory Config_Theorems
  imports Cfg_Life Service_Theorems
begin

text \<open>
  The properties of the start of the program: the parser of \<open>.env\<close> files ends, the database is
  opened with the settings the model of it rests on, a second start is the first one again, and a
  service that was started hands out short-lived tokens for its own audiences only.
\<close>

section \<open>Options\<close>

lemma sqliteValues_options:
  "valuesOf ''_txlock'' (sqliteValues vs) = [''immediate''] \<and>
     valuesOf ''_pragma'' (sqliteValues vs) =
       filter (\<lambda>p. \<not> overridden p) (valuesOf ''_pragma'' vs) @ [''busy_timeout(5000)'', ''foreign_keys(1)''] \<and>
     filter overridden (valuesOf ''_pragma'' (sqliteValues vs)) = [''busy_timeout(5000)'', ''foreign_keys(1)''] \<and>
     filter (\<lambda>p. \<not> overridden p) (valuesOf ''_pragma'' (sqliteValues vs)) =
       filter (\<lambda>p. \<not> overridden p) (valuesOf ''_pragma'' vs)"
proof -
  have "overridden ''busy_timeout(5000)''" "overridden ''foreign_keys(1)''" by code_simp+
  then show ?thesis
    by (auto simp: sqliteValues_def valuesOf_def filter_map o_def filter_empty_conv cong: filter_cong)
qed

lemma sqliteValues_other:
  "k \<noteq> ''_txlock'' \<Longrightarrow> k \<noteq> ''_pragma'' \<Longrightarrow> valuesOf k (sqliteValues vs) = valuesOf k vs"
  by (auto simp: sqliteValues_def valuesOf_def filter_map o_def intro!: arg_cong [of _ _ "map snd"] filter_cong)

section \<open>Reading a file\<close>

text \<open>C37: the loop that parses a \<open>.env\<close> file ends: every turn that does not return shortens the text
  that is left, so that one turn more than the text has bytes gives the result.\<close>

theorem dotenv_parsing_ends:
  "parseLoop (Suc (length (unixLines src))) sys Map.empty (unixLines src) = Some (parseEnvBytes sys src)"
  unfolding parseEnvBytes_def by (rule parseLoop_enough) simp

text \<open>C38: the connection string of an SQLite database keeps the path and every other option of the
  one that was configured; whatever that says, transactions begin immediately, and the pragmas for
  foreign keys and the busy timeout are there once with the program's values, behind the rest.\<close>

theorem sqlite_connection_is_strict:
  assumes "sqliteConnectionDSN dsn = Some d" and "cutAt (CHR ''?'') dsn = (path, query)"
  shows "\<exists>asked vs. ParseQuery query = Some asked \<and> cutAt (CHR ''?'') d = (path, EncodeQuery (sqliteValues asked)) \<and>
     ParseQuery (EncodeQuery (sqliteValues asked)) = Some vs \<and> valuesOf ''_txlock'' vs = [''immediate''] \<and>
     valuesOf ''_pragma'' vs =
       filter (\<lambda>p. \<not> overridden p) (valuesOf ''_pragma'' asked) @ [''busy_timeout(5000)'', ''foreign_keys(1)''] \<and>
     filter overridden (valuesOf ''_pragma'' vs) = [''busy_timeout(5000)'', ''foreign_keys(1)''] \<and>
     (\<forall>k. k \<notin> {''_txlock'', ''_pragma''} \<longrightarrow> valuesOf k vs = valuesOf k asked)"
proof -
  from assms obtain asked where asked: "ParseQuery query = Some asked"
    and d: "d = path @ CHR ''?'' # EncodeQuery (sqliteValues asked)"
    by (auto simp: sqliteConnectionDSN_def)
  have "CHR ''?'' \<notin> set path"
    using assms(2) by (auto simp: cutAt_def dest: set_takeWhileD)
  then have "cutAt (CHR ''?'') d = (path, EncodeQuery (sqliteValues asked))"
    by (simp add: d cutAt_append)
  moreover have "ParseQuery (EncodeQuery (sqliteValues asked)) = Some (sort_key fst (sqliteValues asked))"
    by (rule ParseQuery_EncodeQuery)
  moreover have "valuesOf k (sort_key fst (sqliteValues asked)) = valuesOf k (sqliteValues asked)" for k
    by (rule valuesOf_sort)
  ultimately show ?thesis
    using asked sqliteValues_options [of asked] sqliteValues_other [of _ asked]
    by (rule_tac exI [of _ asked], rule_tac exI [of _ "sort_key fst (sqliteValues asked)"]) auto
qed

theorem sqlite_connection_is_strict_witness:
  "\<exists>vs. ParseQuery (EncodeQuery (sqliteValues [(''_pragma'', ''foreign_keys(0)''), (''cache'', ''shared'')])) = Some vs \<and>
     valuesOf ''_txlock'' vs = [''immediate''] \<and>
     filter overridden (valuesOf ''_pragma'' vs) = [''busy_timeout(5000)'', ''foreign_keys(1)'']"
proof -
  have "sqliteConnectionDSN ''a.db?_pragma=foreign_keys(0)&cache=shared'' =
      Some (''a.db?'' @ EncodeQuery (sqliteValues [(''_pragma'', ''foreign_keys(0)''), (''cache'', ''shared'')]))"
    and cut: "cutAt (CHR ''?'') ''a.db?_pragma=foreign_keys(0)&cache=shared'' =
      (''a.db'', ''_pragma=foreign_keys(0)&cache=shared'')"
    and asked: "ParseQuery ''_pragma=foreign_keys(0)&cache=shared'' =
      Some [(''_pragma'', ''foreign_keys(0)''), (''cache'', ''shared'')]"
    by code_simp+
  from sqlite_connection_is_strict [OF this(1,2)] show ?thesis unfolding asked by auto
qed

section \<open>A start\<close>

text \<open>A first start in an empty directory, on the database of the examples.\<close>

definition exampleWorld :: world where
  "exampleWorld = \<lparr>wd_env = Map.empty, wd_files = Map.empty, wd_unreadable = {}, wd_unwritable = {}, wd_nodir = {}\<rparr>"

definition exampleOutside :: outside where
  "exampleOutside = \<lparr>ou_runtime = exampleRuntime, ou_tokenBytes = Some (replicate 16 CHR ''a''),
     ou_newKey = Some (replicate 64 CHR ''k''), ou_parseURL = (\<lambda>_. None), ou_searchPath = id,
     ou_sources = \<lparr>so_nexus = (\<lambda>_. None), so_control = (\<lambda>_. None)\<rparr>,
     ou_driver = (\<lambda>driver dsn. if driver = ''sqlite'' then Some exampleLoggedIn else None)\<rparr>"

definition exampleServed :: Service where
  "exampleServed = fst (projr (fst (prepare exampleOutside [] (readConfig Map.empty) exampleWorld)))"

definition exampleIssued :: "(service_error + string \<times> Principal option) \<times> host" where
  "exampleIssued = svc_ExchangePrincipal exampleServed exampleToken ''nexus-runtime'' exampleLoggedIn"

lemma exampleStart: "\<not> isl (fst (prepare exampleOutside [] (readConfig Map.empty) exampleWorld))"
  by code_simp

section \<open>Starting\<close>

text \<open>C39: a start writes what it generates, and the next one reads it back: after a start that reached
  the service, with three different files for the keys and the token, another start with the same configuration, whatever its random source gives, has the
  same service (its signing key, its service token and so all tokens stay valid) and writes nothing
  new.\<close>

theorem second_start_is_the_first:
  assumes "prepare ext args cfg w = (Inr (sv, h), w')"
    and "cf_SigningKeyFile cfg \<noteq> cf_SigningPublicKeyFile cfg"
    and "cf_ServiceTokenFile cfg \<notin> {cf_SigningKeyFile cfg, cf_SigningPublicKeyFile cfg}"
  shows "prepare (ext\<lparr>ou_tokenBytes := bytes, ou_newKey := key\<rparr>) args cfg w' = (Inr (sv, h), w')"
proof -
  from assms(1) obtain c w1 dsn signer where token: "PrepareServiceToken (ou_tokenBytes ext) cfg w = (Inr c, w1)"
    and ok: "Validate (ou_parseURL ext) c = None"
    and args: "\<not> (args \<noteq> [] \<and> hd args = ''import-control-sqlite'' \<and>
       IsSQLiteSQLDriver (NormalizeSQLDriver (cf_DatabaseDriver c)))"
    and dsn: "connectionString (ou_parseURL ext) (ou_searchPath ext) c w1 = Inr dsn"
    and drv: "ou_driver ext (NormalizeSQLDriver (cf_DatabaseDriver c)) dsn = Some h"
    and signer: "LoadSigner (ou_newKey ext) (cf_SigningPrivateKey c) (cf_SigningKeyFile c)
       (cf_SigningPublicKeyFile c) w1 = (Inr signer, w')"
    and sv: "sv = NewService (ou_runtime ext) c signer"
    unfolding prepare_Inr by blast
  have c: "cf_SigningKeyFile c = cf_SigningKeyFile cfg" "cf_SigningPublicKeyFile c = cf_SigningPublicKeyFile cfg"
    by (subst PrepareServiceToken_Inr [OF token], simp)+
  have same: "sameOutside w1 w'" and kept: "wd_files w' (cf_ServiceTokenFile cfg) = wd_files w1 (cf_ServiceTokenFile cfg)"
    using LoadSigner_outside [OF signer] assms(3) c by auto
  have "PrepareServiceToken bytes cfg w' = (Inr c, w')"
  proof (rule PrepareServiceToken_again [OF token same _ kept])
    show "cf_ServiceToken c \<noteq> ''''" using ok by (auto simp: Validate_None)
  qed
  moreover have "LoadSigner key (cf_SigningPrivateKey c) (cf_SigningKeyFile c) (cf_SigningPublicKeyFile c) w' =
      (Inr signer, w')"
    by (rule LoadSigner_again [OF signer]) (use assms(2) c in simp)
  ultimately show ?thesis
    using ok args dsn drv sv connectionString_outside [OF same] unfolding prepare_Inr by simp
qed

theorem second_start_is_the_first_witness:
  "prepare (exampleOutside\<lparr>ou_tokenBytes := None, ou_newKey := None\<rparr>) [] (readConfig Map.empty)
     (snd (prepare exampleOutside [] (readConfig Map.empty) exampleWorld)) =
   prepare exampleOutside [] (readConfig Map.empty) exampleWorld"
proof -
  obtain sv h w' where start: "prepare exampleOutside [] (readConfig Map.empty) exampleWorld = (Inr (sv, h), w')"
    using success [OF exampleStart] by (metis surj_pair)
  have "cf_SigningKeyFile (readConfig Map.empty) \<noteq> cf_SigningPublicKeyFile (readConfig Map.empty)"
    and "cf_ServiceTokenFile (readConfig Map.empty) \<notin>
      {cf_SigningKeyFile (readConfig Map.empty), cf_SigningPublicKeyFile (readConfig Map.empty)}"
    by code_simp+
  from second_start_is_the_first [OF start this] show ?thesis by (simp add: start)
qed

lemma run_Serving:
  assumes "run ext args cfg w = (Inr (Serving sv), found, w')"
  obtains h where "prepare ext args cfg w = (Inr (sv, h), w')"
proof -
  from assms obtain sv' h' where p: "prepare ext args cfg w = (Inr (sv', h'), w')"
    and d: "fst (dispatch (ou_sources ext) (wd_env w') sv' args h') = Inr (Serving sv)"
    by (auto simp: run_def split: prod.splits sum.splits)
  have "fst (map_prod (map_sum id (\<lambda>_. Finished)) id r) \<noteq> Inr (Serving sv)" for r :: "(start_error + unit) \<times> host"
    by (cases r; cases "fst r") auto
  moreover have "fst (serve e sv' h') = Inr (Serving sv) \<Longrightarrow> sv' = sv" for e
    unfolding serve_def by (cases "initializeOwner e sv' h'"; cases "fst (initializeOwner e sv' h')") auto
  ultimately have "sv' = sv"
    using d unfolding dispatch_def Let_def by (cases args) (auto split: if_splits)
  with p that show thesis by simp
qed

lemma claims_lifetime:
  assumes "0 < ttl" and "ttl \<le> 300 * second"
  shows "cl_IssuedAt (principalClaims p audience now ttl) \<le> cl_ExpiresAt (principalClaims p audience now ttl)"
    and "cl_ExpiresAt (principalClaims p audience now ttl) \<le> cl_IssuedAt (principalClaims p audience now ttl) + 300"
proof -
  have "(now + ttl) div 1000000000 \<le> (now + 300 * 1000000000) div 1000000000"
    using assms by (intro zdiv_mono1) (simp_all add: second_def)
  moreover have "(now + 300 * 1000000000) div 1000000000 = now div 1000000000 + 300" by simp
  ultimately show "cl_ExpiresAt (principalClaims p audience now ttl) \<le> cl_IssuedAt (principalClaims p audience now ttl) + 300"
    by (simp add: principalClaims_def Unix_def)
  show "cl_IssuedAt (principalClaims p audience now ttl) \<le> cl_ExpiresAt (principalClaims p audience now ttl)"
    using assms by (simp add: principalClaims_def Unix_def zdiv_mono1)
qed

text \<open>C40: the tokens a started service exchanges sessions for are signed at its clock, for the configured
  lifetime and for one of two audiences, that of the configuration and the relay's for users, never the
  relay's for nodes; that lifetime is positive and at most five minutes, so that a token expires within
  300 seconds of the second its signing began in.\<close>

theorem served_tokens_are_short_lived:
  assumes "run ext args cfg w = (Inr (Serving sv), found, w')"
    and "svc_ExchangePrincipal sv token audience h = (Inr (issued, Some p), k)"
    and "now = rt_now (ou_runtime ext) (Suc (h_ticks h))"
  shows "Sign sv p (TrimSpace audience) now (cf_PrincipalTTL cfg) = Inr issued \<and>
     TrimSpace audience \<in> {TrimSpace (cf_PrincipalAudience cfg), relayUserAudience} - {'''', relayNodeAudience} \<and>
     0 < cf_PrincipalTTL cfg \<and> cf_PrincipalTTL cfg \<le> 300 * second \<and>
     cl_IssuedAt (principalClaims p (TrimSpace audience) now (cf_PrincipalTTL cfg)) = Unix now \<and>
     Unix now \<le> cl_ExpiresAt (principalClaims p (TrimSpace audience) now (cf_PrincipalTTL cfg)) \<and>
     cl_ExpiresAt (principalClaims p (TrimSpace audience) now (cf_PrincipalTTL cfg)) \<le> Unix now + 300"
proof -
  from assms(1) obtain c w1 signer where "PrepareServiceToken (ou_tokenBytes ext) cfg w = (Inr c, w1)"
    and ok: "Validate (ou_parseURL ext) c = None" and sv: "sv = NewService (ou_runtime ext) c signer"
    using run_Serving unfolding prepare_Inr by blast
  then have cfg: "cf_PrincipalAudience c = cf_PrincipalAudience cfg" "cf_PrincipalTTL c = cf_PrincipalTTL cfg"
    by (subst PrepareServiceToken_Inr, simp_all)+
  obtain j where "signPrincipal sv p audience j = (Inr issued, k)" "h_ticks j = Suc (h_ticks h)"
    by (rule ExchangePrincipal_Inr [OF assms(2)])
  then have "TrimSpace audience \<noteq> ''''" "TrimSpace audience \<in> set (sv_audiences sv)"
    and sign: "Sign sv p (TrimSpace audience) now (cf_PrincipalTTL cfg) = Inr issued"
    using cfg(2) unfolding signPrincipal_Inr by (simp_all add: sv NewService_def assms(3))
  with ok cfg(1) have "TrimSpace audience \<in>
      {TrimSpace (cf_PrincipalAudience cfg), relayUserAudience} - {'''', relayNodeAudience}"
    by (auto simp: sv NewService_def Validate_None relayUserAudience_def relayNodeAudience_def)
  moreover have ttl: "0 < cf_PrincipalTTL cfg" "cf_PrincipalTTL cfg \<le> 300 * second"
    using ok by (simp_all add: cfg(2) [symmetric] Validate_None minute_def)
  moreover have "cl_IssuedAt (principalClaims p (TrimSpace audience) now (cf_PrincipalTTL cfg)) = Unix now"
    by (simp add: principalClaims_def)
  ultimately show ?thesis
    using sign claims_lifetime [OF ttl, of p "TrimSpace audience" now] by simp
qed

lemma exampleServing:
  "\<exists>found w'. run exampleOutside [] (readConfig Map.empty) exampleWorld = (Inr (Serving exampleServed), found, w')"
proof -
  obtain sv h w' where start: "prepare exampleOutside [] (readConfig Map.empty) exampleWorld = (Inr (sv, h), w')"
    using success [OF exampleStart] by (metis surj_pair)
  then have "wd_env w' = Map.empty"
    unfolding prepare_Inr
    by (auto dest!: PrepareServiceToken_outside LoadSigner_outside simp: sameOutside_def exampleWorld_def)
  then have "initializeOwner (wd_env w') sv h = (Inr (), h)"
    by (simp add: initializeOwner_def Getenv_def returnA_def)
  then show ?thesis
    using start by (simp add: run_def dispatch_def serve_def exampleServed_def)
qed

lemma exampleServed_service:
  "sv_runtime exampleServed = exampleRuntime \<and> ''nexus-runtime'' \<in> set (sv_audiences exampleServed)"
proof -
  obtain sv h w' where start: "prepare exampleOutside [] (readConfig Map.empty) exampleWorld = (Inr (sv, h), w')"
    using success [OF exampleStart] by (metis surj_pair)
  then obtain c w1 signer where c: "PrepareServiceToken (ou_tokenBytes exampleOutside) (readConfig Map.empty)
      exampleWorld = (Inr c, w1)" and sv: "sv = NewService (ou_runtime exampleOutside) c signer"
    unfolding prepare_Inr by blast
  have "cf_PrincipalAudience c = cf_PrincipalAudience (readConfig Map.empty)"
    by (subst PrepareServiceToken_Inr [OF c]) simp
  moreover have "TrimSpace (cf_PrincipalAudience (readConfig Map.empty)) = ''nexus-runtime''" by code_simp
  ultimately show ?thesis
    using start sv by (simp add: exampleServed_def NewService_def exampleOutside_def)
qed

lemma exampleIssued_ok: "\<exists>t k. exampleIssued = (Inr (t, Some exampleAnn), k)"
proof -
  have run: "sv_runtime exampleService = exampleRuntime" by (simp add: exampleService_def)
  have "svc_ResolveSession exampleServed exampleToken = svc_ResolveSession exampleService exampleToken"
    by (simp add: svc_ResolveSession_def hashToken_def nowA_def run exampleServed_service)
  then have "fst (svc_ResolveSession exampleServed exampleToken exampleLoggedIn) = Inr (Some exampleAnn)"
    using login_then_resolve [OF exampleLoggedIn_reached exampleOwned_ok example_documented, of 1]
    by (simp add: exampleLoggedIn_def exampleService_def exampleRuntime_def)
  then obtain j where j: "svc_ResolveSession exampleServed exampleToken exampleLoggedIn = (Inr (Some exampleAnn), j)"
    by (cases "svc_ResolveSession exampleServed exampleToken exampleLoggedIn") simp
  have audience: "TrimSpace ''nexus-runtime'' = ''nexus-runtime''" "''nexus-runtime'' \<noteq> relayUserAudience"
    by code_simp+
  have "rt_marshal (sv_runtime exampleServed) c = Some (cl_UserID c)" for c
    by (simp add: exampleServed_service exampleRuntime_def)
  then obtain t where "Sign exampleServed exampleAnn ''nexus-runtime''
      (rt_now (sv_runtime exampleServed) (h_ticks j)) (sv_principalTTL exampleServed) = Inr t"
    by (auto simp: Sign_def Let_def)
  with audience exampleServed_service
  have "signPrincipal exampleServed exampleAnn ''nexus-runtime'' j = (Inr t, j\<lparr>h_ticks := Suc (h_ticks j)\<rparr>)"
    by (simp add: signPrincipal_Inr)
  with j show ?thesis by (auto simp: exampleIssued_def svc_ExchangePrincipal_def)
qed

theorem served_tokens_are_short_lived_witness:
  "Sign exampleServed exampleAnn ''nexus-runtime'' 103 (cf_PrincipalTTL (readConfig Map.empty)) =
       Inr (fst (projr (fst exampleIssued))) \<and>
     0 < cf_PrincipalTTL (readConfig Map.empty) \<and> cf_PrincipalTTL (readConfig Map.empty) \<le> 300 * second"
proof -
  obtain found w' where serving: "run exampleOutside [] (readConfig Map.empty) exampleWorld =
      (Inr (Serving exampleServed), found, w')"
    using exampleServing by blast
  obtain t k where issued: "exampleIssued = (Inr (t, Some exampleAnn), k)"
    using exampleIssued_ok by blast
  have audience: "TrimSpace ''nexus-runtime'' = ''nexus-runtime''" by code_simp
  have "103 = rt_now (ou_runtime exampleOutside) (Suc (h_ticks exampleLoggedIn))"
    by (simp add: exampleOutside_def exampleRuntime_def exampleLoggedIn_def)
  from served_tokens_are_short_lived [OF serving issued [unfolded exampleIssued_def] this, unfolded audience]
  show ?thesis by (simp add: issued)
qed

section \<open>Boundary cases\<close>

text \<open>The product of the configured seconds wraps around before it is checked.\<close>

definition wrappingEnvironment :: environment where
  "wrappingEnvironment = [''CONTROL_PRINCIPAL_TTL_SECONDS'' \<mapsto> ''18446744074'']"

lemma principal_ttl_wraps:
  "cf_PrincipalTTL (readConfig wrappingEnvironment) = 290448384 \<and>
   Validate (\<lambda>_. None) ((readConfig wrappingEnvironment)\<lparr>cf_ServiceToken := replicate 32 CHR ''t''\<rparr>) = None"
  by code_simp

text \<open>A line without an equals sign joins the key of the next one.\<close>

lemma key_spans_lines:
  "(case parseEnvBytes Map.empty (''TYPO'' @ [newline] @ ''PORT=1'') of Inl _ \<Rightarrow> False
    | Inr vars \<Rightarrow> vars ''PORT'' = None \<and> vars (''TYPO'' @ [newline] @ ''PORT'') = Some ''1'')"
  by code_simp

end
