(* ===== verification/Utf8_Text.thy ===== *)
theory Utf8_Text
  imports Control_Prelude
begin

text \<open>
  UTF-8 as the program's libraries read it: byte strings, their valid sequences and their code
  points; a byte that starts no valid sequence counts as the replacement character.
\<close>

text \<open>How many bytes a valid UTF-8 sequence at the start takes (0 if there is none).\<close>

definition continuation :: "char \<Rightarrow> bool" where
  "continuation c \<longleftrightarrow> 128 \<le> byte c \<and> byte c \<le> 191"

definition secondByte :: "char \<Rightarrow> char \<Rightarrow> bool" where
  "secondByte a b \<longleftrightarrow> continuation b \<and> (byte a = 224 \<longrightarrow> 160 \<le> byte b) \<and> (byte a = 237 \<longrightarrow> byte b \<le> 159) \<and>
     (byte a = 240 \<longrightarrow> 144 \<le> byte b) \<and> (byte a = 244 \<longrightarrow> byte b \<le> 143)"

fun utf8Length :: "string \<Rightarrow> nat" where
  "utf8Length [] = 0"
| "utf8Length (a # s) =
     (if byte a < 128 then 1
      else if 194 \<le> byte a \<and> byte a \<le> 223 then
        (case s of b # _ \<Rightarrow> if secondByte a b then 2 else 0 | _ \<Rightarrow> 0)
      else if 224 \<le> byte a \<and> byte a \<le> 239 then
        (case s of b # c # _ \<Rightarrow> if secondByte a b \<and> continuation c then 3 else 0 | _ \<Rightarrow> 0)
      else if 240 \<le> byte a \<and> byte a \<le> 244 then
        (case s of b # c # d # _ \<Rightarrow> if secondByte a b \<and> continuation c \<and> continuation d then 4 else 0 | _ \<Rightarrow> 0)
      else 0)"

lemma utf8Length_le: "utf8Length s \<le> length s"
  by (induction s rule: utf8Length.induct) (auto split: list.splits)

definition utf8Encode :: "nat \<Rightarrow> string" where
  "utf8Encode r =
     (if r < 128 then [char_of r]
      else if r < 2048 then [char_of (192 + r div 64), char_of (128 + r mod 64)]
      else if r < 65536 then
        [char_of (224 + r div 4096), char_of (128 + r div 64 mod 64), char_of (128 + r mod 64)]
      else [char_of (240 + r div 262144), char_of (128 + r div 4096 mod 64),
        char_of (128 + r div 64 mod 64), char_of (128 + r mod 64)])"

definition replacementRune :: string where
  "replacementRune = [CHR 0xEF, CHR 0xBF, CHR 0xBD]"

text \<open>\<open>utf8.DecodeRuneInString\<close> of a text that is not empty.\<close>

definition utf8Decode :: "string \<Rightarrow> nat \<times> nat" where
  "utf8Decode s =
     (let n = utf8Length s; b = (\<lambda>i. byte (s ! i)) in
      if n = 0 then (65533, 1) else if n = 1 then (b 0, 1)
      else if n = 2 then ((b 0 - 192) * 64 + (b 1 - 128), 2)
      else if n = 3 then ((b 0 - 224) * 4096 + (b 1 - 128) * 64 + (b 2 - 128), 3)
      else ((b 0 - 240) * 262144 + (b 1 - 128) * 4096 + (b 2 - 128) * 64 + (b 3 - 128), 4))"

lemma utf8Decode_size: "0 < snd (utf8Decode s)"
  by (simp add: utf8Decode_def Let_def)

text \<open>\<open>[]rune(s)\<close>, each code point as the text \<open>string\<close> makes of it.\<close>

function runes :: "string \<Rightarrow> string list" where
  "runes [] = []"
| "runes (a # s) = (if utf8Length (a # s) = 0 then replacementRune # runes s
     else take (utf8Length (a # s)) (a # s) # runes (drop (utf8Length (a # s)) (a # s)))"
  by pat_completeness auto
termination by (relation "measure length") auto

end
