(* ===== verification/Http_Json.thy ===== *)
theory Http_Json
  imports Svc_Core Utf8_Text
begin

text \<open>
  What the handlers use of \<open>encoding/json\<close>: the reader of one JSON value (\<open>Decoder.Decode\<close> with
  \<open>DisallowUnknownFields\<close>) and its assignment to the fields of a struct. The reader follows the
  grammar byte by byte; its mutual recursion has fuel, two units for each byte, of which an opening bracket with
  the first element behind it uses two and every further element one, so that it is never used up
  (\<open>readValue_enough\<close>); the depth is the limit of the library.
\<close>

section \<open>Values\<close>

datatype json =
    JNull | JBool bool | JNumber string | JString string | JArray "json list"
  | JObject "(string \<times> json) list"

abbreviation quote :: char where "quote \<equiv> CHR 0x22"
abbreviation bslash :: char where "bslash \<equiv> CHR 0x5C"

definition jsonSpace :: "char \<Rightarrow> bool" where
  "jsonSpace c \<longleftrightarrow> c = CHR '' '' \<or> c = CHR 0x09 \<or> c = CHR 0x0A \<or> c = CHR 0x0D"

definition skipSpace :: "string \<Rightarrow> string" where
  "skipSpace s = dropWhile jsonSpace s"

section \<open>Strings\<close>

definition nibble :: "char \<Rightarrow> nat option" where
  "nibble c = (if 48 \<le> byte c \<and> byte c \<le> 57 then Some (byte c - 48)
     else if 97 \<le> byte c \<and> byte c \<le> 102 then Some (byte c - 87)
     else if 65 \<le> byte c \<and> byte c \<le> 70 then Some (byte c - 55) else None)"

fun hex4 :: "string \<Rightarrow> (nat \<times> string) option" where
  "hex4 (a # b # c # d # s) =
     (case (nibble a, nibble b, nibble c, nibble d) of
        (Some w, Some x, Some y, Some z) \<Rightarrow> Some (4096 * w + 256 * x + 16 * y + z, s)
      | _ \<Rightarrow> None)"
| "hex4 _ = None"

lemma hex4_length: "hex4 s = Some (r, t) \<Longrightarrow> length t < length s"
  by (induction s rule: hex4.induct) (auto split: option.splits)

definition highSurrogate :: "nat \<Rightarrow> bool" where
  "highSurrogate r \<longleftrightarrow> 55296 \<le> r \<and> r < 56320"

definition lowSurrogate :: "nat \<Rightarrow> bool" where
  "lowSurrogate r \<longleftrightarrow> 56320 \<le> r \<and> r < 57344"

text \<open>\<open>\u\<close> with four digits has been read as \<open>r\<close>: with the low surrogate that may follow.\<close>

definition unicodeEscape :: "nat \<Rightarrow> string \<Rightarrow> string \<times> string" where
  "unicodeEscape r s =
     (if \<not> (highSurrogate r \<or> lowSurrogate r) then (utf8Encode r, s)
      else if highSurrogate r \<and> prefix [bslash, CHR ''u''] s then
        (case hex4 (drop 2 s) of
           Some (l, t) \<Rightarrow> if lowSurrogate l
             then (utf8Encode (65536 + (r - 55296) * 1024 + (l - 56320)), t) else (replacementRune, s)
         | None \<Rightarrow> (replacementRune, s))
      else (replacementRune, s))"

lemma unicodeEscape_length: "length (snd (unicodeEscape r s)) \<le> length s"
  by (auto simp: unicodeEscape_def split: option.splits prod.splits dest!: hex4_length)

definition simpleEscape :: "char \<Rightarrow> char option" where
  "simpleEscape e =
     (if e = quote \<or> e = bslash \<or> e = CHR ''/'' then Some e
      else if e = CHR ''b'' then Some (CHR 0x08) else if e = CHR ''f'' then Some (CHR 0x0C)
      else if e = CHR ''n'' then Some (CHR 0x0A) else if e = CHR ''r'' then Some (CHR 0x0D)
      else if e = CHR ''t'' then Some (CHR 0x09) else None)"

definition consAll :: "string \<Rightarrow> (string \<times> string) option \<Rightarrow> (string \<times> string) option" where
  "consAll x r = map_option (\<lambda>(y, t). (x @ y, t)) r"

text \<open>The rest of a string after its opening quote, unescaped, and the text behind it.\<close>

function readChars :: "string \<Rightarrow> (string \<times> string) option" where
  "readChars [] = None"
| "readChars (c # s) =
     (if c = quote then Some ([], s)
      else if byte c < 32 then None
      else if c = bslash then
        (case s of [] \<Rightarrow> None
         | e # t \<Rightarrow>
           (case simpleEscape e of Some d \<Rightarrow> consAll [d] (readChars t)
            | None \<Rightarrow> if e \<noteq> CHR ''u'' then None else
                (case hex4 t of None \<Rightarrow> None
                 | Some (r, u) \<Rightarrow> consAll (fst (unicodeEscape r u)) (readChars (snd (unicodeEscape r u))))))
      else if utf8Length (c # s) = 0 then consAll replacementRune (readChars s)
      else consAll (take (utf8Length (c # s)) (c # s)) (readChars (drop (utf8Length (c # s)) (c # s))))"
  by pat_completeness auto
termination
proof (relation "measure length")
  fix c s e t r u p
  assume "hex4 t = Some p" and "(r, u) = p" and "s = e # t"
  then show "(snd (unicodeEscape r u), c # s) \<in> measure length"
    using hex4_length [of t r u] unicodeEscape_length [of r u] by simp
qed auto

section \<open>Numbers and literals\<close>

definition digitsOf :: "string \<Rightarrow> string \<times> string" where
  "digitsOf s = (takeWhile isDigit s, dropWhile isDigit s)"

definition readFraction :: "string \<Rightarrow> (string \<times> string) option" where
  "readFraction s =
     (if \<not> prefix ''.'' s then Some ([], s)
      else if fst (digitsOf (tl s)) = [] then None
      else Some (CHR ''.'' # fst (digitsOf (tl s)), snd (digitsOf (tl s))))"

definition signOf :: "string \<Rightarrow> string" where
  "signOf s = (if prefix ''+'' s \<or> prefix ''-'' s then take 1 s else [])"

definition readExponent :: "string \<Rightarrow> (string \<times> string) option" where
  "readExponent s =
     (if \<not> prefix ''e'' s \<and> \<not> prefix ''E'' s then Some ([], s)
      else let sign = signOf (tl s); rest = drop (length sign) (tl s)
        in if fst (digitsOf rest) = [] then None
           else Some (hd s # sign @ fst (digitsOf rest), snd (digitsOf rest)))"

definition readInteger :: "string \<Rightarrow> (string \<times> string) option" where
  "readInteger s =
     (let sign = (if prefix ''-'' s then ''-'' else []); rest = drop (length sign) s in
      case rest of [] \<Rightarrow> None
      | c # t \<Rightarrow> if c = CHR ''0'' then Some (sign @ ''0'', t)
          else if isDigit c then Some (sign @ fst (digitsOf rest), snd (digitsOf rest)) else None)"

definition readNumber :: "string \<Rightarrow> (string \<times> string) option" where
  "readNumber s =
     (case readInteger s of None \<Rightarrow> None
      | Some (i, t) \<Rightarrow> (case readFraction t of None \<Rightarrow> None
          | Some (f, u) \<Rightarrow> (case readExponent u of None \<Rightarrow> None
              | Some (e, v) \<Rightarrow> Some (i @ f @ e, v))))"

definition readLiteral :: "string \<Rightarrow> (json \<times> string) option" where
  "readLiteral s =
     (if prefix ''null'' s then Some (JNull, drop 4 s)
      else if prefix ''true'' s then Some (JBool True, drop 4 s)
      else if prefix ''false'' s then Some (JBool False, drop 5 s)
      else map_option (\<lambda>(n, t). (JNumber n, t)) (readNumber s))"

section \<open>The reader\<close>

text \<open>White space and the character given.\<close>

definition expect :: "char \<Rightarrow> string \<Rightarrow> string option" where
  "expect c s = (case skipSpace s of [] \<Rightarrow> None | a # t \<Rightarrow> if a = c then Some t else None)"

text \<open>
  A value; the elements of an array after the bracket or a comma; the members of an object
  likewise. \<open>d\<close> is how many more brackets may be opened.
\<close>

fun readValue :: "nat \<Rightarrow> int \<Rightarrow> string \<Rightarrow> (json \<times> string) option"
and readElements :: "nat \<Rightarrow> int \<Rightarrow> string \<Rightarrow> (json list \<times> string) option"
and readMembers :: "nat \<Rightarrow> int \<Rightarrow> string \<Rightarrow> ((string \<times> json) list \<times> string) option" where
  "readValue 0 d s = None"
| "readValue (Suc n) d s =
     (case skipSpace s of [] \<Rightarrow> None
      | c # t \<Rightarrow>
        if c = CHR ''{'' then
          (if d \<le> 0 then None else
           case expect (CHR ''}'') t of Some u \<Rightarrow> Some (JObject [], u)
           | None \<Rightarrow> map_option (\<lambda>(ms, v). (JObject ms, v)) (readMembers n (d - 1) t))
        else if c = CHR ''['' then
          (if d \<le> 0 then None else
           case expect (CHR '']'') t of Some u \<Rightarrow> Some (JArray [], u)
           | None \<Rightarrow> map_option (\<lambda>(es, v). (JArray es, v)) (readElements n (d - 1) t))
        else if c = quote then map_option (\<lambda>(x, u). (JString x, u)) (readChars t)
        else readLiteral (c # t))"
| "readElements 0 d s = None"
| "readElements (Suc n) d s =
     (case readValue n d s of None \<Rightarrow> None
      | Some (v, t) \<Rightarrow>
        (case expect (CHR '','') t of
           Some u \<Rightarrow> map_option (\<lambda>(vs, w). (v # vs, w)) (readElements n d u)
         | None \<Rightarrow> map_option (Pair [v]) (expect (CHR '']'') t)))"
| "readMembers 0 d s = None"
| "readMembers (Suc n) d s =
     (case expect quote s of None \<Rightarrow> None
      | Some t \<Rightarrow>
        (case readChars t of None \<Rightarrow> None
         | Some (k, u) \<Rightarrow>
           (case expect (CHR '':'') u of None \<Rightarrow> None
            | Some v \<Rightarrow>
              (case readValue n d v of None \<Rightarrow> None
               | Some (x, w) \<Rightarrow>
                 (case expect (CHR '','') w of
                    Some y \<Rightarrow> map_option (\<lambda>(ms, z). ((k, x) # ms, z)) (readMembers n d y)
                  | None \<Rightarrow> map_option (Pair [(k, x)]) (expect (CHR ''}'') w))))))"

text \<open>
  The one value of a request body, at most 1 MiB long and followed by white space only: what
  \<open>decode\<close> accepts with its two calls of the decoder.
\<close>

definition readBody :: "string \<Rightarrow> json option" where
  "readBody body =
     (if 2 ^ 20 < int (length body) then None else
      case readValue (Suc (2 * length body)) 10000 body of
        Some (v, t) \<Rightarrow> if skipSpace t = [] then Some v else None
      | None \<Rightarrow> None)"

section \<open>Structs\<close>

text \<open>
  A key names the field of the same name, or else the one that is equal to it up to the case of
  letters, among which the library counts the long s and the Kelvin sign.
\<close>

fun foldName :: "string \<Rightarrow> string" where
  "foldName [] = []"
| "foldName (a # s) =
     (if 97 \<le> byte a \<and> byte a \<le> 122 then char_of (byte a - 32) # foldName s
      else if a = CHR 0xC5 \<and> prefix [CHR 0xBF] s then CHR ''S'' # foldName (drop 1 s)
      else if a = CHR 0xE2 \<and> prefix [CHR 0x84, CHR 0xAA] s then CHR ''K'' # foldName (drop 2 s)
      else a # foldName s)"

type_synonym 'a fields = "(string \<times> (json \<Rightarrow> 'a \<Rightarrow> 'a option)) list"

definition findField :: "'a fields \<Rightarrow> string \<Rightarrow> (json \<Rightarrow> 'a \<Rightarrow> 'a option) option" where
  "findField fs key = (case map_of fs key of Some f \<Rightarrow> Some f
     | None \<Rightarrow> map_of (map (\<lambda>(k, f). (foldName k, f)) fs) (foldName key))"

fun setFields :: "'a fields \<Rightarrow> (string \<times> json) list \<Rightarrow> 'a \<Rightarrow> 'a option" where
  "setFields fs [] a = Some a"
| "setFields fs ((k, v) # ms) a =
     (case findField fs k of None \<Rightarrow> None
      | Some f \<Rightarrow> (case f v a of None \<Rightarrow> None | Some b \<Rightarrow> setFields fs ms b))"

definition decodeStruct :: "'a fields \<Rightarrow> 'a \<Rightarrow> json \<Rightarrow> 'a option" where
  "decodeStruct fs zero v = (case v of JNull \<Rightarrow> Some zero | JObject ms \<Rightarrow> setFields fs ms zero | _ \<Rightarrow> None)"

text \<open>Fields of type \<open>string\<close>, \<open>*string\<close>, \<open>int\<close> and \<open>int64\<close>, \<open>*int64\<close>, \<open>[]string\<close>, \<open>RawMessage\<close>.\<close>

definition stringField :: "((string \<Rightarrow> string) \<Rightarrow> 'a \<Rightarrow> 'a) \<Rightarrow> json \<Rightarrow> 'a \<Rightarrow> 'a option" where
  "stringField upd v a = (case v of JString s \<Rightarrow> Some (upd (\<lambda>_. s) a) | JNull \<Rightarrow> Some a | _ \<Rightarrow> None)"

definition optStringField :: "((string option \<Rightarrow> string option) \<Rightarrow> 'a \<Rightarrow> 'a) \<Rightarrow> json \<Rightarrow> 'a \<Rightarrow> 'a option" where
  "optStringField upd v a = (case v of JString s \<Rightarrow> Some (upd (\<lambda>_. Some s) a)
     | JNull \<Rightarrow> Some (upd (\<lambda>_. None) a) | _ \<Rightarrow> None)"

definition intField :: "((int \<Rightarrow> int) \<Rightarrow> 'a \<Rightarrow> 'a) \<Rightarrow> json \<Rightarrow> 'a \<Rightarrow> 'a option" where
  "intField upd v a = (case v of
       JNumber n \<Rightarrow> map_option (\<lambda>i. upd (\<lambda>_. i) a) (Atoi n) | JNull \<Rightarrow> Some a | _ \<Rightarrow> None)"

definition optIntField :: "((int option \<Rightarrow> int option) \<Rightarrow> 'a \<Rightarrow> 'a) \<Rightarrow> json \<Rightarrow> 'a \<Rightarrow> 'a option" where
  "optIntField upd v a = (case v of
       JNumber n \<Rightarrow> map_option (\<lambda>i. upd (\<lambda>_. Some i) a) (Atoi n)
     | JNull \<Rightarrow> Some (upd (\<lambda>_. None) a) | _ \<Rightarrow> None)"

text \<open>An element that is null leaves what an earlier occurrence of the key has put there.\<close>

fun setStrings :: "string list \<Rightarrow> json list \<Rightarrow> string list option" where
  "setStrings old [] = Some []"
| "setStrings old (v # vs) =
     (case v of
        JString s \<Rightarrow> map_option ((#) s) (setStrings (tl old) vs)
      | JNull \<Rightarrow> map_option ((#) (case old of [] \<Rightarrow> [] | x # _ \<Rightarrow> x)) (setStrings (tl old) vs)
      | _ \<Rightarrow> None)"

definition stringsField ::
  "('a \<Rightarrow> string list) \<Rightarrow> ((string list \<Rightarrow> string list) \<Rightarrow> 'a \<Rightarrow> 'a) \<Rightarrow> json \<Rightarrow> 'a \<Rightarrow> 'a option" where
  "stringsField get upd v a = (case v of
       JArray vs \<Rightarrow> map_option (\<lambda>xs. upd (\<lambda>_. xs) a) (setStrings (get a) vs)
     | JNull \<Rightarrow> Some (upd (\<lambda>_. []) a) | _ \<Rightarrow> None)"

definition rawField :: "((json option \<Rightarrow> json option) \<Rightarrow> 'a \<Rightarrow> 'a) \<Rightarrow> json \<Rightarrow> 'a \<Rightarrow> 'a option" where
  "rawField upd v a = Some (upd (\<lambda>_. Some v) a)"

section \<open>The fuel is enough\<close>

lemma skipSpace_length: "length (skipSpace s) \<le> length s"
  by (simp add: skipSpace_def length_dropWhile_le)

lemma expect_length: "expect c s = Some t \<Longrightarrow> length t < length s"
  using skipSpace_length [of s] by (auto simp: expect_def split: list.splits if_splits)

text \<open>What is left after reading is shorter; the readers of numbers leave a suffix.\<close>

lemma readChars_step:
  assumes "readChars (c # s) = Some (x, t)"
  obtains "t = s" | u y where "length u \<le> length s" and "readChars u = Some (y, t)"
proof (cases "c = bslash")
  case True
  with assms obtain e u where s: "s = e # u" by (cases s) auto
  show ?thesis
  proof (cases "simpleEscape e")
    case None
    with True s assms obtain r v y where "hex4 u = Some (r, v)" "readChars (snd (unicodeEscape r v)) = Some (y, t)"
      by (auto simp: consAll_def split: if_splits option.splits)
    then show ?thesis
      using that(2) [of "snd (unicodeEscape r v)" y] hex4_length [of u r v] unicodeEscape_length [of r v] s by simp
  next
    case (Some d)
    with True s assms obtain y where "readChars u = Some (y, t)" by (auto simp: consAll_def)
    then show ?thesis using that(2) [of u y] s by simp
  qed
next
  case False
  show ?thesis
  proof (cases "c = quote")
    case True
    with assms that(1) show ?thesis by simp
  next
    case nq: False
    show ?thesis
    proof (cases "utf8Length (c # s) = 0")
      case True
      with False nq assms obtain y where "readChars s = Some (y, t)"
        by (auto simp del: utf8Length.simps simp: consAll_def split: if_splits)
      then show ?thesis using that(2) [of s y] by simp
    next
      case u: False
      with False nq assms obtain y where "readChars (drop (utf8Length (c # s)) (c # s)) = Some (y, t)"
        by (auto simp del: utf8Length.simps simp: consAll_def split: if_splits)
      then show ?thesis using that(2) [of "drop (utf8Length (c # s)) (c # s)" y] u by simp
    qed
  qed
qed

lemma readChars_length: "readChars s = Some (x, t) \<Longrightarrow> length t < length s"
proof (induction "length s" arbitrary: s x rule: less_induct)
  case less
  from less.prems obtain c r where s: "s = c # r" by (cases s) auto
  from less.prems [unfolded s] show ?case
  proof (cases rule: readChars_step)
    case (2 u y)
    with less.hyps [of u y] s show ?thesis by simp
  qed (simp add: s)
qed

lemma digitsOf_length: "length (snd (digitsOf s)) \<le> length s"
  by (simp add: digitsOf_def length_dropWhile_le)

lemma readInteger_length: "readInteger s = Some (x, t) \<Longrightarrow> length t < length s"
proof -
  assume r: "readInteger s = Some (x, t)"
  define rest where "rest = (if prefix ''-'' s then tl s else s)"
  have "drop (length (if prefix ''-'' s then ''-'' else [])) s = rest"
    by (cases s) (auto simp: rest_def)
  with r obtain c u where rest: "rest = c # u" and "t = u \<or> isDigit c \<and> t = snd (digitsOf rest)"
    unfolding readInteger_def Let_def by (cases rest) (auto split: if_splits)
  moreover have "isDigit c \<Longrightarrow> snd (digitsOf rest) = snd (digitsOf u)"
    by (simp add: rest digitsOf_def)
  ultimately have "length t \<le> length u" using digitsOf_length [of u] by auto
  moreover have "length rest \<le> length s" by (simp add: rest_def)
  ultimately show ?thesis by (simp add: rest)
qed

lemma readFraction_length: "readFraction s = Some (x, t) \<Longrightarrow> length t \<le> length s"
  using digitsOf_length [of "tl s"] by (auto simp: readFraction_def split: if_splits)

lemma readExponent_length: "readExponent s = Some (x, t) \<Longrightarrow> length t \<le> length s"
  using digitsOf_length [of "drop (length (signOf (tl s))) (tl s)"]
  by (auto simp: readExponent_def Let_def split: if_splits)

lemma readLiteral_length: "readLiteral s = Some (v, t) \<Longrightarrow> length t < length s"
proof -
  assume r: "readLiteral s = Some (v, t)"
  show ?thesis
  proof (cases "prefix ''null'' s \<or> prefix ''true'' s \<or> prefix ''false'' s")
    case True
    with r show ?thesis
      by (auto simp: readLiteral_def split: if_splits dest!: prefix_length_le)
  next
    case False
    with r obtain i t' f u e where "readInteger s = Some (i, t')" "readFraction t' = Some (f, u)"
      "readExponent u = Some (e, t)"
      by (auto simp: readLiteral_def readNumber_def split: option.splits)
    then show ?thesis using readInteger_length readFraction_length readExponent_length
      by (meson le_less_trans order_trans)
  qed
qed

lemma read_length:
  "readValue n d s = Some (v, t) \<Longrightarrow> length t < length s"
  "readElements n d s = Some (vs, t) \<Longrightarrow> length t < length s"
  "readMembers n d s = Some (ms, t) \<Longrightarrow> length t < length s"
proof (induction n d s and n d s and n d s arbitrary: v t and vs t and ms t
    rule: readValue_readElements_readMembers.induct)
  case (2 n d s)
  from "2.prems" obtain c r where s: "skipSpace s = c # r" by (auto split: list.splits)
  then have "length r < length s" using skipSpace_length [of s] by simp
  moreover have "length t \<le> length r"
  proof (cases "c = CHR ''{'' \<or> c = CHR ''[''")
    case True
    with "2.prems" s "2.IH" show ?thesis
      by (auto split: if_splits option.splits dest!: expect_length intro!: less_imp_le)
  next
    case False
    with "2.prems" s consider "readLiteral (c # r) = Some (v, t)" | x where "readChars r = Some (x, t)"
      by (auto split: if_splits)
    then show ?thesis using readLiteral_length [of "c # r"] readChars_length [of r] by cases fastforce+
  qed
  ultimately show ?case by simp
next
  case (4 n d s)
  from "4.prems" obtain x r where x: "readValue n d s = Some (x, r)" by (auto split: option.splits)
  then have "length r < length s" by (rule "4.IH"(1))
  moreover have "length t < length r"
  proof (cases "expect (CHR '','') r")
    case None
    with "4.prems" x show ?thesis by (auto dest: expect_length)
  next
    case (Some u)
    with "4.prems" x obtain ys where "readElements n d u = Some (ys, t)" by auto
    from "4.IH"(2) [OF x refl Some this] expect_length [OF Some] show ?thesis by simp
  qed
  ultimately show ?case by simp
next
  case (6 n d s)
  from "6.prems" obtain a k b c x e where r: "expect quote s = Some a" "readChars a = Some (k, b)"
    "expect (CHR '':'') b = Some c" "readValue n d c = Some (x, e)"
    by (auto split: option.splits)
  then have "length e < length s"
    using expect_length [OF r(1)] readChars_length [OF r(2)] expect_length [OF r(3)]
      "6.IH"(1) [OF r(1,2) refl r(3,4)] by simp
  moreover have "length t < length e"
  proof (cases "expect (CHR '','') e")
    case None
    with "6.prems" r show ?thesis by (auto dest: expect_length)
  next
    case (Some u)
    with "6.prems" r obtain ys where "readMembers n d u = Some (ys, t)" by auto
    from "6.IH"(2) [OF r(1,2) refl r(3,4) refl Some this] expect_length [OF Some] show ?thesis by simp
  qed
  ultimately show ?case by simp
qed simp_all

text \<open>More fuel than that changes nothing.\<close>

lemma read_enough:
  "2 * length s < n \<Longrightarrow> n \<le> m \<Longrightarrow> readValue m d s = readValue n d s"
  "2 * length s + 1 < n \<Longrightarrow> n \<le> m \<Longrightarrow> readElements m d s = readElements n d s"
  "2 * length s + 1 < n \<Longrightarrow> n \<le> m \<Longrightarrow> readMembers m d s = readMembers n d s"
proof (induction n d s and n d s and n d s arbitrary: m and m and m
    rule: readValue_readElements_readMembers.induct)
  case (2 n d s)
  from "2.prems" obtain m' where m: "m = Suc m'" by (cases m) auto
  show ?case
  proof (cases "skipSpace s")
    case (Cons c r)
    then have "length r < length s" using skipSpace_length [of s] by simp
    then have len: "2 * length r + 1 < n" "n \<le> m'" using "2.prems" m by simp_all
    have "readElements m' (d - 1) r = readElements n (d - 1) r" if "c = CHR ''[''" "\<not> d \<le> 0" "expect (CHR '']'') r = None"
      by (rule "2.IH"(2) [OF Cons _ that len]) (simp add: that(1))
    moreover have "readMembers m' (d - 1) r = readMembers n (d - 1) r" if "c = CHR ''{''" "\<not> d \<le> 0" "expect (CHR ''}'') r = None"
      by (rule "2.IH"(1) [OF Cons that len])
    ultimately show ?thesis
      by (simp add: Cons m split: option.split)
  qed (simp add: m)
next
  case (4 n d s)
  from "4.prems" obtain m' where m: "m = Suc m'" by (cases m) auto
  have v: "readValue m' d s = readValue n d s" using "4.IH"(1) [of m'] "4.prems" m by simp
  show ?case
  proof (cases "readValue n d s")
    case (Some y)
    then obtain x r where y: "y = (x, r)" and r: "length r < length s"
      using read_length(1) by (metis surj_pair)
    show ?thesis
    proof (cases "expect (CHR '','') r")
      case e: (Some u)
      then have "length u < length r" by (rule expect_length)
      then have "readElements m' d u = readElements n d u"
        using "4.IH"(2) [OF Some y [symmetric] e, of m'] "4.prems" m r by simp
      then show ?thesis using m v Some y e by simp
    qed (use m v Some y in simp)
  qed (simp add: m v)
next
  case (6 n d s)
  from "6.prems" obtain m' where m: "m = Suc m'" by (cases m) auto
  show ?case
  proof (cases "expect quote s")
    case a: (Some a)
    show ?thesis
    proof (cases "readChars a")
      case (Some kb)
      obtain k b where kb: "readChars a = Some (k, b)" using Some by (cases kb) auto
      show ?thesis
      proof (cases "expect (CHR '':'') b")
        case c: (Some c)
        have shorter: "length c < length s"
          using expect_length [OF a] readChars_length [OF kb] expect_length [OF c] by simp
        then have v: "readValue m' d c = readValue n d c"
          using "6.IH"(1) [OF a kb refl c, of m'] "6.prems" m by simp
        show ?thesis
        proof (cases "readValue n d c")
          case (Some xe)
          obtain x e where xe: "readValue n d c = Some (x, e)" using Some by (cases xe) auto
          show ?thesis
          proof (cases "expect (CHR '','') e")
            case (Some u)
            then have "readMembers m' d u = readMembers n d u"
              using "6.IH"(2) [OF a kb refl c xe refl Some, of m'] "6.prems" m shorter
                read_length(1) [OF xe] expect_length [OF Some] by simp
            then show ?thesis using a kb c v xe Some m by simp
          qed (use a kb c v xe m in simp)
        qed (use a kb c v m in simp)
      qed (use a kb m in simp)
    qed (use a m in simp)
  qed (simp add: m)
qed simp_all

end
