(* ===== verification/Civil_Time.thy ===== *)
theory Civil_Time
  imports Svc_Text
begin

text \<open>
  Dates of the Gregorian calendar: what the program uses of \<open>time.Format\<close>.
\<close>

text \<open>The decimal digits of a number, with leading zeros up to the width given.\<close>

definition digits :: "nat \<Rightarrow> int \<Rightarrow> string" where
  "digits n i = (let s = showInt i in replicate (n - length s) CHR ''0'' @ s)"

definition civilDate :: "int \<Rightarrow> int \<times> int \<times> int" where
  "civilDate day =
     (let z = day + 719468; era = z div 146097; doe = z mod 146097;
          yoe = (doe - doe div 1460 + doe div 36524 - doe div 146096) div 365;
          doy = doe - (365 * yoe + yoe div 4 - yoe div 100);
          mp = (5 * doy + 2) div 153; d = doy - (153 * mp + 2) div 5 + 1;
          m = (if mp < 10 then mp + 3 else mp - 9)
      in (era * 400 + yoe + (if m \<le> 2 then 1 else 0), m, d))"

text \<open>The layout \<open>2006-01-02\<close> of a time that is counted from 1970 on the clock of its zone.\<close>

definition dateKey :: "time \<Rightarrow> string" where
  "dateKey t = (case civilDate (t div second div 86400) of
     (y, m, d) \<Rightarrow> digits 4 y @ ''-'' @ digits 2 m @ ''-'' @ digits 2 d)"

text \<open>The layout \<open>15:04:05.000\<close>: the part below a millisecond is cut off.\<close>

definition clockText :: "time \<Rightarrow> string" where
  "clockText t = (let r = t div second mod 86400 in
     digits 2 (r div 3600) @ '':'' @ digits 2 (r div 60 mod 60) @ '':'' @ digits 2 (r mod 60) @ ''.'' @
     digits 3 (t mod second div 1000000))"

end
