(* ===== verification/Http_Core.thy ===== *)
theory Http_Core
  imports Http_Json Civil_Time Cfg_Database Event_Log Svc_User Svc_Organization Svc_Agent Svc_Member
begin

text \<open>
  The common part of the handlers (\<open>http.go\<close> and \<open>web.go\<close> of \<open>internal/handler/auth\<close>): requests
  and answers, the credentials, cookies and origins that a request carries, the decoding of its
  body and the answers for the errors of the service. What the handlers use of \<open>net/http\<close>,
  \<open>net/url\<close> and \<open>net\<close> is written out; the reader of IPv6 addresses is a parameter.
\<close>

section \<open>Requests\<close>

text \<open>
  A request as the server hands it over: the segments of its path without the percent escapes, the
  values of a header under its canonical name, the body and its announced length.
\<close>

record http_request =
  rq_Method :: string
  rq_Segments :: "string list"
  rq_RawQuery :: string
  rq_Header :: "string \<Rightarrow> string list"
  rq_Host :: string
  rq_TLS :: bool
  rq_RemoteAddr :: string
  rq_ContentLength :: int
  rq_Body :: string

definition headerGet :: "http_request \<Rightarrow> string \<Rightarrow> string" where
  "headerGet r name = (case rq_Header r name of [] \<Rightarrow> '''' | v # _ \<Rightarrow> v)"

text \<open>\<open>r.URL.Query().Get\<close>: parts that do not parse are left out.\<close>

definition queryGet :: "http_request \<Rightarrow> string \<Rightarrow> string" where
  "queryGet r name =
     (case valuesOf name (List.map_filter parsePair (filter (\<lambda>p. p \<noteq> '''') (SplitOn (CHR ''&'') (rq_RawQuery r)))) of
        [] \<Rightarrow> '''' | v # _ \<Rightarrow> v)"

section \<open>Answers\<close>

text \<open>What a handler answers with: the data of a success or the failure, and the cookies it sets.\<close>

datatype payload =
    DataStatus | DataKey string | DataPrincipal Principal | DataState State
  | DataExchange string "Principal option" State | DataCursor int
  | DataEvents "IdentityInvalidationRecord list" int | DataToken string | DataValid
  | DataAgents "Agent list" | DataRole string | DataEntitlement Entitlement
  | DataWebStatus State "Principal option" | DataUser User | DataOutcome string string
  | DataMembers "DeploymentMember list" | DataMemberDirectory "MemberDirectoryEntry list"
  | DataMember DeploymentMember | DataAgentDirectory "AgentDirectoryEntry list" | DataAgent Agent
  | DataNodes "ExecutionNode list" | DataNode ExecutionNode | DataNodeToken NodeTokenResult
  | DataInvitations "OrganizationInvitation list" | DataCreatedInvitation CreatedOrganizationInvitation
  | DataInvitationPreview OrganizationInvitationPreview | DataDone string
  | DataOverview SubscriptionOverview

datatype category = Authentication | Authorization | Validation | Conflict | Internal
datatype effect = NotApplied | EffectUnknown

datatype body = Success payload | Failure string category effect | Plain string

datatype same_site = SameSiteLax | SameSiteStrict | SameSiteNone

record cookie =
  ck_Name :: string
  ck_Value :: string
  ck_Path :: string
  ck_MaxAge :: int
  ck_Expires :: "time option"
  ck_HttpOnly :: bool
  ck_Secure :: bool
  ck_SameSite :: same_site

record answer =
  rs_Status :: int
  rs_Body :: body
  rs_Cookies :: "cookie list"
  rs_RequestID :: string

definition writeData :: "payload \<Rightarrow> answer" where
  "writeData d = \<lparr>rs_Status = 200, rs_Body = Success d, rs_Cookies = [], rs_RequestID = ''''\<rparr>"

definition failureCategory :: "int \<Rightarrow> category" where
  "failureCategory status =
     (if 500 \<le> status then Internal else if status = 401 then Authentication
      else if status = 403 then Authorization else if status = 400 \<or> status = 422 then Validation
      else Conflict)"

definition writeError :: "int \<Rightarrow> string \<Rightarrow> answer" where
  "writeError status code = \<lparr>rs_Status = status,
     rs_Body = Failure (''control.'' @ code) (failureCategory status)
       (if status < 500 then NotApplied else EffectUnknown),
     rs_Cookies = [], rs_RequestID = ''''\<rparr>"

text \<open>The cases of \<open>writeServiceError\<close>, in their order.\<close>

definition errorAnswers :: "(service_error \<times> int \<times> string) list" where
  "errorAnswers =
     [(ErrCurrentPassword, 422, ''current_password_invalid''),
      (ErrInvalidCredentials, 401, ''credentials_invalid''),
      (ErrUnauthenticated, 401, ''session_invalid''),
      (ErrForbidden, 403, ''operation_forbidden''),
      (ErrAlreadySetup, 409, ''setup_already_completed''),
      (ErrConflict, 409, ''state_conflict''),
      (ErrNotFound, 404, ''user_not_found''),
      (ErrPlanNotFound, 404, ''subscription_plan_not_found''),
      (ErrInvitationInvalid, 404, ''organization_invitation_invalid''),
      (ErrRequestInvalid, 400, ''request_invalid''),
      (ErrRequestNotApplied, 409, ''password_change_not_applied'')]"

definition writeServiceError :: "service_error \<Rightarrow> answer" where
  "writeServiceError e =
     (case find (\<lambda>(sentinel, _). errorIs e sentinel) errorAnswers of
        Some (_, status, code) \<Rightarrow> writeError status code
      | None \<Rightarrow> writeError 500 ''control_internal'')"

section \<open>Handlers\<close>

type_synonym 'a step = "host \<Rightarrow> 'a \<times> host"
type_synonym handler = "answer step"

definition answerWith :: "answer \<Rightarrow> handler" where
  "answerWith a = (\<lambda>h. (a, h))"

text \<open>A call of the service: its error is answered, its result is handed on.\<close>

definition orError :: "'a act \<Rightarrow> ('a \<Rightarrow> handler) \<Rightarrow> handler" where
  "orError m f = (\<lambda>h. case m h of (r, k) \<Rightarrow>
     (case r of Inl e \<Rightarrow> (writeServiceError e, k) | Inr a \<Rightarrow> f a k))"

abbreviation answerData :: "('a \<Rightarrow> payload) \<Rightarrow> 'a \<Rightarrow> handler" where
  "answerData d a \<equiv> answerWith (writeData (d a))"

text \<open>\<open>decode\<close>: the one JSON value of the body, as a struct.\<close>

definition decodeBody :: "http_request \<Rightarrow> 'a fields \<Rightarrow> 'a \<Rightarrow> ('a \<Rightarrow> handler) \<Rightarrow> handler" where
  "decodeBody r fs zero f =
     (case (case readBody (rq_Body r) of None \<Rightarrow> None | Some v \<Rightarrow> decodeStruct fs zero v) of
        None \<Rightarrow> answerWith (writeError 400 ''request_invalid'') | Some a \<Rightarrow> f a)"

section \<open>The server\<close>

record HTTPServer =
  hs_config :: Config
  hs_service :: Service
  hs_ping :: bool
  hs_ipv6 :: "string \<Rightarrow> string option"

text \<open>\<open>EqualFold\<close> with a text of ASCII letters.\<close>

definition EqualFold :: "string \<Rightarrow> string \<Rightarrow> bool" where
  "EqualFold s t \<longleftrightarrow> foldName s = foldName t"

definition bearerMatches :: "http_request \<Rightarrow> string \<Rightarrow> bool" where
  "bearerMatches r expected =
     (let provided = TrimSpace (headerGet r ''Authorization'') in
      if length provided < 7 \<or> \<not> EqualFold (take 7 provided) ''Bearer '' then False
      else TrimSpace (drop 7 provided) = expected)"

section \<open>Request ids\<close>

text \<open>The fallback of \<open>requestID\<close>: \<open>Format\<close> with the digits of the date, the time and the nanosecond.\<close>

definition stamp :: "time \<Rightarrow> string" where
  "stamp t = (let s = t div second; (y, m, d) = civilDate (s div 86400); r = s mod 86400 in
     digits 4 y @ digits 2 m @ digits 2 d @ digits 2 (r div 3600) @ digits 2 (r div 60 mod 60) @
     digits 2 (r mod 60) @ ''.'' @ digits 9 (t mod second))"

definition requestID :: "HTTPServer \<Rightarrow> http_request \<Rightarrow> string step" where
  "requestID sv r =
     (let given = TrimSpace (headerGet r ''X-Request-Id'') in
      if given \<noteq> '''' \<and> length given \<le> 128 then (\<lambda>h. (given, h))
      else (\<lambda>h. (case rt_rand (sv_runtime (hs_service sv)) (h_draws h) 12 of
          Some bs \<Rightarrow> (''req_'' @ HexEncode bs, h\<lparr>h_draws := Suc (h_draws h)\<rparr>)
        | None \<Rightarrow> (''req_'' @ stamp (rt_now (sv_runtime (hs_service sv)) (h_ticks h)),
            h\<lparr>h_draws := Suc (h_draws h), h_ticks := Suc (h_ticks h)\<rparr>))))"

section \<open>Cookies\<close>

definition tokenChar :: "char \<Rightarrow> bool" where
  "tokenChar c \<longleftrightarrow> 48 \<le> byte c \<and> byte c \<le> 57 \<or> 65 \<le> byte c \<and> byte c \<le> 90 \<or> 97 \<le> byte c \<and> byte c \<le> 122 \<or>
     c \<in> set ''!#$%&*+-.^_`|~'' \<or> c = CHR 0x27"

definition isToken :: "string \<Rightarrow> bool" where
  "isToken s \<longleftrightarrow> s \<noteq> '''' \<and> list_all tokenChar s"

definition trimASCII :: "string \<Rightarrow> string" where
  "trimASCII s = rev (dropWhile jsonSpace (rev (dropWhile jsonSpace s)))"

text \<open>The value between quotes, if it has both; only some bytes are allowed in it.\<close>

definition cookieValue :: "string \<Rightarrow> string option" where
  "cookieValue raw =
     (let v = (if 1 < length raw \<and> hd raw = quote \<and> last raw = quote then butlast (tl raw) else raw) in
      if list_all (\<lambda>c. 32 \<le> byte c \<and> byte c < 127 \<and> c \<noteq> quote \<and> c \<noteq> CHR '';'' \<and> c \<noteq> bslash) v
      then Some v else None)"

definition cookiePart :: "string \<Rightarrow> string \<Rightarrow> string option" where
  "cookiePart name raw =
     (let part = trimASCII raw; (k, v) = cutAt (CHR ''='') part; key = trimASCII k in
      if part = '''' \<or> \<not> isToken key \<or> key \<noteq> name then None else cookieValue v)"

definition readCookie :: "http_request \<Rightarrow> string \<Rightarrow> string option" where
  "readCookie r name = (if name = '''' then None else
     sql_first (List.map_filter (cookiePart name)
       (concat (map (\<lambda>line. SplitOn (CHR '';'') (trimASCII line)) (rq_Header r ''Cookie'')))))"

definition sessionToken :: "HTTPServer \<Rightarrow> http_request \<Rightarrow> string" where
  "sessionToken sv r = (case readCookie r (cf_SessionCookieName (hs_config sv)) of
     None \<Rightarrow> '''' | Some v \<Rightarrow> TrimSpace v)"

definition cookieSameSite :: "HTTPServer \<Rightarrow> same_site" where
  "cookieSameSite sv = (let v = cf_CookieSameSite (hs_config sv) in
     if v = ''strict'' then SameSiteStrict else if v = ''none'' then SameSiteNone else SameSiteLax)"

definition sessionCookie :: "HTTPServer \<Rightarrow> string \<Rightarrow> bool \<Rightarrow> cookie" where
  "sessionCookie sv val clear =
     \<lparr>ck_Name = cf_SessionCookieName (hs_config sv), ck_Value = val, ck_Path = ''/'',
      ck_MaxAge = (if clear then - 1 else cf_SessionTTL (hs_config sv) div second),
      ck_Expires = (if clear then Some second else None), ck_HttpOnly = True,
      ck_Secure = cf_CookieSecure (hs_config sv), ck_SameSite = cookieSameSite sv\<rparr>"

text \<open>\<open>http.SetCookie\<close> sets nothing when the name is no token.\<close>

definition setCookie :: "cookie \<Rightarrow> answer \<Rightarrow> answer" where
  "setCookie c a = (if isToken (ck_Name c) then a\<lparr>rs_Cookies := c # rs_Cookies a\<rparr> else a)"

section \<open>Origins\<close>

text \<open>\<open>url.Parse\<close> of an origin: its scheme and its host, if it has both and no user information.\<close>

definition schemeChar :: "char \<Rightarrow> bool" where
  "schemeChar c \<longleftrightarrow> 65 \<le> byte c \<and> byte c \<le> 90 \<or> 97 \<le> byte c \<and> byte c \<le> 122 \<or> isDigit c \<or> c \<in> set ''+-.''"

definition cutScheme :: "string \<Rightarrow> (string \<times> string) option" where
  "cutScheme s = (let name = takeWhile schemeChar s; rest = drop (length name) s in
     if \<not> prefix '':'' rest \<or> name = '''' \<or> isDigit (hd name) \<or> hd name \<in> set ''+-.'' then None
     else Some (ToLower name, tl rest))"

fun percentValid :: "string \<Rightarrow> bool" where
  "percentValid [] \<longleftrightarrow> True"
| "percentValid (c # s) \<longleftrightarrow> (if c = CHR ''%'' then
      (case s of a # b # t \<Rightarrow> hexValue a \<noteq> None \<and> hexValue b \<noteq> None \<and> percentValid t | _ \<Rightarrow> False)
    else percentValid s)"

definition hostChar :: "char \<Rightarrow> bool" where
  "hostChar c \<longleftrightarrow> 128 \<le> byte c \<or> 65 \<le> byte c \<and> byte c \<le> 90 \<or> 97 \<le> byte c \<and> byte c \<le> 122 \<or> isDigit c \<or>
     c \<in> set ''-_.~!$&()*+,;=:[]<>'' \<or> c = CHR 0x27 \<or> c = quote"

text \<open>In a host only bytes outside ASCII, and the percent sign, may be escaped.\<close>

fun unescapeHost :: "string \<Rightarrow> string option" where
  "unescapeHost [] = Some []"
| "unescapeHost (c # s) =
     (if c = CHR ''%'' then
        (case s of a # b # t \<Rightarrow>
           (case (hexValue a, hexValue b) of
              (Some x, Some y) \<Rightarrow>
                if x < 8 \<and> \<not> (a = CHR ''2'' \<and> b = CHR ''5'') then None
                else map_option ((#) (char_of (16 * x + y))) (unescapeHost t)
            | _ \<Rightarrow> None)
         | _ \<Rightarrow> None)
      else if hostChar c then map_option ((#) c) (unescapeHost s) else None)"

definition validOptionalPort :: "string \<Rightarrow> bool" where
  "validOptionalPort p \<longleftrightarrow> p = '''' \<or> hd p = CHR '':'' \<and> list_all isDigit (tl p)"

definition parseHost :: "(string \<Rightarrow> string option) \<Rightarrow> string \<Rightarrow> string option" where
  "parseHost ipv6 hst =
     (if prefix ''['' hst then
        (let address = takeWhile (\<lambda>c. c \<noteq> CHR '']'') (tl hst); port = drop (length address + 2) hst in
         if CHR '']'' \<notin> set hst \<or> \<not> validOptionalPort port then None
         else map_option (\<lambda>a. ''['' @ a @ '']'' @ port) (ipv6 address))
      else if CHR ''['' \<in> set hst then None
      else if validOptionalPort (dropWhile (\<lambda>c. c \<noteq> CHR '':'') hst) then unescapeHost hst else None)"

definition parseOrigin :: "(string \<Rightarrow> string option) \<Rightarrow> string \<Rightarrow> (string \<times> string) option" where
  "parseOrigin ipv6 raw =
     (let (url, fragment) = cutAt (CHR ''#'') raw in
      if list_ex (\<lambda>c. byte c < 32 \<or> byte c = 127) url \<or> \<not> percentValid fragment then None else
      case cutScheme url of None \<Rightarrow> None
      | Some (scheme, s) \<Rightarrow>
        (let rest = fst (cutAt (CHR ''?'') s) in
         if \<not> prefix ''//'' rest then None else
         (let (authority, path) = cutAt (CHR ''/'') (drop 2 rest) in
          if CHR ''@'' \<in> set authority \<or> \<not> percentValid path then None else
          case parseHost ipv6 authority of None \<Rightarrow> None
          | Some hst \<Rightarrow> if hst = '''' then None else Some (scheme, hst))))"

definition webRequestOrigin :: "http_request \<Rightarrow> string" where
  "webRequestOrigin r =
     (let forwarded = ToLower (TrimSpace (hd (SplitOn (CHR '','') (headerGet r ''X-Forwarded-Proto''))));
          scheme = (if forwarded = ''http'' \<or> forwarded = ''https'' then forwarded
            else if rq_TLS r then ''https'' else ''http'')
      in scheme @ ''://'' @ rq_Host r)"

definition webOriginMatches :: "HTTPServer \<Rightarrow> http_request \<Rightarrow> bool" where
  "webOriginMatches sv r =
     (case parseOrigin (hs_ipv6 sv) (TrimSpace (headerGet r ''Origin'')) of None \<Rightarrow> False
      | Some (scheme, hst) \<Rightarrow> EqualFold (scheme @ ''://'' @ hst) (webRequestOrigin r))"

section \<open>Addresses\<close>

text \<open>The host of \<open>net.SplitHostPort\<close>.\<close>

definition splitHost :: "string \<Rightarrow> string option" where
  "splitHost hostport =
     (if CHR '':'' \<notin> set hostport then None
      else if prefix ''['' hostport then
        (let hst = takeWhile (\<lambda>c. c \<noteq> CHR '']'') (tl hostport); rest = drop (length hst + 2) hostport in
         if CHR '']'' \<notin> set hostport \<or> \<not> prefix '':'' rest \<or> CHR '':'' \<in> set (tl rest) then None
         else if CHR ''['' \<in> set (tl hostport) \<or> CHR '']'' \<in> set rest then None else Some hst)
      else
        (let (hst, port) = cutAt (CHR '':'') hostport in
         if CHR '':'' \<in> set port \<or> CHR ''['' \<in> set hostport \<or> CHR '']'' \<in> set hostport then None
         else Some hst))"

definition webClientIP :: "http_request \<Rightarrow> string" where
  "webClientIP r =
     (let given = TrimSpace (headerGet r ''X-Real-Ip'') in
      if given \<noteq> '''' then given else
      case splitHost (TrimSpace (rq_RemoteAddr r)) of Some hst \<Rightarrow> hst | None \<Rightarrow> TrimSpace (rq_RemoteAddr r))"

text \<open>\<open>url.PathEscape\<close> of one segment.\<close>

definition PathEscape :: "string \<Rightarrow> string" where
  "PathEscape s = concat (map (\<lambda>c. if unreserved c \<or> c \<in> set ''$&+:=@'' then [c]
     else [CHR ''%'', upperHex ! (byte c div 16), upperHex ! (byte c mod 16)]) s)"

end
