(* ===== verification/Http_Web.thy ===== *)
theory Http_Web
  imports Http_Core
begin

text \<open>
  The handlers of the browser (\<open>web.go\<close>, \<open>web_agent.go\<close>, \<open>web_invitation.go\<close>, \<open>web_node.go\<close>,
  \<open>web_organization.go\<close>, \<open>web_subscription.go\<close>), which authenticate by the session cookie and
  check the origin of every request that changes something.
\<close>

section \<open>The structs of the bodies\<close>

record passwordChangePayload =
  pc_RequestID :: string
  pc_CurrentPassword :: string
  pc_NewPassword :: string

record agentIDsBody =
  nb_AgentIDs :: "string list"

definition loginFields :: "LoginInput fields" where
  "loginFields = [(''username'', stringField li_Username_update), (''password'', stringField li_Password_update)]"

definition registerFields :: "LoginInput fields" where
  "registerFields = loginFields @ [(''client_ip'', stringField li_ClientIP_update),
     (''user_agent'', stringField li_UserAgent_update)]"

definition noLogin :: LoginInput where
  "noLogin = \<lparr>li_Username = '''', li_Password = '''', li_ClientIP = '''', li_UserAgent = ''''\<rparr>"

definition setupFields :: "SetupOwnerInput fields" where
  "setupFields = [(''username'', stringField su_Username_update),
     (''display_name'', stringField su_DisplayName_update), (''password'', stringField su_Password_update),
     (''deployment_name'', stringField su_DeploymentName_update),
     (''organization_name'', stringField su_OrganizationName_update)]"

definition noSetup :: SetupOwnerInput where
  "noSetup = \<lparr>su_Username = '''', su_DisplayName = '''', su_Password = '''', su_DeploymentName = '''',
     su_OrganizationName = ''''\<rparr>"

definition passwordFields :: "passwordChangePayload fields" where
  "passwordFields = [(''request_id'', stringField pc_RequestID_update),
     (''current_password'', stringField pc_CurrentPassword_update),
     (''new_password'', stringField pc_NewPassword_update)]"

definition createMemberFields :: "CreateMemberInput fields" where
  "createMemberFields = [(''username'', stringField cm_Username_update),
     (''display_name'', stringField cm_DisplayName_update), (''password'', stringField cm_Password_update),
     (''role'', stringField cm_Role_update)]"

definition noCreateMember :: CreateMemberInput where
  "noCreateMember = \<lparr>cm_Username = '''', cm_DisplayName = '''', cm_Password = '''', cm_Role = ''''\<rparr>"

definition updateMemberFields :: "UpdateMemberInput fields" where
  "updateMemberFields = [(''display_name'', optStringField um_DisplayName_update),
     (''expected_version'', optIntField um_ExpectedVersion_update),
     (''role'', optStringField um_Role_update), (''status'', optStringField um_Status_update)]"

definition noUpdateMember :: UpdateMemberInput where
  "noUpdateMember = \<lparr>um_DisplayName = None, um_ExpectedVersion = None, um_Role = None, um_Status = None\<rparr>"

definition publishFields :: "PublishAgentInput fields" where
  "publishFields = [(''source_agent_id'', stringField pa_SourceAgentID_update),
     (''name'', stringField pa_Name_update), (''avatar'', stringField pa_Avatar_update)]"

definition nodeFields :: "RegisterNodeInput fields" where
  "nodeFields = [(''node_id'', stringField rn_NodeID_update), (''name'', stringField rn_Name_update),
     (''credential'', stringField rn_Credential_update),
     (''agent_ids'', stringsField rn_AgentIDs rn_AgentIDs_update)]"

definition nodeTokenFields :: "agentIDsBody fields" where
  "nodeTokenFields = [(''agent_ids'', stringsField nb_AgentIDs nb_AgentIDs_update)]"

definition invitationFields :: "CreateOrganizationInvitationInput fields" where
  "invitationFields = [(''role'', stringField ci_Role_update),
     (''expires_in_hours'', intField ci_ExpiresInHours_update)]"

definition acceptFields :: "AcceptOrganizationInvitationInput fields" where
  "acceptFields = [(''token'', stringField ac_Token_update), (''username'', stringField ac_Username_update),
     (''display_name'', stringField ac_DisplayName_update), (''password'', stringField ac_Password_update)]"

definition organizationFields :: "OrganizationInput fields" where
  "organizationFields = [(''name'', stringField oi_Name_update),
     (''target_user_id'', stringField oi_TargetUserID_update)]"

definition planFields :: "UpsertSubscriptionPlanInput fields" where
  "planFields = [(''plan_key'', stringField pi_PlanKey_update),
     (''display_name'', stringField pi_DisplayName_update), (''status'', stringField pi_Status_update),
     (''monthly_token_limit'', optIntField pi_MonthlyTokenLimit_update),
     (''notes'', stringField pi_Notes_update), (''sort_order'', intField pi_SortOrder_update)]"

definition noPlan :: UpsertSubscriptionPlanInput where
  "noPlan = \<lparr>pi_PlanKey = '''', pi_DisplayName = '''', pi_Status = '''', pi_MonthlyTokenLimit = None,
     pi_Notes = '''', pi_SortOrder = 0\<rparr>"

text \<open>A struct with the one field of the name given.\<close>

definition oneString :: "string \<Rightarrow> string fields" where
  "oneString name = [(name, stringField (\<lambda>f. f))]"

definition oneOptString :: "string \<Rightarrow> string option fields" where
  "oneOptString name = [(name, optStringField (\<lambda>f. f))]"

section \<open>Guards\<close>

definition requireWebMutationOrigin :: "HTTPServer \<Rightarrow> http_request \<Rightarrow> handler \<Rightarrow> handler" where
  "requireWebMutationOrigin sv r next =
     (if webOriginMatches sv r then next else answerWith (writeError 403 ''origin_invalid''))"

definition webPrincipal :: "HTTPServer \<Rightarrow> http_request \<Rightarrow> Principal option act" where
  "webPrincipal sv r = svc_ResolveSession (hs_service sv) (sessionToken sv r)"

definition requireWebPrincipal :: "HTTPServer \<Rightarrow> http_request \<Rightarrow> (Principal \<Rightarrow> handler) \<Rightarrow> handler" where
  "requireWebPrincipal sv r f = orError (webPrincipal sv r) (\<lambda>found. case found of
      None \<Rightarrow> answerWith (writeServiceError ErrUnauthenticated) | Some p \<Rightarrow> f p)"

text \<open>The two in the order of the handlers that change something.\<close>

definition webMutation :: "HTTPServer \<Rightarrow> http_request \<Rightarrow> (Principal \<Rightarrow> handler) \<Rightarrow> handler" where
  "webMutation sv r f = requireWebMutationOrigin sv r (requireWebPrincipal sv r f)"

section \<open>Status, login and registration\<close>

definition writeWebStatus :: "HTTPServer \<Rightarrow> Principal option \<Rightarrow> handler" where
  "writeWebStatus sv p = orError (svc_State (hs_service sv)) (\<lambda>state. answerWith (writeData (DataWebStatus state p)))"

definition webStatus :: "HTTPServer \<Rightarrow> http_request \<Rightarrow> handler" where
  "webStatus sv r = orError (webPrincipal sv r) (writeWebStatus sv)"

text \<open>The login that ends four handlers, with the cookie of the new session.\<close>

definition loginAs :: "HTTPServer \<Rightarrow> http_request \<Rightarrow> string \<Rightarrow> string \<Rightarrow> LoginInput" where
  "loginAs sv r username password = \<lparr>li_Username = username, li_Password = password,
     li_ClientIP = webClientIP r, li_UserAgent = headerGet r ''User-Agent''\<rparr>"

definition finishLogin :: "HTTPServer \<Rightarrow> http_request \<Rightarrow> string \<Rightarrow> string \<Rightarrow> handler" where
  "finishLogin sv r username password =
     orError (svc_Login (hs_service sv) (loginAs sv r username password)) (\<lambda>result h.
       apfst (setCookie (sessionCookie sv (lo_SessionToken result) False))
         (writeWebStatus sv (Some (lo_Principal result)) h))"

definition webLogin :: "HTTPServer \<Rightarrow> http_request \<Rightarrow> handler" where
  "webLogin sv r = requireWebMutationOrigin sv r (
     decodeBody r loginFields noLogin (\<lambda>input. finishLogin sv r (li_Username input) (li_Password input)))"

definition webLogout :: "HTTPServer \<Rightarrow> http_request \<Rightarrow> handler" where
  "webLogout sv r = requireWebMutationOrigin sv r (
     orError (svc_Logout (hs_service sv) (sessionToken sv r)) (\<lambda>_ h.
       apfst (setCookie (sessionCookie sv '''' True)) (writeWebStatus sv None h)))"

definition webSetup :: "HTTPServer \<Rightarrow> http_request \<Rightarrow> handler" where
  "webSetup sv r = requireWebMutationOrigin sv r (
     if cf_SetupToken (hs_config sv) = '''' \<or> \<not> bearerMatches r (cf_SetupToken (hs_config sv))
     then answerWith (writeError 401 ''setup_capability_invalid'') else
     decodeBody r setupFields noSetup (\<lambda>input.
       orError (svc_SetupOwner (hs_service sv) input) (\<lambda>_.
         finishLogin sv r (su_Username input) (su_Password input))))"

definition webRegister :: "HTTPServer \<Rightarrow> http_request \<Rightarrow> handler" where
  "webRegister sv r = requireWebMutationOrigin sv r (
     decodeBody r registerFields noLogin (\<lambda>input.
       orError (svc_RegisterAccount (hs_service sv) input) (\<lambda>_.
         finishLogin sv r (li_Username input) (li_Password input))))"

section \<open>The profile and its password\<close>

definition webUpdateProfile :: "HTTPServer \<Rightarrow> http_request \<Rightarrow> handler" where
  "webUpdateProfile sv r = webMutation sv r (\<lambda>p.
     decodeBody r (oneOptString ''avatar'') None (\<lambda>avatar. case avatar of
         None \<Rightarrow> answerWith (writeServiceError ErrRequestInvalid)
       | Some a \<Rightarrow> orError (svc_UpdateAvatar (hs_service sv) (pn_UserID p) a) (answerData DataUser)))"

definition webChangePassword :: "HTTPServer \<Rightarrow> http_request \<Rightarrow> handler" where
  "webChangePassword sv r = webMutation sv r (\<lambda>p.
     decodeBody r passwordFields \<lparr>pc_RequestID = '''', pc_CurrentPassword = '''', pc_NewPassword = ''''\<rparr> (\<lambda>input.
       orError (svc_ChangePassword (hs_service sv) \<lparr>cp_UserID = pn_UserID p, cp_RequestID = pc_RequestID input,
           cp_CurrentPassword = pc_CurrentPassword input, cp_NewPassword = pc_NewPassword input\<rparr>)
         (answerData DataUser)))"

definition webPasswordReceipt :: "HTTPServer \<Rightarrow> http_request \<Rightarrow> handler" where
  "webPasswordReceipt sv r = requireWebPrincipal sv r (\<lambda>p. let rid = queryGet r ''request_id'' in
     orError (svc_PasswordChangeOutcome (pn_UserID p) rid) (answerData (DataOutcome rid)))"

definition webPasswordSettle :: "HTTPServer \<Rightarrow> http_request \<Rightarrow> handler" where
  "webPasswordSettle sv r = webMutation sv r (\<lambda>p.
     decodeBody r (oneString ''request_id'') '''' (\<lambda>rid.
       orError (svc_SettlePasswordChangeNotApplied (hs_service sv) (pn_UserID p) rid) (answerData (DataOutcome rid))))"

section \<open>Members\<close>

definition webMembers :: "HTTPServer \<Rightarrow> http_request \<Rightarrow> handler" where
  "webMembers sv r = requireWebPrincipal sv r (\<lambda>p. orError (svc_ListMembers p) (answerData DataMembers))"

definition webMemberDirectory :: "HTTPServer \<Rightarrow> http_request \<Rightarrow> handler" where
  "webMemberDirectory sv r = requireWebPrincipal sv r (\<lambda>p.
     orError (svc_ListMemberDirectory p) (answerData DataMemberDirectory))"

definition webDeploymentMembers :: "HTTPServer \<Rightarrow> http_request \<Rightarrow> handler" where
  "webDeploymentMembers sv r = requireWebPrincipal sv r (\<lambda>p.
     orError (svc_ListDeploymentMembers p) (answerData DataMembers))"

definition webCreateDeploymentMember :: "HTTPServer \<Rightarrow> http_request \<Rightarrow> handler" where
  "webCreateDeploymentMember sv r = webMutation sv r (\<lambda>p.
     decodeBody r createMemberFields noCreateMember (\<lambda>input.
       orError (svc_CreateDeploymentMember (hs_service sv) p input) (answerData DataMember)))"

definition webUpdateMember :: "HTTPServer \<Rightarrow> http_request \<Rightarrow> string \<Rightarrow> handler" where
  "webUpdateMember sv r userID = webMutation sv r (\<lambda>p.
     decodeBody r updateMemberFields noUpdateMember (\<lambda>input.
       orError (svc_UpdateMember (hs_service sv) p userID input) (answerData DataMember)))"

definition webUpdateDeploymentMember :: "HTTPServer \<Rightarrow> http_request \<Rightarrow> string \<Rightarrow> handler" where
  "webUpdateDeploymentMember sv r userID = webMutation sv r (\<lambda>p.
     decodeBody r updateMemberFields noUpdateMember (\<lambda>input.
       orError (svc_UpdateDeploymentMember (hs_service sv) p userID input) (answerData DataMember)))"

section \<open>Agents and nodes\<close>

definition webAgents :: "HTTPServer \<Rightarrow> http_request \<Rightarrow> handler" where
  "webAgents sv r = requireWebPrincipal sv r (\<lambda>p. orError (svc_ListOwnedAgents p) (answerData DataAgents))"

definition webAgentDirectory :: "HTTPServer \<Rightarrow> http_request \<Rightarrow> handler" where
  "webAgentDirectory sv r = requireWebPrincipal sv r (\<lambda>p.
     orError (svc_ListOrganizationAgents p) (answerData DataAgentDirectory))"

definition webPublishAgent :: "HTTPServer \<Rightarrow> http_request \<Rightarrow> string \<Rightarrow> handler" where
  "webPublishAgent sv r pathID = webMutation sv r (\<lambda>p.
     decodeBody r publishFields \<lparr>pa_SourceAgentID = '''', pa_Name = '''', pa_Avatar = ''''\<rparr> (\<lambda>input.
       let sourceAgentID = TrimSpace pathID in
       if sourceAgentID = '''' \<or>
          (pa_SourceAgentID input \<noteq> '''' \<and> TrimSpace (pa_SourceAgentID input) \<noteq> sourceAgentID)
       then answerWith (writeServiceError ErrRequestInvalid)
       else orError (svc_PublishAgent (hs_service sv) p (input\<lparr>pa_SourceAgentID := sourceAgentID\<rparr>))
         (answerData DataAgent)))"

definition webNodes :: "HTTPServer \<Rightarrow> http_request \<Rightarrow> handler" where
  "webNodes sv r = requireWebPrincipal sv r (\<lambda>p. orError (svc_ListNodes p) (answerData DataNodes))"

definition webRegisterNode :: "HTTPServer \<Rightarrow> http_request \<Rightarrow> handler" where
  "webRegisterNode sv r = webMutation sv r (\<lambda>p.
     decodeBody r nodeFields \<lparr>rn_NodeID = '''', rn_Name = '''', rn_Credential = '''', rn_AgentIDs = []\<rparr> (\<lambda>input.
       orError (svc_RegisterNode (hs_service sv) p input) (answerData DataNode)))"

definition webNode :: "HTTPServer \<Rightarrow> http_request \<Rightarrow> string \<Rightarrow> handler" where
  "webNode sv r nodeID = requireWebPrincipal sv r (\<lambda>p. orError (svc_Node p nodeID) (answerData DataNode))"

definition webRevokeNode :: "HTTPServer \<Rightarrow> http_request \<Rightarrow> string \<Rightarrow> handler" where
  "webRevokeNode sv r nodeID = webMutation sv r (\<lambda>p.
     orError (svc_RevokeNode (hs_service sv) p nodeID) (\<lambda>_. answerWith (writeData (DataDone ''revoked''))))"

text \<open>The exchange of a node needs no cookie and no origin, but a bearer credential.\<close>

definition nodeToken :: "HTTPServer \<Rightarrow> http_request \<Rightarrow> handler" where
  "nodeToken sv r =
     (let authorization = headerGet r ''Authorization''; (scheme, credential) = cutAt (CHR '' '') authorization in
      if CHR '' '' \<notin> set authorization \<or> \<not> EqualFold scheme ''Bearer''
      then answerWith (writeServiceError ErrUnauthenticated) else
      let exchange = (\<lambda>input. orError (svc_ExchangeNodeTokenWithDirectory (hs_service sv) credential
            (nb_AgentIDs input)) (answerData DataNodeToken))
      in if rq_ContentLength r \<noteq> 0 then decodeBody r nodeTokenFields \<lparr>nb_AgentIDs = []\<rparr> exchange
         else exchange \<lparr>nb_AgentIDs = []\<rparr>)"

section \<open>Organizations and invitations\<close>

definition webOrganizationAction :: "string \<Rightarrow> HTTPServer \<Rightarrow> http_request \<Rightarrow> handler" where
  "webOrganizationAction action sv r = webMutation sv r (\<lambda>p.
     decodeBody r organizationFields \<lparr>oi_Name = '''', oi_TargetUserID = ''''\<rparr> (\<lambda>input.
       orError (svc_MutateOrganization (hs_service sv) p action input) (\<lambda>_. webStatus sv r)))"

definition webListOrganizationInvitations :: "HTTPServer \<Rightarrow> http_request \<Rightarrow> handler" where
  "webListOrganizationInvitations sv r = requireWebPrincipal sv r (\<lambda>p.
     orError (svc_ListOrganizationInvitations p) (answerData DataInvitations))"

definition webCreateOrganizationInvitation :: "HTTPServer \<Rightarrow> http_request \<Rightarrow> handler" where
  "webCreateOrganizationInvitation sv r = webMutation sv r (\<lambda>p.
     decodeBody r invitationFields \<lparr>ci_Role = '''', ci_ExpiresInHours = 0\<rparr> (\<lambda>input.
       orError (svc_CreateOrganizationInvitation (hs_service sv) p input) (\<lambda>result.
         answerWith (writeData (DataCreatedInvitation
           (result\<lparr>cr_JoinURL := webRequestOrigin r @ ''/join/'' @ PathEscape (cr_Token result)\<rparr>))))))"

definition webMutateOrganizationInvitation :: "bool \<Rightarrow> HTTPServer \<Rightarrow> http_request \<Rightarrow> string \<Rightarrow> handler" where
  "webMutateOrganizationInvitation rm sv r invitationID = webMutation sv r (\<lambda>p.
     orError ((if rm then svc_DeleteOrganizationInvitation else svc_RevokeOrganizationInvitation)
         (hs_service sv) p invitationID)
       (\<lambda>_. answerWith (writeData (DataDone (if rm then ''deleted'' else ''revoked'')))))"

definition webPreviewOrganizationInvitation :: "HTTPServer \<Rightarrow> http_request \<Rightarrow> string \<Rightarrow> handler" where
  "webPreviewOrganizationInvitation sv r token =
     orError (svc_PreviewOrganizationInvitation (hs_service sv) token) (answerData DataInvitationPreview)"

text \<open>A signed-in account joins; anyone else makes an account with the body and logs in.\<close>

definition webAcceptOrganizationInvitation :: "HTTPServer \<Rightarrow> http_request \<Rightarrow> string \<Rightarrow> handler" where
  "webAcceptOrganizationInvitation sv r token = requireWebMutationOrigin sv r (
     orError (webPrincipal sv r) (\<lambda>found. case found of
         Some p \<Rightarrow> orError (svc_JoinOrganization (hs_service sv) p token) (\<lambda>_. webStatus sv r)
       | None \<Rightarrow>
         decodeBody r acceptFields \<lparr>ac_Token = '''', ac_Username = '''', ac_DisplayName = '''', ac_Password = ''''\<rparr>
         (\<lambda>input. orError (svc_AcceptOrganizationInvitation (hs_service sv) (input\<lparr>ac_Token := token\<rparr>)) (\<lambda>_.
           finishLogin sv r (ac_Username input) (ac_Password input)))))"

section \<open>Subscriptions\<close>

definition webSubscriptionOverview :: "HTTPServer \<Rightarrow> http_request \<Rightarrow> handler" where
  "webSubscriptionOverview sv r = requireWebPrincipal sv r (\<lambda>p.
     orError (svc_SubscriptionOverview (hs_service sv) p) (answerData DataOverview))"

definition webUpsertSubscriptionPlan :: "HTTPServer \<Rightarrow> http_request \<Rightarrow> string \<Rightarrow> handler" where
  "webUpsertSubscriptionPlan sv r pathKey = webMutation sv r (\<lambda>p.
     decodeBody r planFields noPlan (\<lambda>input.
       orError (svc_UpsertSubscriptionPlan (hs_service sv) p
           (if TrimSpace pathKey \<noteq> '''' then input\<lparr>pi_PlanKey := TrimSpace pathKey\<rparr> else input))
         (answerData DataOverview)))"

definition webUpdateMemberEntitlement :: "HTTPServer \<Rightarrow> http_request \<Rightarrow> string \<Rightarrow> handler" where
  "webUpdateMemberEntitlement sv r userID = webMutation sv r (\<lambda>p.
     decodeBody r (oneString ''plan_key'') '''' (\<lambda>planKey.
       orError (svc_UpdateMemberEntitlement (hs_service sv) p userID planKey) (answerData DataOverview)))"

end
