(* ===== verification/Http_Server.thy ===== *)
theory Http_Server
  imports Http_Web
begin

text \<open>
  The handlers of other services and the routing (\<open>http.go\<close> and \<open>member_management.go\<close>): the public
  routes, the routes that need the service token, the tables of routes and how \<open>http.ServeMux\<close>
  chooses among them. The base paths are taken to hold no wildcards.
\<close>

section \<open>Public routes\<close>

definition serveHealth :: "HTTPServer \<Rightarrow> http_request \<Rightarrow> handler" where
  "serveHealth sv r = answerWith (if hs_ping sv then writeData DataStatus
     else writeError 503 ''control_unavailable'')"

definition servePublicKey :: "HTTPServer \<Rightarrow> http_request \<Rightarrow> handler" where
  "servePublicKey sv r = answerWith (writeData (DataKey (PublicKey (hs_service sv))))"

definition serveSetupOwner :: "HTTPServer \<Rightarrow> http_request \<Rightarrow> handler" where
  "serveSetupOwner sv r =
     (if cf_SetupToken (hs_config sv) = '''' \<or> \<not> bearerMatches r (cf_SetupToken (hs_config sv))
      then answerWith (writeError 401 ''setup_capability_invalid'') else
      decodeBody r setupFields noSetup (\<lambda>input.
        orError (svc_SetupOwner (hs_service sv) input) (answerData DataPrincipal)))"

section \<open>Routes of other services\<close>

record exchangeBody =
  eb_SessionToken :: string
  eb_Audience :: string

record humanBody =
  hb_UserID :: string
  hb_SessionID :: string
  hb_Audience :: string

record membersBody =
  vb_DeploymentID :: string
  vb_OrganizationID :: string
  vb_UserIDs :: "string list"

record agentsBody =
  gb_DeploymentID :: string
  gb_OrganizationID :: string
  gb_OwnerUserID :: string
  gb_AgentIDs :: "string list"

record manageBody =
  mg_ActorUserID :: string
  mg_SessionID :: string
  mg_Operation :: string
  mg_Target :: string
  mg_ExpectedVersion :: int
  mg_Input :: "json option"

definition exchangeFields :: "exchangeBody fields" where
  "exchangeFields = [(''session_token'', stringField eb_SessionToken_update),
     (''audience'', stringField eb_Audience_update)]"

definition humanFields :: "humanBody fields" where
  "humanFields = [(''user_id'', stringField hb_UserID_update), (''session_id'', stringField hb_SessionID_update),
     (''audience'', stringField hb_Audience_update)]"

definition membersFields :: "membersBody fields" where
  "membersFields = [(''deployment_id'', stringField vb_DeploymentID_update),
     (''organization_id'', stringField vb_OrganizationID_update),
     (''user_ids'', stringsField vb_UserIDs vb_UserIDs_update)]"

definition agentsFields :: "agentsBody fields" where
  "agentsFields = [(''deployment_id'', stringField gb_DeploymentID_update),
     (''organization_id'', stringField gb_OrganizationID_update),
     (''owner_user_id'', stringField gb_OwnerUserID_update),
     (''agent_ids'', stringsField gb_AgentIDs gb_AgentIDs_update)]"

definition manageFields :: "manageBody fields" where
  "manageFields = [(''actor_user_id'', stringField mg_ActorUserID_update),
     (''session_id'', stringField mg_SessionID_update), (''operation'', stringField mg_Operation_update),
     (''target'', stringField mg_Target_update), (''expected_version'', intField mg_ExpectedVersion_update),
     (''input'', rawField mg_Input_update)]"

definition noManage :: manageBody where
  "noManage = \<lparr>mg_ActorUserID = '''', mg_SessionID = '''', mg_Operation = '''', mg_Target = '''',
     mg_ExpectedVersion = 0, mg_Input = None\<rparr>"

definition internalState :: "HTTPServer \<Rightarrow> http_request \<Rightarrow> handler" where
  "internalState sv r = orError (svc_State (hs_service sv)) (answerData DataState)"

definition internalExchange :: "HTTPServer \<Rightarrow> http_request \<Rightarrow> handler" where
  "internalExchange sv r = decodeBody r exchangeFields \<lparr>eb_SessionToken = '''', eb_Audience = ''''\<rparr> (\<lambda>input.
     orError (svc_ExchangePrincipal (hs_service sv) (eb_SessionToken input) (eb_Audience input))
     (\<lambda>(token, p). orError (svc_State (hs_service sv)) (answerData (DataExchange token p))))"

definition internalLatestIdentityInvalidation :: "HTTPServer \<Rightarrow> http_request \<Rightarrow> handler" where
  "internalLatestIdentityInvalidation sv r =
     orError (readA svc_LatestIdentityInvalidationID) (answerData DataCursor)"

definition feedLimit :: "http_request \<Rightarrow> int option" where
  "feedLimit r = (let given = TrimSpace (queryGet r ''limit'') in
     if given = '''' then Some 256 else
     case Atoi given of None \<Rightarrow> None | Some l \<Rightarrow> if l \<le> 0 \<or> 256 < l then None else Some l)"

definition internalIdentityInvalidations :: "HTTPServer \<Rightarrow> http_request \<Rightarrow> handler" where
  "internalIdentityInvalidations sv r =
     (case Atoi (queryGet r ''after'') of None \<Rightarrow> answerWith (writeError 400 ''request_invalid'')
      | Some after \<Rightarrow>
        if after < 0 then answerWith (writeError 400 ''request_invalid'') else
        (case feedLimit r of None \<Rightarrow> answerWith (writeError 400 ''request_invalid'')
         | Some limit \<Rightarrow>
           orError (readA (svc_ListIdentityInvalidations after limit)) (\<lambda>events.
             answerWith (writeData (DataEvents events
               (if events = [] then after else evr_EventID (last events)))))))"

definition internalVerifyHuman :: "HTTPServer \<Rightarrow> http_request \<Rightarrow> handler" where
  "internalVerifyHuman sv r =
     decodeBody r humanFields \<lparr>hb_UserID = '''', hb_SessionID = '''', hb_Audience = ''''\<rparr> (\<lambda>input.
       orError (svc_ExchangeBoundHuman (hs_service sv) (hb_UserID input) (hb_SessionID input) (hb_Audience input))
         (answerData DataToken))"

definition internalVerifyOrganizationMembers :: "HTTPServer \<Rightarrow> http_request \<Rightarrow> handler" where
  "internalVerifyOrganizationMembers sv r =
     decodeBody r membersFields \<lparr>vb_DeploymentID = '''', vb_OrganizationID = '''', vb_UserIDs = []\<rparr> (\<lambda>input.
       orError (svc_VerifyOrganizationMembers (vb_DeploymentID input) (vb_OrganizationID input) (vb_UserIDs input))
         (\<lambda>_. answerWith (writeData DataValid)))"

definition internalVerifyAgents :: "HTTPServer \<Rightarrow> http_request \<Rightarrow> handler" where
  "internalVerifyAgents sv r =
     decodeBody r agentsFields \<lparr>gb_DeploymentID = '''', gb_OrganizationID = '''', gb_OwnerUserID = '''', gb_AgentIDs = []\<rparr>
     (\<lambda>input. orError (svc_VerifyOwnedAgents (gb_DeploymentID input) (gb_OrganizationID input)
         (gb_OwnerUserID input) (gb_AgentIDs input)) (answerData DataAgents))"

definition internalRole :: "HTTPServer \<Rightarrow> http_request \<Rightarrow> string \<Rightarrow> handler" where
  "internalRole sv r userID = orError (svc_ActiveRole userID) (answerData DataRole)"

definition internalEntitlement :: "HTTPServer \<Rightarrow> http_request \<Rightarrow> string \<Rightarrow> string \<Rightarrow> handler" where
  "internalEntitlement sv r deploymentID userID =
     orError (svc_EffectiveEntitlement deploymentID userID) (answerData DataEntitlement)"

section \<open>Member management\<close>

definition decodeManagedMemberInput :: "json option \<Rightarrow> 'a fields \<Rightarrow> 'a \<Rightarrow> 'a act" where
  "decodeManagedMemberInput input fs zero = checkA
     (case (case input of None \<Rightarrow> None | Some v \<Rightarrow> decodeStruct fs zero v) of
        None \<Rightarrow> Inl ErrRequestInvalid | Some a \<Rightarrow> Inr a)"

definition manageMembers :: "HTTPServer \<Rightarrow> Principal \<Rightarrow> manageBody \<Rightarrow> payload act" where
  "manageMembers sv p b =
     (if mg_Operation b = ''list'' then
        bindA (svc_ListDeploymentMembers p) (\<lambda>ms. returnA (DataMembers ms))
      else if mg_Operation b = ''create'' then
        bindA (decodeManagedMemberInput (mg_Input b) createMemberFields noCreateMember) (\<lambda>input.
        bindA (svc_CreateDeploymentMember (hs_service sv) p input) (\<lambda>m. returnA (DataMember m)))
      else if mg_Operation b = ''update'' \<or> mg_Operation b = ''remove'' then
        (if mg_ExpectedVersion b \<le> 0 then failA ErrRequestInvalid else
         bindA (if mg_Operation b = ''remove'' then returnA (noUpdateMember\<lparr>um_Status := Some ''revoked''\<rparr>)
             else decodeManagedMemberInput (mg_Input b) updateMemberFields noUpdateMember) (\<lambda>input.
         bindA (svc_UpdateDeploymentMember (hs_service sv) p (mg_Target b)
             (input\<lparr>um_ExpectedVersion := Some (mg_ExpectedVersion b)\<rparr>)) (\<lambda>m. returnA (DataMember m))))
      else failA ErrRequestInvalid)"

definition internalManageDeploymentMembers :: "HTTPServer \<Rightarrow> http_request \<Rightarrow> handler" where
  "internalManageDeploymentMembers sv r = decodeBody r manageFields noManage (\<lambda>b.
     orError (svc_VerifyBoundHuman (hs_service sv) (mg_ActorUserID b) (mg_SessionID b)) (\<lambda>p.
     orError (manageMembers sv p b) (answerData id)))"

section \<open>Routing\<close>

datatype segment = Lit string | Var

type_synonym route = "string \<times> segment list \<times> (HTTPServer \<Rightarrow> http_request \<Rightarrow> string list \<Rightarrow> handler)"

fun matchSegments :: "segment list \<Rightarrow> string list \<Rightarrow> string list option" where
  "matchSegments [] [] = Some []"
| "matchSegments (Lit l # ps) (s # ss) = (if l = s then matchSegments ps ss else None)"
| "matchSegments (Var # ps) (s # ss) = (if s = '''' then None else map_option ((#) s) (matchSegments ps ss))"
| "matchSegments _ _ = None"

text \<open>Of two patterns for a path the one with the first literal where the other has a wildcard.\<close>

fun moreSpecific :: "segment list \<Rightarrow> segment list \<Rightarrow> bool" where
  "moreSpecific (Lit _ # ps) (Var # qs) \<longleftrightarrow> True"
| "moreSpecific (Var # ps) (Lit _ # qs) \<longleftrightarrow> False"
| "moreSpecific (_ # ps) (_ # qs) \<longleftrightarrow> moreSpecific ps qs"
| "moreSpecific _ _ \<longleftrightarrow> False"

definition matching :: "string \<Rightarrow> string list \<Rightarrow> route list \<Rightarrow> route list" where
  "matching method path rs = filter (\<lambda>(m, p, _). m = method \<and> matchSegments p path \<noteq> None) rs"

definition bestRoute :: "route list \<Rightarrow> route option" where
  "bestRoute rs = (case rs of [] \<Rightarrow> None | x # xs \<Rightarrow>
     Some (fold (\<lambda>y best. if moreSpecific (fst (snd y)) (fst (snd best)) then y else best) xs x))"

definition findRoute :: "route list \<Rightarrow> string \<Rightarrow> string list \<Rightarrow> route option" where
  "findRoute rs method path = (case bestRoute (matching method path rs) of
       Some x \<Rightarrow> Some x
     | None \<Rightarrow> if method = ''HEAD'' then bestRoute (matching ''GET'' path rs) else None)"

text \<open>What the multiplexer answers itself: no such path, or no such method for it.\<close>

definition muxError :: "route list \<Rightarrow> string list \<Rightarrow> answer" where
  "muxError rs path =
     (let status = (if list_ex (\<lambda>(_, p, _). matchSegments p path \<noteq> None) rs then 405 else 404) in
      \<lparr>rs_Status = status, rs_Body = Plain (if status = 405 then ''Method Not Allowed'' else ''404 page not found''),
       rs_Cookies = [], rs_RequestID = ''''\<rparr>)"

definition runRoute :: "route \<Rightarrow> HTTPServer \<Rightarrow> http_request \<Rightarrow> handler" where
  "runRoute x sv r = (case x of (_, p, f) \<Rightarrow>
     f sv r (case matchSegments p (rq_Segments r) of None \<Rightarrow> [] | Some vs \<Rightarrow> vs))"

abbreviation plain :: "(HTTPServer \<Rightarrow> http_request \<Rightarrow> handler) \<Rightarrow> HTTPServer \<Rightarrow> http_request \<Rightarrow> string list \<Rightarrow> handler" where
  "plain f \<equiv> \<lambda>sv r _. f sv r"

abbreviation withVar ::
  "(HTTPServer \<Rightarrow> http_request \<Rightarrow> string \<Rightarrow> handler) \<Rightarrow> HTTPServer \<Rightarrow> http_request \<Rightarrow> string list \<Rightarrow> handler" where
  "withVar f \<equiv> \<lambda>sv r vs. f sv r (hd vs)"

definition webRoutes :: "route list" where
  "webRoutes =
     [(''GET'', [Lit ''status''], plain webStatus),
      (''POST'', [Lit ''login''], plain webLogin),
      (''POST'', [Lit ''logout''], plain webLogout),
      (''POST'', [Lit ''setup''], plain webSetup),
      (''PATCH'', [Lit ''profile''], plain webUpdateProfile),
      (''POST'', [Lit ''profile'', Lit ''password''], plain webChangePassword),
      (''GET'', [Lit ''profile'', Lit ''password'', Lit ''receipt''], plain webPasswordReceipt),
      (''POST'', [Lit ''profile'', Lit ''password'', Lit ''receipt'', Lit ''not-applied''], plain webPasswordSettle),
      (''GET'', [Lit ''members''], plain webMembers),
      (''GET'', [Lit ''directory'', Lit ''members''], plain webMemberDirectory),
      (''GET'', [Lit ''agents''], plain webAgents),
      (''GET'', [Lit ''nodes''], plain webNodes),
      (''POST'', [Lit ''nodes''], plain webRegisterNode),
      (''GET'', [Lit ''nodes'', Var], withVar webNode),
      (''DELETE'', [Lit ''nodes'', Var], withVar webRevokeNode),
      (''POST'', [Lit ''nodes'', Lit ''token''], plain nodeToken),
      (''GET'', [Lit ''directory'', Lit ''agents''], plain webAgentDirectory),
      (''PUT'', [Lit ''agents'', Var], withVar webPublishAgent),
      (''GET'', [Lit ''deployment-members''], plain webDeploymentMembers),
      (''POST'', [Lit ''deployment-members''], plain webCreateDeploymentMember),
      (''PATCH'', [Lit ''deployment-members'', Var], withVar webUpdateDeploymentMember),
      (''PATCH'', [Lit ''members'', Var], withVar webUpdateMember),
      (''GET'', [Lit ''organization'', Lit ''invitations''], plain webListOrganizationInvitations),
      (''POST'', [Lit ''organization'', Lit ''invitations''], plain webCreateOrganizationInvitation),
      (''POST'', [Lit ''register''], plain webRegister)] @
     map (\<lambda>action. (''POST'', [Lit ''organization'', Lit action], plain (webOrganizationAction action)))
       [''create'', ''rename'', ''leave'', ''transfer'', ''dissolve''] @
     [(''DELETE'', [Lit ''organization'', Lit ''invitations'', Var], withVar (webMutateOrganizationInvitation False)),
      (''DELETE'', [Lit ''organization'', Lit ''invitations'', Var, Lit ''record''],
         withVar (webMutateOrganizationInvitation True)),
      (''GET'', [Lit ''organization-invitations'', Var], withVar webPreviewOrganizationInvitation),
      (''POST'', [Lit ''organization-invitations'', Var, Lit ''accept''], withVar webAcceptOrganizationInvitation),
      (''GET'', [Lit ''subscription'', Lit ''overview''], plain webSubscriptionOverview),
      (''POST'', [Lit ''subscription'', Lit ''plans''], \<lambda>sv r _. webUpsertSubscriptionPlan sv r ''''),
      (''PUT'', [Lit ''subscription'', Lit ''plans'', Var], withVar webUpsertSubscriptionPlan),
      (''PUT'', [Lit ''subscription'', Lit ''users'', Var], withVar webUpdateMemberEntitlement)]"

definition publicRoutes :: "route list" where
  "publicRoutes =
     [(''GET'', [Lit ''health''], plain serveHealth),
      (''GET'', [Lit ''.well-known'', Lit ''principal-key''], plain servePublicKey),
      (''POST'', [Lit ''setup'', Lit ''owner''], plain serveSetupOwner)]"

definition internalRoutes :: "route list" where
  "internalRoutes = map (\<lambda>(m, p, f). (m, Lit ''internal'' # p, f))
     [(''GET'', [Lit ''state''], plain internalState),
      (''POST'', [Lit ''principals'', Lit ''exchange''], plain internalExchange),
      (''GET'', [Lit ''identity-invalidations'', Lit ''latest''], plain internalLatestIdentityInvalidation),
      (''GET'', [Lit ''identity-invalidations''], plain internalIdentityInvalidations),
      (''POST'', [Lit ''humans'', Lit ''verify''], plain internalVerifyHuman),
      (''POST'', [Lit ''organizations'', Lit ''members'', Lit ''verify''], plain internalVerifyOrganizationMembers),
      (''POST'', [Lit ''agents'', Lit ''verify''], plain internalVerifyAgents),
      (''POST'', [Lit ''deployment-members'', Lit ''manage''], plain internalManageDeploymentMembers),
      (''GET'', [Lit ''users'', Var, Lit ''role''], withVar internalRole),
      (''GET'', [Lit ''deployments'', Var, Lit ''users'', Var, Lit ''entitlement''],
         \<lambda>sv r vs. internalEntitlement sv r (hd vs) (hd (tl vs)))]"

text \<open>The routes under their base paths, and the two multiplexers.\<close>

definition baseSegments :: "string \<Rightarrow> string list" where
  "baseSegments path = tl (SplitOn (CHR ''/'') (rev (dropWhile (\<lambda>c. c = CHR ''/'') (rev path))))"

definition mounted :: "string \<Rightarrow> route list \<Rightarrow> route list" where
  "mounted path rs = map (\<lambda>(m, p, f). (m, map Lit (baseSegments path) @ p, f)) rs"

definition dispatchRoutes :: "route list \<Rightarrow> HTTPServer \<Rightarrow> http_request \<Rightarrow> handler" where
  "dispatchRoutes rs sv r = (case findRoute rs (rq_Method r) (rq_Segments r) of
     Some x \<Rightarrow> runRoute x sv r | None \<Rightarrow> answerWith (muxError rs (rq_Segments r)))"

definition requireService :: "HTTPServer \<Rightarrow> http_request \<Rightarrow> handler \<Rightarrow> handler" where
  "requireService sv r next =
     (if bearerMatches r (cf_ServiceToken (hs_config sv)) then next
      else answerWith (writeError 401 ''service_credential_invalid''))"

definition underInternal :: "HTTPServer \<Rightarrow> string list \<Rightarrow> bool" where
  "underInternal sv path \<longleftrightarrow> strict_prefix (baseSegments (cf_APIBase (hs_config sv)) @ [''internal'']) path"

definition outerRoutes :: "HTTPServer \<Rightarrow> route list" where
  "outerRoutes sv = mounted (cf_WebAuthBase (hs_config sv)) webRoutes @ mounted (cf_APIBase (hs_config sv)) publicRoutes"

definition serveMux :: "HTTPServer \<Rightarrow> http_request \<Rightarrow> handler" where
  "serveMux sv r =
     (case findRoute (outerRoutes sv) (rq_Method r) (rq_Segments r) of
        Some x \<Rightarrow> runRoute x sv r
      | None \<Rightarrow>
        if underInternal sv (rq_Segments r) then
          requireService sv r (dispatchRoutes (mounted (cf_APIBase (hs_config sv)) internalRoutes) sv r)
        else if rq_Segments r = baseSegments (cf_APIBase (hs_config sv)) @ [''internal''] then
          answerWith \<lparr>rs_Status = 307, rs_Body = Plain ''Temporary Redirect'', rs_Cookies = [], rs_RequestID = ''''\<rparr>
        else answerWith (muxError (outerRoutes sv) (rq_Segments r)))"

definition serveHTTP :: "HTTPServer \<Rightarrow> http_request \<Rightarrow> handler" where
  "serveHTTP sv r = (\<lambda>h. case requestID sv r h of (rid, k) \<Rightarrow>
     apfst (rs_RequestID_update (\<lambda>_. rid))
       (serveMux sv (r\<lparr>rq_Header := (rq_Header r)(''X-Request-Id'' := [rid])\<rparr>) k))"

end
