(* ===== verification/Http_Life.thy ===== *)
theory Http_Life
  imports Http_Server Svc_Life Cfg_Life
begin

text \<open>
  Lemmas on the handlers: which route a request takes, what the guards answer when they refuse,
  and what an action that only reads leaves.
\<close>

section \<open>Steps\<close>

lemma orError_Inl: "m h = (Inl e, k) \<Longrightarrow> orError m f h = (writeServiceError e, k)"
  by (simp add: orError_def)

lemma orError_Inr: "m h = (Inr a, k) \<Longrightarrow> orError m f h = f a k"
  by (simp add: orError_def)

lemma orError_cases:
  assumes "orError m f h = (a, k)"
  obtains e where "m h = (Inl e, k)" "a = writeServiceError e" | x j where "m h = (Inr x, j)" "f x j = (a, k)"
  using assms by (cases "m h"; cases "fst (m h)") (auto simp: orError_def)

lemma answerWith_simp [simp]: "answerWith a h = (a, h)"
  by (simp add: answerWith_def)

text \<open>Every failure is one of these.\<close>

lemma writeError_simps [simp]:
  "rs_Status (writeError status code) = status" "rs_Cookies (writeError status code) = []"
  "rs_Body (writeError status code) = Failure (''control.'' @ code) (failureCategory status)
     (if status < 500 then NotApplied else EffectUnknown)"
  by (simp_all add: writeError_def)

lemma writeData_simps [simp]:
  "rs_Status (writeData d) = 200" "rs_Cookies (writeData d) = []" "rs_Body (writeData d) = Success d"
  by (simp_all add: writeData_def)

section \<open>Routes\<close>

lemma bestRoute_in: "bestRoute rs = Some x \<Longrightarrow> x \<in> set rs"
proof -
  have "fold (\<lambda>y best. if moreSpecific (fst (snd y)) (fst (snd best)) then y else best) ys b \<in> insert b (set ys)"
    for ys and b :: route
  proof (induction ys arbitrary: b)
    case (Cons y ys)
    show ?case using Cons.IH [of y] Cons.IH [of b] by auto
  qed simp
  then show "bestRoute rs = Some x \<Longrightarrow> ?thesis"
    unfolding bestRoute_def by (auto split: list.splits)
qed

lemma findRoute_in:
  "findRoute rs method path = Some (m, p, f) \<Longrightarrow>
     (m, p, f) \<in> set rs \<and> matchSegments p path \<noteq> None \<and> (m = method \<or> method = ''HEAD'' \<and> m = ''GET'')"
  by (auto simp: findRoute_def matching_def dest!: bestRoute_in split: option.splits if_splits)

lemma findRoute_None:
  "findRoute rs method path = None \<Longrightarrow> x \<in> set rs \<Longrightarrow> fst x = method \<Longrightarrow> matchSegments (fst (snd x)) path = None"
  by (cases x) (auto simp: findRoute_def bestRoute_def matching_def filter_empty_conv
      split: option.splits if_splits list.splits)

lemma matchSegments_base: "matchSegments (map Lit xs @ p) path =
    (if prefix xs path then matchSegments p (drop (length xs) path) else None)"
proof (induction xs arbitrary: path)
  case (Cons x xs)
  then show ?case by (cases path) auto
qed simp

lemma matchSegments_literals: "matchSegments (map Lit xs) path \<noteq> None \<longleftrightarrow> path = xs"
proof (induction xs arbitrary: path)
  case Nil
  then show ?case by (cases path) auto
next
  case (Cons x xs)
  then show ?case by (cases path) auto
qed

lemma mounted_in: "(m, q, f) \<in> set (mounted path rs) \<longleftrightarrow>
    (\<exists>p. (m, p, f) \<in> set rs \<and> q = map Lit (baseSegments path) @ p)"
  by (force simp: mounted_def)

text \<open>A request under the base path of the browser, and not under that of the services.\<close>

definition webRequest :: "HTTPServer \<Rightarrow> http_request \<Rightarrow> bool" where
  "webRequest sv r \<longleftrightarrow> prefix (baseSegments (cf_WebAuthBase (hs_config sv))) (rq_Segments r) \<and>
     \<not> prefix (baseSegments (cf_APIBase (hs_config sv))) (rq_Segments r)"

definition webPath :: "HTTPServer \<Rightarrow> http_request \<Rightarrow> string list" where
  "webPath sv r = drop (length (baseSegments (cf_WebAuthBase (hs_config sv)))) (rq_Segments r)"

definition withID :: "string \<Rightarrow> http_request \<Rightarrow> http_request" where
  "withID rid r = r\<lparr>rq_Header := (rq_Header r)(''X-Request-Id'' := [rid])\<rparr>"

lemma withID_simps [simp]:
  "rq_Segments (withID rid r) = rq_Segments r" "rq_Method (withID rid r) = rq_Method r"
  "rq_Body (withID rid r) = rq_Body r" "rq_Host (withID rid r) = rq_Host r" "rq_TLS (withID rid r) = rq_TLS r"
  "rq_RawQuery (withID rid r) = rq_RawQuery r" "rq_RemoteAddr (withID rid r) = rq_RemoteAddr r"
  "name \<noteq> ''X-Request-Id'' \<Longrightarrow> headerGet (withID rid r) name = headerGet r name"
  "name \<noteq> ''X-Request-Id'' \<Longrightarrow> rq_Header (withID rid r) name = rq_Header r name"
  "webRequest sv (withID rid r) = webRequest sv r" "webPath sv (withID rid r) = webPath sv r"
  by (simp_all add: withID_def headerGet_def webRequest_def webPath_def)

lemma withID_origin [simp]: "webRequestOrigin (withID rid r) = webRequestOrigin r"
  by (simp add: webRequestOrigin_def)

lemma withID_guards [simp]:
  "webOriginMatches sv (withID rid r) = webOriginMatches sv r" "bearerMatches (withID rid r) t = bearerMatches r t"
  "sessionToken sv (withID rid r) = sessionToken sv r" "readCookie (withID rid r) name = readCookie r name"
  by (simp_all add: webOriginMatches_def bearerMatches_def sessionToken_def readCookie_def cong: option.case_cong)

lemma requestID_db: "requestID sv r h = (rid, k) \<Longrightarrow> h_db k = h_db h"
  by (auto simp: requestID_def Let_def split: if_splits option.splits)

lemma serveHTTP_mux:
  assumes "serveHTTP sv r h = (a, k)"
  obtains rid b j where "h_db j = h_db h" "serveMux sv (withID rid r) j = (b, k)"
    "rs_Status a = rs_Status b" "rs_Body a = rs_Body b" "rs_Cookies a = rs_Cookies b"
proof -
  obtain rid j where id: "requestID sv r h = (rid, j)" by fastforce
  obtain b i where b: "serveMux sv (withID rid r) j = (b, i)" by fastforce
  with assms id have "a = b\<lparr>rs_RequestID := rid\<rparr>" "k = i"
    by (simp_all add: serveHTTP_def withID_def)
  with b requestID_db [OF id] show thesis by (intro that [of j rid b]) simp_all
qed

text \<open>What the multiplexer does with such a request.\<close>

lemma serveMux_web:
  assumes "webRequest sv r"
  obtains m p f vs where "(m, p, f) \<in> set webRoutes" "m = rq_Method r \<or> rq_Method r = ''HEAD'' \<and> m = ''GET''"
      "matchSegments p (webPath sv r) \<noteq> None" "serveMux sv r = f sv r vs"
  | "serveMux sv r = answerWith (muxError (outerRoutes sv) (rq_Segments r))"
proof (cases "findRoute (outerRoutes sv) (rq_Method r) (rq_Segments r)")
  case None
  moreover have "\<not> underInternal sv (rq_Segments r)"
    using assms by (auto simp: underInternal_def webRequest_def strict_prefix_def dest: append_prefixD)
  moreover have "rq_Segments r \<noteq> baseSegments (cf_APIBase (hs_config sv)) @ [''internal'']"
    using assms by (auto simp: webRequest_def)
  ultimately show thesis by (intro that(2)) (simp add: serveMux_def)
next
  case (Some x)
  obtain m q f where x: "x = (m, q, f)" by (cases x)
  with Some have f: "(m, q, f) \<in> set (outerRoutes sv)" "matchSegments q (rq_Segments r) \<noteq> None"
    "m = rq_Method r \<or> rq_Method r = ''HEAD'' \<and> m = ''GET''"
    by (auto dest: findRoute_in)
  moreover have "(m, q, f) \<notin> set (mounted (cf_APIBase (hs_config sv)) publicRoutes)"
    using f(2) assms by (auto simp: mounted_in matchSegments_base webRequest_def split: if_splits)
  ultimately obtain p where "(m, p, f) \<in> set webRoutes" "q = map Lit (baseSegments (cf_WebAuthBase (hs_config sv))) @ p"
    by (auto simp: outerRoutes_def mounted_in)
  with f Some x show thesis
    by (intro that(1)) (auto simp: serveMux_def runRoute_def matchSegments_base webPath_def split: if_splits)
qed

section \<open>Guards\<close>

lemmas web_handlers = webStatus_def webLogin_def webLogout_def webSetup_def webUpdateProfile_def
  webChangePassword_def webPasswordReceipt_def webPasswordSettle_def webMembers_def webMemberDirectory_def
  webAgents_def webNodes_def webRegisterNode_def webNode_def webRevokeNode_def webAgentDirectory_def
  webPublishAgent_def webDeploymentMembers_def webCreateDeploymentMember_def webUpdateDeploymentMember_def
  webUpdateMember_def webListOrganizationInvitations_def webCreateOrganizationInvitation_def webRegister_def
  webOrganizationAction_def webMutateOrganizationInvitation_def webPreviewOrganizationInvitation_def
  webAcceptOrganizationInvitation_def webSubscriptionOverview_def webUpsertSubscriptionPlan_def
  webUpdateMemberEntitlement_def

lemma origin_refused:
  assumes "\<not> webOriginMatches sv r" and "refused = answerWith (writeError 403 ''origin_invalid'')"
  shows "webLogin sv r = refused" "webLogout sv r = refused" "webSetup sv r = refused"
    "webUpdateProfile sv r = refused" "webChangePassword sv r = refused" "webPasswordSettle sv r = refused"
    "webRegisterNode sv r = refused" "webRevokeNode sv r x = refused" "webPublishAgent sv r x = refused"
    "webCreateDeploymentMember sv r = refused" "webUpdateDeploymentMember sv r x = refused"
    "webUpdateMember sv r x = refused" "webCreateOrganizationInvitation sv r = refused"
    "webRegister sv r = refused" "webOrganizationAction act sv r = refused"
    "webMutateOrganizationInvitation rm sv r x = refused" "webAcceptOrganizationInvitation sv r x = refused"
    "webUpsertSubscriptionPlan sv r x = refused" "webUpdateMemberEntitlement sv r x = refused"
  by (simp_all only: web_handlers webMutation_def requireWebMutationOrigin_def assms if_False)

lemma web_origin_guard:
  assumes "(m, p, f) \<in> set webRoutes" and "m \<noteq> ''GET''" and "p \<noteq> [Lit ''nodes'', Lit ''token'']"
    and "\<not> webOriginMatches sv r"
  shows "f sv r vs = answerWith (writeError 403 ''origin_invalid'')"
proof -
  have "list_all (\<lambda>(m, p, f). m \<noteq> ''GET'' \<longrightarrow> p \<noteq> [Lit ''nodes'', Lit ''token''] \<longrightarrow>
      (\<forall>vs. f sv r vs = answerWith (writeError 403 ''origin_invalid''))) webRoutes"
    by (simp add: webRoutes_def origin_refused [OF assms(4) refl])
  with assms(1-3) show ?thesis unfolding list_all_iff by blast
qed

text \<open>The routes of the browser that need no session; all others begin with one of two guards.\<close>

definition openRoutes :: "(string \<times> segment list) list" where
  "openRoutes = [(''GET'', [Lit ''status'']), (''POST'', [Lit ''login'']), (''POST'', [Lit ''logout'']),
     (''POST'', [Lit ''setup'']), (''POST'', [Lit ''register'']), (''POST'', [Lit ''nodes'', Lit ''token'']),
     (''GET'', [Lit ''organization-invitations'', Var]),
     (''POST'', [Lit ''organization-invitations'', Var, Lit ''accept''])]"

definition openRequest :: "HTTPServer \<Rightarrow> http_request \<Rightarrow> bool" where
  "openRequest sv r \<longleftrightarrow> list_ex (\<lambda>(m, p). (m = rq_Method r \<or> rq_Method r = ''HEAD'' \<and> m = ''GET'') \<and>
     matchSegments p (webPath sv r) \<noteq> None) openRoutes"

lemma withID_open [simp]: "openRequest sv (withID rid r) = openRequest sv r"
  by (simp add: openRequest_def)

lemma web_session_guard:
  assumes "(m, p, f) \<in> set webRoutes" and "(m, p) \<notin> set openRoutes"
  shows "f sv r vs \<in> range (requireWebPrincipal sv r) \<union> range (webMutation sv r)"
proof -
  have "list_all (\<lambda>(m, p, f). (m, p) \<notin> set openRoutes \<longrightarrow>
      (\<forall>vs. f sv r vs \<in> range (requireWebPrincipal sv r) \<union> range (webMutation sv r))) webRoutes"
    by (simp add: webRoutes_def openRoutes_def web_handlers)
  with assms show ?thesis unfolding list_all_iff by blast
qed

text \<open>A request whose token belongs to no session at any time.\<close>

definition anonymous :: "HTTPServer \<Rightarrow> http_request \<Rightarrow> db \<Rightarrow> bool" where
  "anonymous sv r s \<longleftrightarrow>
     (\<forall>now. repo_ResolveSessionByTokenHash (hashToken (hs_service sv) (sessionToken sv r)) now s = None)"

lemma withID_anonymous [simp]: "anonymous sv (withID rid r) s = anonymous sv r s"
  by (simp add: anonymous_def)

lemma webPrincipal_anonymous:
  assumes "anonymous sv r (h_db h)"
  obtains k where "webPrincipal sv r h = (Inr None, k)" "h_db k = h_db h"
proof -
  have "\<exists>k. svc_ResolveSession (hs_service sv) (sessionToken sv r) h = (Inr None, k) \<and> h_db k = h_db h"
    using assms unfolding anonymous_def svc_ResolveSession_def
    by (cases "TrimSpace (sessionToken sv r) = ''''") (simp_all add: bindA_def nowA_def)
  then show thesis using that unfolding webPrincipal_def by blast
qed

lemma requireWebPrincipal_anonymous:
  assumes "anonymous sv r (h_db h)" and "requireWebPrincipal sv r f h = (a, k)"
  shows "a = writeServiceError ErrUnauthenticated \<and> h_db k = h_db h"
proof -
  obtain j where "webPrincipal sv r h = (Inr None, j)" "h_db j = h_db h"
    using webPrincipal_anonymous [OF assms(1)] .
  then show ?thesis using assms(2) by (simp add: requireWebPrincipal_def orError_Inr)
qed

lemma unauthenticated_answer: "writeServiceError ErrUnauthenticated = writeError 401 ''session_invalid''"
  by (simp add: writeServiceError_def errorAnswers_def)

lemma anonymous_refused:
  assumes "(m, p, f) \<in> set webRoutes" and "(m, p) \<notin> set openRoutes" and "anonymous sv r (h_db h)"
    and "f sv r vs h = (a, k)"
  shows "h_db k = h_db h \<and> a \<in> {writeError 401 ''session_invalid'', writeError 403 ''origin_invalid''}"
proof -
  consider g where "f sv r vs = requireWebPrincipal sv r g" | g where "f sv r vs = webMutation sv r g"
    using web_session_guard [OF assms(1,2), of sv r vs] by blast
  then show ?thesis
  proof cases
    case (1 g)
    then show ?thesis using requireWebPrincipal_anonymous [OF assms(3)] assms(4)
      by (fastforce simp: unauthenticated_answer)
  next
    case (2 g)
    then show ?thesis using requireWebPrincipal_anonymous [OF assms(3)] assms(4)
      by (fastforce simp: unauthenticated_answer webMutation_def requireWebMutationOrigin_def split: if_splits)
  qed
qed

lemma muxError_simps:
  "rs_Status (muxError rs path) \<in> {404, 405}" "rs_Cookies (muxError rs path) = []"
  by (simp_all add: muxError_def Let_def)

text \<open>The routes of other services.\<close>

lemma serveMux_internal:
  assumes "underInternal sv (rq_Segments r)"
    and "\<not> prefix (baseSegments (cf_WebAuthBase (hs_config sv))) (rq_Segments r)"
  shows "serveMux sv r = requireService sv r (dispatchRoutes (mounted (cf_APIBase (hs_config sv)) internalRoutes) sv r)"
proof -
  obtain xs where path: "rq_Segments r = baseSegments (cf_APIBase (hs_config sv)) @ ''internal'' # xs"
    using assms(1) by (auto simp: underInternal_def strict_prefix_def elim!: prefixE)
  have "findRoute (outerRoutes sv) (rq_Method r) (rq_Segments r) = None"
  proof (rule ccontr)
    assume "findRoute (outerRoutes sv) (rq_Method r) (rq_Segments r) \<noteq> None"
    then obtain m q f where "(m, q, f) \<in> set (outerRoutes sv)" and q: "matchSegments q (rq_Segments r) \<noteq> None"
      using findRoute_in by (metis option.exhaust prod_cases3)
    then consider p where "(m, p, f) \<in> set webRoutes" "q = map Lit (baseSegments (cf_WebAuthBase (hs_config sv))) @ p"
      | p where "(m, p, f) \<in> set publicRoutes" "q = map Lit (baseSegments (cf_APIBase (hs_config sv))) @ p"
      by (auto simp: outerRoutes_def mounted_in)
    then show False
    proof cases
      case 1
      then show ?thesis using q assms(2) by (simp add: matchSegments_base)
    next
      case 2
      then show ?thesis using q by (auto simp: path matchSegments_base publicRoutes_def)
    qed
  qed
  then show ?thesis using assms(1) by (simp add: serveMux_def)
qed

section \<open>Cookies\<close>

lemma dropWhile_space: "s = [] \<or> \<not> jsonSpace (hd s) \<Longrightarrow> dropWhile jsonSpace s = s"
  by (cases s) auto

lemma trimASCII_id: "s \<noteq> [] \<Longrightarrow> \<not> jsonSpace (hd s) \<Longrightarrow> \<not> jsonSpace (last s) \<Longrightarrow> trimASCII s = s"
  by (simp add: trimASCII_def dropWhile_space hd_rev)

definition cookieText :: "string \<Rightarrow> bool" where
  "cookieText v \<longleftrightarrow> list_all (\<lambda>c. 32 < byte c \<and> byte c < 127 \<and> c \<noteq> quote \<and> c \<noteq> CHR '';'' \<and> c \<noteq> bslash) v"

lemma tokenChar_plain: "tokenChar c \<Longrightarrow> c \<noteq> CHR ''='' \<and> c \<noteq> CHR '';'' \<and> \<not> jsonSpace c"
  by (auto simp: tokenChar_def jsonSpace_def)

lemma token_plain:
  assumes "isToken name"
  shows "name \<noteq> []" "CHR ''='' \<notin> set name" "CHR '';'' \<notin> set name" "\<not> jsonSpace (hd name)" "\<not> jsonSpace (last name)"
proof -
  from assms show name: "name \<noteq> []" by (simp add: isToken_def)
  have "\<And>c. c \<in> set name \<Longrightarrow> c \<noteq> CHR ''='' \<and> c \<noteq> CHR '';'' \<and> \<not> jsonSpace c"
    using assms tokenChar_plain unfolding isToken_def list_all_iff by blast
  from this name show "CHR ''='' \<notin> set name" "CHR '';'' \<notin> set name" "\<not> jsonSpace (hd name)" "\<not> jsonSpace (last name)"
    by (blast, blast, simp, simp)
qed

lemma cookieText_plain:
  assumes "cookieText v" and "v \<noteq> []"
  shows "CHR '';'' \<notin> set v" "\<not> jsonSpace (last v)" "hd v \<noteq> quote" "cookieValue v = Some v"
proof -
  have char: "\<And>c. c \<in> set v \<Longrightarrow> 32 < byte c \<and> byte c < 127 \<and> c \<noteq> quote \<and> c \<noteq> CHR '';'' \<and> c \<noteq> bslash"
    using assms(1) unfolding cookieText_def list_all_iff by blast
  then show "CHR '';'' \<notin> set v" "hd v \<noteq> quote" using assms(2) by (blast, simp)
  have "32 < byte (last v)" using char assms(2) by simp
  then show "\<not> jsonSpace (last v)" unfolding jsonSpace_def by (intro notI) (elim disjE; simp)
  show "cookieValue v = Some v"
    using char \<open>hd v \<noteq> quote\<close> by (simp add: cookieValue_def list_all_iff less_imp_le)
qed

text \<open>The cookie that was set comes back as it was.\<close>

lemma readCookie_back:
  assumes "isToken name" and "cookieText v" and "v \<noteq> []"
    and "rq_Header r ''Cookie'' = [name @ ''='' @ v]"
  shows "readCookie r name = Some v"
proof -
  note name = token_plain [OF assms(1)] and v = cookieText_plain [OF assms(2,3)]
  have trim: "trimASCII (name @ ''='' @ v) = name @ ''='' @ v"
    using name v assms(3) by (intro trimASCII_id) auto
  moreover have "CHR '';'' \<notin> set (name @ ''='' @ v)" using name v by simp
  ultimately have "concat (map (\<lambda>line. SplitOn (CHR '';'') (trimASCII line)) (rq_Header r ''Cookie'')) = [name @ ''='' @ v]"
    by (simp add: assms(4) SplitOn_end)
  moreover have "cookiePart name (name @ ''='' @ v) = Some v"
  proof -
    have "cutAt (CHR ''='') (name @ ''='' @ v) = (name, v)"
      using name(2) by (simp add: cutAt_append)
    moreover have "trimASCII name = name" using name by (intro trimASCII_id)
    moreover note v(4)
    ultimately show ?thesis using assms(1) name(1) by (simp add: cookiePart_def trim [simplified])
  qed
  ultimately show ?thesis using name(1) by (simp add: readCookie_def sql_first_def)
qed

lemma HexEncode_cookieText: "cookieText (HexEncode bs)"
proof (induction bs)
  case Nil
  then show ?case by (simp add: cookieText_def HexEncode_def)
next
  case (Cons b bs)
  have "list_all (\<lambda>c. 32 < byte c \<and> byte c < 127 \<and> c \<noteq> quote \<and> c \<noteq> CHR '';'' \<and> c \<noteq> bslash) hexDigits"
    by code_simp
  moreover have "byte b div 16 < length hexDigits" "byte b mod 16 < length hexDigits"
    by (simp_all add: hexDigits_def less_mult_imp_div_less)
  ultimately show ?case
    using Cons nth_mem [of _ hexDigits] by (simp add: cookieText_def HexEncode_def list_all_iff)
qed

section \<open>Signing in\<close>

lemma login_token:
  assumes "svc_Login sv input h = (Inr res, k)" and "documentedRuntime (sv_runtime sv)"
  obtains bs where "lo_SessionToken res = HexEncode bs" "length bs = 32"
  using assms by (elim Login_Inr) (auto simp: documentedRuntime_def)

lemma route_of:
  assumes "list_all (\<lambda>(m, p, f). m = method \<longrightarrow> matchSegments p path \<noteq> None \<longrightarrow> f = g) webRoutes"
    and "(method, p, f) \<in> set webRoutes" and "matchSegments p path \<noteq> None"
  shows "f = g"
  using assms unfolding list_all_iff by blast

lemma route_of_login: "(''POST'', p, f) \<in> set webRoutes \<Longrightarrow> matchSegments p [''login''] \<noteq> None \<Longrightarrow> f = plain webLogin"
  by (rule route_of [rotated], assumption+) (simp add: webRoutes_def)

lemma route_of_status: "(''GET'', p, f) \<in> set webRoutes \<Longrightarrow> matchSegments p [''status''] \<noteq> None \<Longrightarrow> f = plain webStatus"
  by (rule route_of [rotated], assumption+) (simp add: webRoutes_def)

lemma route_of_setup: "(''POST'', p, f) \<in> set webRoutes \<Longrightarrow> matchSegments p [''setup''] \<noteq> None \<Longrightarrow> f = plain webSetup"
  by (rule route_of [rotated], assumption+) (simp add: webRoutes_def)

lemma route_of_nodes: "(''POST'', p, f) \<in> set webRoutes \<Longrightarrow> matchSegments p [''nodes''] \<noteq> None \<Longrightarrow> f = plain webRegisterNode"
  by (rule route_of [rotated], assumption+) (simp add: webRoutes_def)

lemma webRoutes_known: "(''POST'', [Lit ''login''], plain webLogin) \<in> set webRoutes"
    "(''GET'', [Lit ''status''], plain webStatus) \<in> set webRoutes"
    "(''POST'', [Lit ''setup''], plain webSetup) \<in> set webRoutes"
    "(''POST'', [Lit ''nodes''], plain webRegisterNode) \<in> set webRoutes"
  by (simp_all add: webRoutes_def)

lemma serveMux_known:
  assumes "webRequest sv r" and "(rq_Method r, p, g) \<in> set webRoutes" and "matchSegments p (webPath sv r) \<noteq> None"
    and "\<And>q f. (rq_Method r, q, f) \<in> set webRoutes \<Longrightarrow> matchSegments q (webPath sv r) \<noteq> None \<Longrightarrow> f = plain e"
    and "rq_Method r \<noteq> ''HEAD''"
  shows "serveMux sv r = e sv r"
proof -
  let ?b = "map Lit (baseSegments (cf_WebAuthBase (hs_config sv)))"
  have "(rq_Method r, ?b @ p, g) \<in> set (outerRoutes sv)"
    using assms(2) by (auto simp: outerRoutes_def mounted_in)
  moreover have "matchSegments (?b @ p) (rq_Segments r) \<noteq> None"
    using assms(1,3) by (simp add: matchSegments_base webRequest_def webPath_def)
  ultimately have "findRoute (outerRoutes sv) (rq_Method r) (rq_Segments r) \<noteq> None"
    using findRoute_None [of "outerRoutes sv" "rq_Method r" "rq_Segments r" "(rq_Method r, ?b @ p, g)"] by fastforce
  then obtain m q f where x: "findRoute (outerRoutes sv) (rq_Method r) (rq_Segments r) = Some (m, q, f)"
    by (metis option.exhaust prod_cases3)
  then have in_routes: "(m, q, f) \<in> set (outerRoutes sv)" and match: "matchSegments q (rq_Segments r) \<noteq> None"
    and m: "m = rq_Method r"
    using assms(5) by (auto dest: findRoute_in)
  have "(m, q, f) \<notin> set (mounted (cf_APIBase (hs_config sv)) publicRoutes)"
    using match assms(1) by (auto simp: mounted_in matchSegments_base webRequest_def split: if_splits)
  with in_routes obtain p' where "(m, p', f) \<in> set webRoutes" "q = ?b @ p'"
    by (auto simp: outerRoutes_def mounted_in)
  then have "f = plain e"
    using match m by (intro assms(4) [of p']) (auto simp: matchSegments_base webPath_def split: if_splits)
  then show ?thesis by (simp add: serveMux_def x runRoute_def)
qed

text \<open>What a login that is answered with 200 has done.\<close>

lemma finishLogin_ok:
  assumes "finishLogin sv r username password h = (a, k)" and "rs_Status a = 200"
    and "isToken (cf_SessionCookieName (hs_config sv))"
  obtains input res st where "svc_Login (hs_service sv) input h = (Inr res, k)"
    "rs_Body a = Success (DataWebStatus st (Some (lo_Principal res)))"
    "rs_Cookies a = [sessionCookie sv (lo_SessionToken res) False]"
proof -
  have fails: "rs_Status (writeServiceError e) \<noteq> 200" for e
  proof -
    have "list_all (\<lambda>(_, status, _). status \<noteq> 200) errorAnswers" by code_simp
    then show ?thesis
      by (auto simp: writeServiceError_def list_all_length find_Some_iff split: option.splits)
  qed
  from assms(1) show thesis unfolding finishLogin_def
  proof (rule orError_cases)
    fix res j
    assume login: "svc_Login (hs_service sv) (loginAs sv r username password) h = (Inr res, j)"
      and rest: "apfst (setCookie (sessionCookie sv (lo_SessionToken res) False))
        (writeWebStatus sv (Some (lo_Principal res)) j) = (a, k)"
    obtain b i where b: "writeWebStatus sv (Some (lo_Principal res)) j = (b, i)" by fastforce
    then obtain st where "b = writeData (DataWebStatus st (Some (lo_Principal res)))" "i = j"
      by (auto simp: writeWebStatus_def svc_State_def orError_def bindA_def returnA_def)
    with rest b assms(3) login show thesis
      by (intro that [of "loginAs sv r username password" res st])
         (auto simp: setCookie_def sessionCookie_def)
  qed (use assms(2) fails in simp)
qed

lemma writeWebStatus_data: "\<exists>st. writeWebStatus sv p h = (writeData (DataWebStatus st p), h)"
  by (simp add: writeWebStatus_def svc_State_def orError_def bindA_def returnA_def readA_def) (rule exI, rule refl)

end
