(* ===== verification/Http_Theorems.thy ===== *)
theory Http_Theorems
  imports Http_Life Service_Theorems
begin

text \<open>
  The properties of the HTTP handlers: what a request needs to change anything, and that a login in
  the browser is a session on the next request.
\<close>

section \<open>An example server\<close>

text \<open>The configuration of an empty environment, with a service token.\<close>

definition exampleConfig :: Config where
  "exampleConfig = \<lparr>cf_RegistrationEnabled = False, cf_Address = ''0.0.0.0:8020'',
     cf_LogLevel = ''info'', cf_LogFormat = ''json'', cf_LogPath = ''.nexus/control/logs/logger.log'',
     cf_LogStdout = True, cf_LogNoColor = False, cf_LogFileEnabled = True, cf_LogRotateDaily = True,
     cf_LogMaxSizeMB = 10, cf_LogMaxAgeDays = 7, cf_LogMaxBackups = 7, cf_LogCompress = True,
     cf_DatabaseDriver = ''sqlite'', cf_DatabaseURL = ''.nexus/control/data/control.db'',
     cf_APIBase = ''/api/control/v1'', cf_WebAuthBase = ''/auth/v1'',
     cf_ServiceToken = ''ssssssssssssssssssssssssssssssss'',
     cf_ServiceTokenFile = ''.nexus/control/control-service.token'', cf_SetupToken = '''',
     cf_SigningPrivateKey = '''', cf_SigningKeyFile = ''.nexus/control/control-signing.key'',
     cf_SigningPublicKeyFile = ''.nexus/control/control-signing.pub'', cf_SessionTTL = 86400000000000,
     cf_SessionCookieName = ''nexus_session'', cf_CookieSecure = False, cf_CookieSameSite = ''lax'',
     cf_PrincipalTTL = 60000000000, cf_PrincipalAudience = ''nexus-runtime''\<rparr>"

lemma exampleConfig_read: "exampleConfig = (readConfig Map.empty)\<lparr>cf_ServiceToken := replicate 32 CHR ''s''\<rparr>"
  by code_simp

definition exampleServer :: HTTPServer where
  "exampleServer = \<lparr>hs_config = exampleConfig, hs_service = exampleService, hs_ping = True, hs_ipv6 = (\<lambda>_. None)\<rparr>"

definition exampleRequest :: "string \<Rightarrow> string list \<Rightarrow> (string \<times> string) list \<Rightarrow> string \<Rightarrow> http_request" where
  "exampleRequest method path headers content =
     \<lparr>rq_Method = method, rq_Segments = path, rq_RawQuery = '''',
      rq_Header = (\<lambda>name. case map_of headers name of None \<Rightarrow> [] | Some v \<Rightarrow> [v]),
      rq_Host = ''h'', rq_TLS = False, rq_RemoteAddr = '''',
      rq_ContentLength = int (length content), rq_Body = content\<rparr>"

section \<open>Guards\<close>

text \<open>C23: a request under the internal path of the API (and not under the browser's base path) without
  the service token is refused as unauthenticated, whatever its method, path and body, and changes
  nothing in the database.\<close>

theorem internal_routes_need_the_service_token:
  assumes "underInternal sv (rq_Segments r)" and "\<not> bearerMatches r (cf_ServiceToken (hs_config sv))"
    and "\<not> prefix (baseSegments (cf_WebAuthBase (hs_config sv))) (rq_Segments r)"
  shows "rs_Status (fst (serveHTTP sv r h)) = 401 \<and>
     rs_Body (fst (serveHTTP sv r h)) = Failure ''control.service_credential_invalid'' Authentication NotApplied \<and>
     h_db (snd (serveHTTP sv r h)) = h_db h"
proof -
  obtain a k where serve: "serveHTTP sv r h = (a, k)" by fastforce
  then obtain rid b j where "h_db j = h_db h" and mux: "serveMux sv (withID rid r) j = (b, k)"
    and "rs_Status a = rs_Status b" "rs_Body a = rs_Body b"
    by (rule serveHTTP_mux)
  moreover from mux have "b = writeError 401 ''service_credential_invalid''" "k = j"
    using assms by (simp_all add: serveMux_internal requireService_def)
  ultimately show ?thesis by (simp add: serve failureCategory_def)
qed

definition exampleIntrusion :: http_request where
  "exampleIntrusion = exampleRequest ''POST'' [''api'', ''control'', ''v1'', ''internal'', ''deployment-members'', ''manage'']
     [(''Authorization'', ''Bearer guess'')] ''{}''"

theorem internal_routes_need_the_service_token_witness:
  "rs_Status (fst (serveHTTP exampleServer exampleIntrusion exampleLoggedIn)) = 401 \<and>
   h_db (snd (serveHTTP exampleServer exampleIntrusion exampleLoggedIn)) = h_db exampleLoggedIn"
proof -
  have "underInternal exampleServer (rq_Segments exampleIntrusion)"
    and "\<not> bearerMatches exampleIntrusion (cf_ServiceToken (hs_config exampleServer))"
    and "\<not> prefix (baseSegments (cf_WebAuthBase (hs_config exampleServer))) (rq_Segments exampleIntrusion)"
    by code_simp+
  from internal_routes_need_the_service_token [OF this] show ?thesis by simp
qed

text \<open>C24: a request of the browser with another method than GET that comes from a foreign origin, or
  that names none, is refused and changes nothing; the exchange of node tokens, which takes no
  cookie, is the one exception.\<close>

theorem foreign_origin_changes_nothing:
  assumes "webRequest sv r" and "\<not> webOriginMatches sv r" and "rq_Method r \<notin> {''GET'', ''HEAD''}"
    and "webPath sv r \<noteq> [''nodes'', ''token'']"
  shows "h_db (snd (serveHTTP sv r h)) = h_db h \<and> rs_Status (fst (serveHTTP sv r h)) \<in> {403, 404, 405} \<and>
     rs_Cookies (fst (serveHTTP sv r h)) = []"
proof -
  obtain a k where serve: "serveHTTP sv r h = (a, k)" by fastforce
  then obtain rid b j where db: "h_db j = h_db h" and mux: "serveMux sv (withID rid r) j = (b, k)"
    and "rs_Status a = rs_Status b" "rs_Cookies a = rs_Cookies b"
    by (rule serveHTTP_mux)
  moreover have req: "webRequest sv (withID rid r)" using assms(1) by simp
  have "h_db k = h_db h \<and> rs_Status b \<in> {403, 404, 405} \<and> rs_Cookies b = []"
    using req
  proof (cases rule: serveMux_web)
    case (1 m p f vs)
    then have "m \<noteq> ''GET''" and "p \<noteq> [Lit ''nodes'', Lit ''token'']"
      using assms(3,4) matchSegments_literals [of "[''nodes'', ''token'']"] by auto
    with 1(1) assms(2) have "f sv (withID rid r) vs = answerWith (writeError 403 ''origin_invalid'')"
      by (intro web_origin_guard) simp_all
    with 1(4) mux have "b = writeError 403 ''origin_invalid''" "k = j" by simp_all
    with db show ?thesis by simp
  next
    case 2
    then show ?thesis using mux db muxError_simps by auto
  qed
  ultimately show ?thesis by (simp add: serve)
qed

definition exampleForgery :: http_request where
  "exampleForgery = exampleRequest ''POST'' [''auth'', ''v1'', ''organization'', ''dissolve'']
     [(''Origin'', ''http://evil''), (''Cookie'', ''nexus_session='' @ exampleToken)] ''{}''"

theorem foreign_origin_changes_nothing_witness:
  "h_db (snd (serveHTTP exampleServer exampleForgery exampleLoggedIn)) = h_db exampleLoggedIn \<and>
   rs_Status (fst (serveHTTP exampleServer exampleForgery exampleLoggedIn)) \<in> {403, 404, 405}"
proof -
  have "webRequest exampleServer exampleForgery" "\<not> webOriginMatches exampleServer exampleForgery"
    "rq_Method exampleForgery \<notin> {''GET'', ''HEAD''}" "webPath exampleServer exampleForgery \<noteq> [''nodes'', ''token'']"
    by code_simp+
  from foreign_origin_changes_nothing [OF this] show ?thesis by simp
qed

text \<open>C25: a request of the browser whose cookie names no session changes nothing, sets no cookie and is
  refused, unless it is for one of the eight routes that need none: the status, the login, the
  logout, the set-up, the registration, the token of a node, the preview of an invitation and its
  acceptance.\<close>

theorem anonymous_requests_change_nothing:
  assumes "webRequest sv r" and "\<not> openRequest sv r" and "anonymous sv r (h_db h)"
  shows "h_db (snd (serveHTTP sv r h)) = h_db h \<and> rs_Status (fst (serveHTTP sv r h)) \<in> {401, 403, 404, 405} \<and>
     rs_Cookies (fst (serveHTTP sv r h)) = []"
proof -
  obtain a k where serve: "serveHTTP sv r h = (a, k)" by fastforce
  then obtain rid b j where db: "h_db j = h_db h" and mux: "serveMux sv (withID rid r) j = (b, k)"
    and "rs_Status a = rs_Status b" "rs_Cookies a = rs_Cookies b"
    by (rule serveHTTP_mux)
  moreover have req: "webRequest sv (withID rid r)" using assms(1) by simp
  have "h_db k = h_db h \<and> rs_Status b \<in> {401, 403, 404, 405} \<and> rs_Cookies b = []"
    using req
  proof (cases rule: serveMux_web)
    case (1 m p f vs)
    then have "(m, p) \<notin> set openRoutes"
      using assms(2) by (auto simp: openRequest_def list_ex_iff)
    from anonymous_refused [OF 1(1) this, of sv "withID rid r" j vs b k] show ?thesis
      using 1(4) mux db assms(3) by auto
  next
    case 2
    then show ?thesis using mux db muxError_simps by auto
  qed
  ultimately show ?thesis by (simp add: serve)
qed

definition exampleStranger :: http_request where
  "exampleStranger = exampleRequest ''PATCH'' [''auth'', ''v1'', ''profile'']
     [(''Origin'', ''http://h''), (''Cookie'', ''nexus_session=guess'')] ''{}''"

lemma exampleStranger_unknown: "anonymous exampleServer exampleStranger (h_db exampleLoggedIn)"
proof -
  have "list_all (\<lambda>x. s_session_token_hash x \<noteq> hashToken (hs_service exampleServer)
      (sessionToken exampleServer exampleStranger)) (sessions (h_db exampleLoggedIn))"
    by code_simp
  then show ?thesis
    by (auto simp: anonymous_def repo_ResolveSessionByTokenHash_def resolveSession_def list_all_iff
        filter_empty_conv sql_first_def)
qed

theorem anonymous_requests_change_nothing_witness:
  "h_db (snd (serveHTTP exampleServer exampleStranger exampleLoggedIn)) = h_db exampleLoggedIn \<and>
   rs_Status (fst (serveHTTP exampleServer exampleStranger exampleLoggedIn)) \<in> {401, 403, 404, 405}"
proof -
  have "webRequest exampleServer exampleStranger" "\<not> openRequest exampleServer exampleStranger"
    by code_simp+
  from anonymous_requests_change_nothing [OF this exampleStranger_unknown] show ?thesis by simp
qed

section \<open>Signing in\<close>

text \<open>C26: a login in the browser that is answered with 200 sets one cookie that scripts cannot read,
  and the next status request that carries this cookie, before the session ends, is answered for
  the same principal. The configured name of the cookie is a valid one, and the status request brings its
  own request id.\<close>

theorem web_login_signs_in:
  assumes "webRequest sv r" and "rq_Method r = ''POST''" and "webPath sv r = [''login'']"
    and "serveHTTP sv r h = (a, k)" and "rs_Status a = 200"
    and "webRequest sv r'" and "rq_Method r' = ''GET''" and "webPath sv r' = [''status'']"
    and "rq_Header r' ''Cookie'' = [ck_Name (hd (rs_Cookies a)) @ ''='' @ ck_Value (hd (rs_Cookies a))]"
    and "requestID sv r' k = (rid, k)"
    and "schema_ok (h_db h)" and "isToken (cf_SessionCookieName (hs_config sv))"
    and "documentedRuntime (sv_runtime (hs_service sv))" and "h_ticks k = Suc n"
    and "rt_now (sv_runtime (hs_service sv)) (Suc n) <
      rt_now (sv_runtime (hs_service sv)) n + sv_sessionTTL (hs_service sv)"
  shows "\<exists>c p st st'. rs_Cookies a = [c] \<and> ck_HttpOnly c \<and> ck_Secure c = cf_CookieSecure (hs_config sv) \<and>
     rs_Body a = Success (DataWebStatus st (Some p)) \<and>
     rs_Body (fst (serveHTTP sv r' k)) = Success (DataWebStatus st' (Some p))"
proof -
  obtain rd b j where j: "h_db j = h_db h" and mux: "serveMux sv (withID rd r) j = (b, k)"
    and same: "rs_Status a = rs_Status b" "rs_Body a = rs_Body b" "rs_Cookies a = rs_Cookies b"
    using assms(4) by (rule serveHTTP_mux)
  have "serveMux sv (withID rd r) = webLogin sv (withID rd r)"
    using assms(1-3) webRoutes_known(1) by (intro serveMux_known) (auto dest: route_of_login)
  with mux have login: "webLogin sv (withID rd r) j = (b, k)" by simp
  then obtain u w where "finishLogin sv (withID rd r) u w j = (b, k)"
    using assms(5) same(1)
    by (auto simp: webLogin_def requireWebMutationOrigin_def decodeBody_def split: if_splits option.splits)
  then obtain input res st where log: "svc_Login (hs_service sv) input j = (Inr res, k)"
    and b: "rs_Body b = Success (DataWebStatus st (Some (lo_Principal res)))"
    and cookies: "rs_Cookies b = [sessionCookie sv (lo_SessionToken res) False]"
    using assms(5,12) same(1) by (auto elim!: finishLogin_ok)
  obtain bs where token: "lo_SessionToken res = HexEncode bs" and bs: "length bs = 32"
    using login_token [OF log assms(13)] .
  have nonempty: "HexEncode bs \<noteq> []" using bs length_HexEncode [of bs] by auto
  have "readCookie (withID rid r') (cf_SessionCookieName (hs_config sv)) = Some (HexEncode bs)"
    using assms(9) by (intro readCookie_back [OF assms(12) HexEncode_cookieText nonempty])
      (simp add: same(3) cookies sessionCookie_def token)
  then have "sessionToken sv (withID rid r') = lo_SessionToken res"
    by (simp add: sessionToken_def token TrimSpace_all_visible HexEncode_visible)
  then obtain i where i: "webPrincipal sv (withID rid r') k = (Inr (Some (lo_Principal res)), i)"
    using login_then_resolve [OF log assms(11) [folded j] assms(13-15)]
    unfolding webPrincipal_def by (metis eq_fst_iff)
  obtain st' where status: "writeWebStatus sv (Some (lo_Principal res)) i =
      (writeData (DataWebStatus st' (Some (lo_Principal res))), i)"
    using writeWebStatus_data by blast
  have "serveMux sv (withID rid r') = webStatus sv (withID rid r')"
    using assms(6-8) webRoutes_known(2) by (intro serveMux_known) (auto dest: route_of_status)
  with i status have "serveMux sv (withID rid r') k = (writeData (DataWebStatus st' (Some (lo_Principal res))), i)"
    by (simp add: webStatus_def orError_Inr)
  with assms(10) have "rs_Body (fst (serveHTTP sv r' k)) = Success (DataWebStatus st' (Some (lo_Principal res)))"
    by (simp add: serveHTTP_def withID_def)
  with b cookies same show ?thesis by (simp add: sessionCookie_def)
qed

definition exampleSignIn :: http_request where
  "exampleSignIn = exampleRequest ''POST'' [''auth'', ''v1'', ''login'']
     [(''Origin'', ''http://h''), (''X-Request-Id'', ''request-1'')]
     ([CHR ''{'', quote] @ ''username'' @ [quote, CHR '':'', quote] @ ''ANN'' @ [quote, CHR '','', quote] @
      ''password'' @ [quote, CHR '':'', CHR '' '', quote] @ ''password-1'' @ [quote, CHR ''}''])"

definition exampleStatus :: http_request where
  "exampleStatus = exampleRequest ''GET'' [''auth'', ''v1'', ''status'']
     [(''Cookie'', ''nexus_session='' @ exampleToken), (''X-Request-Id'', ''request-2'')] ''''"

lemma exampleSignIn_decoded:
  "map_option (decodeStruct loginFields noLogin) (readBody (rq_Body exampleSignIn)) =
     Some (Some (noLogin\<lparr>li_Username := ''ANN'', li_Password := ''password-1''\<rparr>))"
  by code_simp

lemma exampleSignIn_login: "webOriginMatches exampleServer exampleSignIn"
    "loginAs exampleServer (withID ''request-1'' exampleSignIn) ''ANN'' ''password-1'' = exampleLogin"
    "setCookie (sessionCookie exampleServer exampleToken False) a = a\<lparr>rs_Cookies := sessionCookie exampleServer exampleToken False # rs_Cookies a\<rparr>"
proof -
  show "webOriginMatches exampleServer exampleSignIn" by code_simp
  show "loginAs exampleServer (withID ''request-1'' exampleSignIn) ''ANN'' ''password-1'' = exampleLogin" by code_simp
  have "isToken (ck_Name (sessionCookie exampleServer exampleToken False))" by code_simp
  then show "setCookie (sessionCookie exampleServer exampleToken False) a = a\<lparr>rs_Cookies := sessionCookie exampleServer exampleToken False # rs_Cookies a\<rparr>"
    by (simp add: setCookie_def)
qed

lemma exampleSignIn_answered:
  "(case webLogin exampleServer (withID ''request-1'' exampleSignIn) exampleOwned of (a, k) \<Rightarrow>
      rs_Status a = 200 \<and> map ck_Name (rs_Cookies a) = [''nexus_session''] \<and>
      map ck_Value (rs_Cookies a) = [exampleToken] \<and> h_ticks k = 2)"
proof -
  obtain v where v: "readBody (rq_Body exampleSignIn) = Some v"
      "decodeStruct loginFields noLogin v = Some (noLogin\<lparr>li_Username := ''ANN'', li_Password := ''password-1''\<rparr>)"
    using exampleSignIn_decoded by auto
  have "svc_Login (hs_service exampleServer) exampleLogin exampleOwned =
      (Inr \<lparr>lo_SessionToken = exampleToken, lo_Principal = exampleAnn\<rparr>, exampleLoggedIn)"
    using exampleLoggedIn_reached by (simp add: exampleServer_def)
  moreover obtain st where "writeWebStatus exampleServer (Some exampleAnn) exampleLoggedIn =
      (writeData (DataWebStatus st (Some exampleAnn)), exampleLoggedIn)"
    using writeWebStatus_data by blast
  ultimately have "webLogin exampleServer (withID ''request-1'' exampleSignIn) exampleOwned =
      ((writeData (DataWebStatus st (Some exampleAnn)))\<lparr>rs_Cookies := [sessionCookie exampleServer exampleToken False]\<rparr>,
        exampleLoggedIn)"
    using v by (simp add: webLogin_def requireWebMutationOrigin_def exampleSignIn_login decodeBody_def finishLogin_def
        orError_Inr)
  then show ?thesis
    by (simp add: sessionCookie_def exampleServer_def exampleConfig_def exampleLoggedIn_def)
qed

lemma exampleSignIn_shape: "webRequest exampleServer exampleSignIn" "rq_Method exampleSignIn = ''POST''"
    "webPath exampleServer exampleSignIn = [''login'']" "webRequest exampleServer exampleStatus"
    "rq_Method exampleStatus = ''GET''" "webPath exampleServer exampleStatus = [''status'']"
    "isToken (cf_SessionCookieName (hs_config exampleServer))"
  by code_simp+

lemma exampleSignIn_served:
  "(case serveHTTP exampleServer exampleSignIn exampleOwned of (a, k) \<Rightarrow>
      rs_Status a = 200 \<and> map ck_Name (rs_Cookies a) = [''nexus_session''] \<and>
      map ck_Value (rs_Cookies a) = [exampleToken] \<and> h_ticks k = 2)"
proof -
  have "serveMux exampleServer (withID ''request-1'' exampleSignIn) =
      webLogin exampleServer (withID ''request-1'' exampleSignIn)"
    using exampleSignIn_shape webRoutes_known(1) by (intro serveMux_known) (auto dest: route_of_login)
  moreover have "TrimSpace ''request-1'' = ''request-1''" by code_simp
  then have "requestID exampleServer exampleSignIn exampleOwned = (''request-1'', exampleOwned)"
    by (simp add: requestID_def exampleSignIn_def exampleRequest_def headerGet_def)
  ultimately show ?thesis
    using exampleSignIn_answered by (auto simp: serveHTTP_def withID_def split: prod.splits)
qed

theorem web_login_signs_in_witness:
  "\<exists>st' p. rs_Body (fst (serveHTTP exampleServer exampleStatus
     (snd (serveHTTP exampleServer exampleSignIn exampleOwned)))) = Success (DataWebStatus st' (Some p))"
proof -
  obtain a k where login: "serveHTTP exampleServer exampleSignIn exampleOwned = (a, k)" by fastforce
  with exampleSignIn_served have a: "rs_Status a = 200" "map ck_Name (rs_Cookies a) = [''nexus_session'']"
    "map ck_Value (rs_Cookies a) = [exampleToken]" "h_ticks k = Suc 1"
    by simp_all
  then have cookie: "rq_Header exampleStatus ''Cookie'' = [ck_Name (hd (rs_Cookies a)) @ ''='' @ ck_Value (hd (rs_Cookies a))]"
    by (cases "rs_Cookies a") (simp_all add: exampleStatus_def exampleRequest_def)
  have rid: "requestID exampleServer exampleStatus k = (''request-2'', k)"
  proof -
    have "TrimSpace ''request-2'' = ''request-2''" by code_simp
    then show ?thesis by (simp add: requestID_def exampleStatus_def exampleRequest_def headerGet_def)
  qed
  have clock: "rt_now (sv_runtime (hs_service exampleServer)) (Suc 1) <
      rt_now (sv_runtime (hs_service exampleServer)) 1 + sv_sessionTTL (hs_service exampleServer)"
    by code_simp
  have documented: "documentedRuntime (sv_runtime (hs_service exampleServer))"
    using example_documented by (simp add: exampleServer_def)
  from web_login_signs_in [OF exampleSignIn_shape(1-3) login a(1) exampleSignIn_shape(4-6) cookie rid exampleOwned_ok exampleSignIn_shape(7) documented a(4) clock]
  show ?thesis by (auto simp: login)
qed

end
