(* ===== verification/Http_Effects.thy ===== *)
theory Http_Effects
  imports Http_Life Svc_System
begin

text \<open>
  What the handlers do to the database. The calculus of \<open>Svc_System\<close> is carried on from the actions
  of the service to the handlers: \<open>serves\<close> says which operations of the repository an answer may
  take, and \<open>refusing\<close> and \<open>harmless\<close> that an error, or an answer that is no success, left nothing
  but the book-keeping of sessions and of decided password requests.
\<close>

section \<open>The operations an answer takes\<close>

definition serves :: "(operation \<Rightarrow> bool) \<Rightarrow> handler \<Rightarrow> bool" where
  "serves ok f \<longleftrightarrow> (\<forall>h. \<exists>ops. list_all ok ops \<and> h_db (snd (f h)) = run_all ops (h_db h))"

named_theorems serves_rules \<open>handlers whose operations are known\<close>

lemma serves_answer [serves_rules]: "serves ok (answerWith a)"
  unfolding serves_def by (intro allI exI [of _ "[]"]) simp

lemma serves_apfst [serves_rules]: "serves ok f \<Longrightarrow> serves ok (\<lambda>h. apfst g (f h))"
  by (simp add: serves_def)

lemma serves_orError [serves_rules]:
  assumes "performs ok m" and "\<And>a. serves ok (f a)" shows "serves ok (orError m f)"
  unfolding serves_def
proof
  fix h
  obtain ops where ops: "list_all ok ops" "h_db (snd (m h)) = run_all ops (h_db h)"
    using assms(1) unfolding performs_def by blast
  show "\<exists>ops. list_all ok ops \<and> h_db (snd (orError m f h)) = run_all ops (h_db h)"
  proof (cases "fst (m h)")
    case (Inl e)
    then have "orError m f h = (writeServiceError e, snd (m h))" by (intro orError_Inl) (simp add: prod_eq_iff)
    with ops show ?thesis by auto
  next
    case (Inr a)
    then have eq: "orError m f h = f a (snd (m h))" by (intro orError_Inr) (simp add: prod_eq_iff)
    obtain more where "list_all ok more" "h_db (snd (f a (snd (m h)))) = run_all more (h_db (snd (m h)))"
      using assms(2) unfolding serves_def by blast
    with ops show ?thesis unfolding eq by (intro exI [of _ "ops @ more"]) simp
  qed
qed

lemma serves_if [serves_rules]: "serves ok f \<Longrightarrow> serves ok g \<Longrightarrow> serves ok (if b then f else g)"
  by simp

lemma serves_option [serves_rules]:
  "serves ok f \<Longrightarrow> (\<And>a. serves ok (g a)) \<Longrightarrow> serves ok (case x of None \<Rightarrow> f | Some a \<Rightarrow> g a)"
  by (cases x) simp_all

lemma serves_prod [serves_rules]: "(\<And>a b. serves ok (f a b)) \<Longrightarrow> serves ok (case x of (a, b) \<Rightarrow> f a b)"
  by (cases x) simp

lemma serves_decode [serves_rules]: "(\<And>a. serves ok (f a)) \<Longrightarrow> serves ok (decodeBody r fs zero f)"
  unfolding decodeBody_def by (intro serves_rules)

section \<open>The actions that only read\<close>

lemma performs_allActive [performs_rules]: "performs ok (allActive us ids)"
  by (induction ids) (simp_all only: allActive.simps Let_def performs_return performs_fail performs_if)

lemmas reading_actions = svc_State_def svc_ListMembers_def svc_ListMemberDirectory_def
  svc_ListDeploymentMembers_def svc_ListOwnedAgents_def svc_ListOrganizationAgents_def svc_ListNodes_def
  svc_Node_def svc_ListOrganizationInvitations_def svc_PreviewOrganizationInvitation_def
  svc_VerifyOrganizationMembers_def svc_ActiveRole_def svc_EffectiveEntitlement_def

lemma performs_reading [performs_rules]:
  "performs ok (svc_State sv)" "performs ok (svc_ListMembers p)" "performs ok (svc_ListMemberDirectory p)"
  "performs ok (svc_ListDeploymentMembers p)" "performs ok (svc_ListOwnedAgents p)"
  "performs ok (svc_ListOrganizationAgents p)" "performs ok (svc_ListNodes p)" "performs ok (svc_Node p n)"
  "performs ok (svc_ListOrganizationInvitations p)" "performs ok (svc_PreviewOrganizationInvitation sv t)"
  "performs ok (svc_VerifyOrganizationMembers d g us)" "performs ok (svc_ActiveRole u)"
  "performs ok (svc_EffectiveEntitlement d u)"
  unfolding reading_actions Let_def by (intro performs_rules)+

lemma performs_invitations [performs_rules]:
  "performs wellFormed (svc_RevokeOrganizationInvitation sv p i)"
  "performs wellFormed (svc_DeleteOrganizationInvitation sv p i)"
  unfolding svc_RevokeOrganizationInvitation_def svc_DeleteOrganizationInvitation_def
  by (rule performs_mutateInvitation)+

lemma performs_invitation_choice [performs_rules]:
  "performs wellFormed ((if rm then svc_DeleteOrganizationInvitation else svc_RevokeOrganizationInvitation) sv p i)"
  using performs_invitations by (cases rm) simp_all

lemma performs_principal [performs_rules]: "performs wellFormed (webPrincipal sv r)"
  unfolding webPrincipal_def by (intro performs_rules)

section \<open>Every handler\<close>

lemmas performs_services = performs_SetupOwner performs_Login performs_Logout performs_ExchangeBound
  performs_Exchange performs_UpdateAvatar performs_ChangePassword performs_Settle performs_UpsertPlan
  performs_UpdateEntitlement performs_UpdateMember performs_UpdateDeploymentMember performs_CreateMember
  performs_MutateOrganization performs_JoinOrganization performs_RegisterAccount performs_CreateInvitation
  performs_AcceptInvitation performs_PublishAgent performs_RegisterNode performs_RevokeNode performs_ExchangeNode

lemma serves_guards [serves_rules]:
  "(\<And>p. serves wellFormed (f p)) \<Longrightarrow> serves wellFormed (requireWebPrincipal sv r f)"
  "(\<And>p. serves wellFormed (f p)) \<Longrightarrow> serves wellFormed (webMutation sv r f)"
  "serves ok g \<Longrightarrow> serves ok (requireWebMutationOrigin sv r g)"
  "serves ok g \<Longrightarrow> serves ok (requireService sv r g)"
  unfolding webMutation_def requireWebPrincipal_def requireWebMutationOrigin_def requireService_def
  by (intro serves_rules performs_rules; assumption)+

lemma serves_status [serves_rules]:
  "serves ok (writeWebStatus sv p)" "serves wellFormed (webStatus sv r)" "serves wellFormed (finishLogin sv r u w)"
  unfolding webStatus_def finishLogin_def writeWebStatus_def
  by (intro serves_rules performs_rules performs_services)+

lemma web_handlers_serve:
  "serves wellFormed (webLogin sv r)" "serves wellFormed (webLogout sv r)" "serves wellFormed (webSetup sv r)"
  "serves wellFormed (webRegister sv r)" "serves wellFormed (webUpdateProfile sv r)"
  "serves wellFormed (webChangePassword sv r)" "serves wellFormed (webPasswordReceipt sv r)"
  "serves wellFormed (webPasswordSettle sv r)" "serves wellFormed (webMembers sv r)"
  "serves wellFormed (webMemberDirectory sv r)" "serves wellFormed (webDeploymentMembers sv r)"
  "serves wellFormed (webCreateDeploymentMember sv r)" "serves wellFormed (webUpdateMember sv r x)"
  "serves wellFormed (webUpdateDeploymentMember sv r x)" "serves wellFormed (webAgents sv r)"
  "serves wellFormed (webAgentDirectory sv r)" "serves wellFormed (webPublishAgent sv r x)"
  "serves wellFormed (webNodes sv r)" "serves wellFormed (webRegisterNode sv r)"
  "serves wellFormed (webNode sv r x)" "serves wellFormed (webRevokeNode sv r x)"
  "serves wellFormed (nodeToken sv r)" "serves wellFormed (webOrganizationAction act sv r)"
  "serves wellFormed (webListOrganizationInvitations sv r)"
  "serves wellFormed (webCreateOrganizationInvitation sv r)"
  "serves wellFormed (webMutateOrganizationInvitation rm sv r x)"
  "serves wellFormed (webPreviewOrganizationInvitation sv r x)"
  "serves wellFormed (webAcceptOrganizationInvitation sv r x)" "serves wellFormed (webSubscriptionOverview sv r)"
  "serves wellFormed (webUpsertSubscriptionPlan sv r x)" "serves wellFormed (webUpdateMemberEntitlement sv r x)"
  unfolding web_handlers nodeToken_def Let_def
  by (intro serves_rules performs_rules performs_services)+

lemma web_routes_serve: "(m, p, f) \<in> set webRoutes \<Longrightarrow> serves wellFormed (f sv r vs)"
proof -
  have "list_all (\<lambda>(m, p, f). \<forall>vs. serves wellFormed (f sv r vs)) webRoutes"
    by (simp add: webRoutes_def web_handlers_serve serves_status)
  then show "(m, p, f) \<in> set webRoutes \<Longrightarrow> ?thesis" unfolding list_all_iff by blast
qed

lemma serves_manage [performs_rules]: "performs wellFormed (manageMembers sv p b)"
  unfolding manageMembers_def decodeManagedMemberInput_def
  by (intro performs_rules performs_services)

lemma service_handlers_serve:
  "serves wellFormed (serveHealth sv r)" "serves wellFormed (servePublicKey sv r)"
  "serves wellFormed (serveSetupOwner sv r)" "serves wellFormed (internalState sv r)"
  "serves wellFormed (internalExchange sv r)" "serves wellFormed (internalLatestIdentityInvalidation sv r)"
  "serves wellFormed (internalIdentityInvalidations sv r)" "serves wellFormed (internalVerifyHuman sv r)"
  "serves wellFormed (internalVerifyOrganizationMembers sv r)" "serves wellFormed (internalVerifyAgents sv r)"
  "serves wellFormed (internalManageDeploymentMembers sv r)" "serves wellFormed (internalRole sv r x)"
  "serves wellFormed (internalEntitlement sv r x y)"
  unfolding serveHealth_def servePublicKey_def serveSetupOwner_def internalState_def internalExchange_def
    internalLatestIdentityInvalidation_def internalIdentityInvalidations_def internalVerifyHuman_def
    internalVerifyOrganizationMembers_def internalVerifyAgents_def internalManageDeploymentMembers_def
    internalRole_def internalEntitlement_def Let_def
  by (intro serves_rules performs_rules performs_services)+

lemma other_routes_serve:
  "(m, p, f) \<in> set publicRoutes \<Longrightarrow> serves wellFormed (f sv r vs)"
  "(m, p, f) \<in> set internalRoutes \<Longrightarrow> serves wellFormed (f sv r vs)"
  by (auto simp: publicRoutes_def internalRoutes_def service_handlers_serve)

lemma serves_dispatch:
  assumes "\<And>m p f vs. (m, p, f) \<in> set rs \<Longrightarrow> serves ok (f sv r vs)"
  shows "serves ok (dispatchRoutes rs sv r)"
  using assms unfolding dispatchRoutes_def
  by (auto simp: runRoute_def intro!: serves_rules dest!: findRoute_in split: option.split)

lemma serves_mounted:
  "(\<And>m p f vs. (m, p, f) \<in> set rs \<Longrightarrow> serves ok (f sv r vs)) \<Longrightarrow> (m, q, f) \<in> set (mounted path rs) \<Longrightarrow>
     serves ok (f sv r vs)"
  by (auto simp: mounted_in)

lemma serves_mux: "serves wellFormed (serveMux sv r)"
proof -
  have outer: "serves wellFormed (f sv r vs)" if "(m, p, f) \<in> set (outerRoutes sv)" for m p f vs
    using that web_routes_serve other_routes_serve unfolding outerRoutes_def
    by (auto elim!: serves_mounted [rotated])
  have inner: "serves wellFormed (dispatchRoutes (mounted (cf_APIBase (hs_config sv)) internalRoutes) sv r)"
    using other_routes_serve by (intro serves_dispatch) (auto elim!: serves_mounted [rotated])
  show ?thesis
  proof (cases "findRoute (outerRoutes sv) (rq_Method r) (rq_Segments r)")
    case None
    then show ?thesis unfolding serveMux_def by (simp only: option.case) (intro serves_rules inner)
  next
    case (Some x)
    then show ?thesis using outer unfolding serveMux_def
      by (cases x) (auto simp: runRoute_def dest!: findRoute_in)
  qed
qed

lemma serves_request:
  "\<exists>ops. list_all wellFormed ops \<and> h_db (snd (serveHTTP sv r h)) = run_all ops (h_db h)"
proof -
  obtain a k where "serveHTTP sv r h = (a, k)" by fastforce
  moreover from this obtain rid b j where "h_db j = h_db h" "serveMux sv (withID rid r) j = (b, k)"
    by (rule serveHTTP_mux)
  ultimately show ?thesis using serves_mux [of sv "withID rid r"] unfolding serves_def by (metis snd_conv)
qed

text \<open>A sequence of requests, one after the other.\<close>

definition serveAll :: "HTTPServer \<Rightarrow> http_request list \<Rightarrow> host \<Rightarrow> host" where
  "serveAll sv rs h = fold (\<lambda>r h. snd (serveHTTP sv r h)) rs h"

lemma serveAll_simps [simp]:
  "serveAll sv [] h = h" "serveAll sv (r # rs) h = serveAll sv rs (snd (serveHTTP sv r h))"
  by (simp_all add: serveAll_def)

lemma serves_requests:
  "\<exists>ops. list_all wellFormed ops \<and> h_db (serveAll sv rs h) = run_all ops (h_db h)"
proof (induction rs arbitrary: h)
  case Nil
  then show ?case by (intro exI [of _ "[]"]) simp
next
  case (Cons r rs)
  obtain ops where "list_all wellFormed ops" "h_db (snd (serveHTTP sv r h)) = run_all ops (h_db h)"
    using serves_request by blast
  moreover obtain more where "list_all wellFormed more"
    "h_db (serveAll sv rs (snd (serveHTTP sv r h))) = run_all more (h_db (snd (serveHTTP sv r h)))"
    using Cons.IH by blast
  ultimately show ?case by (intro exI [of _ "ops @ more"]) simp
qed

end
