(* ===== verification/Http_Refusals.thy ===== *)
theory Http_Refusals
  imports Http_Effects Platform_Ownership
begin

text \<open>
  What an answer that is no success leaves in the database: the book-keeping of sessions, whose time
  of last use moves, and of password requests that are decided as not applied.
\<close>

section \<open>Book-keeping\<close>

fun bookkeeping :: "operation \<Rightarrow> bool" where
  "bookkeeping (OpTouchSession i now) \<longleftrightarrow> True"
| "bookkeeping (OpSettlePasswordChange u r e now) \<longleftrightarrow> e = ''not_applied''"
| "bookkeeping _ \<longleftrightarrow> False"

text \<open>The database without what book-keeping changes.\<close>

definition withoutBooks :: "db \<Rightarrow> tables" where
  "withoutBooks s = (tables s)
     \<lparr>t_sessions := map (\<lambda>x. x\<lparr>s_last_seen_at := 0, s_updated_at := 0\<rparr>) (sessions s),
      t_password_change_receipts := filter (\<lambda>x. r_effect x \<noteq> ''not_applied'') (password_change_receipts s)\<rparr>"

lemma withoutBooks_touch: "withoutBooks (sql_touch_session now i s) = withoutBooks s"
  by (simp add: withoutBooks_def sql_touch_session_def update_where_def comp_def cong: list.map_cong)

lemma withoutBooks_receipt: "r_effect x = ''not_applied'' \<Longrightarrow> withoutBooks (sql_insert_receipt x s) = withoutBooks s"
  by (simp add: withoutBooks_def sql_insert_receipt_def)

lemma withoutBooks_keeps: "keeps (\<lambda>t. withoutBooks t = withoutBooks s) (exec_stm (sql_touch_session now i))"
  "e = ''not_applied'' \<Longrightarrow> keeps (\<lambda>t. withoutBooks t = withoutBooks s) (insertReceiptIfAbsent u r e now)"
  unfolding insertReceiptIfAbsent_def
  by (auto simp: keeps_exec_iff withoutBooks_touch withoutBooks_receipt intro!: keeps_rules split: if_splits)

lemma withoutBooks_call:
  "withoutBooks (snd (repo_TouchSession i now s)) = withoutBooks s"
  "e = ''not_applied'' \<Longrightarrow> withoutBooks (snd (repo_SettlePasswordChange u r e now s)) = withoutBooks s"
  unfolding repo_TouchSession_def repo_SettlePasswordChange_def
  by (rule keeps_tx [where P = "\<lambda>t. withoutBooks t = withoutBooks s"];
      (intro keeps_rules withoutBooks_keeps)?; simp add: withoutBooks_touch)+

lemma bookkeeping_op: "bookkeeping x \<Longrightarrow> withoutBooks (run_op x s) = withoutBooks s"
  by (cases x) (simp_all add: withoutBooks_call)

lemma bookkeeping_ops: "list_all bookkeeping ops \<Longrightarrow> withoutBooks (run_all ops s) = withoutBooks s"
  by (induction ops arbitrary: s) (simp_all add: bookkeeping_op)

section \<open>Refusing actions\<close>

text \<open>An error of the action leaves the book-keeping only.\<close>

definition refusing :: "'a act \<Rightarrow> bool" where
  "refusing m \<longleftrightarrow> (\<forall>h e k. m h = (Inl e, k) \<longrightarrow> (\<exists>ops. list_all bookkeeping ops \<and> h_db k = run_all ops (h_db h)))"

lemma refusing_performs: "performs bookkeeping m \<Longrightarrow> refusing m"
  unfolding performs_def refusing_def by (metis snd_conv)

lemma refusing_last:
  assumes "refusing m" and "\<And>a h. \<exists>b. fst (f a h) = Inr b" shows "refusing (bindA m f)"
  unfolding refusing_def
proof (intro allI impI)
  fix h e k
  assume run: "bindA m f h = (Inl e, k)"
  obtain r j where m: "m h = (r, j)" by fastforce
  show "\<exists>ops. list_all bookkeeping ops \<and> h_db k = run_all ops (h_db h)"
  proof (cases r)
    case (Inl d)
    with run m assms(1) show ?thesis by (simp add: bindA_def refusing_def)
  next
    case (Inr a)
    with run m have "f a j = (Inl e, k)" by (simp add: bindA_def)
    with assms(2) [of a j] show ?thesis by simp
  qed
qed

lemma refusing_return: "refusing m \<Longrightarrow> refusing (bindA m (\<lambda>a. returnA (g a)))"
  by (erule refusing_last) simp

lemma refusing_bind:
  assumes "performs bookkeeping m" and "\<And>a. yields m a \<Longrightarrow> refusing (f a)" shows "refusing (bindA m f)"
  unfolding refusing_def
proof (intro allI impI)
  fix h e k
  assume run: "bindA m f h = (Inl e, k)"
  obtain r j where m: "m h = (r, j)" by fastforce
  obtain ops where ops: "list_all bookkeeping ops" "h_db j = run_all ops (h_db h)"
    using assms(1) m unfolding performs_def by (metis snd_conv)
  show "\<exists>ops. list_all bookkeeping ops \<and> h_db k = run_all ops (h_db h)"
  proof (cases r)
    case (Inl e')
    with run m ops show ?thesis by (auto simp: bindA_def)
  next
    case (Inr a)
    with run m have "f a j = (Inl e, k)" by (simp add: bindA_def)
    moreover from m Inr have "yields m a" unfolding yields_def by blast
    ultimately obtain more where "list_all bookkeeping more" "h_db k = run_all more (h_db j)"
      using assms(2) unfolding refusing_def by blast
    with ops show ?thesis by (intro exI [of _ "ops @ more"]) simp
  qed
qed

lemma refusing_whenErr: "refusing m \<Longrightarrow> refusing (whenErr g m)"
  unfolding refusing_def whenErr_def catchA_def
  by (auto split: prod.splits sum.splits)

lemma refusing_if: "(b \<Longrightarrow> refusing m) \<Longrightarrow> (\<not> b \<Longrightarrow> refusing n) \<Longrightarrow> refusing (if b then m else n)"
  by simp

lemma refusing_option:
  "(x = None \<Longrightarrow> refusing m) \<Longrightarrow> (\<And>a. x = Some a \<Longrightarrow> refusing (f a)) \<Longrightarrow>
     refusing (case x of None \<Rightarrow> m | Some a \<Rightarrow> f a)"
  by (cases x) simp_all

lemma refusing_sum:
  "(\<And>e. x = Inl e \<Longrightarrow> refusing (m e)) \<Longrightarrow> (\<And>a. x = Inr a \<Longrightarrow> refusing (f a)) \<Longrightarrow>
     refusing (case x of Inl e \<Rightarrow> m e | Inr a \<Rightarrow> f a)"
  by (cases x) simp_all

lemma refusing_prod: "(\<And>a b. x = (a, b) \<Longrightarrow> refusing (f a b)) \<Longrightarrow> refusing (case x of (a, b) \<Rightarrow> f a b)"
  by (cases x) simp

text \<open>A transaction that fails is rolled back.\<close>

lemma refusing_tx: "refusing (callA (run_tx body))"
  unfolding refusing_def
proof (intro allI impI)
  fix h e k
  assume "callA (run_tx body) h = (Inl e, k)"
  then obtain d where "fst (run_tx body (h_db h)) = Inl d" and k: "h_db k = snd (run_tx body (h_db h))"
    by (cases "fst (run_tx body (h_db h))") (auto simp: callA_def)
  then have "snd (run_tx body (h_db h)) = h_db h" by (intro failed_tx [where e = d]) (simp add: failure_def)
  with k show "\<exists>ops. list_all bookkeeping ops \<and> h_db k = run_all ops (h_db h)"
    by (intro exI [of _ "[]"]) simp
qed

lemma refusing_calls:
  "refusing (callA (repo_UpsertSubscriptionPlan q now))" "refusing (callA (repo_SetMemberEntitlement d u i now))"
  "refusing (callA (repo_UpdateMember d g u b er es v nr ns nn now))" "refusing (callA (repo_CreateDeploymentMember u m))"
  "refusing (callA (repo_UpdateDeploymentMember d u b er es v nr ns nn now))"
  "refusing (callA (repo_CreateOrganizationInvitation iv))"
  "refusing (callA (repo_RevokeOrganizationInvitation g i b now))"
  "refusing (callA (repo_DeleteOrganizationInvitation g i b now))" "refusing (callA (repo_CreateSession y))"
  "refusing (callA (repo_RevokeSession i now))" "refusing (callA (repo_UpsertOwnedAgent z now))"
  "refusing (callA (repo_RegisterNode n))" "refusing (callA (repo_RevokeNode d g u i j now))"
  unfolding operation_defs by (rule refusing_tx)+

lemmas refusing_rules = refusing_calls refusing_return refusing_bind refusing_whenErr refusing_if refusing_option
  refusing_sum refusing_prod

section \<open>The actions of the service\<close>

lemma books_sessions [performs_rules]:
  "performs bookkeeping (touched q now)" "performs bookkeeping (svc_ResolveSession sv t)"
  "performs bookkeeping (svc_VerifyBoundHuman sv u i)" "performs bookkeeping (svc_ExchangeBoundHuman sv u i d)"
  "performs bookkeeping (svc_ExchangePrincipal sv t d)"
  unfolding svc_ResolveSession_def svc_VerifyBoundHuman_def svc_ExchangeBoundHuman_def svc_ExchangePrincipal_def
    touched_def
  by (intro performs_rules; simp)+

lemma books_settle [performs_rules]: "performs bookkeeping (svc_SettlePasswordChangeNotApplied sv u i)"
  unfolding svc_SettlePasswordChangeNotApplied_def settlePasswordChange_def by (intro performs_rules) simp

lemma books_principal [performs_rules]: "performs bookkeeping (webPrincipal sv r)"
  unfolding webPrincipal_def by (intro performs_rules)

lemma refusing_sessions: "refusing (svc_Login sv i)" "refusing (svc_Logout sv t)"
  unfolding svc_Login_def svc_Logout_def
  by (intro refusing_rules performs_rules refusing_performs)+

lemma refusing_members:
  "refusing (svc_CreateDeploymentMember sv p c)" "refusing (svc_UpdateMember sv p u i)"
  "refusing (svc_UpdateDeploymentMember sv p u i)"
  unfolding svc_CreateDeploymentMember_def svc_UpdateMember_def svc_UpdateDeploymentMember_def Let_def
  by (intro refusing_rules performs_rules refusing_performs)+

lemma refusing_agents:
  "refusing (svc_PublishAgent sv p i)" "refusing (svc_RegisterNode sv p n)" "refusing (svc_RevokeNode sv p x)"
  unfolding svc_PublishAgent_def svc_RegisterNode_def svc_RevokeNode_def Let_def
  by (intro refusing_rules performs_rules refusing_performs)+

lemma refusing_invitations:
  "refusing (svc_CreateOrganizationInvitation sv p i)"
  "refusing ((if rm then svc_DeleteOrganizationInvitation else svc_RevokeOrganizationInvitation) sv p x)"
  unfolding svc_CreateOrganizationInvitation_def svc_RevokeOrganizationInvitation_def
    svc_DeleteOrganizationInvitation_def mutateOrganizationInvitation_def Let_def
  by (intro refusing_rules performs_rules refusing_performs)
     (cases rm; simp only: if_True if_False svc_RevokeOrganizationInvitation_def
        svc_DeleteOrganizationInvitation_def mutateOrganizationInvitation_def Let_def;
      intro refusing_rules performs_rules refusing_performs)

text \<open>The overview after an update of the plans is not refused to the manager who made it.\<close>

lemma refusing_overview:
  "refusing m \<Longrightarrow> isManager (pn_Role p) \<Longrightarrow> refusing (bindA m (\<lambda>_. svc_SubscriptionOverview sv p))"
  by (erule refusing_last) (simp add: svc_SubscriptionOverview_def bindA_def readA_def nowA_def returnA_def)

lemma refusing_plans:
  "refusing (svc_UpsertSubscriptionPlan sv p i)" "refusing (svc_UpdateMemberEntitlement sv p u key)"
  unfolding svc_UpsertSubscriptionPlan_def svc_UpdateMemberEntitlement_def Let_def
  by (intro refusing_overview refusing_rules performs_rules refusing_performs; simp)+

section \<open>Declining handlers\<close>

text \<open>An answer of the handler that is no success leaves the book-keeping only.\<close>

definition declining :: "handler \<Rightarrow> bool" where
  "declining f \<longleftrightarrow> (\<forall>h a k. f h = (a, k) \<longrightarrow> (\<forall>d. rs_Body a \<noteq> Success d) \<longrightarrow>
     (\<exists>ops. list_all bookkeeping ops \<and> h_db k = run_all ops (h_db h)))"

lemma declining_answer: "declining (answerWith a)"
  unfolding declining_def by (auto intro!: exI [of _ "[]"])

lemma declining_call:
  assumes "performs bookkeeping m" and "\<And>a. declining (f a)" shows "declining (orError m f)"
  unfolding declining_def
proof (intro allI impI)
  fix h b k
  assume run: "orError m f h = (b, k)" and failed: "\<forall>d. rs_Body b \<noteq> Success d"
  obtain ops where ops: "list_all bookkeeping ops" "h_db (snd (m h)) = run_all ops (h_db h)"
    using assms(1) unfolding performs_def by blast
  from run show "\<exists>ops. list_all bookkeeping ops \<and> h_db k = run_all ops (h_db h)"
  proof (cases rule: orError_cases)
    case (2 a j)
    with failed assms(2) obtain more where "list_all bookkeeping more" "h_db k = run_all more (h_db j)"
      unfolding declining_def by blast
    with 2 ops show ?thesis by (intro exI [of _ "ops @ more"]) simp
  qed (use ops in auto)
qed

lemma declining_end:
  assumes "refusing m" and "\<And>a h. \<exists>d. rs_Body (fst (f a h)) = Success d" shows "declining (orError m f)"
  unfolding declining_def
proof (intro allI impI)
  fix h b k
  assume run: "orError m f h = (b, k)" and failed: "\<forall>d. rs_Body b \<noteq> Success d"
  from run show "\<exists>ops. list_all bookkeeping ops \<and> h_db k = run_all ops (h_db h)"
  proof (cases rule: orError_cases)
    case (1 e)
    with assms(1) show ?thesis unfolding refusing_def by blast
  next
    case (2 a j)
    with assms(2) [of a j] failed show ?thesis by simp
  qed
qed

lemma declining_data: "refusing m \<Longrightarrow> declining (orError m (\<lambda>a. answerWith (writeData (d a))))"
  by (erule declining_end) simp

lemma declining_status:
  "refusing m \<Longrightarrow> declining (orError m (\<lambda>a h. apfst (setCookie (c a)) (writeWebStatus sv (q a) h)))"
proof (erule declining_end)
  fix a h
  obtain st where "writeWebStatus sv (q a) h = (writeData (DataWebStatus st (q a)), h)"
    using writeWebStatus_data by blast
  then show "\<exists>d. rs_Body (fst (apfst (setCookie (c a)) (writeWebStatus sv (q a) h))) = Success d"
    by (simp add: setCookie_def)
qed

lemma declining_if: "declining f \<Longrightarrow> declining g \<Longrightarrow> declining (if b then f else g)"
  by simp

lemma declining_option:
  "declining f \<Longrightarrow> (\<And>a. declining (g a)) \<Longrightarrow> declining (case x of None \<Rightarrow> f | Some a \<Rightarrow> g a)"
  by (cases x) simp_all

lemma declining_prod: "(\<And>a b. declining (f a b)) \<Longrightarrow> declining (case x of (a, b) \<Rightarrow> f a b)"
  by (cases x) simp

lemma declining_decode: "(\<And>a. declining (f a)) \<Longrightarrow> declining (decodeBody r fs zero f)"
  unfolding decodeBody_def by (intro declining_option declining_answer)

lemma declining_guards:
  "(\<And>p. declining (f p)) \<Longrightarrow> declining (requireWebPrincipal sv r f)"
  "(\<And>p. declining (f p)) \<Longrightarrow> declining (webMutation sv r f)"
  "declining g \<Longrightarrow> declining (requireWebMutationOrigin sv r g)"
  unfolding webMutation_def requireWebPrincipal_def requireWebMutationOrigin_def
  by (intro declining_if declining_answer declining_call books_principal declining_option; assumption)+

lemma declining_webStatus: "declining (webStatus sv r)"
proof -
  have "declining (writeWebStatus sv q)" for q
    unfolding writeWebStatus_def by (intro declining_data refusing_performs performs_rules)
  then show ?thesis unfolding webStatus_def by (intro declining_call books_principal)
qed

lemma declining_finishLogin: "declining (finishLogin sv r u w)"
  unfolding finishLogin_def by (intro declining_status refusing_sessions)

lemmas declining_rules = declining_answer declining_data declining_status declining_call declining_if
  declining_option declining_prod declining_decode declining_guards declining_webStatus declining_finishLogin

section \<open>The handlers of the browser\<close>

text \<open>The routes that go on with a fallible step after a committed change.\<close>

definition followedRoutes :: "(string \<times> segment list) list" where
  "followedRoutes =
     [(''POST'', [Lit ''setup'']), (''POST'', [Lit ''register'']), (''PATCH'', [Lit ''profile'']),
      (''POST'', [Lit ''profile'', Lit ''password'']),
      (''POST'', [Lit ''organization-invitations'', Var, Lit ''accept''])] @
     map (\<lambda>action. (''POST'', [Lit ''organization'', Lit action]))
       [''create'', ''rename'', ''leave'', ''transfer'', ''dissolve'']"

lemma followedRoutes_method: "(m, p) \<in> set followedRoutes \<Longrightarrow> m \<noteq> ''GET''"
  by (auto simp: followedRoutes_def)

definition followedRequest :: "HTTPServer \<Rightarrow> http_request \<Rightarrow> bool" where
  "followedRequest sv r \<longleftrightarrow>
     list_ex (\<lambda>(m, p). m = rq_Method r \<and> matchSegments p (webPath sv r) \<noteq> None) followedRoutes"

lemma withID_followed [simp]: "followedRequest sv (withID rid r) = followedRequest sv r"
  by (simp add: followedRequest_def)

lemma handlers_decline:
  "declining (webLogin sv r)" "declining (webLogout sv r)" "declining (webPasswordReceipt sv r)"
  "declining (webPasswordSettle sv r)" "declining (webMembers sv r)" "declining (webMemberDirectory sv r)"
  "declining (webDeploymentMembers sv r)" "declining (webCreateDeploymentMember sv r)"
  "declining (webUpdateMember sv r x)" "declining (webUpdateDeploymentMember sv r x)" "declining (webAgents sv r)"
  "declining (webAgentDirectory sv r)" "declining (webPublishAgent sv r x)" "declining (webNodes sv r)"
  "declining (webRegisterNode sv r)" "declining (webNode sv r x)" "declining (webRevokeNode sv r x)"
  "declining (nodeToken sv r)" "declining (webListOrganizationInvitations sv r)"
  "declining (webCreateOrganizationInvitation sv r)" "declining (webMutateOrganizationInvitation rm sv r x)"
  "declining (webPreviewOrganizationInvitation sv r x)" "declining (webSubscriptionOverview sv r)"
  "declining (webUpsertSubscriptionPlan sv r x)" "declining (webUpdateMemberEntitlement sv r x)"
  unfolding web_handlers nodeToken_def Let_def
  by (intro declining_rules refusing_sessions refusing_members refusing_agents refusing_invitations refusing_plans
      refusing_performs performs_rules performs_ExchangeNode)+

lemma routes_decline:
  assumes "(m, p, f) \<in> set webRoutes" and "(m, p) \<notin> set followedRoutes"
  shows "declining (f sv r vs)"
proof -
  have "list_all (\<lambda>(m, p, f). (m, p) \<notin> set followedRoutes \<longrightarrow> (\<forall>vs. declining (f sv r vs))) webRoutes"
    by (simp add: webRoutes_def followedRoutes_def handlers_decline declining_webStatus)
  with assms show ?thesis unfolding list_all_iff by blast
qed

section \<open>The set-up\<close>

lemma SetupOwner_created:
  assumes "svc_SetupOwner sv i h = (Inr p, k)"
  obtains q s where "repo_CreateOwner q s = (Inr (), h_db k)"
proof -
  have "\<exists>q s. repo_CreateOwner q s = (Inr (), h_db k)"
    using assms unfolding svc_SetupOwner_def Let_def refuse_def
    by (auto simp: attachEntitlement_Inr split: if_splits) blast
  then show thesis using that by blast
qed

lemma created_owner_closes_setup: "repo_CreateOwner q s = (Inr (), t) \<Longrightarrow> \<not> repo_SetupRequired t"
  using owns_setup [OF CreateOwner_Inr] by (simp add: repo_SetupRequired_def)

lemma login_refuses_blank:
  "TrimSpace (li_Password i) = '''' \<Longrightarrow> svc_Login sv i h = (Inl ErrInvalidCredentials, h)"
  by (simp add: svc_Login_def split: sum.split)

lemma credentials_answer: "writeServiceError ErrInvalidCredentials = writeError 401 ''credentials_invalid''"
  by (simp add: writeServiceError_def errorAnswers_def)

lemma webSetup_blank:
  assumes "webOriginMatches sv r" and "cf_SetupToken (hs_config sv) \<noteq> []"
    and "bearerMatches r (cf_SetupToken (hs_config sv))"
    and "readBody (rq_Body r) = Some v" and "decodeStruct setupFields noSetup v = Some i"
    and "svc_SetupOwner (hs_service sv) i h = (Inr p, k)" and "TrimSpace (su_Password i) = []"
  shows "webSetup sv r h = (writeError 401 ''credentials_invalid'', k)"
  using assms by (simp add: webSetup_def requireWebMutationOrigin_def decodeBody_def orError_Inr
      finishLogin_def orError_Inl login_refuses_blank loginAs_def credentials_answer)

end
