(* ===== verification/Handler_Theorems.thy ===== *)
theory Handler_Theorems
  imports Http_Theorems Http_Refusals
begin

text \<open>
  The properties of the whole server: what its answers do to the database, and when an answer that
  reports no effect can be believed.
\<close>

section \<open>An example\<close>

definition exampleSetupServer :: HTTPServer where
  "exampleSetupServer = exampleServer\<lparr>hs_config := (hs_config exampleServer)\<lparr>cf_SetupToken := ''s''\<rparr>\<rparr>"

definition blankRequest :: "string \<Rightarrow> http_request" where
  "blankRequest password = exampleRequest ''POST'' [''auth'', ''v1'', ''setup'']
     [(''Origin'', ''http://h''), (''Authorization'', ''Bearer s''), (''X-Request-Id'', ''setup-1'')]
     ([CHR ''{'', quote] @ ''username'' @ [quote, CHR '':'', quote] @ ''ann'' @ [quote, CHR '','', quote] @
      ''password'' @ [quote, CHR '':'', quote] @ password @ [quote, CHR ''}''])"

definition exampleBlank :: SetupOwnerInput where
  "exampleBlank = noSetup\<lparr>su_Username := ''ann'', su_Password := ''        ''\<rparr>"

lemma exampleBlank_guards: "webOriginMatches exampleSetupServer (blankRequest ''        '')"
    "cf_SetupToken (hs_config exampleSetupServer) \<noteq> ''''"
    "bearerMatches (blankRequest ''        '') (cf_SetupToken (hs_config exampleSetupServer))"
    "TrimSpace (su_Password exampleBlank) = ''''"
  by code_simp+

lemma exampleBlank_decoded:
  "map_option (decodeStruct setupFields noSetup) (readBody (rq_Body (blankRequest ''        ''))) =
     Some (Some exampleBlank)"
  by code_simp

lemma exampleBlank_evaluated:
  "(case svc_SetupOwner (hs_service exampleSetupServer) exampleBlank exampleHost of (r, k) \<Rightarrow>
     (case r of Inl _ \<Rightarrow> False | Inr _ \<Rightarrow>
        map (\<lambda>x. (o_organization_id x, o_status x)) (organizations (h_db k)) =
          [(''org_636363636363636363636363'', ''active'')]))"
  by code_simp

lemma exampleBlank_created:
  obtains p k where "svc_SetupOwner (hs_service exampleSetupServer) exampleBlank exampleHost = (Inr p, k)"
    "map (\<lambda>x. (o_organization_id x, o_status x)) (organizations (h_db k)) = [(''org_636363636363636363636363'', ''active'')]"
  using exampleBlank_evaluated by (auto split: prod.splits sum.splits)

lemma exampleBlank_served:
  obtains k where "serveAll exampleSetupServer [blankRequest ''        ''] exampleHost = k"
    "map (\<lambda>x. (o_organization_id x, o_status x)) (organizations (h_db k)) = [(''org_636363636363636363636363'', ''active'')]"
proof -
  let ?r = "blankRequest ''        ''"
  obtain v where v: "readBody (rq_Body ?r) = Some v" "decodeStruct setupFields noSetup v = Some exampleBlank"
    using exampleBlank_decoded by auto
  obtain p k where pk: "svc_SetupOwner (hs_service exampleSetupServer) exampleBlank exampleHost = (Inr p, k)"
    and orgs: "map (\<lambda>x. (o_organization_id x, o_status x)) (organizations (h_db k)) = [(''org_636363636363636363636363'', ''active'')]"
    by (rule exampleBlank_created)
  have "webRequest exampleSetupServer ?r" "rq_Method ?r = ''POST''" "webPath exampleSetupServer ?r = [''setup'']"
    by code_simp+
  then have "serveMux exampleSetupServer (withID ''setup-1'' ?r) = webSetup exampleSetupServer (withID ''setup-1'' ?r)"
    using webRoutes_known(3) by (intro serveMux_known) (auto dest: route_of_setup)
  moreover have "webSetup exampleSetupServer (withID ''setup-1'' ?r) exampleHost =
      (writeError 401 ''credentials_invalid'', k)"
    using exampleBlank_guards v pk by (intro webSetup_blank) simp_all
  moreover have "TrimSpace ''setup-1'' = ''setup-1''" by code_simp
  then have "requestID exampleSetupServer ?r exampleHost = (''setup-1'', exampleHost)"
    by (simp add: requestID_def blankRequest_def exampleRequest_def headerGet_def)
  ultimately have "snd (serveHTTP exampleSetupServer ?r exampleHost) = k"
    by (simp add: serveHTTP_def withID_def)
  with orgs show thesis using that by simp
qed

section \<open>Runs of requests\<close>

text \<open>C19: whatever HTTP requests do to the database, in whatever order, on whatever path and however they
  are answered, is a sequence of repository operations in the normal form of the service's checks.\<close>

theorem served_requests_refine_operations:
  "\<exists>ops. list_all wellFormed ops \<and> h_db (serveAll sv rs h) = run_all ops (h_db h)"
  by (rule serves_requests)

text \<open>C20: in every state that HTTP requests reach from the migrated database, an active organization
  has exactly one active owner.\<close>

theorem served_requests_keep_one_owner:
  assumes "h_db h = migrated_db" and "x \<in> set (organizations (h_db (serveAll sv rs h)))" and "o_status x = ''active''"
  shows "activeOwners (o_organization_id x) (h_db (serveAll sv rs h)) = 1"
proof -
  obtain ops where ops: "list_all wellFormed ops" "h_db (serveAll sv rs h) = run_all ops (h_db h)"
    using serves_requests by blast
  have "wellOwned (run_all ops migrated_db)"
    using own_runs [OF _ _ own_start, of ops] ops(1) wellFormed_namesOrg
    by (auto simp: runs_run_all list_all_iff)
  then show ?thesis using assms ops(2) exactly_one_owner by simp
qed

theorem served_requests_keep_one_owner_witness:
  "activeOwners ''org_636363636363636363636363''
     (h_db (serveAll exampleSetupServer [blankRequest ''        ''] exampleHost)) = 1"
proof -
  obtain k where k: "serveAll exampleSetupServer [blankRequest ''        ''] exampleHost = k"
    and "map (\<lambda>x. (o_organization_id x, o_status x)) (organizations (h_db k)) = [(''org_636363636363636363636363'', ''active'')]"
    by (rule exampleBlank_served)
  then obtain x where "x \<in> set (organizations (h_db k))" "o_organization_id x = ''org_636363636363636363636363''"
      "o_status x = ''active''"
    by (auto simp: map_eq_Cons_conv)
  moreover have "h_db exampleHost = migrated_db" by (simp add: exampleHost_def)
  ultimately show ?thesis
    using served_requests_keep_one_owner [of exampleHost x exampleSetupServer "[blankRequest ''        '']"]
    unfolding k by (simp only: simp_thms)
qed

section \<open>The set-up with a blank password\<close>

text \<open>C22: a set-up whose password is blank is answered as a refused login without effect, although the
  account was created: the set-up is closed from then on, and no login with that password is
  accepted, whatever happens to the database.\<close>

theorem blank_password_locks_the_owner_out:
  assumes "webOriginMatches sv r" and "cf_SetupToken (hs_config sv) \<noteq> ''''"
    and "bearerMatches r (cf_SetupToken (hs_config sv))"
    and "readBody (rq_Body r) = Some v" and "decodeStruct setupFields noSetup v = Some i"
    and "svc_SetupOwner (hs_service sv) i h = (Inr p, k)" and "TrimSpace (su_Password i) = ''''"
  shows "webSetup sv r h = (writeError 401 ''credentials_invalid'', k) \<and>
     rs_Body (fst (webSetup sv r h)) = Failure ''control.credentials_invalid'' Authentication NotApplied \<and>
     \<not> repo_SetupRequired (h_db k) \<and>
     (\<forall>l g. li_Password l = su_Password i \<longrightarrow> fst (svc_Login (hs_service sv) l g) = Inl ErrInvalidCredentials)"
proof -
  obtain q s where "repo_CreateOwner q s = (Inr (), h_db k)" using SetupOwner_created [OF assms(6)] .
  then have "\<not> repo_SetupRequired (h_db k)" by (rule created_owner_closes_setup)
  moreover note webSetup_blank [OF assms]
  ultimately show ?thesis using assms(7) by (simp add: login_refuses_blank failureCategory_def)
qed

theorem blank_password_locks_the_owner_out_witness:
  "\<not> repo_SetupRequired (h_db (snd (webSetup exampleSetupServer (blankRequest ''        '') exampleHost))) \<and>
   rs_Body (fst (webSetup exampleSetupServer (blankRequest ''        '') exampleHost)) =
     Failure ''control.credentials_invalid'' Authentication NotApplied"
proof -
  obtain v where v: "readBody (rq_Body (blankRequest ''        '')) = Some v"
      "decodeStruct setupFields noSetup v = Some exampleBlank"
    using exampleBlank_decoded by auto
  obtain p k where "svc_SetupOwner (hs_service exampleSetupServer) exampleBlank exampleHost = (Inr p, k)"
    by (rule exampleBlank_created)
  from blank_password_locks_the_owner_out [OF exampleBlank_guards(1-3) v this exampleBlank_guards(4)]
  show ?thesis by (simp add: failureCategory_def)
qed

section \<open>Refused requests\<close>

text \<open>C21: a request of the browser that is answered with anything but a success has changed nothing but
  the time of last use of sessions and the receipts of password requests that were not applied,
  unless it is for one of the routes that go on with a fallible step after a committed change: the
  set-up, the registration, the acceptance of an invitation, the actions on an organization and
  the changes of the own profile and password.\<close>

theorem refused_requests_only_keep_books:
  assumes "webRequest sv r" and "\<not> followedRequest sv r" and "serveHTTP sv r h = (a, k)"
    and "\<And>d. rs_Body a \<noteq> Success d"
  shows "withoutBooks (h_db k) = withoutBooks (h_db h)"
proof -
  obtain rid b j where db: "h_db j = h_db h" and mux: "serveMux sv (withID rid r) j = (b, k)"
    and same: "rs_Body a = rs_Body b"
    using assms(3) by (rule serveHTTP_mux)
  have "webRequest sv (withID rid r)" using assms(1) by simp
  then have "\<exists>ops. list_all bookkeeping ops \<and> h_db k = run_all ops (h_db j)"
  proof (cases rule: serveMux_web)
    case (1 m p f vs)
    then have "(m, p) \<notin> set followedRoutes"
      using assms(2) followedRoutes_method [of m p] by (auto simp: followedRequest_def list_ex_iff)
    with 1(1) have "declining (f sv (withID rid r) vs)" by (rule routes_decline)
    moreover have "f sv (withID rid r) vs j = (b, k)" using mux 1(4) by simp
    moreover have "\<forall>d. rs_Body b \<noteq> Success d" using assms(4) same by simp
    ultimately show ?thesis unfolding declining_def by blast
  next
    case 2
    then show ?thesis using mux by (intro exI [of _ "[]"]) simp
  qed
  then show ?thesis using bookkeeping_ops db by fastforce
qed

definition exampleRefused :: http_request where
  "exampleRefused = exampleRequest ''POST'' [''auth'', ''v1'', ''nodes'']
     [(''Origin'', ''http://h''), (''X-Request-Id'', ''node-1'')] ''{}''"

lemma exampleRefused_answered:
  "webRegisterNode exampleServer (withID ''node-1'' exampleRefused) exampleLoggedIn =
     (writeError 401 ''session_invalid'', exampleLoggedIn)"
proof -
  have "webOriginMatches exampleServer exampleRefused" "sessionToken exampleServer exampleRefused = ''''"
    by code_simp+
  then show ?thesis
    by (simp add: webRegisterNode_def webMutation_def requireWebMutationOrigin_def requireWebPrincipal_def
        orError_Inr webPrincipal_def svc_ResolveSession_def returnA_def unauthenticated_answer)
qed

theorem refused_requests_only_keep_books_witness:
  "withoutBooks (h_db (snd (serveHTTP exampleServer exampleRefused exampleLoggedIn))) =
     withoutBooks (h_db exampleLoggedIn)"
proof -
  have shape: "webRequest exampleServer exampleRefused" "rq_Method exampleRefused = ''POST''"
      "webPath exampleServer exampleRefused = [''nodes'']" "\<not> followedRequest exampleServer exampleRefused"
    by code_simp+
  then have "serveMux exampleServer (withID ''node-1'' exampleRefused) =
      webRegisterNode exampleServer (withID ''node-1'' exampleRefused)"
    using webRoutes_known(4) by (intro serveMux_known) (auto dest: route_of_nodes)
  moreover have "TrimSpace ''node-1'' = ''node-1''" by code_simp
  then have "requestID exampleServer exampleRefused exampleLoggedIn = (''node-1'', exampleLoggedIn)"
    by (simp add: requestID_def exampleRefused_def exampleRequest_def headerGet_def)
  ultimately have serve: "serveHTTP exampleServer exampleRefused exampleLoggedIn =
      ((writeError 401 ''session_invalid'')\<lparr>rs_RequestID := ''node-1''\<rparr>, exampleLoggedIn)"
    by (simp add: serveHTTP_def withID_def exampleRefused_answered [unfolded withID_def])
  show ?thesis using refused_requests_only_keep_books [OF shape(1,4) serve] by (simp add: serve)
qed

end
