(* ===== verification/Log_File.thy ===== *)
theory Log_File
  imports Cfg_Database Civil_Time Utf8_Text
begin

text \<open>
  \<open>rolling.go\<close> of \<open>internal/infra/logx\<close>: the log file that is rotated every day and the removal of old
  ones, over a small file system. \<open>filepath.Glob\<close> and \<open>filepath.Match\<close> are written out; the writer of
  the package lumberjack, and the order that \<open>sort.Slice\<close> gives files of the same age, are parameters.
\<close>

section \<open>Paths\<close>

definition lastElement :: "string \<Rightarrow> string" where
  "lastElement path = rev (takeWhile (\<lambda>c. c \<noteq> CHR ''/'') (rev path))"

definition BasePath :: "string \<Rightarrow> string" where
  "BasePath path = (if path = '''' then ''.'' else
     let stripped = rev (dropWhile (\<lambda>c. c = CHR ''/'') (rev path)) in
     if stripped = '''' then ''/'' else lastElement stripped)"

definition ExtPath :: "string \<Rightarrow> string" where
  "ExtPath path = (let name = lastElement path in
     if CHR ''.'' \<notin> set name then '''' else CHR ''.'' # rev (takeWhile (\<lambda>c. c \<noteq> CHR ''.'') (rev name)))"

definition TrimSuffix :: "string \<Rightarrow> string \<Rightarrow> string" where
  "TrimSuffix s x = (if suffix x s then take (length s - length x) s else s)"

section \<open>Patterns\<close>

definition hasMeta :: "string \<Rightarrow> bool" where
  "hasMeta path \<longleftrightarrow> list_ex (\<lambda>c. c \<in> set ''*?['' \<or> c = backslash) path"

text \<open>\<open>scanChunk\<close>: whether stars come first, the part up to the next star outside brackets, the rest.\<close>

fun chunkLength :: "bool \<Rightarrow> string \<Rightarrow> nat" where
  "chunkLength brackets [] = 0"
| "chunkLength brackets (c # s) =
     (if c = backslash then (case s of [] \<Rightarrow> 1 | _ # t \<Rightarrow> Suc (Suc (chunkLength brackets t)))
      else if c = CHR ''['' then Suc (chunkLength True s)
      else if c = CHR '']'' then Suc (chunkLength False s)
      else if c = CHR ''*'' \<and> \<not> brackets then 0
      else Suc (chunkLength brackets s))"

definition scanChunk :: "string \<Rightarrow> bool \<times> string \<times> string" where
  "scanChunk pattern =
     (let rest = dropWhile (\<lambda>c. c = CHR ''*'') pattern; n = chunkLength False rest in
      (pattern \<noteq> '''' \<and> hd pattern = CHR ''*'', take n rest, drop n rest))"

text \<open>One bound of a bracket range, and what follows, of which there must be something.\<close>

definition getEsc :: "string \<Rightarrow> (nat \<times> string) option" where
  "getEsc chunk =
     (case chunk of [] \<Rightarrow> None | c # cs \<Rightarrow>
      if c = CHR ''-'' \<or> c = CHR '']'' then None else
      let s = (if c = backslash then cs else chunk); (r, n) = utf8Decode s; rest = drop n s in
      if s = '''' \<or> utf8Length s = 0 \<or> rest = '''' then None else Some (r, rest))"

lemma getEsc_length:
  assumes "getEsc chunk = Some (r, rest)" shows "length rest < length chunk"
proof -
  obtain c cs where chunk: "chunk = c # cs" using assms by (auto simp: getEsc_def split: list.splits)
  define s where "s = (if c = backslash then cs else chunk)"
  have "s \<noteq> ''''" "rest = drop (snd (utf8Decode s)) s"
    using assms unfolding getEsc_def chunk s_def by (auto simp: Let_def split: if_splits prod.splits)
  then have "length rest < length s" using utf8Decode_size [of s] by simp
  also have "length s \<le> length chunk" by (simp add: s_def chunk)
  finally show ?thesis .
qed

text \<open>The ranges of a bracket up to its end: whether one of them has the code point.\<close>

function matchRanges :: "nat \<Rightarrow> bool \<Rightarrow> bool \<Rightarrow> string \<Rightarrow> (bool \<times> string) option" where
  "matchRanges r some found chunk =
     (if prefix '']'' chunk \<and> some then Some (found, tl chunk) else
      case getEsc chunk of None \<Rightarrow> None
      | Some (lo, rest) \<Rightarrow>
        if hd rest = CHR ''-'' then
          (case getEsc (tl rest) of None \<Rightarrow> None
           | Some (hi, rest') \<Rightarrow> matchRanges r True (found \<or> lo \<le> r \<and> r \<le> hi) rest')
        else matchRanges r True (found \<or> lo = r) rest)"
  by pat_completeness auto
termination
  by (relation "measure (\<lambda>(_, _, _, chunk). length chunk)") (auto dest!: getEsc_length)

declare matchRanges.simps [simp del]

lemma matchRanges_length: "matchRanges r some found chunk = Some (b, rest) \<Longrightarrow> length rest \<le> length chunk"
proof (induction r some found chunk rule: matchRanges.induct)
  case (1 r some found chunk)
  show ?case using 1 by (auto simp: matchRanges.simps [of r some found chunk] dest!: getEsc_length
      split: if_splits option.splits) fastforce+
qed

datatype chunk_match = BadPattern | NoMatch | Matched string

text \<open>\<open>matchChunk\<close>: a chunk against the start of a name; after a failure the chunk is only checked.\<close>

function matchChunk :: "bool \<Rightarrow> string \<Rightarrow> string \<Rightarrow> chunk_match" where
  "matchChunk failed [] s = (if failed then NoMatch else Matched s)"
| "matchChunk failed0 (c # cs) s =
     (let failed = (failed0 \<or> s = '''') in
      if c = CHR ''['' then
        (let (r, n) = (if failed then (0, 0) else utf8Decode s); negated = prefix ''^'' cs in
         case matchRanges r False False (if negated then tl cs else cs) of None \<Rightarrow> BadPattern
         | Some (found, rest) \<Rightarrow> matchChunk (failed \<or> found = negated) rest (drop n s))
      else if c = CHR ''?'' then
        (if failed then matchChunk True cs s
         else matchChunk (hd s = CHR ''/'') cs (drop (snd (utf8Decode s)) s))
      else if c = backslash then
        (case cs of [] \<Rightarrow> BadPattern
         | d # ds \<Rightarrow> if failed then matchChunk True ds s else matchChunk (d \<noteq> hd s) ds (tl s))
      else if failed then matchChunk True cs s else matchChunk (c \<noteq> hd s) cs (tl s))"
  by pat_completeness auto
termination
  by (relation "measure (\<lambda>(_, chunk, _). length chunk)") (auto dest!: matchRanges_length split: if_splits)

definition SkipStar :: "string \<Rightarrow> string option" where
  "SkipStar name = (case name of [] \<Rightarrow> None | c # s \<Rightarrow> if c = CHR ''/'' then None else Some s)"

lemma SkipStar_length: "SkipStar name = Some s \<Longrightarrow> length s < length name"
  by (auto simp: SkipStar_def split: list.splits if_splits)

text \<open>The places where a chunk behind a star may begin; the last chunk must reach the end.\<close>

function matchAfterStar :: "bool \<Rightarrow> string \<Rightarrow> string \<Rightarrow> chunk_match" where
  "matchAfterStar final chunk name =
     (case SkipStar name of None \<Rightarrow> NoMatch
      | Some s \<Rightarrow>
        (case matchChunk False chunk s of
           Matched t \<Rightarrow> if final \<and> t \<noteq> '''' then matchAfterStar final chunk s else Matched t
         | NoMatch \<Rightarrow> matchAfterStar final chunk s
         | BadPattern \<Rightarrow> BadPattern))"
  by pat_completeness auto
termination
  by (relation "measure (\<lambda>(_, _, name). length name)") (auto dest!: SkipStar_length)

declare matchAfterStar.simps [simp del]

lemma scanChunk_length: "p \<noteq> '''' \<Longrightarrow> scanChunk p = (star, chunk, rest) \<Longrightarrow> length rest < length p"
proof -
  assume p: "p \<noteq> ''''" and scan: "scanChunk p = (star, chunk, rest)"
  let ?r = "dropWhile (\<lambda>c. c = CHR ''*'') p"
  have rest: "rest = drop (chunkLength False ?r) ?r" using scan by (simp add: scanChunk_def Let_def)
  show "length rest < length p"
  proof (cases "hd p = CHR ''*''")
    case True
    with p obtain q where "p = CHR ''*'' # q" by (cases p) auto
    then show ?thesis using length_dropWhile_le [of "\<lambda>c. c = CHR ''*''" q] by (simp add: rest)
  next
    case False
    with p obtain c q where q: "p = c # q" "c \<noteq> CHR ''*''" by (cases p) auto
    then have "0 < chunkLength False p" by (auto split: list.splits)
    then show ?thesis using q by (simp add: rest)
  qed
qed

text \<open>The rest of a pattern after a failure is only checked.\<close>

function wellFormedPattern :: "string \<Rightarrow> bool" where
  "wellFormedPattern p = (if p = '''' then True else
     case scanChunk p of (_, chunk, rest) \<Rightarrow> matchChunk False chunk '''' \<noteq> BadPattern \<and> wellFormedPattern rest)"
  by pat_completeness auto
termination by (relation "measure length") (auto dest: scanChunk_length [OF _ sym])

declare wellFormedPattern.simps [simp del]

text \<open>\<open>filepath.Match\<close>: \<open>None\<close> is a bad pattern.\<close>

function MatchName :: "string \<Rightarrow> string \<Rightarrow> bool option" where
  "MatchName p name = (if p = '''' then Some (name = '''') else
     case scanChunk p of (star, chunk, rest) \<Rightarrow>
       if star \<and> chunk = '''' then Some (CHR ''/'' \<notin> set name) else
       let failed = (if wellFormedPattern rest then Some False else None);
           behind = (if \<not> star then failed else
             case matchAfterStar (rest = '''') chunk name of
               Matched t \<Rightarrow> MatchName rest t | BadPattern \<Rightarrow> None | NoMatch \<Rightarrow> failed)
       in case matchChunk False chunk name of
            Matched t \<Rightarrow> if t = '''' \<or> rest \<noteq> '''' then MatchName rest t else behind
          | BadPattern \<Rightarrow> None
          | NoMatch \<Rightarrow> behind)"
  by pat_completeness auto
termination by (relation "measure (\<lambda>(p, _). length p)") (auto dest: scanChunk_length [OF _ sym])

declare MatchName.simps [simp del]

section \<open>Files\<close>

record log_entry =
  le_IsDir :: bool
  le_ModTime :: time
  le_Content :: string

text \<open>
  The files and directories by their paths, the directories that cannot be made and the files that
  cannot be removed.
\<close>

record log_files =
  lf_entries :: "(string \<times> log_entry) list"
  lf_nodir :: "string list"
  lf_stuck :: "string list"

definition statFile :: "log_files \<Rightarrow> string \<Rightarrow> log_entry option" where
  "statFile fs path = map_of (lf_entries fs) path"

definition removeFile :: "string \<Rightarrow> log_files \<Rightarrow> log_files" where
  "removeFile path fs = (if path \<in> set (lf_stuck fs) then fs
     else fs\<lparr>lf_entries := filter (\<lambda>(p, _). p \<noteq> path) (lf_entries fs)\<rparr>)"

definition mkdirAll :: "string \<Rightarrow> time \<Rightarrow> log_files \<Rightarrow> log_files option" where
  "mkdirAll dir now fs = (if dir \<in> set (lf_nodir fs) then None else
     case statFile fs dir of None \<Rightarrow>
         Some (fs\<lparr>lf_entries := lf_entries fs @ [(dir, \<lparr>le_IsDir = True, le_ModTime = now, le_Content = ''''\<rparr>)]\<rparr>)
     | Some e \<Rightarrow> if le_IsDir e then Some fs else None)"

text \<open>The names in a directory, sorted, and those of them that match.\<close>

definition readDirNames :: "log_files \<Rightarrow> string \<Rightarrow> string list" where
  "readDirNames fs dir = sort
     (remdups (map lastElement (filter (\<lambda>p. DirPath p = CleanPath dir \<and> p \<noteq> CleanPath dir) (map fst (lf_entries fs)))))"

text \<open>The matches in one directory, behind those found before; one bad name pattern ends the search.\<close>

fun matchNames :: "string \<Rightarrow> string \<Rightarrow> string list \<Rightarrow> string list option" where
  "matchNames dir pattern [] = Some []"
| "matchNames dir pattern (n # ns) =
     (case MatchName pattern n of None \<Rightarrow> None
      | Some b \<Rightarrow> map_option (\<lambda>ps. if b then JoinPath [dir, n] # ps else ps) (matchNames dir pattern ns))"

definition globDir :: "log_files \<Rightarrow> string \<Rightarrow> string \<Rightarrow> string list option" where
  "globDir fs dir pattern =
     (case statFile fs (CleanPath dir) of None \<Rightarrow> Some []
      | Some e \<Rightarrow> if le_IsDir e then matchNames dir pattern (readDirNames fs dir) else Some [])"

fun globDirs :: "log_files \<Rightarrow> string \<Rightarrow> string list \<Rightarrow> string list option" where
  "globDirs fs pattern [] = Some []"
| "globDirs fs pattern (d # ds) =
     (case globDir fs d pattern of None \<Rightarrow> None | Some ps \<Rightarrow> map_option ((@) ps) (globDirs fs pattern ds))"

definition splitDir :: "string \<Rightarrow> string" where
  "splitDir path = take (length path - length (lastElement path)) path"

definition cleanGlobPath :: "string \<Rightarrow> string" where
  "cleanGlobPath dir = (if dir = '''' then ''.'' else if dir = ''/'' then dir else butlast dir)"

lemma globPath_shorter:
  assumes "hasMeta (cleanGlobPath (splitDir pattern))"
  shows "length (cleanGlobPath (splitDir pattern)) < length pattern"
proof -
  have "splitDir pattern \<noteq> ''''" using assms by (auto simp: cleanGlobPath_def hasMeta_def split: if_splits)
  moreover have "splitDir pattern \<noteq> ''/''" using assms by (auto simp: cleanGlobPath_def hasMeta_def split: if_splits)
  moreover have "length (splitDir pattern) \<le> length pattern" by (simp add: splitDir_def)
  ultimately show ?thesis by (cases "splitDir pattern") (auto simp: cleanGlobPath_def)
qed

text \<open>\<open>filepath.Glob\<close>, with the number of separators that may still come.\<close>

function GlobPath :: "int \<Rightarrow> log_files \<Rightarrow> string \<Rightarrow> string list option" where
  "GlobPath depth fs pattern =
     (if depth \<le> 0 \<or> MatchName pattern '''' = None then None
      else if \<not> hasMeta pattern then Some (case statFile fs (CleanPath pattern) of None \<Rightarrow> [] | Some _ \<Rightarrow> [pattern])
      else let dir = cleanGlobPath (splitDir pattern); name = lastElement pattern in
        if \<not> hasMeta dir then globDir fs dir name
        else case GlobPath (depth - 1) fs dir of None \<Rightarrow> None | Some ds \<Rightarrow> globDirs fs name ds)"
  by pat_completeness auto
termination by (relation "measure (\<lambda>(_, _, pattern). length pattern)") (auto dest: globPath_shorter)

declare GlobPath.simps [simp del]

section \<open>The writer\<close>

record FileOptions =
  fo_Enabled :: bool
  fo_Path :: string
  fo_RotateDaily :: bool
  fo_MaxSizeMB :: int
  fo_MaxAgeDays :: int
  fo_MaxBackups :: int
  fo_Compress :: bool

text \<open>The settings that the package lumberjack is given.\<close>

record lumberjack =
  lj_Filename :: string
  lj_MaxSize :: int
  lj_MaxAge :: int
  lj_MaxBackups :: int
  lj_Compress :: bool
  lj_LocalTime :: bool

record rollingFileWriter =
  rw_options :: FileOptions
  rw_currentDate :: string
  rw_currentPath :: string
  rw_lastCleanupDate :: string
  rw_writer :: "lumberjack option"

datatype log_error = CreateLogDir string | GlobLogFiles string | WriterNotInitialized | WriterFailed string

text \<open>
  The environment, the offset of the local clock, the writing and the closing of lumberjack, and
  the order that the sort of the library gives.
\<close>

record log_outside =
  ox_env :: environment
  ox_zone :: time
  ox_write :: "lumberjack \<Rightarrow> string \<Rightarrow> log_files \<Rightarrow> (string + int) \<times> log_files"
  ox_close :: "lumberjack \<Rightarrow> log_files \<Rightarrow> string option \<times> log_files"
  ox_sort :: "(string \<times> time) list \<Rightarrow> (string \<times> time) list"

definition expandLogPath :: "environment \<Rightarrow> string \<Rightarrow> string" where
  "expandLogPath e raw =
     (if raw = '''' \<or> raw = ''~'' \<or> \<not> prefix ''~/'' raw then raw else
      case homeDir e of None \<Rightarrow> raw
      | Some home \<Rightarrow> if TrimSpace home = '''' then raw else JoinPath [home, TrimPrefix ''~/'' raw])"

definition normalizeFileOptions :: "environment \<Rightarrow> FileOptions \<Rightarrow> FileOptions" where
  "normalizeFileOptions e options = options
     \<lparr>fo_Path := expandLogPath e (TrimSpace (fo_Path options)),
      fo_MaxSizeMB := (if fo_MaxSizeMB options \<le> 0 then 10 else fo_MaxSizeMB options),
      fo_MaxAgeDays := max (fo_MaxAgeDays options) 0,
      fo_MaxBackups := max (fo_MaxBackups options) 0\<rparr>"

definition buildActiveLogPath :: "log_outside \<Rightarrow> string \<Rightarrow> time \<Rightarrow> bool \<Rightarrow> string" where
  "buildActiveLogPath ox basePath now rotateDaily =
     (let path = expandLogPath (ox_env ox) (TrimSpace basePath) in
      if \<not> rotateDaily then path else
      let ext = ExtPath path in
      JoinPath [DirPath path, TrimSuffix (BasePath path) ext @ ''-'' @ dateKey (now + ox_zone ox) @ ext])"

definition dailyLogGlobPattern :: "environment \<Rightarrow> string \<Rightarrow> string" where
  "dailyLogGlobPattern e basePath =
     (let path = expandLogPath e (TrimSpace basePath); ext = ExtPath path;
          name = TrimSuffix (BasePath path) ext in
      JoinPath [DirPath path, if ext = '''' then name @ ''-*'' else name @ ''-*'' @ ext @ ''*''])"

text \<open>The loop over the matches: an old file is removed, the others are candidates.\<close>

fun scanMatches :: "FileOptions \<Rightarrow> time \<Rightarrow> string list \<Rightarrow> log_files \<Rightarrow> (string \<times> time) list \<times> log_files" where
  "scanMatches options cutoff [] fs = ([], fs)"
| "scanMatches options cutoff (p # ps) fs =
     (case statFile fs p of None \<Rightarrow> scanMatches options cutoff ps fs
      | Some e \<Rightarrow>
        if le_IsDir e then scanMatches options cutoff ps fs
        else if 0 < fo_MaxAgeDays options \<and> le_ModTime e < cutoff
        then scanMatches options cutoff ps (removeFile p fs)
        else apfst ((#) (p, le_ModTime e)) (scanMatches options cutoff ps fs))"

definition cleanupOldFiles ::
  "log_outside \<Rightarrow> time \<Rightarrow> rollingFileWriter \<Rightarrow> log_files \<Rightarrow> log_error option \<times> rollingFileWriter \<times> log_files" where
  "cleanupOldFiles ox now w fs =
     (let cleanupDate = dateKey (now + ox_zone ox) in
      if cleanupDate = rw_lastCleanupDate w then (None, w, fs) else
      let w = w\<lparr>rw_lastCleanupDate := cleanupDate\<rparr>; options = rw_options w;
          pattern = dailyLogGlobPattern (ox_env ox) (fo_Path options) in
      case GlobPath 10000 fs pattern of None \<Rightarrow> (Some (GlobLogFiles pattern), w, fs)
      | Some matches \<Rightarrow>
        (let cutoff = now - max (fo_MaxAgeDays options) 0 * (24 * hour);
             (candidates, fs) = scanMatches options cutoff matches fs;
             kept = fo_MaxBackups options + 1 in
         if fo_MaxBackups options \<le> 0 \<or> int (length candidates) \<le> kept then (None, w, fs)
         else (None, w, fold removeFile (map fst (drop (nat kept) (ox_sort ox candidates))) fs)))"

definition rotateIfNeeded ::
  "log_outside \<Rightarrow> time \<Rightarrow> rollingFileWriter \<Rightarrow> log_files \<Rightarrow> log_error option \<times> rollingFileWriter \<times> log_files" where
  "rotateIfNeeded ox now w fs =
     (let options = rw_options w;
          key = (if fo_RotateDaily options then dateKey (now + ox_zone ox) else '''') in
      if rw_writer w \<noteq> None \<and> (\<not> fo_RotateDaily options \<or> rw_currentDate w = key) then (None, w, fs) else
      let target = buildActiveLogPath ox (fo_Path options) now (fo_RotateDaily options) in
      case mkdirAll (DirPath target) now fs of None \<Rightarrow> (Some (CreateLogDir (DirPath target)), w, fs)
      | Some fs \<Rightarrow>
        (let fs = (case rw_writer w of None \<Rightarrow> fs | Some l \<Rightarrow> snd (ox_close ox l fs));
             w = w\<lparr>rw_writer := Some \<lparr>lj_Filename = target, lj_MaxSize = fo_MaxSizeMB options,
                 lj_MaxAge = fo_MaxAgeDays options, lj_MaxBackups = fo_MaxBackups options,
                 lj_Compress = fo_Compress options, lj_LocalTime = True\<rparr>,
               rw_currentDate := key, rw_currentPath := target\<rparr> in
         if fo_RotateDaily options then cleanupOldFiles ox now w fs else (None, w, fs)))"

definition newRollingFileWriter ::
  "log_outside \<Rightarrow> time \<Rightarrow> FileOptions \<Rightarrow> log_files \<Rightarrow> (log_error + rollingFileWriter option) \<times> log_files" where
  "newRollingFileWriter ox now options fs =
     (let normalized = normalizeFileOptions (ox_env ox) options in
      if \<not> fo_Enabled options \<or> fo_Path normalized = '''' then (Inr None, fs) else
      case rotateIfNeeded ox now \<lparr>rw_options = normalized, rw_currentDate = '''', rw_currentPath = '''',
          rw_lastCleanupDate = '''', rw_writer = None\<rparr> fs of
        (Some e, _, fs) \<Rightarrow> (Inl e, fs) | (None, w, fs) \<Rightarrow> (Inr (Some w), fs))"

definition writeLog ::
  "log_outside \<Rightarrow> time \<Rightarrow> string \<Rightarrow> rollingFileWriter \<Rightarrow> log_files \<Rightarrow>
     (log_error + int) \<times> rollingFileWriter \<times> log_files" where
  "writeLog ox now payload w fs =
     (case rotateIfNeeded ox now w fs of
        (Some e, w, fs) \<Rightarrow> (Inl e, w, fs)
      | (None, w, fs) \<Rightarrow>
        (case rw_writer w of None \<Rightarrow> (Inl WriterNotInitialized, w, fs)
         | Some l \<Rightarrow> (case ox_write ox l payload fs of (r, fs) \<Rightarrow> (map_sum WriterFailed id r, w, fs))))"

definition closeLog ::
  "log_outside \<Rightarrow> rollingFileWriter \<Rightarrow> log_files \<Rightarrow> log_error option \<times> rollingFileWriter \<times> log_files" where
  "closeLog ox w fs =
     (case rw_writer w of None \<Rightarrow> (None, w, fs)
      | Some l \<Rightarrow> (case ox_close ox l fs of (e, fs) \<Rightarrow> (map_option WriterFailed e, w\<lparr>rw_writer := None\<rparr>, fs)))"

end
