(* ===== verification/Log_Life.thy ===== *)
theory Log_Life
  imports Log_File "HOL-Library.Multiset"
begin

text \<open>
  Lemmas on the removal of old log files: what the scan of the matches and the removals leave.
\<close>

definition regular :: "log_files \<Rightarrow> string \<Rightarrow> bool" where
  "regular fs q \<longleftrightarrow> (case statFile fs q of None \<Rightarrow> False | Some e \<Rightarrow> \<not> le_IsDir e)"

definition modTime :: "log_files \<Rightarrow> string \<Rightarrow> time" where
  "modTime fs q = (case statFile fs q of None \<Rightarrow> 0 | Some e \<Rightarrow> le_ModTime e)"

definition outdated :: "FileOptions \<Rightarrow> time \<Rightarrow> log_files \<Rightarrow> string \<Rightarrow> bool" where
  "outdated options cutoff fs q \<longleftrightarrow> regular fs q \<and> 0 < fo_MaxAgeDays options \<and> modTime fs q < cutoff"

lemma statFile_remove: "statFile (removeFile p fs) q = (if q = p \<and> p \<notin> set (lf_stuck fs) then None else statFile fs q)"
proof -
  have "map_of (filter (\<lambda>(x, _). x \<noteq> p) es) q = (if q = p then None else map_of es q)" for es :: "(string \<times> log_entry) list" and q
    by (induction es) auto
  then show ?thesis by (simp add: statFile_def removeFile_def)
qed

lemma stuck_remove [simp]: "lf_stuck (removeFile p fs) = lf_stuck fs"
  by (simp add: removeFile_def)

lemma stuck_fold [simp]: "lf_stuck (fold removeFile ps fs) = lf_stuck fs"
  by (induction ps arbitrary: fs) simp_all

lemma statFile_fold: "lf_stuck fs = [] \<Longrightarrow>
    statFile (fold removeFile ps fs) q = (if q \<in> set ps then None else statFile fs q)"
  by (induction ps arbitrary: fs) (auto simp: statFile_remove)

text \<open>After the scan the outdated matches are gone, and the candidates are the other files.\<close>

lemma outdated_remove: "q \<noteq> p \<Longrightarrow> outdated options cutoff (removeFile p fs) q = outdated options cutoff fs q"
    "q \<noteq> p \<Longrightarrow> regular (removeFile p fs) q = regular fs q" "q \<noteq> p \<Longrightarrow> modTime (removeFile p fs) q = modTime fs q"
  by (simp_all add: outdated_def regular_def modTime_def statFile_remove)

lemma regular_remove: "lf_stuck fs = [] \<Longrightarrow> \<not> regular (removeFile p fs) p"
  by (simp add: regular_def statFile_remove)

lemma scanMatches_result:
  assumes "scanMatches options cutoff ps fs = (cs, fs')" and "lf_stuck fs = []"
  shows "lf_stuck fs' = [] \<and>
     statFile fs' q = (if q \<in> set ps \<and> outdated options cutoff fs q then None else statFile fs q) \<and>
     set cs = {(p, modTime fs p) | p. p \<in> set ps \<and> regular fs p \<and> \<not> outdated options cutoff fs p}"
  using assms
proof (induction ps arbitrary: cs fs fs')
  case Nil
  then show ?case by simp
next
  case (Cons p ps)
  show ?case
  proof (cases "outdated options cutoff fs p")
    case True
    then have scan: "scanMatches options cutoff ps (removeFile p fs) = (cs, fs')"
      using Cons.prems by (auto simp: outdated_def regular_def modTime_def split: option.splits)
    have gone: "\<not> regular (removeFile p fs) p" "\<not> outdated options cutoff (removeFile p fs) p"
      using regular_remove [OF Cons.prems(2)] by (simp_all add: outdated_def)
    from Cons.IH [OF scan] Cons.prems(2)
    have "lf_stuck fs' = []"
      and stat: "statFile fs' q = (if q \<in> set ps \<and> outdated options cutoff (removeFile p fs) q then None
        else statFile (removeFile p fs) q)"
      and cs: "set cs = {(r, modTime (removeFile p fs) r) | r. r \<in> set ps \<and> regular (removeFile p fs) r \<and>
        \<not> outdated options cutoff (removeFile p fs) r}"
      by simp_all
    moreover have "set cs = {(r, modTime fs r) | r. r \<in> set (p # ps) \<and> regular fs r \<and> \<not> outdated options cutoff fs r}"
      unfolding cs using gone True by (auto simp: outdated_remove) (metis outdated_remove)+
    ultimately show ?thesis using True Cons.prems(2) gone
      by (auto simp: statFile_remove outdated_remove)
  next
    case False
    note kept = this
    show ?thesis
    proof (cases "regular fs p")
      case True
      then obtain ds where "scanMatches options cutoff ps fs = (ds, fs')" "cs = (p, modTime fs p) # ds"
        using kept Cons.prems
        by (cases "scanMatches options cutoff ps fs")
           (auto simp: outdated_def regular_def modTime_def split: option.splits if_splits)
      with Cons.IH [of fs ds fs'] Cons.prems(2) kept True show ?thesis by auto
    next
      case False
      then have "scanMatches options cutoff ps fs = (cs, fs')"
        using Cons.prems by (auto simp: regular_def split: option.splits)
      with Cons.IH [of fs cs fs'] Cons.prems(2) kept False show ?thesis by auto
    qed
  qed
qed

text \<open>What the removal of old files leaves, for any sort by descending time.\<close>

lemma sorted_take_drop:
  assumes "sorted_wrt (\<lambda>a b. snd b \<le> (snd a :: time)) xs" and "x \<in> set (take n xs)" and "y \<in> set (drop n xs)"
  shows "snd y \<le> snd x"
  using assms sorted_wrt_append [of "\<lambda>a b. snd b \<le> snd a" "take n xs" "drop n xs"] by simp

definition newestFirst :: "((string \<times> time) list \<Rightarrow> (string \<times> time) list) \<Rightarrow> bool" where
  "newestFirst f \<longleftrightarrow> (\<forall>xs. mset (f xs) = mset xs \<and> sorted_wrt (\<lambda>a b. snd b \<le> snd a) (f xs))"

lemma cleanup_cases:
  assumes "cleanupOldFiles ox now w fs = (None, w', fs')" and "dateKey (now + ox_zone ox) \<noteq> rw_lastCleanupDate w"
    and "GlobPath 10000 fs (dailyLogGlobPattern (ox_env ox) (fo_Path (rw_options w))) = Some ms"
  obtains cs gs n where
    "scanMatches (rw_options w) (now - max (fo_MaxAgeDays (rw_options w)) 0 * (24 * hour)) ms fs = (cs, gs)"
    "n = nat (fo_MaxBackups (rw_options w) + 1)"
    "fs' = (if fo_MaxBackups (rw_options w) \<le> 0 \<or> length cs \<le> n then gs
       else fold removeFile (map fst (drop n (ox_sort ox cs))) gs)"
proof -
  let ?o = "rw_options w" and ?cut = "now - max (fo_MaxAgeDays (rw_options w)) 0 * (24 * hour)"
  obtain cs gs where scan: "scanMatches ?o ?cut ms fs = (cs, gs)" by fastforce
  show thesis
    by (rule that [OF scan refl])
       (use assms scan in \<open>auto simp: cleanupOldFiles_def Let_def split: if_splits\<close>)
qed

lemma scanMatches_distinct:
  assumes "scanMatches options cutoff ps fs = (cs, fs')" and "distinct ps"
  shows "set (map fst cs) \<subseteq> set ps \<and> distinct (map fst cs)"
  using assms
proof (induction ps arbitrary: cs fs)
  case (Cons p ps)
  show ?case
  proof (cases "\<exists>gs. scanMatches options cutoff ps gs = (cs, fs')")
    case True
    with Cons show ?thesis by fastforce
  next
    case False
    then obtain e ds where "cs = (p, e) # ds" "scanMatches options cutoff ps fs = (ds, fs')"
      using Cons.prems(1) by (cases "scanMatches options cutoff ps fs") (auto split: option.splits if_splits)
    with Cons.IH [of fs ds] Cons.prems(2) show ?thesis by auto
  qed
qed simp

text \<open>The files that are kept, newest first, before those that are removed.\<close>

lemma cleanup_parts:
  assumes "cleanupOldFiles ox now w fs = (None, w', fs')" and "dateKey (now + ox_zone ox) \<noteq> rw_lastCleanupDate w"
    and "GlobPath 10000 fs (dailyLogGlobPattern (ox_env ox) (fo_Path (rw_options w))) = Some ms"
    and "lf_stuck fs = []" and "newestFirst (ox_sort ox)"
    and "cutoff = now - max (fo_MaxAgeDays (rw_options w)) 0 * (24 * hour)"
  obtains ys xs where "\<And>x y. x \<in> set ys \<Longrightarrow> y \<in> set xs \<Longrightarrow> snd y \<le> snd x"
    and "set ys \<union> set xs = {(p, modTime fs p) | p. p \<in> set ms \<and> regular fs p \<and> \<not> outdated (rw_options w) cutoff fs p}"
    and "\<And>q. statFile fs' q = (if q \<in> fst ` set xs \<or> q \<in> set ms \<and> outdated (rw_options w) cutoff fs q then None
        else statFile fs q)"
    and "distinct ms \<Longrightarrow> distinct (map fst (ys @ xs))"
    and "length ys = (if fo_MaxBackups (rw_options w) \<le> 0 then length (ys @ xs)
        else min (length (ys @ xs)) (nat (fo_MaxBackups (rw_options w) + 1)))"
proof -
  let ?o = "rw_options w" and ?b = "fo_MaxBackups (rw_options w)"
  obtain cs gs n where scan: "scanMatches ?o cutoff ms fs = (cs, gs)" and n: "n = nat (?b + 1)"
    and fs': "fs' = (if ?b \<le> 0 \<or> length cs \<le> n then gs else fold removeFile (map fst (drop n (ox_sort ox cs))) gs)"
    using assms(6) by (rule_tac cleanup_cases [OF assms(1-3)]) simp
  have gs: "lf_stuck gs = []" "\<And>q. statFile gs q = (if q \<in> set ms \<and> outdated ?o cutoff fs q then None else statFile fs q)"
    and cs: "set cs = {(p, modTime fs p) | p. p \<in> set ms \<and> regular fs p \<and> \<not> outdated ?o cutoff fs p}"
    using scanMatches_result [OF scan assms(4)] by blast+
  have sorted: "mset (ox_sort ox cs) = mset cs" "sorted_wrt (\<lambda>a b. snd b \<le> snd a) (ox_sort ox cs)"
    using assms(5) by (simp_all add: newestFirst_def)
  define k where "k = (if ?b \<le> 0 \<or> length cs \<le> n then length cs else n)"
  have same: "length (ox_sort ox cs) = length cs" using sorted(1) by (rule mset_eq_length)
  show thesis
  proof (rule that [of "take k (ox_sort ox cs)" "drop k (ox_sort ox cs)"])
    show "snd y \<le> snd x" if "x \<in> set (take k (ox_sort ox cs))" "y \<in> set (drop k (ox_sort ox cs))" for x y
      using sorted_take_drop [OF sorted(2) that] .
    show "set (take k (ox_sort ox cs)) \<union> set (drop k (ox_sort ox cs)) =
        {(p, modTime fs p) | p. p \<in> set ms \<and> regular fs p \<and> \<not> outdated ?o cutoff fs p}"
      using mset_eq_setD [OF sorted(1)] unfolding set_append [symmetric] append_take_drop_id cs [symmetric] .
    show "statFile fs' q = (if q \<in> fst ` set (drop k (ox_sort ox cs)) \<or> q \<in> set ms \<and> outdated ?o cutoff fs q then None
        else statFile fs q)" for q
      using gs same by (auto simp: fs' k_def statFile_fold)
    show "distinct (map fst (take k (ox_sort ox cs) @ drop k (ox_sort ox cs)))" if "distinct ms"
      using scanMatches_distinct [OF scan that] arg_cong [OF sorted(1), of "image_mset fst"]
      by (metis append_take_drop_id mset_eq_imp_distinct_iff mset_map)
    show "length (take k (ox_sort ox cs)) = (if ?b \<le> 0 then length (take k (ox_sort ox cs) @ drop k (ox_sort ox cs))
        else min (length (take k (ox_sort ox cs) @ drop k (ox_sort ox cs))) (nat (?b + 1)))"
      using same by (auto simp: k_def n)
  qed
qed

lemma cleanup_result:
  assumes "cleanupOldFiles ox now w fs = (None, w', fs')" and "dateKey (now + ox_zone ox) \<noteq> rw_lastCleanupDate w"
    and "GlobPath 10000 fs (dailyLogGlobPattern (ox_env ox) (fo_Path (rw_options w))) = Some ms"
    and "lf_stuck fs = []" and "newestFirst (ox_sort ox)"
    and "cutoff = now - max (fo_MaxAgeDays (rw_options w)) 0 * (24 * hour)"
  shows "statFile fs' q \<noteq> statFile fs q \<Longrightarrow> q \<in> set ms \<and> regular fs q \<and> \<not> regular fs' q"
    and "q \<in> set ms \<Longrightarrow> regular fs' q \<Longrightarrow> \<not> outdated (rw_options w) cutoff fs q"
    and "distinct ms \<Longrightarrow> card {q \<in> set ms. regular fs' q} =
      (let young = card {q \<in> set ms. regular fs q \<and> \<not> outdated (rw_options w) cutoff fs q} in
       if fo_MaxBackups (rw_options w) \<le> 0 then young else min young (nat (fo_MaxBackups (rw_options w) + 1)))"
    and "q \<in> set ms \<Longrightarrow> regular fs' q \<Longrightarrow> p \<in> set ms \<Longrightarrow> regular fs p \<Longrightarrow> \<not> regular fs' p \<Longrightarrow>
      \<not> outdated (rw_options w) cutoff fs p \<Longrightarrow> modTime fs p \<le> modTime fs q"
proof -
  let ?o = "rw_options w"
  obtain ys xs where sorted: "\<And>x y. x \<in> set ys \<Longrightarrow> y \<in> set xs \<Longrightarrow> snd y \<le> snd x"
    and parts: "set ys \<union> set xs = {(p, modTime fs p) | p. p \<in> set ms \<and> regular fs p \<and> \<not> outdated ?o cutoff fs p}"
    and stat: "\<And>q. statFile fs' q = (if q \<in> fst ` set xs \<or> q \<in> set ms \<and> outdated ?o cutoff fs q then None else statFile fs q)"
    and apart: "distinct ms \<Longrightarrow> distinct (map fst (ys @ xs))"
    and size: "length ys = (if fo_MaxBackups ?o \<le> 0 then length (ys @ xs)
        else min (length (ys @ xs)) (nat (fo_MaxBackups ?o + 1)))"
    by (rule cleanup_parts [OF assms]) blast
  have kept: "regular fs' q \<longleftrightarrow> regular fs q \<and> q \<notin> fst ` set xs \<and> \<not> (q \<in> set ms \<and> outdated ?o cutoff fs q)" for q
    by (simp add: regular_def stat)
  have removed: "p \<in> set ms \<and> regular fs p \<and> (p, modTime fs p) \<in> set xs" if p: "p \<in> fst ` set xs" for p
  proof -
    obtain y where y: "y \<in> set xs" "p = fst y" using p by blast
    with parts have "y \<in> {(p, modTime fs p) | p. p \<in> set ms \<and> regular fs p \<and> \<not> outdated ?o cutoff fs p}" by blast
    with y show ?thesis by auto
  qed
  have survivors: "(q, modTime fs q) \<in> set ys" if q: "q \<in> set ms" "regular fs' q" for q
  proof -
    have "(q, modTime fs q) \<in> set ys \<union> set xs" unfolding parts using q by (simp add: kept)
    moreover have "(q, modTime fs q) \<notin> set xs" using q kept [of q] by force
    ultimately show ?thesis by blast
  qed
  show "statFile fs' q \<noteq> statFile fs q \<Longrightarrow> q \<in> set ms \<and> regular fs q \<and> \<not> regular fs' q"
  proof -
    assume "statFile fs' q \<noteq> statFile fs q"
    then consider "q \<in> fst ` set xs" | "q \<in> set ms" "outdated ?o cutoff fs q" unfolding stat by presburger
    then show ?thesis by cases (use removed in \<open>auto simp: kept outdated_def\<close>)
  qed
  show "q \<in> set ms \<Longrightarrow> regular fs' q \<Longrightarrow> \<not> outdated ?o cutoff fs q"
    by (simp add: kept)
  show "q \<in> set ms \<Longrightarrow> regular fs' q \<Longrightarrow> p \<in> set ms \<Longrightarrow> regular fs p \<Longrightarrow> \<not> regular fs' p \<Longrightarrow>
      \<not> outdated ?o cutoff fs p \<Longrightarrow> modTime fs p \<le> modTime fs q"
    using survivors [of q] removed [of p] sorted [of "(q, modTime fs q)" "(p, modTime fs p)"] kept [of p] by simp
  assume "distinct ms"
  from apart [OF this] have d: "distinct (map fst ys)" "distinct (map fst (ys @ xs))" "fst ` set ys \<inter> fst ` set xs = {}"
    by auto
  have young: "{q \<in> set ms. regular fs q \<and> \<not> outdated ?o cutoff fs q} = set (map fst (ys @ xs))"
  proof -
    have "set (map fst (ys @ xs)) = fst ` {(p, modTime fs p) | p. p \<in> set ms \<and> regular fs p \<and> \<not> outdated ?o cutoff fs p}"
      unfolding parts [symmetric] by (simp add: image_Un)
    also have "\<dots> = {q \<in> set ms. regular fs q \<and> \<not> outdated ?o cutoff fs q}"
      by (simp add: setcompr_eq_image image_image)
    finally show ?thesis by simp
  qed
  have "{q \<in> set ms. regular fs' q} = set (map fst ys)"
  proof (intro equalityI subsetI)
    fix q assume q: "q \<in> set (map fst ys)"
    with young have "q \<in> set ms" "regular fs q" "\<not> outdated ?o cutoff fs q" by auto
    with q d(3) show "q \<in> {q \<in> set ms. regular fs' q}" by (auto simp: kept)
  next
    fix q assume "q \<in> {q \<in> set ms. regular fs' q}"
    with survivors [of q] have "(q, modTime fs q) \<in> set ys" by simp
    then show "q \<in> set (map fst ys)" by (metis fst_conv image_eqI set_map)
  qed
  then have kept_count: "card {q \<in> set ms. regular fs' q} = length ys"
    using distinct_card [OF d(1)] by simp
  have young_count: "card {q \<in> set ms. regular fs q \<and> \<not> outdated ?o cutoff fs q} = length (ys @ xs)"
    unfolding young distinct_card [OF d(2)] length_map ..
  show "card {q \<in> set ms. regular fs' q} =
      (let young = card {q \<in> set ms. regular fs q \<and> \<not> outdated ?o cutoff fs q} in
       if fo_MaxBackups ?o \<le> 0 then young else min young (nat (fo_MaxBackups ?o + 1)))"
    unfolding kept_count young_count Let_def by (rule size)
qed

end
