(* ===== verification/Log_Text.thy ===== *)
theory Log_Text
  imports Utf8_Text Cfg_Config
begin

text \<open>
  The values of log lines (\<open>value.go\<close> of \<open>internal/infra/logx\<close> and \<open>PreviewText\<close> of \<open>logger.go\<close>):
  attributes as fields, sizes and durations, quoting and short forms. What \<open>unicode.IsPrint\<close> and \<open>strings.ToUpper\<close> say outside ASCII and the decimal text of
  floating point seconds are parameters.
\<close>

record log_library =
  lb_printable :: "string \<Rightarrow> bool"
  lb_upper :: "string \<Rightarrow> string"
  lb_seconds :: "string \<Rightarrow> string option"

section \<open>Values\<close>

text \<open>
  The values of attributes, resolved; of those that are floating point numbers, durations, times
  and anything else the text that the library gives.
\<close>

datatype log_value =
    LString string | LBool bool | LInt int | LUint int | LText string | LNil
  | LGroup "(string \<times> log_value) list"

type_synonym field = "string \<times> string"

fun stringifyValue :: "log_value \<Rightarrow> string" where
  "stringifyValue (LString s) = s"
| "stringifyValue (LBool b) = (if b then ''true'' else ''false'')"
| "stringifyValue (LInt i) = showInt i"
| "stringifyValue (LUint i) = showInt i"
| "stringifyValue (LText s) = s"
| "stringifyValue LNil = ''<nil>''"
| "stringifyValue (LGroup as) = ''''"

fun appendAttr :: "string list \<Rightarrow> string \<Rightarrow> log_value \<Rightarrow> field list"
and appendAttrs :: "string list \<Rightarrow> (string \<times> log_value) list \<Rightarrow> field list" where
  "appendAttr groups key (LGroup as) =
     appendAttrs (if TrimSpace key = '''' then groups else groups @ [TrimSpace key]) as"
| "appendAttr groups key v =
     (let name = (if groups = [] then key else joinWith ''.'' (groups @ [key])) in
      if key = '''' \<and> v = LNil then [] else if name = '''' then [] else [(name, stringifyValue v)])"
| "appendAttrs groups [] = []"
| "appendAttrs groups ((k, v) # as) = appendAttr groups k v @ appendAttrs groups as"

section \<open>Numbers\<close>

text \<open>Half to even, of the quotient of two natural numbers.\<close>

definition roundEven :: "int \<Rightarrow> int \<Rightarrow> int" where
  "roundEven a b = (let q = a div b; r = a mod b in
     if b < 2 * r \<or> 2 * r = b \<and> odd q then q + 1 else q)"

text \<open>\<open>float64\<close> of an integer below \<open>2 ^ 63\<close>: 53 bits.\<close>

definition float64Int :: "int \<Rightarrow> int" where
  "float64Int v = (let unit = 2 ^ length (takeWhile (\<lambda>e. (2::int) ^ (53 + e) \<le> v) [0..<11]) in
     roundEven v unit * unit)"

text \<open>\<open>%.1f\<close> of such a number over a power of two.\<close>

definition oneDecimal :: "int \<Rightarrow> int \<Rightarrow> string" where
  "oneDecimal v unit = (let tenths = roundEven (float64Int v * 10) unit in
     showInt (tenths div 10) @ ''.'' @ showInt (tenths mod 10))"

definition formatBytes :: "string \<Rightarrow> string" where
  "formatBytes raw = (if raw = '''' then ''0B'' else
     case Atoi raw of None \<Rightarrow> raw
     | Some v \<Rightarrow> if 2 ^ 20 \<le> v then oneDecimal v (2 ^ 20) @ ''M''
         else if 2 ^ 10 \<le> v then oneDecimal v (2 ^ 10) @ ''K'' else showInt v @ ''B'')"

definition formatDuration :: "log_library \<Rightarrow> string \<Rightarrow> string" where
  "formatDuration lib raw = (if raw = '''' then ''-'' else
     case lb_seconds lib raw of None \<Rightarrow> raw @ ''ms'' | Some t \<Rightarrow> t @ ''s'')"

section \<open>Quoting\<close>

definition hexPad :: "nat \<Rightarrow> nat \<Rightarrow> string" where
  "hexPad n i = map (\<lambda>k. hexDigits ! (i div 16 ^ k mod 16)) (rev [0..<n])"

definition quoteRune :: "log_library \<Rightarrow> string \<Rightarrow> string" where
  "quoteRune lib r = (case r of [] \<Rightarrow> [] | c # _ \<Rightarrow>
     if 128 \<le> byte c then
       (if utf8Length r = 0 then [CHR 0x5C, CHR ''x''] @ hexPad 2 (byte c)
        else if lb_printable lib r then r
        else let i = fst (utf8Decode r) in
          if i < 65536 then [CHR 0x5C, CHR ''u''] @ hexPad 4 i else [CHR 0x5C, CHR ''U''] @ hexPad 8 i)
     else if c = CHR 0x22 \<or> c = CHR 0x5C then [CHR 0x5C, c]
     else if 32 \<le> byte c \<and> byte c < 127 then [c]
     else case map_of [(7, CHR ''a''), (8, CHR ''b''), (12, CHR ''f''), (10, CHR ''n''), (13, CHR ''r''),
         (9, CHR ''t''), (11, CHR ''v'')] (byte c) of
        Some e \<Rightarrow> [CHR 0x5C, e] | None \<Rightarrow> [CHR 0x5C, CHR ''x''] @ hexPad 2 (byte c))"

text \<open>The pieces of a text: its valid sequences and its stray bytes.\<close>

function pieces :: "string \<Rightarrow> string list" where
  "pieces [] = []"
| "pieces (a # s) = (let n = max 1 (utf8Length (a # s)) in take n (a # s) # pieces (drop n (a # s)))"
  by pat_completeness auto
termination by (relation "measure length") (auto simp: Let_def)

definition Quote :: "log_library \<Rightarrow> string \<Rightarrow> string" where
  "Quote lib s = [CHR 0x22] @ concat (map (quoteRune lib) (pieces s)) @ [CHR 0x22]"

definition quoteIfNeeded :: "log_library \<Rightarrow> string \<Rightarrow> string" where
  "quoteIfNeeded lib v = (if v = '''' then [CHR 0x22, CHR 0x22]
     else if list_ex (\<lambda>c. c \<in> {CHR '' '', CHR 0x09, CHR 0x0A, CHR 0x0D, CHR ''='', CHR 0x22}) v
     then Quote lib v else v)"

section \<open>Short forms\<close>

definition shortIdentifier :: "string \<Rightarrow> string" where
  "shortIdentifier v = (let s = TrimSpace v in
     if length (runes s) \<le> 12 then s else concat (take 12 (runes s)))"

definition shortSessionKey :: "string \<Rightarrow> string" where
  "shortSessionKey v = shortIdentifier (rev (takeWhile (\<lambda>c. c \<noteq> CHR '':'') (rev (TrimSpace v))))"

definition padRight :: "nat \<Rightarrow> string \<Rightarrow> string" where
  "padRight n s = s @ replicate (n - length (runes s)) CHR '' ''"

definition padLeft :: "nat \<Rightarrow> string \<Rightarrow> string" where
  "padLeft n s = replicate (n - length (runes s)) CHR '' '' @ s"

definition padCompactValue :: "string \<Rightarrow> nat \<Rightarrow> string" where
  "padCompactValue v width = padRight width v"

definition asciiText :: "string \<Rightarrow> bool" where
  "asciiText s \<longleftrightarrow> list_all (\<lambda>c. byte c < 128) s"

definition upper_char :: "char \<Rightarrow> char" where
  "upper_char c = (if 97 \<le> byte c \<and> byte c \<le> 122 then char_of (byte c - 32) else c)"

definition ToUpper :: "log_library \<Rightarrow> string \<Rightarrow> string" where
  "ToUpper lib s = (if asciiText s then map upper_char s else lb_upper lib s)"

text \<open>\<open>PreviewText\<close>: the words of a text, and \<open>strings.Fields\<close>.\<close>

function wordsOf :: "string \<Rightarrow> string \<Rightarrow> string list" where
  "wordsOf acc [] = (if acc = '''' then [] else [acc])"
| "wordsOf acc (c # s) =
     (let n = space_len space1 space2 space3 (c # s); k = max 1 (utf8Length (c # s)) in
      if n = 0 then wordsOf (acc @ take k (c # s)) (drop k (c # s))
      else (if acc = '''' then [] else [acc]) @ wordsOf '''' (drop n (c # s)))"
  by pat_completeness auto
termination by (relation "measure (\<lambda>(_, s). length s)") (auto simp: Let_def)

definition Fields :: "string \<Rightarrow> string list" where
  "Fields s = wordsOf '''' s"

definition PreviewText :: "string \<Rightarrow> int \<Rightarrow> string" where
  "PreviewText v maxRunes = (let normalized = joinWith '' '' (Fields v) in
     if normalized = '''' \<or> maxRunes \<le> 0 \<or> int (length (runes normalized)) \<le> maxRunes then normalized
     else concat (take (nat maxRunes) (runes normalized)) @ ''...'')"

end
