(* ===== verification/Log_Line.thy ===== *)
theory Log_Line
  imports Log_Text Civil_Time
begin

text \<open>
  One log line (\<open>extract.go\<close>, \<open>render.go\<close> and \<open>color.go\<close> of \<open>internal/infra/logx\<close>): the fields that
  have a place of their own in the line are picked out, and the line is put together and coloured.
\<close>

section \<open>Fields with a place of their own\<close>

fun scopeFields :: "string \<Rightarrow> string \<Rightarrow> field list \<Rightarrow> string \<times> string \<times> field list" where
  "scopeFields service component [] = (service, component, [])"
| "scopeFields service component ((k, v) # fs) =
     (if k = ''service'' then scopeFields v component fs
      else if k = ''component'' then scopeFields service v fs
      else case scopeFields service component fs of (s, c, rest) \<Rightarrow> (s, c, (k, v) # rest))"

definition pickScope :: "field list \<Rightarrow> string \<times> field list" where
  "pickScope fs = (case scopeFields '''' '''' fs of (service, component, rest) \<Rightarrow>
     if service \<noteq> '''' \<and> component \<noteq> '''' then (service @ ''/'' @ component, rest)
     else if service \<noteq> '''' then (service, rest) else (component, rest))"

record accessLog =
  al_method :: string
  al_status :: int
  al_duration :: string
  al_bytes :: string
  al_path :: string

record accessCandidate =
  ac_method :: string
  ac_path :: string
  ac_durationMs :: string
  ac_bytesWritten :: string
  ac_remoteIP :: string
  ac_status :: int
  ac_hasMethod :: bool
  ac_hasStatus :: bool
  ac_hasPath :: bool

definition noCandidate :: accessCandidate where
  "noCandidate = \<lparr>ac_method = '''', ac_path = '''', ac_durationMs = '''', ac_bytesWritten = '''', ac_remoteIP = '''',
     ac_status = 0, ac_hasMethod = False, ac_hasStatus = False, ac_hasPath = False\<rparr>"

text \<open>The setters; \<open>None\<close> is a field that is left to the rest of the line.\<close>

definition setAccessStatus :: "accessCandidate \<Rightarrow> string \<Rightarrow> accessCandidate option" where
  "setAccessStatus c v = map_option (\<lambda>n. c\<lparr>ac_status := n, ac_hasStatus := True\<rparr>) (Atoi v)"

definition accessFieldSetters :: "string \<Rightarrow> (accessCandidate \<Rightarrow> string \<Rightarrow> accessCandidate option) option" where
  "accessFieldSetters k =
     (if k = ''method'' then Some (\<lambda>c v. Some (c\<lparr>ac_method := v, ac_hasMethod := True\<rparr>))
      else if k = ''status'' then Some setAccessStatus
      else if k = ''path'' then Some (\<lambda>c v. Some (c\<lparr>ac_path := v, ac_hasPath := True\<rparr>))
      else if k = ''duration_ms'' then Some (\<lambda>c v. Some (c\<lparr>ac_durationMs := v\<rparr>))
      else if k = ''bytes'' then Some (\<lambda>c v. Some (c\<lparr>ac_bytesWritten := v\<rparr>))
      else if k = ''remote_ip'' then Some (\<lambda>c v. Some (c\<lparr>ac_remoteIP := v\<rparr>))
      else None)"

definition setAccess :: "accessCandidate \<Rightarrow> field \<Rightarrow> accessCandidate option" where
  "setAccess c f = (case accessFieldSetters (fst f) of None \<Rightarrow> None | Some setter \<Rightarrow> setter c (snd f))"

fun collectAccess :: "accessCandidate \<Rightarrow> field list \<Rightarrow> accessCandidate \<times> field list" where
  "collectAccess c [] = (c, [])"
| "collectAccess c (f # fs) =
     (case setAccess c f of Some c' \<Rightarrow> collectAccess c' fs | None \<Rightarrow> apsnd ((#) f) (collectAccess c fs))"

definition complete :: "accessCandidate \<Rightarrow> bool" where
  "complete c \<longleftrightarrow> ac_hasMethod c \<and> ac_hasStatus c \<and> ac_hasPath c"

definition hasRemoteAddress :: "accessCandidate \<Rightarrow> bool" where
  "hasRemoteAddress c \<longleftrightarrow> ac_remoteIP c \<notin> {'''', ''127.0.0.1'', ''::1''}"

definition pickAccess :: "log_library \<Rightarrow> field list \<Rightarrow> accessLog option \<times> field list" where
  "pickAccess lib fs = (case collectAccess noCandidate fs of (c, rest) \<Rightarrow>
     if \<not> complete c then (None, fs) else
     (Some \<lparr>al_method = ac_method c, al_status = ac_status c, al_duration = formatDuration lib (ac_durationMs c),
        al_bytes = formatBytes (ac_bytesWritten c), al_path = ac_path c\<rparr>,
      if hasRemoteAddress c then rest @ [(''ip'', ac_remoteIP c)] else rest))"

definition valuesAt :: "string \<Rightarrow> field list \<Rightarrow> string list" where
  "valuesAt k fs = map snd (filter (\<lambda>f. fst f = k) fs)"

definition lastAt :: "string \<Rightarrow> field list \<Rightarrow> string" where
  "lastAt k fs = (case valuesAt k fs of [] \<Rightarrow> '''' | v # vs \<Rightarrow> last (v # vs))"

definition pickRequestID :: "field list \<Rightarrow> string \<times> field list" where
  "pickRequestID fs = (take 8 (lastAt ''request_id'' fs), filter (\<lambda>f. fst f \<noteq> ''request_id'') fs)"

record sdkDebugLog =
  sd_summary :: string
  sd_sessionKey :: string
  sd_agentID :: string
  sd_roundID :: string

definition pickSDKDebug :: "field list \<Rightarrow> sdkDebugLog option \<times> field list" where
  "pickSDKDebug fs =
     (if TrimSpace (lastAt ''sdk_summary'' fs) = '''' then (None, fs) else
      (Some \<lparr>sd_summary = lastAt ''sdk_summary'' fs, sd_sessionKey = lastAt ''session_key'' fs,
         sd_agentID = lastAt ''agent_id'' fs, sd_roundID = lastAt ''round_id'' fs\<rparr>,
       filter (\<lambda>f. fst f \<notin> {''sdk_summary'', ''session_key'', ''agent_id'', ''round_id''}) fs))"

definition formatSDKContext :: "sdkDebugLog \<Rightarrow> string" where
  "formatSDKContext d =
     (let part = (\<lambda>name v. if v = '''' then [] else [name @ padCompactValue v 12]) in
      joinWith '' '' (part ''s='' (shortSessionKey (sd_sessionKey d)) @ part ''a='' (shortIdentifier (sd_agentID d)) @
        part ''r='' (shortIdentifier (sd_roundID d))))"

section \<open>Levels and colours\<close>

type_synonym level = int

abbreviation (input) LevelDebug :: level where "LevelDebug \<equiv> - 4"
abbreviation (input) LevelInfo :: level where "LevelInfo \<equiv> 0"
abbreviation (input) LevelWarn :: level where "LevelWarn \<equiv> 4"
abbreviation (input) LevelError :: level where "LevelError \<equiv> 8"

definition ansiReset :: string where "ansiReset = CHR 0x1B # ''[0m''"
definition ansiBold :: string where "ansiBold = CHR 0x1B # ''[1m''"
definition ansiRed :: string where "ansiRed = CHR 0x1B # ''[31m''"
definition ansiGreen :: string where "ansiGreen = CHR 0x1B # ''[32m''"
definition ansiYellow :: string where "ansiYellow = CHR 0x1B # ''[33m''"
definition ansiBlue :: string where "ansiBlue = CHR 0x1B # ''[34m''"
definition ansiMagenta :: string where "ansiMagenta = CHR 0x1B # ''[35m''"
definition ansiCyan :: string where "ansiCyan = CHR 0x1B # ''[36m''"
definition ansiWhite :: string where "ansiWhite = CHR 0x1B # ''[97m''"
definition ansiBrightBlack :: string where "ansiBrightBlack = CHR 0x1B # ''[90m''"

definition formatLevel :: "level \<Rightarrow> string" where
  "formatLevel l = (if l \<le> LevelDebug then ''DEBUG  '' else if l < LevelWarn then ''INFO   ''
     else if l < LevelError then ''WARNING'' else ''ERROR  '')"

definition colorForLevel :: "level \<Rightarrow> string" where
  "colorForLevel l = (if l \<le> LevelDebug then ansiCyan else if l < LevelWarn then ansiMagenta
     else if l < LevelError then ansiYellow else ansiRed @ ansiBold)"

definition colorForMessage :: "level \<Rightarrow> string" where
  "colorForMessage l = (if l \<le> LevelDebug then ansiBrightBlack else if l < LevelWarn then ansiGreen
     else if l < LevelError then ansiYellow else ansiRed)"

definition colorForSDKSummary :: "string \<Rightarrow> string" where
  "colorForSDKSummary summary = (let s = TrimSpace summary in
     if prefix ''stream '' s then ansiCyan else if prefix ''assistant '' s then ansiGreen
     else if prefix ''result '' s then ansiBlue else if prefix ''system '' s then ansiMagenta
     else if prefix ''tool_progress'' s then ansiYellow else ansiWhite)"

definition colorForMethod :: "log_library \<Rightarrow> string \<Rightarrow> string" where
  "colorForMethod lib method = (let m = ToUpper lib (TrimSpace method) in
     if m = ''GET'' then ansiGreen else if m = ''POST'' then ansiBlue
     else if m = ''PUT'' \<or> m = ''PATCH'' then ansiYellow else if m = ''DELETE'' then ansiRed else ansiMagenta)"

definition colorForStatus :: "int \<Rightarrow> string" where
  "colorForStatus status = (if 500 \<le> status then ansiRed @ ansiBold else if 400 \<le> status then ansiYellow
     else if 300 \<le> status then ansiCyan else if 200 \<le> status then ansiGreen else ansiBrightBlack)"

definition paint :: "bool \<Rightarrow> string \<Rightarrow> string \<Rightarrow> string" where
  "paint colorize txt color = (if \<not> colorize \<or> color = '''' \<or> txt = '''' then txt else color @ txt @ ansiReset)"

section \<open>The line\<close>

definition lineHead :: "bool \<Rightarrow> time \<Rightarrow> level \<Rightarrow> string \<Rightarrow> string" where
  "lineHead colorize t l scope =
     (let shown = (if scope = '''' then ''-'' else scope) in
      paint colorize ''[ '' ansiWhite @ paint colorize (clockText t) ansiBrightBlack @
      paint colorize '' ]'' ansiWhite @ '' '' @ paint colorize (formatLevel l) (colorForLevel l) @ '' '' @
      paint colorize ''| '' ansiWhite @
      paint colorize (shown @ replicate (10 - length shown) CHR '' '') ansiCyan @
      paint colorize '' - '' ansiWhite)"

definition accessText :: "log_library \<Rightarrow> bool \<Rightarrow> accessLog \<Rightarrow> string \<Rightarrow> string" where
  "accessText lib colorize a requestID =
     paint colorize (padRight 6 (ToUpper lib (al_method a))) (colorForMethod lib (al_method a)) @ '' '' @
     paint colorize (padLeft 4 (showInt (al_status a))) (colorForStatus (al_status a)) @ '' '' @
     paint colorize (padLeft 6 (al_duration a)) ansiBrightBlack @ '' '' @
     paint colorize (padLeft 7 (al_bytes a)) ansiBrightBlack @ '' '' @
     (if requestID = '''' then '''' else
        paint colorize ''rid='' ansiBrightBlack @ paint colorize requestID ansiBrightBlack @ '' '') @
     paint colorize (al_path a) ansiWhite @ '' ''"

definition messageText :: "bool \<Rightarrow> level \<Rightarrow> string \<Rightarrow> sdkDebugLog option \<Rightarrow> string" where
  "messageText colorize l message debug =
     paint colorize (TrimSpace message) (colorForMessage l) @
     (case debug of None \<Rightarrow> ''''
      | Some d \<Rightarrow> (let ctx = formatSDKContext d; summary = TrimSpace (sd_summary d) in
          (if ctx = '''' then '''' else '' '' @ paint colorize ctx ansiBrightBlack) @
          (if summary = '''' then '''' else
             (if TrimSpace message \<noteq> '''' \<or> ctx \<noteq> '''' then '' '' else '''') @
             paint colorize summary (colorForSDKSummary (sd_summary d)))))"

definition fieldText :: "log_library \<Rightarrow> bool \<Rightarrow> field \<Rightarrow> string" where
  "fieldText lib colorize f =
     '' '' @ paint colorize (fst f @ ''='') ansiBrightBlack @
     paint colorize (quoteIfNeeded lib (snd f)) (if fst f = ''err'' \<or> fst f = ''error'' then ansiRed else '''')"

definition formatLine ::
  "log_library \<Rightarrow> bool \<Rightarrow> time \<Rightarrow> level \<Rightarrow> string \<Rightarrow> string \<Rightarrow> accessLog option \<Rightarrow> string \<Rightarrow>
     sdkDebugLog option \<Rightarrow> field list \<Rightarrow> string" where
  "formatLine lib colorize t l scope message access requestID debug fs =
     lineHead colorize t l scope @
     (case access of Some a \<Rightarrow> accessText lib colorize a requestID | None \<Rightarrow> messageText colorize l message debug) @
     concat (map (fieldText lib colorize) fs) @ [CHR 0x0A]"

end
