(* ===== verification/Log_Handler.thy ===== *)
theory Log_Handler
  imports Log_Line Log_File
begin

text \<open>
  Handlers and loggers (\<open>pretty.go\<close>, \<open>handler.go\<close> and \<open>logger.go\<close> of \<open>internal/infra/logx\<close>) over the places
  where lines go: an output that the caller gives, the standard output and the rolling file. The
  lines of the handlers of \<open>log/slog\<close> are a parameter; a logger is its handler.
\<close>

section \<open>Records, handlers and writers\<close>

type_synonym attrs = "(string \<times> log_value) list"

text \<open>The time of a record is counted on the clock of its zone.\<close>

record log_record =
  lr_Time :: time
  lr_Level :: level
  lr_Message :: string
  lr_Attrs :: attrs

datatype log_writer = DiscardWriter | OutputWriter | StdoutWriter | FileWriter

record prettyHandler =
  ph_writer :: log_writer
  ph_level :: level
  ph_attrs :: attrs
  ph_groups :: "string list"
  ph_colorize :: bool

datatype library_format = JSONLines | TextLines

datatype library_step = StepAttrs attrs | StepGroup string

record libraryHandler =
  lh_format :: library_format
  lh_writer :: log_writer
  lh_level :: level
  lh_steps :: "library_step list"

datatype log_handler =
    PrettyHandler prettyHandler
  | LibraryHandler libraryHandler
  | MultiHandler "log_handler list"

record log_world =
  lw_outside :: log_outside
  lw_library :: log_library
  lw_terminal :: bool
  lw_line :: "libraryHandler \<Rightarrow> log_record \<Rightarrow> string"

record log_sinks =
  sk_output :: string
  sk_stdout :: string
  sk_stderr :: "log_error list"
  sk_broken :: "(log_writer \<times> string) list"
  sk_writer :: "rollingFileWriter option"
  sk_files :: log_files

text \<open>\<open>io.WriteString\<close> at a writer, at a given moment.\<close>

definition writeTo :: "log_world \<Rightarrow> time \<Rightarrow> log_writer \<Rightarrow> string \<Rightarrow> log_sinks \<Rightarrow> log_error option \<times> log_sinks" where
  "writeTo lw now wr line st =
     (case wr of
        DiscardWriter \<Rightarrow> (None, st)
      | FileWriter \<Rightarrow>
          (case sk_writer st of None \<Rightarrow> (Some WriterNotInitialized, st)
           | Some w \<Rightarrow> (case writeLog (lw_outside lw) now line w (sk_files st) of
               (r, w, fs) \<Rightarrow> (case r of Inl e \<Rightarrow> Some e | Inr _ \<Rightarrow> None, st\<lparr>sk_writer := Some w, sk_files := fs\<rparr>)))
      | _ \<Rightarrow>
          (case map_of (sk_broken st) wr of Some e \<Rightarrow> (Some (WriterFailed e), st)
           | None \<Rightarrow> (None, if wr = StdoutWriter then st\<lparr>sk_stdout := sk_stdout st @ line\<rparr>
               else st\<lparr>sk_output := sk_output st @ line\<rparr>)))"

section \<open>The handler of readable lines\<close>

definition newPrettyHandler :: "log_writer \<Rightarrow> level \<Rightarrow> bool \<Rightarrow> log_handler" where
  "newPrettyHandler wr l colorize = PrettyHandler
     \<lparr>ph_writer = wr, ph_level = l, ph_attrs = [], ph_groups = [], ph_colorize = colorize\<rparr>"

definition prettyWithAttrs :: "attrs \<Rightarrow> prettyHandler \<Rightarrow> prettyHandler" where
  "prettyWithAttrs as h = h\<lparr>ph_attrs := ph_attrs h @ as\<rparr>"

definition prettyWithGroup :: "string \<Rightarrow> prettyHandler \<Rightarrow> prettyHandler" where
  "prettyWithGroup name h = (if TrimSpace name = '''' then h else h\<lparr>ph_groups := ph_groups h @ [name]\<rparr>)"

definition prettyLine :: "log_library \<Rightarrow> prettyHandler \<Rightarrow> log_record \<Rightarrow> string" where
  "prettyLine lib h r =
     (let fs = appendAttrs (ph_groups h) (ph_attrs h) @ appendAttrs (ph_groups h) (lr_Attrs r);
          (scope, fs) = pickScope fs;
          (access, fs) = pickAccess lib fs;
          (requestID, fs) = pickRequestID fs;
          (debug, fs) = pickSDKDebug fs
      in formatLine lib (ph_colorize h) (lr_Time r) (lr_Level r) scope (lr_Message r) access requestID debug fs)"

section \<open>Any handler\<close>

fun Enabled :: "log_handler \<Rightarrow> level \<Rightarrow> bool" where
  "Enabled (PrettyHandler h) l = (ph_level h \<le> l)"
| "Enabled (LibraryHandler h) l = (lh_level h \<le> l)"
| "Enabled (MultiHandler hs) l = list_ex (\<lambda>h. Enabled h l) hs"

definition newMultiHandler :: "log_handler option list \<Rightarrow> log_handler" where
  "newMultiHandler hs = (case List.map_filter id hs of [h] \<Rightarrow> h | filtered \<Rightarrow> MultiHandler filtered)"

fun WithAttrs :: "attrs \<Rightarrow> log_handler \<Rightarrow> log_handler" where
  "WithAttrs as (PrettyHandler h) = PrettyHandler (prettyWithAttrs as h)"
| "WithAttrs as (LibraryHandler h) = LibraryHandler (h\<lparr>lh_steps := lh_steps h @ [StepAttrs as]\<rparr>)"
| "WithAttrs as (MultiHandler hs) = newMultiHandler (map (\<lambda>h. Some (WithAttrs as h)) hs)"

fun WithGroup :: "string \<Rightarrow> log_handler \<Rightarrow> log_handler" where
  "WithGroup name (PrettyHandler h) = PrettyHandler (prettyWithGroup name h)"
| "WithGroup name (LibraryHandler h) = LibraryHandler (h\<lparr>lh_steps := lh_steps h @ [StepGroup name]\<rparr>)"
| "WithGroup name (MultiHandler hs) = newMultiHandler (map (\<lambda>h. Some (WithGroup name h)) hs)"

text \<open>A record goes to every handler that is enabled; the first error is the result.\<close>

fun Handle :: "log_world \<Rightarrow> time \<Rightarrow> log_record \<Rightarrow> log_handler \<Rightarrow> log_sinks \<Rightarrow> log_error option \<times> log_sinks"
and handleAll :: "log_world \<Rightarrow> time \<Rightarrow> log_record \<Rightarrow> log_handler list \<Rightarrow> log_sinks \<Rightarrow> log_error option \<times> log_sinks" where
  "Handle lw now r (PrettyHandler h) st = writeTo lw now (ph_writer h) (prettyLine (lw_library lw) h r) st"
| "Handle lw now r (LibraryHandler h) st = writeTo lw now (lh_writer h) (lw_line lw h r) st"
| "Handle lw now r (MultiHandler hs) st = handleAll lw now r hs st"
| "handleAll lw now r [] st = (None, st)"
| "handleAll lw now r (h # hs) st =
     (if \<not> Enabled h (lr_Level r) then handleAll lw now r hs st else
      case Handle lw now r h st of (e, st) \<Rightarrow>
        (case handleAll lw now r hs st of (e', st) \<Rightarrow> (case e of None \<Rightarrow> (e', st) | Some _ \<Rightarrow> (e, st))))"

section \<open>Loggers\<close>

record log_options =
  lo_Service :: string
  lo_Level :: string
  lo_Format :: string
  lo_Output :: "log_writer option"
  lo_Stdout :: bool
  lo_File :: FileOptions
  lo_NoColor :: bool

definition parseLevel :: "string \<Rightarrow> level" where
  "parseLevel raw = (let s = ToLower (TrimSpace raw) in
     if s = ''debug'' then LevelDebug else if s = ''warn'' \<or> s = ''warning'' then LevelWarn
     else if s = ''error'' then LevelError else LevelInfo)"

definition shouldColorize :: "log_world \<Rightarrow> log_writer \<Rightarrow> bool \<Rightarrow> bool" where
  "shouldColorize lw wr noColor \<longleftrightarrow> wr = StdoutWriter \<and> lw_terminal lw \<and> \<not> noColor"

definition newHandlerForWriter :: "log_writer \<Rightarrow> string \<Rightarrow> level \<Rightarrow> bool \<Rightarrow> log_handler" where
  "newHandlerForWriter wr fmt l colorize =
     (if ToLower (TrimSpace fmt) = ''json''
      then LibraryHandler \<lparr>lh_format = JSONLines, lh_writer = wr, lh_level = l, lh_steps = []\<rparr>
      else newPrettyHandler wr l colorize)"

definition handlersOf :: "log_world \<Rightarrow> log_options \<Rightarrow> level \<Rightarrow> bool \<Rightarrow> log_handler list" where
  "handlersOf lw os l file =
     (case lo_Output os of None \<Rightarrow> [] | Some wr \<Rightarrow> [newHandlerForWriter wr (lo_Format os) l False]) @
     (if lo_Stdout os
      then [newHandlerForWriter StdoutWriter (lo_Format os) l (shouldColorize lw StdoutWriter (lo_NoColor os))] else []) @
     (if file then [newHandlerForWriter FileWriter (lo_Format os) l False] else [])"

definition buildHandler :: "log_world \<Rightarrow> time \<Rightarrow> log_options \<Rightarrow> level \<Rightarrow> log_sinks \<Rightarrow> log_handler \<times> log_sinks" where
  "buildHandler lw now os l st =
     (case newRollingFileWriter (lw_outside lw) now (lo_File os) (sk_files st) of (r, fs) \<Rightarrow>
       (let st = st\<lparr>sk_files := fs\<rparr>;
            st = (case r of Inl e \<Rightarrow> st\<lparr>sk_stderr := sk_stderr st @ [e]\<rparr>
                  | Inr None \<Rightarrow> st | Inr (Some w) \<Rightarrow> st\<lparr>sk_writer := Some w\<rparr>);
            file = (case r of Inr (Some w) \<Rightarrow> True | _ \<Rightarrow> False)
        in (case handlersOf lw os l file of
              [] \<Rightarrow> LibraryHandler \<lparr>lh_format = TextLines, lh_writer = DiscardWriter, lh_level = l, lh_steps = []\<rparr>
            | [h] \<Rightarrow> h
            | hs \<Rightarrow> newMultiHandler (map Some hs), st)))"

definition New :: "log_world \<Rightarrow> time \<Rightarrow> log_options \<Rightarrow> log_sinks \<Rightarrow> log_handler \<times> log_sinks" where
  "New lw now os st =
     apfst (\<lambda>h. let service = TrimSpace (lo_Service os) in
         if service = '''' then h else WithAttrs [(''service'', LString service)] h)
       (buildHandler lw now os (parseLevel (lo_Level os)) st)"

definition noFile :: FileOptions where
  "noFile = \<lparr>fo_Enabled = False, fo_Path = '''', fo_RotateDaily = False, fo_MaxSizeMB = 0, fo_MaxAgeDays = 0,
     fo_MaxBackups = 0, fo_Compress = False\<rparr>"

definition NewDiscardLogger :: "log_world \<Rightarrow> time \<Rightarrow> log_sinks \<Rightarrow> log_handler \<times> log_sinks" where
  "NewDiscardLogger lw now st = New lw now
     \<lparr>lo_Service = '''', lo_Level = '''', lo_Format = '''', lo_Output = Some DiscardWriter, lo_Stdout = False,
      lo_File = noFile, lo_NoColor = False\<rparr> st"

text \<open>\<open>newLogger\<close> of \<open>main.go\<close>.\<close>

definition newLogger :: "log_world \<Rightarrow> time \<Rightarrow> Config \<Rightarrow> log_sinks \<Rightarrow> log_handler \<times> log_sinks" where
  "newLogger lw now cfg st = New lw now
     \<lparr>lo_Service = ''nexus-control'', lo_Level = cf_LogLevel cfg, lo_Format = cf_LogFormat cfg, lo_Output = None,
      lo_Stdout = cf_LogStdout cfg,
      lo_File = \<lparr>fo_Enabled = cf_LogFileEnabled cfg, fo_Path = cf_LogPath cfg, fo_RotateDaily = cf_LogRotateDaily cfg,
        fo_MaxSizeMB = cf_LogMaxSizeMB cfg, fo_MaxAgeDays = cf_LogMaxAgeDays cfg,
        fo_MaxBackups = cf_LogMaxBackups cfg, fo_Compress = cf_LogCompress cfg\<rparr>,
      lo_NoColor = cf_LogNoColor cfg\<rparr> st"

text \<open>The method \<open>Log\<close> of a logger: nothing is done at a level that is not enabled, errors are dropped.\<close>

definition logRecord :: "log_world \<Rightarrow> time \<Rightarrow> log_record \<Rightarrow> log_handler \<Rightarrow> log_sinks \<Rightarrow> log_sinks" where
  "logRecord lw now r h st = (if Enabled h (lr_Level r) then snd (Handle lw now r h st) else st)"

text \<open>\<open>writeServiceError\<close> of the handlers logs an error that it does not know.\<close>

definition failedRequest :: "time \<Rightarrow> string \<Rightarrow> string \<Rightarrow> log_record" where
  "failedRequest t requestID err =
     \<lparr>lr_Time = t, lr_Level = LevelError,
      lr_Message = ''Control '' @
        [CHR 0xE8, CHR 0xAF, CHR 0xB7, CHR 0xE6, CHR 0xB1, CHR 0x82, CHR 0xE5, CHR 0xA4, CHR 0xB1, CHR 0xE8, CHR 0xB4, CHR 0xA5],
      lr_Attrs = [(''request_id'', LString requestID), (''error'', LText err)]\<rparr>"

section \<open>Loggers in contexts\<close>

text \<open>The loggers that were bound to a context, the latest one first; the shared one is that of \<open>slog.Default\<close>.\<close>

type_synonym log_context = "log_handler list"

definition WithLogger :: "log_handler option \<Rightarrow> log_context \<Rightarrow> log_context" where
  "WithLogger logger ctx = (case logger of None \<Rightarrow> ctx | Some h \<Rightarrow> h # ctx)"

definition FromContext :: "log_handler \<Rightarrow> log_context \<Rightarrow> log_handler" where
  "FromContext shared ctx = (case ctx of [] \<Rightarrow> shared | h # _ \<Rightarrow> h)"

definition Resolve :: "log_handler \<Rightarrow> log_context \<Rightarrow> log_handler option \<Rightarrow> log_handler" where
  "Resolve shared ctx fallback =
     (case ctx of h # _ \<Rightarrow> h | [] \<Rightarrow> (case fallback of Some h \<Rightarrow> h | None \<Rightarrow> shared))"

end
