(* ===== verification/Log_Output.thy ===== *)
theory Log_Output
  imports Log_Handler
begin

text \<open>
  Lemmas on what is written: quoted values and the fixed parts of a line have no line break, the
  line of a failed request, and what a logger of \<open>newLogger\<close> adds to the standard output.
\<close>

section \<open>Texts of one line\<close>

definition oneLine :: "string \<Rightarrow> bool" where
  "oneLine s \<longleftrightarrow> CHR 0x0A \<notin> set s"

named_theorems one_line

lemma oneLine_append [one_line]: "oneLine (s @ t) \<longleftrightarrow> oneLine s \<and> oneLine t"
  by (auto simp: oneLine_def)

lemma oneLine_Cons [one_line]: "oneLine (c # s) \<longleftrightarrow> c \<noteq> CHR 0x0A \<and> oneLine s"
  by (auto simp: oneLine_def)

lemma oneLine_Nil [one_line]: "oneLine []"
  by (simp add: oneLine_def)

lemma oneLine_replicate [one_line]: "oneLine (replicate n c) \<longleftrightarrow> n = 0 \<or> c \<noteq> CHR 0x0A"
  by (auto simp: oneLine_def)

lemma oneLine_high: "(\<And>c. c \<in> set s \<Longrightarrow> 128 \<le> byte c) \<Longrightarrow> oneLine s"
  by (force simp: oneLine_def)

lemma hexPad_oneLine: "oneLine (hexPad n i)"
proof -
  have "hexDigits ! (j mod 16) \<in> set hexDigits" for j :: nat by (rule nth_mem) (simp add: hexDigits_def)
  moreover have "CHR 0x0A \<notin> set hexDigits" by (simp add: hexDigits_def)
  ultimately show ?thesis by (auto simp: oneLine_def hexPad_def)
qed

text \<open>The bytes of a sequence that begins outside ASCII are all outside ASCII.\<close>

lemma sequence_high:
  assumes "c \<in> set (take (utf8Length s) s)" and "128 \<le> byte (hd s)"
  shows "128 \<le> byte c"
proof -
  have high: "continuation b \<Longrightarrow> 128 \<le> byte b" "secondByte a b \<Longrightarrow> 128 \<le> byte b" for a b
    by (simp_all add: continuation_def secondByte_def)
  obtain a t where s: "s = a # t" "128 \<le> byte a" using assms by (cases s) auto
  have "n = utf8Length (a # t) \<Longrightarrow> n = 0 \<or> n = 2 \<and> (\<exists>b u. t = b # u \<and> secondByte a b) \<or>
      n = 3 \<and> (\<exists>b d u. t = b # d # u \<and> secondByte a b \<and> continuation d) \<or>
      n = 4 \<and> (\<exists>b d e u. t = b # d # e # u \<and> secondByte a b \<and> continuation d \<and> continuation e)" for n
    using s(2) by (simp split: list.split)
  from this [OF refl] consider "utf8Length s = 0" | b u where "t = b # u" "utf8Length s = 2" "secondByte a b"
    | b d u where "t = b # d # u" "utf8Length s = 3" "secondByte a b" "continuation d"
    | b d e u where "t = b # d # e # u" "utf8Length s = 4" "secondByte a b" "continuation d" "continuation e"
    unfolding s(1) [symmetric] by metis
  then show ?thesis
    by cases (use assms(1) s high in \<open>auto simp: eval_nat_numeral\<close>)
qed

lemma pieces_sequence:
  "r \<in> set (pieces s) \<Longrightarrow> \<exists>a t. r = take (max 1 (utf8Length (a # t))) (a # t)"
proof (induction s rule: pieces.induct)
  case (2 a s)
  have "r = take (max 1 (utf8Length (a # s))) (a # s) \<or> r \<in> set (pieces (drop (max 1 (utf8Length (a # s))) (a # s)))"
    using "2.prems" unfolding pieces.simps Let_def by (simp del: utf8Length.simps)
  with "2.IH" [OF refl] show ?case by blast
qed simp

lemma piece_high:
  assumes "r \<in> set (pieces s)" and "r = a # t" and "128 \<le> byte a" and "c \<in> set r"
  shows "128 \<le> byte c"
proof -
  obtain b u where r: "r = take (max 1 (utf8Length (b # u))) (b # u)" using pieces_sequence [OF assms(1)] by blast
  then have ab: "b = a" using assms(2) by (auto simp: take_Cons split: nat.splits)
  show ?thesis
  proof (cases "utf8Length (b # u) = 0")
    case True
    then show ?thesis using r ab assms(3,4) by simp
  next
    case False
    then have "max 1 (utf8Length (b # u)) = utf8Length (b # u)" by simp
    then show ?thesis using r ab assms(3,4) sequence_high [of c "b # u"] by simp
  qed
qed

lemma quoteRune_oneLine: "r \<in> set (pieces s) \<Longrightarrow> oneLine (quoteRune lib r)"
proof (cases r)
  case (Cons a t)
  assume r: "r \<in> set (pieces s)"
  have "128 \<le> byte a \<Longrightarrow> oneLine r" using piece_high [OF r Cons] by (rule oneLine_high)
  moreover have "oneLine [a]" if "32 \<le> byte a" using that by (auto simp: oneLine_def)
  moreover have "oneLine [CHR 0x5C, e]" if "map_of [(7, CHR ''a''), (8, CHR ''b''), (12, CHR ''f''), (10, CHR ''n''),
      (13, CHR ''r''), (9, CHR ''t''), (11, CHR ''v'')] (byte a) = Some e" for e
    using that by (auto simp: one_line split: if_splits)
  ultimately show ?thesis
    by (auto simp: quoteRune_def Cons Let_def one_line hexPad_oneLine split: option.splits if_splits)
qed (simp add: quoteRune_def one_line)

lemma quoteIfNeeded_oneLine [one_line]: "oneLine (quoteIfNeeded lib v)"
proof -
  have "oneLine (Quote lib v)"
    using quoteRune_oneLine [of _ v lib] by (auto simp: Quote_def oneLine_def)
  moreover have "oneLine v" if "\<not> list_ex (\<lambda>c. c \<in> {CHR '' '', CHR 0x09, CHR 0x0A, CHR 0x0D, CHR ''='', CHR 0x22}) v"
    using that by (auto simp: oneLine_def list_ex_iff)
  ultimately show ?thesis by (auto simp: quoteIfNeeded_def one_line)
qed

lemma showInt_oneLine: "oneLine (showInt i)"
proof -
  have "c \<noteq> CHR 0x0A" if "c \<in> set (showDigits j)" "0 \<le> j" for c j
    using showDigits_digits [OF that(2,1)] by (auto simp: isDigit_def)
  from this [of _ i] this [of _ "- i"] show ?thesis by (force simp: showInt_def oneLine_def)
qed

lemma clockText_oneLine [one_line]: "oneLine (clockText t)"
  by (simp add: clockText_def digits_def Let_def one_line showInt_oneLine)

lemma paint_oneLine [one_line]: "oneLine color \<Longrightarrow> oneLine (paint c s color) \<longleftrightarrow> oneLine s"
  by (simp add: paint_def one_line ansiReset_def)

lemma colors_oneLine [one_line]:
  "oneLine ansiRed" "oneLine ansiBold" "oneLine ansiGreen" "oneLine ansiYellow" "oneLine ansiMagenta"
  "oneLine ansiCyan" "oneLine ansiWhite" "oneLine ansiBrightBlack"
  by (simp_all add: one_line ansiRed_def ansiBold_def ansiGreen_def ansiYellow_def ansiMagenta_def
      ansiCyan_def ansiWhite_def ansiBrightBlack_def)

lemma levels_oneLine [one_line]:
  "oneLine (colorForLevel l)" "oneLine (colorForMessage l)" "oneLine (formatLevel l)"
  by (simp_all add: colorForLevel_def colorForMessage_def formatLevel_def one_line)

lemma lineHead_oneLine [one_line]: "oneLine (lineHead c t l scope) \<longleftrightarrow> oneLine scope"
  by (auto simp: lineHead_def Let_def one_line)

lemma fieldText_oneLine [one_line]: "oneLine (fieldText lib c f) \<longleftrightarrow> oneLine (fst f)"
  by (simp add: fieldText_def one_line)

section \<open>The line of a failed request\<close>

definition serviceAttrs :: attrs where
  "serviceAttrs = [(''service'', LString ''nexus-control'')]"

definition serviceHandler :: "log_writer \<Rightarrow> level \<Rightarrow> bool \<Rightarrow> prettyHandler" where
  "serviceHandler wr l c = \<lparr>ph_writer = wr, ph_level = l, ph_attrs = serviceAttrs, ph_groups = [], ph_colorize = c\<rparr>"

lemma failedRequest_fields:
  "appendAttrs [] serviceAttrs @ appendAttrs [] (lr_Attrs (failedRequest t rid err)) =
     [(''service'', ''nexus-control''), (''request_id'', rid), (''error'', err)]"
  by (simp add: serviceAttrs_def failedRequest_def)

lemma failedRequest_picks:
  "pickScope [(''service'', ''nexus-control''), (''request_id'', rid), (''error'', err)] =
     (''nexus-control'', [(''request_id'', rid), (''error'', err)])"
  "pickAccess lib [(''request_id'', rid), (''error'', err)] = (None, [(''request_id'', rid), (''error'', err)])"
  "pickRequestID [(''request_id'', rid), (''error'', err)] = (take 8 rid, [(''error'', err)])"
  "pickSDKDebug [(''error'', err)] = (None, [(''error'', err)])"
  by (simp_all add: pickScope_def pickAccess_def setAccess_def accessFieldSetters_def complete_def noCandidate_def
      pickRequestID_def pickSDKDebug_def lastAt_def valuesAt_def)

lemma prettyLine_failedRequest:
  "prettyLine lib (serviceHandler wr l c) (failedRequest t rid err) =
     lineHead c t LevelError ''nexus-control'' @
     paint c (TrimSpace (lr_Message (failedRequest t rid err))) (colorForMessage LevelError) @
     fieldText lib c (''error'', err) @ [CHR 0x0A]"
  unfolding prettyLine_def serviceHandler_def prettyHandler.simps failedRequest_fields Let_def
    failedRequest_picks prod.case
  by (simp add: formatLine_def messageText_def failedRequest_def)

lemma failedRequest_message: "oneLine (TrimSpace (lr_Message (failedRequest t rid err)))"
proof -
  have "oneLine (lr_Message (failedRequest t rid err))" by (simp add: failedRequest_def one_line)
  moreover have "set (TrimSpace s) \<subseteq> set s" for s
    using set_mono_suffix [OF trim_start_suffix] set_mono_prefix [OF trimRight_prefix]
    by (metis TrimSpace_def trimLeft_def subset_trans)
  ultimately show ?thesis by (auto simp: oneLine_def)
qed

section \<open>The loggers of the program\<close>

lemma writeTo_stdout:
  "map_of (sk_broken st) StdoutWriter = None \<Longrightarrow>
    snd (writeTo lw now StdoutWriter line st) = st\<lparr>sk_stdout := sk_stdout st @ line\<rparr>"
  by (simp add: writeTo_def)

lemma writeTo_file:
  "sk_stdout (snd (writeTo lw now FileWriter line st)) = sk_stdout st"
  by (simp add: writeTo_def split: option.splits prod.splits)

lemma parseLevel_le: "parseLevel raw \<le> LevelError"
  by (simp add: parseLevel_def Let_def)

definition prettyPair :: "level \<Rightarrow> bool \<Rightarrow> bool \<Rightarrow> log_handler" where
  "prettyPair l c file = (let p = PrettyHandler (serviceHandler StdoutWriter l c) in
     if file then MultiHandler [p, PrettyHandler (serviceHandler FileWriter l False)] else p)"

lemma prettyWithAttrs_new:
  "WithAttrs serviceAttrs (newPrettyHandler wr l c) = PrettyHandler (serviceHandler wr l c)"
  by (simp add: newPrettyHandler_def prettyWithAttrs_def serviceHandler_def)

lemma newLogger_handler:
  assumes "cf_LogStdout cfg" and "ToLower (TrimSpace (cf_LogFormat cfg)) \<noteq> ''json''"
    and "newLogger lw now cfg st = (h, st')"
  shows "\<exists>file. h = prettyPair (parseLevel (cf_LogLevel cfg)) (shouldColorize lw StdoutWriter (cf_LogNoColor cfg)) file"
    and "sk_stdout st' = sk_stdout st \<and> sk_broken st' = sk_broken st"
proof -
  have service: "TrimSpace ''nexus-control'' = ''nexus-control''" by code_simp
  note defs = newLogger_def New_def buildHandler_def handlersOf_def newHandlerForWriter_def service
    newMultiHandler_def map_filter_def prettyWithAttrs_new [unfolded serviceAttrs_def] prettyPair_def
  show "\<exists>file. h = prettyPair (parseLevel (cf_LogLevel cfg)) (shouldColorize lw StdoutWriter (cf_LogNoColor cfg)) file"
    using assms by (auto simp: defs Let_def split: prod.splits sum.splits option.splits)
  show "sk_stdout st' = sk_stdout st \<and> sk_broken st' = sk_broken st"
    using assms(3) by (auto simp: newLogger_def New_def buildHandler_def Let_def split: prod.splits sum.splits option.splits)
qed

lemma prettyPair_stdout:
  assumes "map_of (sk_broken st) StdoutWriter = None" and "l \<le> lr_Level r"
  shows "sk_stdout (logRecord lw now r (prettyPair l c file) st) =
     sk_stdout st @ prettyLine (lw_library lw) (serviceHandler StdoutWriter l c) r"
  using assms
  by (auto simp: logRecord_def prettyPair_def Let_def serviceHandler_def writeTo_stdout writeTo_file
      split: prod.splits option.splits dest!: arg_cong [where f = snd])

end
