(* ===== verification/Log_Theorems.thy ===== *)
theory Log_Theorems
  imports Log_Life Log_Output
begin

text \<open>
  Properties of the log: which files of earlier days are removed, and what an operator reads about a
  request that failed.
\<close>

section \<open>The files of earlier days\<close>

text \<open>C27: the cleanup of a new day removes regular files and nothing else, only among the matches of the
  pattern of the daily files (taken to be listed once each), when every removal succeeds: all that are
  older than the configured days, and of the younger ones as many as there are beyond the number of
  backups and one more, so that exactly the smaller of both numbers is kept, or every younger one when
  no number is configured; and no younger file that is removed is newer than one that is kept.\<close>

theorem daily_cleanup_keeps_the_newest:
  assumes "cleanupOldFiles ox now w fs = (None, w', fs')"
    and "dateKey (now + ox_zone ox) \<noteq> rw_lastCleanupDate w"
    and "GlobPath 10000 fs (dailyLogGlobPattern (ox_env ox) (fo_Path (rw_options w))) = Some ms"
    and "lf_stuck fs = []" and "newestFirst (ox_sort ox)"
    and "cutoff = now - max (fo_MaxAgeDays (rw_options w)) 0 * (24 * hour)" and "distinct ms"
  shows "(\<forall>q. statFile fs' q \<noteq> statFile fs q \<longrightarrow> q \<in> set ms \<and> regular fs q \<and> \<not> regular fs' q) \<and>
    (\<forall>q \<in> set ms. regular fs' q \<longrightarrow> \<not> outdated (rw_options w) cutoff fs q) \<and>
    card {q \<in> set ms. regular fs' q} =
      (let young = card {q \<in> set ms. regular fs q \<and> \<not> outdated (rw_options w) cutoff fs q} in
       if fo_MaxBackups (rw_options w) \<le> 0 then young else min young (nat (fo_MaxBackups (rw_options w) + 1))) \<and>
    (\<forall>p \<in> set ms. \<forall>q \<in> set ms. regular fs p \<and> \<not> regular fs' p \<and> \<not> outdated (rw_options w) cutoff fs p \<and>
      regular fs' q \<longrightarrow> modTime fs p \<le> modTime fs q)"
  using cleanup_result(1,2,4) [OF assms(1-6)] cleanup_result(3) [OF assms(1-6) assms(7)] by blast

lemma newestFirst_sort: "newestFirst (\<lambda>xs. rev (sort_key snd xs))"
proof -
  have "sorted_wrt (\<lambda>a b. snd a \<le> snd b) (sort_key snd xs)" for xs :: "(string \<times> time) list"
    using sorted_sort_key [of snd xs] by (simp add: sorted_map)
  then show ?thesis by (simp add: newestFirst_def sorted_wrt_rev)
qed

definition exampleOutside :: log_outside where
  "exampleOutside = \<lparr>ox_env = Map.empty, ox_zone = 0, ox_write = \<lambda>l s fs. (Inr (int (length s)), fs),
     ox_close = \<lambda>l fs. (None, fs), ox_sort = \<lambda>xs. rev (sort_key snd xs)\<rparr>"

definition exampleFiles :: log_files where
  "exampleFiles =
     (let file = (\<lambda>t. \<lparr>le_IsDir = False, le_ModTime = t, le_Content = ''''\<rparr>) in
      \<lparr>lf_entries = [(''d'', \<lparr>le_IsDir = True, le_ModTime = 0, le_Content = ''''\<rparr>), (''d/a-1'', file 1),
         (''d/a-2'', file 3), (''d/a-3'', file 2), (''d/b'', file 0)], lf_nodir = [], lf_stuck = []\<rparr>)"

definition exampleWriter :: rollingFileWriter where
  "exampleWriter = \<lparr>rw_options = \<lparr>fo_Enabled = True, fo_Path = ''d/a'', fo_RotateDaily = True, fo_MaxSizeMB = 10,
       fo_MaxAgeDays = 0, fo_MaxBackups = 1, fo_Compress = False\<rparr>, rw_currentDate = '''', rw_currentPath = '''',
     rw_lastCleanupDate = '''', rw_writer = None\<rparr>"

lemma exampleCleanup:
  "cleanupOldFiles exampleOutside 0 exampleWriter exampleFiles =
     (None, exampleWriter\<lparr>rw_lastCleanupDate := ''1970-01-01''\<rparr>, removeFile ''d/a-1'' exampleFiles)"
  by code_simp

lemma exampleGlob:
  "GlobPath 10000 exampleFiles (dailyLogGlobPattern (ox_env exampleOutside) (fo_Path (rw_options exampleWriter))) =
     Some [''d/a-1'', ''d/a-2'', ''d/a-3'']"
  by code_simp

theorem daily_cleanup_keeps_the_newest_witness:
  "card {q \<in> set [''d/a-1'', ''d/a-2'', ''d/a-3'']. regular (removeFile ''d/a-1'' exampleFiles) q} = 2 \<and>
     \<not> regular (removeFile ''d/a-1'' exampleFiles) ''d/a-1'' \<and> modTime exampleFiles ''d/a-1'' \<le> modTime exampleFiles ''d/a-3''"
proof -
  let ?ms = "[''d/a-1'', ''d/a-2'', ''d/a-3'']" and ?left = "removeFile ''d/a-1'' exampleFiles"
  let ?old = "outdated (rw_options exampleWriter) (0 - max (fo_MaxAgeDays (rw_options exampleWriter)) 0 * (24 * hour)) exampleFiles"
  have date: "dateKey (0 + ox_zone exampleOutside) \<noteq> rw_lastCleanupDate exampleWriter" by code_simp
  have "lf_stuck exampleFiles = []" "newestFirst (ox_sort exampleOutside)"
    using newestFirst_sort by (simp_all add: exampleFiles_def exampleOutside_def Let_def)
  note all = daily_cleanup_keeps_the_newest [OF exampleCleanup date exampleGlob this refl]
  have facts: "fo_MaxBackups (rw_options exampleWriter) = 1" "\<not> regular ?left ''d/a-1''"
    "regular exampleFiles ''d/a-1''" "regular ?left ''d/a-3''" "\<not> ?old ''d/a-1''" "distinct ?ms"
    and young: "list_all (\<lambda>q. regular exampleFiles q \<and> \<not> ?old q) ?ms"
    by code_simp+
  have "{q \<in> set ?ms. regular exampleFiles q \<and> \<not> ?old q} = set ?ms" using young by (auto simp: list_all_iff)
  then have "card {q \<in> set ?ms. regular exampleFiles q \<and> \<not> ?old q} = 3"
    using distinct_card [OF facts(6)] by simp
  then have count: "card {q \<in> set ?ms. regular ?left q} = 2"
    using all [OF facts(6), THEN conjunct2, THEN conjunct2, THEN conjunct1] facts(1) by simp
  have "\<forall>p \<in> set ?ms. \<forall>q \<in> set ?ms. regular exampleFiles p \<and> \<not> regular ?left p \<and> \<not> ?old p \<and> regular ?left q \<longrightarrow>
      modTime exampleFiles p \<le> modTime exampleFiles q"
    using all [OF facts(6)] by (elim conjE)
  from bspec [OF bspec [OF this, of "''d/a-1''"], of "''d/a-3''"] facts count show ?thesis by simp
qed

section \<open>The line of a request that failed\<close>

text \<open>C28: When the standard output is on and the format is not JSON, an error that the handlers do not
  know adds one line to the standard output, whatever the bytes of the error are and whether or not
  there is a file as well: time, level, service, message and the quoted error. The request id that
  the handler logs is not in it.\<close>

theorem failed_request_is_one_line:
  assumes "cf_LogStdout cfg" and "ToLower (TrimSpace (cf_LogFormat cfg)) \<noteq> ''json''"
    and "newLogger lw now cfg st = (h, st')" and "map_of (sk_broken st) StdoutWriter = None"
    and "c = shouldColorize lw StdoutWriter (cf_LogNoColor cfg)"
    and "line = lineHead c t LevelError ''nexus-control'' @
      paint c (TrimSpace (lr_Message (failedRequest t requestID err))) (colorForMessage LevelError) @
      fieldText (lw_library lw) c (''error'', err)"
  shows "sk_stdout (logRecord lw later (failedRequest t requestID err) h st') = sk_stdout st @ line @ [CHR 0x0A] \<and>
    CHR 0x0A \<notin> set line"
proof -
  obtain b where h: "h = prettyPair (parseLevel (cf_LogLevel cfg)) c b"
    using newLogger_handler(1) [OF assms(1-3)] assms(5) by blast
  have st': "sk_stdout st' = sk_stdout st" "map_of (sk_broken st') StdoutWriter = None"
    using newLogger_handler(2) [OF assms(1-3)] assms(4) by simp_all
  have "parseLevel (cf_LogLevel cfg) \<le> lr_Level (failedRequest t requestID err)"
    using parseLevel_le by (simp add: failedRequest_def)
  from prettyPair_stdout [OF st'(2) this]
  have "sk_stdout (logRecord lw later (failedRequest t requestID err) h st') = sk_stdout st @ line @ [CHR 0x0A]"
    by (simp add: h st'(1) prettyLine_failedRequest assms(6))
  moreover have "oneLine line"
    by (simp add: assms(6) one_line failedRequest_message del: One_nat_def)
  ultimately show ?thesis by (simp add: oneLine_def)
qed

text \<open>The configuration of an environment with \<open>DEBUG\<close> alone, without colours: the standard output and a file.\<close>

definition exampleLogConfig :: Config where
  "exampleLogConfig = readConfig [''DEBUG'' \<mapsto> ''true'']"

definition exampleLogWorld :: log_world where
  "exampleLogWorld = \<lparr>lw_outside = exampleOutside,
     lw_library = \<lparr>lb_printable = \<lambda>_. True, lb_upper = id, lb_seconds = \<lambda>_. None\<rparr>, lw_terminal = False,
     lw_line = \<lambda>_ _. ''''\<rparr>"

definition exampleSinks :: log_sinks where
  "exampleSinks = \<lparr>sk_output = '''', sk_stdout = '''', sk_stderr = [], sk_broken = [], sk_writer = None,
     sk_files = exampleFiles\<rparr>"

theorem failed_request_is_one_line_witness:
  "sk_stdout (logRecord exampleLogWorld 0 (failedRequest 0 ''r1'' ''x y'')
     (fst (newLogger exampleLogWorld 0 exampleLogConfig exampleSinks))
     (snd (newLogger exampleLogWorld 0 exampleLogConfig exampleSinks))) =
   ''[ 00:00:00.000 ] ERROR   | nexus-control - '' @ lr_Message (failedRequest 0 ''r1'' ''x y'') @
   '' error='' @ [CHR 0x22] @ ''x y'' @ [CHR 0x22, CHR 0x0A]"
proof -
  have sinks: "map_of (sk_broken exampleSinks) StdoutWriter = None" by (simp add: exampleSinks_def)
  have "cf_LogStdout exampleLogConfig" "ToLower (TrimSpace (cf_LogFormat exampleLogConfig)) \<noteq> ''json''"
    by code_simp+
  note written = failed_request_is_one_line [OF this prod.collapse [symmetric] sinks refl refl, THEN conjunct1]
  have colours: "\<not> shouldColorize exampleLogWorld StdoutWriter (cf_LogNoColor exampleLogConfig)"
    by (simp add: shouldColorize_def exampleLogWorld_def)
  have "lineHead False 0 LevelError ''nexus-control'' = ''[ 00:00:00.000 ] ERROR   | nexus-control - ''"
    "TrimSpace (lr_Message (failedRequest 0 ''r1'' ''x y'')) = lr_Message (failedRequest 0 ''r1'' ''x y'')"
    "fieldText (lw_library exampleLogWorld) False (''error'', ''x y'') =
       '' error='' @ [CHR 0x22] @ ''x y'' @ [CHR 0x22]"
    "sk_stdout exampleSinks = ''''"
    by code_simp+
  then show ?thesis
    unfolding written using colours by (simp add: paint_def)
qed

section \<open>Groups\<close>

text \<open>Attributes that are added before a group are written as if they were added in it.\<close>

lemma group_takes_earlier_attributes:
  "WithGroup name (WithAttrs as (PrettyHandler h)) = WithAttrs as (WithGroup name (PrettyHandler h))"
  by (simp add: prettyWithAttrs_def prettyWithGroup_def)

end
